(* ===== verification/Prelude.thy ===== *)
theory Prelude
  imports Main "HOL-Library.Word" "HOL-Library.Monad_Syntax"
begin

text \<open>
  Vocabulary shared by every component of the development: the C integer types, the
  \<open>RESULT\<close> codes of \<open>module/apt_usbtrx_def.h\<close>, checked memory accesses
  and the little-endian byte order of the wire protocol, with the automation that the
  component proofs rest on.

  Conventions used in all theories.
  \<^item> A fixed-width unsigned quantity that is stored, transmitted or wraps is a machine word
    (\<open>u8\<close>, \<open>u16\<close>, \<open>u32\<close>, \<open>u64\<close>). A C \<open>int\<close> whose value the
    code only compares or splits into bytes is an \<open>int\<close>; \<open>drop_bit\<close> on \<open>int\<close> is
    the arithmetic shift and \<open>word_of_int\<close> the truncating conversion.
  \<^item> An array of bytes is a list of exactly its C length. \<open>load\<close> and \<open>store\<close> are the
    accesses \<open>memcpy\<close> makes; they answer \<open>None\<close> where the C access would leave
    the array. A function whose result is an \<open>option\<close> returns \<open>None\<close> only for such an
    out-of-bounds access (undefined behaviour), never for an error code of the driver.
  \<^item> Log output (\<open>EMSG\<close>, \<open>WMSG\<close>, \<open>IMSG\<close>, \<open>DMSG\<close>, \<open>CHKMSG\<close>) has no effect
    on the state and is not modelled.
\<close>

type_synonym u8 = "8 word"
type_synonym u16 = "16 word"
type_synonym u32 = "32 word"
type_synonym u64 = "64 word"

datatype RESULT = RESULT_Failure | RESULT_Success | RESULT_NotEnough | RESULT_Timeout

named_theorems msg_defs "definitions of the message layer, unfolded to bytes"
named_theorems mem_simps "rewriting of checked memory accesses"

lemma unat_u8: "unat (b :: u8) < 256"
  using unsigned_less [of b] by simp

subsection \<open>Checked memory accesses\<close>

definition load :: "'a list \<Rightarrow> nat \<Rightarrow> nat \<Rightarrow> 'a list option" where
  "load m p n = (if p + n \<le> length m then Some (take n (drop p m)) else None)"

definition store :: "'a list \<Rightarrow> nat \<Rightarrow> 'a list \<Rightarrow> 'a list option" where
  "store m p xs =
     (if p + length xs \<le> length m then Some (take p m @ xs @ drop (p + length xs) m) else None)"

definition load1 :: "'a list \<Rightarrow> nat \<Rightarrow> 'a option" where
  "load1 m p = (if p < length m then Some (m ! p) else None)"

definition store1 :: "'a list \<Rightarrow> nat \<Rightarrow> 'a \<Rightarrow> 'a list option" where
  "store1 m p x = (if p < length m then Some (m[p := x]) else None)"

lemma load_length: "load m p n = Some xs \<Longrightarrow> length xs = n"
  by (auto simp: load_def split: if_splits)

lemma load_eq [mem_simps]: "p + n \<le> length m \<Longrightarrow> load m p n = Some (take n (drop p m))"
  by (simp add: load_def)

lemma load_None_iff: "load m p n = None \<longleftrightarrow> length m < p + n"
  by (auto simp: load_def)

lemma store_length: "store m p xs = Some m' \<Longrightarrow> length m' = length m"
  by (auto simp: store_def split: if_splits)

lemma store_eq [mem_simps]:
  "p + length xs \<le> length m \<Longrightarrow> store m p xs = Some (take p m @ xs @ drop (p + length xs) m)"
  by (simp add: store_def)

lemma store_None_iff: "store m p xs = None \<longleftrightarrow> length m < p + length xs"
  by (auto simp: store_def)

lemma load1_eq [mem_simps]: "p < length m \<Longrightarrow> load1 m p = Some (m ! p)"
  by (simp add: load1_def)

lemma store1_eq [mem_simps]: "p < length m \<Longrightarrow> store1 m p x = Some (m[p := x])"
  by (simp add: store1_def)

lemma load1_None_iff: "load1 m p = None \<longleftrightarrow> length m \<le> p"
  by (auto simp: load1_def)

text \<open>A write followed by a read of the same, of an earlier or of a later place.\<close>

lemma load_store_same:
  "store m p xs = Some m' \<Longrightarrow> load m' p (length xs) = Some xs"
  by (auto simp: store_def load_def split: if_splits)

lemma take_store: "store m p xs = Some m' \<Longrightarrow> q \<le> p \<Longrightarrow> take q m' = take q m"
  by (auto simp: store_def split: if_splits)

lemma drop_store:
  "store m p xs = Some m' \<Longrightarrow> p + length xs \<le> q \<Longrightarrow> drop q m' = drop q m"
  by (auto simp: store_def split: if_splits)

subsection \<open>Segments of a list\<close>

text \<open>\<open>seg m i j\<close> is the part of \<open>m\<close> from index \<open>i\<close> (included) to \<open>j\<close> (excluded).\<close>

definition seg :: "'a list \<Rightarrow> nat \<Rightarrow> nat \<Rightarrow> 'a list" where
  "seg m i j = take (j - i) (drop i m)"

lemma seg_empty [simp]: "j \<le> i \<Longrightarrow> seg m i j = []"
  by (simp add: seg_def)

lemma length_seg [simp]: "j \<le> length m \<Longrightarrow> length (seg m i j) = j - i"
  by (simp add: seg_def)

lemma seg_append: "i \<le> j \<Longrightarrow> j \<le> k \<Longrightarrow> seg m i j @ seg m j k = seg m i k"
proof -
  assume ij: "i \<le> j" and jk: "j \<le> k"
  have "k - i = (j - i) + (k - j)" using ij jk by simp
  then have "seg m i k = take ((j - i) + (k - j)) (drop i m)" by (simp only: seg_def)
  also have "\<dots> = seg m i j @ seg m j k" using ij by (simp only: seg_def take_add drop_drop) simp
  finally show ?thesis by simp
qed

lemma take_seg: "i + n \<le> j \<Longrightarrow> take n (seg m i j) = seg m i (i + n)"
  by (simp add: seg_def min_def)

lemma drop_seg: "drop n (seg m i j) = seg m (i + n) j"
  by (simp add: seg_def drop_take add.commute diff_diff_add)

lemma load_seg: "i + n \<le> length m \<Longrightarrow> load m i n = Some (seg m i (i + n))"
  by (simp add: load_def seg_def)

lemma seg_store_before:
  "store m p xs = Some m' \<Longrightarrow> j \<le> p \<Longrightarrow> seg m' i j = seg m i j"
  by (auto simp: store_def seg_def drop_take min_def split: if_splits)

lemma seg_store_after:
  "store m p xs = Some m' \<Longrightarrow> p + length xs \<le> i \<Longrightarrow> seg m' i j = seg m i j"
  by (simp add: seg_def drop_store)

lemma seg_store_same:
  "store m p xs = Some m' \<Longrightarrow> seg m' p (p + length xs) = xs"
  by (auto simp: store_def seg_def split: if_splits)

subsection \<open>Little-endian byte order\<close>

text \<open>\<open>le_bytes n x\<close> is what the packing code writes: \<open>data[i] = x >> (8 * i)\<close>.\<close>

fun le_bytes :: "nat \<Rightarrow> int \<Rightarrow> u8 list" where
  "le_bytes 0 x = []"
| "le_bytes (Suc n) x = word_of_int x # le_bytes n (drop_bit 8 x)"

text \<open>\<open>le_value bs\<close> is what the parsing code computes: \<open>data[0] | data[1] << 8 | \<dots>\<close>.\<close>

fun le_value :: "u8 list \<Rightarrow> int" where
  "le_value [] = 0"
| "le_value (b # bs) = uint b + 256 * le_value bs"

lemma length_le_bytes [simp]: "length (le_bytes n x) = n"
  by (induction n arbitrary: x) auto

lemma le_value_nonneg: "0 \<le> le_value bs"
  by (induction bs) auto

lemma le_value_bound: "le_value bs < 256 ^ length bs"
proof (induction bs)
  case (Cons b bs)
  have "uint b < 256" using uint_bounded [of b] by simp
  with Cons show ?case by simp
qed simp

lemma le_value_le_bytes: "le_value (le_bytes n x) = x mod 256 ^ n"
proof (induction n arbitrary: x)
  case (Suc n)
  have "le_value (le_bytes (Suc n) x) = x mod 256 + 256 * ((x div 256) mod 256 ^ n)"
    by (simp add: Suc uint_word_of_int drop_bit_eq_div)
  also have "\<dots> = x mod (256 * 256 ^ n)"
    by (simp add: zmod_zmult2_eq)
  finally show ?case by simp
qed simp

lemma le_bytes_le_value: "le_bytes (length bs) (le_value bs) = bs"
proof (induction bs)
  case (Cons b bs)
  have b: "uint b < 256" using uint_bounded [of b] by simp
  have "(uint b + 256 * le_value bs) div 256 = le_value bs" using b by simp
  moreover have "(word_of_int (uint b + 256 * le_value bs) :: u8) = b"
  proof -
    have "uint (word_of_int (uint b + 256 * le_value bs) :: u8) = (uint b + 256 * le_value bs) mod 256"
      by (simp only: uint_word_of_int) simp
    also have "\<dots> = uint b" using b by simp
    finally show ?thesis by (simp only: word_uint_eq_iff)
  qed
  ultimately show ?case using Cons by (simp add: drop_bit_eq_div)
qed simp

text \<open>The sum is the disjunction the code writes.\<close>

unbundle bit_operations_syntax

lemma le_value_or: "le_value (b # bs) = uint b OR push_bit 8 (le_value bs)"
proof -
  have "uint b AND push_bit 8 (le_value bs) = 0"
  proof (rule bit_eqI)
    fix n
    have "\<not> bit (uint b) n" if "8 \<le> n" using that by (simp add: bit_uint_iff)
    then show "bit (uint b AND push_bit 8 (le_value bs)) n = bit (0 :: int) n"
      by (auto simp: bit_simps not_less)
  qed
  then have "uint b OR push_bit 8 (le_value bs) = uint b + push_bit 8 (le_value bs)"
    by (simp add: disjunctive_add_eq_or)
  then show ?thesis by (simp add: push_bit_eq_mult)
qed

text \<open>The value of a C \<open>int\<close> assembled from four bytes: the bit pattern read as two's complement.\<close>

definition i32_of :: "int \<Rightarrow> int" where
  "i32_of x = sint (word_of_int x :: u32)"

text \<open>The values of a C \<open>int\<close>.\<close>

definition i32_range :: "int \<Rightarrow> bool" where
  "i32_range z \<longleftrightarrow> - (2 ^ 31) \<le> z \<and> z < 2 ^ 31"

lemma i32_of_id: "- (2 ^ 31) \<le> x \<Longrightarrow> x < 2 ^ 31 \<Longrightarrow> i32_of x = x"
  by (simp add: i32_of_def sint_sbintrunc' signed_take_bit_int_eq_self)

lemma i32_of_mod: "i32_of (x mod 4294967296) = i32_of x"
proof -
  have "(word_of_int (x mod 4294967296) :: u32) = word_of_int x"
    by (simp add: word_uint_eq_iff uint_word_of_int)
  then show ?thesis by (simp add: i32_of_def)
qed

end
