(* ===== verification/Format.thy ===== *)
theory Format
  imports Prelude
begin

text \<open>
  Text as the C library writes and reads it: the conversions of \<open>printf\<close> that the attributes in sysfs
  and the programs in user space use, and \<open>atoi\<close>. A string is a list of characters without the final
  \<open>NUL\<close>.

  \<open>dec\<close> is \<open>%d\<close>, \<open>%u\<close>, \<open>%ld\<close> and \<open>%llu\<close>: the caller reads a word as signed or unsigned, as the conversion
  does. \<open>dec0 w\<close> is \<open>%0wd\<close>, \<open>hex\<close> is \<open>%x\<close>, \<open>hex2\<close> is \<open>%02X\<close>. \<open>atoi\<close> skips white space, takes a sign and
  the digits that follow, and ignores the rest; a number that is no \<open>int\<close> is undefined.
\<close>

subsection \<open>Digits\<close>

definition digit :: "nat \<Rightarrow> char" where
  "digit n = (if n < 10 then char_of (48 + n) else char_of (87 + n))"

definition upper_digit :: "nat \<Rightarrow> char" where
  "upper_digit n = (if n < 10 then char_of (48 + n) else char_of (55 + n))"

fun digits :: "nat \<Rightarrow> nat \<Rightarrow> string" where
  "digits b n = (if n < b \<or> b < 2 then [digit n] else digits b (n div b) @ [digit (n mod b)])"

declare digits.simps [simp del]

definition newline :: string where
  "newline = [CHR 0x0A]"

definition dec :: "int \<Rightarrow> string" where
  "dec i = (if i < 0 then ''-'' else '''') @ digits 10 (nat \<bar>i\<bar>)"

definition dec0 :: "nat \<Rightarrow> int \<Rightarrow> string" where
  "dec0 w i = (let s = digits 10 (nat \<bar>i\<bar>); m = (if i < 0 then ''-'' else '''') in
     m @ replicate (w - length m - length s) CHR ''0'' @ s)"

definition hex :: "nat \<Rightarrow> string" where
  "hex n = digits 16 n"

definition hex2 :: "u8 \<Rightarrow> string" where
  "hex2 b = [upper_digit (unat b div 16), upper_digit (unat b mod 16)]"

subsection \<open>Reading a number\<close>

definition is_space :: "char \<Rightarrow> bool" where
  "is_space c \<longleftrightarrow> of_char c \<in> {9, 10, 11, 12, 13, 32 :: nat}"

definition is_digit :: "char \<Rightarrow> bool" where
  "is_digit c \<longleftrightarrow> 48 \<le> (of_char c :: nat) \<and> of_char c \<le> (57 :: nat)"

fun digits_value :: "nat \<Rightarrow> string \<Rightarrow> nat" where
  "digits_value acc [] = acc"
| "digits_value acc (c # cs) = digits_value (10 * acc + (of_char c - 48)) cs"

definition atoi :: "string \<Rightarrow> int option" where
  "atoi s = (let s = dropWhile is_space s;
        neg = (s \<noteq> [] \<and> hd s = CHR ''-'');
        s = (if s \<noteq> [] \<and> (hd s = CHR ''-'' \<or> hd s = CHR ''+'') then tl s else s);
        n = int (digits_value 0 (takeWhile is_digit s));
        i = (if neg then - n else n) in
     if - (2 ^ 31) \<le> i \<and> i < 2 ^ 31 then Some i else None)"

subsection \<open>Lemmas\<close>

lemma of_char_digit: "n < 10 \<Longrightarrow> of_char (digit n) = 48 + n"
  by (simp add: digit_def)

lemma is_digit_digit: "n < 10 \<Longrightarrow> is_digit (digit n)"
  by (simp add: is_digit_def of_char_digit)

lemma digits_nonempty: "digits b n \<noteq> []"
  by (subst digits.simps) simp

lemma digits_are_digits: "c \<in> set (digits 10 n) \<Longrightarrow> is_digit c"
proof (induction n rule: less_induct)
  case (less n)
  show ?case
  proof (cases "n < 10")
    case True
    then show ?thesis using less.prems by (simp add: digits.simps [of 10 n] is_digit_digit)
  next
    case False
    then have "n div 10 < n" by simp
    moreover have "c \<in> set (digits 10 (n div 10)) \<or> c = digit (n mod 10)"
      using less.prems False by (auto simp: digits.simps [of 10 n])
    ultimately show ?thesis using less.IH is_digit_digit [of "n mod 10"] by auto
  qed
qed

lemma digits_value_append: "digits_value acc (xs @ [c]) = 10 * digits_value acc xs + (of_char c - 48)"
  by (induction xs arbitrary: acc) simp_all

lemma digits_value_digits: "digits_value 0 (digits 10 n) = n"
proof (induction n rule: less_induct)
  case (less n)
  show ?case
  proof (cases "n < 10")
    case True
    then show ?thesis by (simp add: digits.simps [of 10 n] of_char_digit)
  next
    case False
    then have "digits_value 0 (digits 10 (n div 10)) = n div 10" using less.IH by simp
    moreover have "of_char (digit (n mod 10)) = 48 + n mod 10" by (simp add: of_char_digit)
    ultimately show ?thesis using False
      by (simp add: digits.simps [of 10 n] digits_value_append)
  qed
qed

lemma length_digits: "n < 10 ^ k \<Longrightarrow> 0 < k \<Longrightarrow> length (digits 10 n) \<le> k"
proof (induction k arbitrary: n)
  case (Suc k)
  show ?case
  proof (cases "n < 10")
    case True
    then show ?thesis by (simp add: digits.simps [of 10 n])
  next
    case False
    then have "0 < k" using Suc.prems by (cases k) auto
    moreover have "n div 10 < 10 ^ k" using Suc.prems(1) by (simp add: less_mult_imp_div_less mult.commute)
    ultimately have "length (digits 10 (n div 10)) \<le> k" using Suc.IH by simp
    then show ?thesis using False by (simp add: digits.simps [of 10 n])
  qed
qed simp

lemma digit_no_space: "is_digit c \<Longrightarrow> \<not> is_space c \<and> c \<noteq> CHR ''-'' \<and> c \<noteq> CHR ''+''"
  by (auto simp: is_digit_def is_space_def)

lemma takeWhile_digits: "\<not> is_digit c \<Longrightarrow> takeWhile is_digit (digits 10 n @ c # cs) = digits 10 n"
  "takeWhile is_digit (digits 10 n) = digits 10 n"
  by (simp_all add: digits_are_digits)

lemma atoi_digits:
  assumes "takeWhile is_digit s = digits 10 n"
  shows "atoi (''-'' @ s) = (if n \<le> 2 ^ 31 then Some (- int n) else None)"
    and "atoi s = (if n < 2 ^ 31 then Some (int n) else None)"
proof -
  have sp: "\<not> is_space CHR ''-''" by (simp add: is_space_def)
  show "atoi (''-'' @ s) = (if n \<le> 2 ^ 31 then Some (- int n) else None)"
    using sp by (simp add: atoi_def assms digits_value_digits Let_def)
  obtain c cs where s: "s = c # cs" "is_digit c"
    using assms digits_nonempty [of 10 n] by (cases s) (auto split: if_splits)
  then show "atoi s = (if n < 2 ^ 31 then Some (int n) else None)"
    using digit_no_space [OF s(2)] assms by (simp add: atoi_def digits_value_digits Let_def)
qed

text \<open>What \<open>%d\<close> prints, \<open>atoi\<close> reads, up to the end of the line.\<close>

lemma atoi_dec:
  assumes "- (2 ^ 31) \<le> i" and "i < 2 ^ 31" and "rest = [] \<or> \<not> is_digit (hd rest)"
  shows "atoi (dec i @ rest) = Some i"
proof -
  have t: "takeWhile is_digit (digits 10 (nat \<bar>i\<bar>) @ rest) = digits 10 (nat \<bar>i\<bar>)"
    using assms(3) takeWhile_digits by (cases rest) auto
  show ?thesis
  proof (cases "i < 0")
    case True
    then have "nat \<bar>i\<bar> \<le> 2 ^ 31" using assms(1) by simp
    then show ?thesis using atoi_digits(1) [OF t] True by (simp add: dec_def)
  next
    case False
    then have "nat \<bar>i\<bar> < 2 ^ 31" using assms(2) by simp
    then show ?thesis using atoi_digits(2) [OF t] False by (simp add: dec_def)
  qed
qed

lemma length_dec: "\<bar>i\<bar> < 10 ^ k \<Longrightarrow> 0 < k \<Longrightarrow> length (dec i) \<le> Suc k"
  using length_digits [of "nat \<bar>i\<bar>" k] by (cases "i < 0") (simp_all add: dec_def nat_less_iff)

end
