(* ===== verification/Byte_Queue.thy ===== *)
theory Byte_Queue
  imports Prelude
begin

text \<open>
  The contract between the ring buffer and its users, the file operations and the transmit
  thread: a first-in first-out queue of bytes whose writes are all or nothing.

  \<open>put q xs\<close> and \<open>get q n\<close> have the types of the ring buffer's write and raw read: the C return
  value comes with the new state (and the bytes read), \<open>None\<close> is an illegal memory access. The
  locale states the laws; the lemmas in it are proved once for every provider.
\<close>

datatype qop = Put "u8 list" | Get nat

text \<open>
  A run of operations collects the bytes accepted (the writes that return their size) and the
  bytes delivered, in order.
\<close>

fun q_run :: "('s \<Rightarrow> u8 list \<Rightarrow> (int \<times> 's) option) \<Rightarrow> ('s \<Rightarrow> nat \<Rightarrow> (int \<times> u8 list \<times> 's) option) \<Rightarrow>
     's \<Rightarrow> qop list \<Rightarrow> (u8 list \<times> u8 list \<times> 's) option" where
  "q_run put get q [] = Some ([], [], q)"
| "q_run put get q (Put xs # ops) = do {
     (n, q) \<leftarrow> put q xs;
     (ins, outs, q) \<leftarrow> q_run put get q ops;
     Some ((if 0 < n then xs else []) @ ins, outs, q)
   }"
| "q_run put get q (Get n # ops) = do {
     (k, bs, q) \<leftarrow> get q n;
     (ins, outs, q) \<leftarrow> q_run put get q ops;
     Some (ins, bs @ outs, q)
   }"

locale byte_queue =
  fixes bytes :: "'s \<Rightarrow> u8 list"
    and inv :: "'s \<Rightarrow> bool"
    and put :: "'s \<Rightarrow> u8 list \<Rightarrow> (int \<times> 's) option"
    and get :: "'s \<Rightarrow> nat \<Rightarrow> (int \<times> u8 list \<times> 's) option"
  assumes get_law: "inv q \<Longrightarrow> \<exists>q'. get q n = Some (int (min n (length (bytes q))), take n (bytes q), q')
      \<and> inv q' \<and> bytes q' = drop n (bytes q)"
    and put_law: "inv q \<Longrightarrow> xs \<noteq> [] \<Longrightarrow> \<exists>k q'. put q xs = Some (k, q') \<and> inv q'
      \<and> (k = int (length xs) \<and> bytes q' = bytes q @ xs \<or> k = -1 \<and> bytes q' = bytes q)"
    and put_nil: "inv q \<Longrightarrow> put q [] = Some (0, q)"
begin

lemma put_any:
  "inv q \<Longrightarrow> \<exists>k q'. put q xs = Some (k, q') \<and> inv q'
     \<and> bytes q' = bytes q @ (if 0 < k then xs else [])"
  using put_law [of q xs] put_nil [of q] by (cases "xs = []") fastforce+

lemma run_fifo:
  "inv q \<Longrightarrow> \<exists>ins outs q'. q_run put get q ops = Some (ins, outs, q') \<and> inv q'
     \<and> bytes q @ ins = outs @ bytes q'"
proof (induction ops arbitrary: q)
  case (Cons op ops)
  show ?case
  proof (cases op)
    case (Put xs)
    obtain k q1 where put: "put q xs = Some (k, q1)" and inv: "inv q1"
      and b: "bytes q1 = bytes q @ (if 0 < k then xs else [])"
      using put_any [OF Cons.prems] by blast
    from Cons.IH [OF inv] obtain ins outs q' where
      "q_run put get q1 ops = Some (ins, outs, q')" "inv q'" "bytes q1 @ ins = outs @ bytes q'"
      by blast
    then show ?thesis using put b by (simp add: Put)
  next
    case (Get n)
    obtain q1 where get: "get q n = Some (int (min n (length (bytes q))), take n (bytes q), q1)"
      and inv: "inv q1" and b: "bytes q1 = drop n (bytes q)"
      using get_law [OF Cons.prems] by blast
    from Cons.IH [OF inv] obtain ins outs q' where
      run: "q_run put get q1 ops = Some (ins, outs, q')" "inv q'" "bytes q1 @ ins = outs @ bytes q'"
      by blast
    have "bytes q @ ins = (take n (bytes q) @ outs) @ bytes q'"
      using run(3) b by (metis append.assoc append_take_drop_id)
    then show ?thesis using get run by (simp add: Get)
  qed
qed simp

text \<open>Reading exactly what is at the head.\<close>

lemma get_head:
  assumes "inv q" and "bytes q = xs @ ys"
  shows "\<exists>q'. get q (length xs) = Some (int (length xs), xs, q') \<and> inv q' \<and> bytes q' = ys"
  using get_law [OF assms(1), of "length xs"] assms(2) by auto

end

end
