(* ===== verification/Ringbuffer.thy ===== *)
theory Ringbuffer
  imports Byte_Queue "HOL-Library.Sublist"
begin

text \<open>
  The byte ring buffer of \<open>module/apt_usbtrx_ringbuffer.c\<close>, which carries the received
  messages to user space (\<open>rx_data\<close>) and the packed messages to the transmit thread
  (\<open>tx_data\<close>).

  The record has the fields of \<open>apt_usbtrx_ringbuffer_t\<close>, except for the wait queue. A pointer
  into the buffer is its offset from \<open>buffer\<close>; \<open>NULL\<close> pointers are offset 0 of the empty
  buffer (\<open>vmalloc\<close> never returns an area of size 0). Offsets are natural numbers, so
  \<open>pwrite + size\<close> does not wrap: the kernel caps the count of a read or write system call at
  \<open>MAX_RW_COUNT\<close>, and every other caller passes at most one message.

  Each operation \<open>f\<close> is modelled twice, the body for a ring buffer that is there, and \<open>f_p\<close>,
  which takes the C pointer (\<open>None\<close> is \<open>NULL\<close>) and makes the guards the code makes.

  The lemmas show: the bounds invariant \<open>rb_inv\<close> is kept by every operation and makes every
  memory access legal; over the abstraction \<open>rb_bytes\<close> (the bytes stored, oldest first) the
  operations are those of a byte queue, stated as the interface \<open>byte_queue\<close> and interpreted
  on the model; the exact condition under which a write is refused.
\<close>

subsection \<open>State\<close>

record ringbuffer =
  buffer :: "u8 list"
  buffer_size :: nat
  begin_p :: nat
  end_p :: nat
  read_p :: nat
  write_p :: nat
  skip_count :: u64
  log_write_buffer_is_full :: bool

definition ringbuffer_init_instance :: "ringbuffer \<Rightarrow> RESULT \<times> ringbuffer" where
  "ringbuffer_init_instance r =
     (RESULT_Success,
      r\<lparr>buffer := [], buffer_size := 0, begin_p := 0, end_p := 0, read_p := 0, write_p := 0,
        skip_count := 0, log_write_buffer_is_full := True\<rparr>)"

text \<open>\<open>vmalloc n\<close> is the area the allocator returns, with arbitrary contents, or \<open>None\<close>.\<close>

definition ringbuffer_init ::
  "(nat \<Rightarrow> u8 list option) \<Rightarrow> ringbuffer \<Rightarrow> nat \<Rightarrow> RESULT \<times> ringbuffer" where
  "ringbuffer_init vmalloc r sz =
     (let (result, r) = ringbuffer_init_instance r in
      if result \<noteq> RESULT_Success then (RESULT_Failure, r)
      else case vmalloc sz of
        None \<Rightarrow> (RESULT_Failure, r)
      | Some area \<Rightarrow>
          (let area = replicate sz 0 @ drop sz area in
           (RESULT_Success,
            r\<lparr>buffer := area, buffer_size := sz, begin_p := 0, end_p := sz,
              read_p := 0, write_p := 0, log_write_buffer_is_full := True\<rparr>)))"

definition ringbuffer_term :: "ringbuffer \<Rightarrow> RESULT \<times> ringbuffer" where
  "ringbuffer_term r =
     (RESULT_Success,
      if buffer r \<noteq> []
      then r\<lparr>buffer := [], buffer_size := 0, begin_p := 0, end_p := 0, read_p := 0, write_p := 0\<rparr>
      else r)"

subsection \<open>Reading\<close>

text \<open>
  \<open>copy_to_user off n\<close> is the number of bytes the kernel could not copy to offset \<open>off\<close> of the
  user's buffer. The result is the return value, the bytes the destination received, and the
  ring buffer.
\<close>

definition ringbuffer_read ::
  "(nat \<Rightarrow> nat \<Rightarrow> nat) \<Rightarrow> ringbuffer \<Rightarrow> nat \<Rightarrow> (int \<times> u8 list \<times> ringbuffer) option" where
  "ringbuffer_read copy_to_user r sz =
     (if sz = 0 then Some (0, [], r)
      else
       let pread = read_p r; pwrite = write_p r in
       if pread < pwrite then
         (let todo = (if pread + sz \<le> pwrite then sz else pwrite - pread) in
          do {
            bs \<leftarrow> load (buffer r) pread todo;
            if copy_to_user 0 todo \<noteq> 0
            then Some (-1, take (todo - copy_to_user 0 todo) bs, r)
            else Some (int todo, bs, if 0 < todo then r\<lparr>read_p := pread + todo\<rparr> else r)
          })
       else if pread > pwrite then
         (if pread + sz \<le> end_p r then
            do {
              bs \<leftarrow> load (buffer r) pread sz;
              if copy_to_user 0 sz \<noteq> 0
              then Some (-1, take (sz - copy_to_user 0 sz) bs, r)
              else Some (int sz, bs, r\<lparr>read_p := pread + sz\<rparr>)
            }
          else
            let first = end_p r - pread;
                second = sz - first;
                second = (if begin_p r + second > pwrite then pwrite - begin_p r else second)
            in do {
              bs \<leftarrow> load (buffer r) pread first;
              if first > 0 \<and> copy_to_user 0 first \<noteq> 0
              then Some (-1, take (first - copy_to_user 0 first) bs, r)
              else do {
                cs \<leftarrow> load (buffer r) (begin_p r) second;
                if second > 0 \<and> copy_to_user first second \<noteq> 0
                then Some (-1, bs @ take (second - copy_to_user first second) cs, r)
                else Some (int (first + second), bs @ cs,
                           if 0 < first + second then r\<lparr>read_p := begin_p r + second\<rparr> else r)
              }
            })
       else Some (0, [], r))"

definition ringbuffer_rawread :: "ringbuffer \<Rightarrow> nat \<Rightarrow> (int \<times> u8 list \<times> ringbuffer) option" where
  "ringbuffer_rawread r sz =
     (if sz = 0 then Some (0, [], r)
      else
       let pread = read_p r; pwrite = write_p r in
       if pread < pwrite then
         (let todo = (if pread + sz \<le> pwrite then sz else pwrite - pread) in
          do {
            bs \<leftarrow> load (buffer r) pread todo;
            Some (int todo, bs, if 0 < todo then r\<lparr>read_p := pread + todo\<rparr> else r)
          })
       else if pread > pwrite then
         (if pread + sz \<le> end_p r then
            do {
              bs \<leftarrow> load (buffer r) pread sz;
              Some (int sz, bs, r\<lparr>read_p := pread + sz\<rparr>)
            }
          else
            let first = end_p r - pread;
                second = sz - first;
                second = (if begin_p r + second > pwrite then pwrite - begin_p r else second)
            in do {
              bs \<leftarrow> load (buffer r) pread first;
              cs \<leftarrow> load (buffer r) (begin_p r) second;
              Some (int (first + second), bs @ cs,
                    if 0 < first + second then r\<lparr>read_p := begin_p r + second\<rparr> else r)
            })
       else Some (0, [], r))"

subsection \<open>Writing\<close>

text \<open>
  \<open>data\<close> is the source buffer, \<open>size = length data\<close>. A refused write leaves the contents alone,
  counts the bytes in \<open>skip_count\<close> and disarms the log message.
\<close>

definition ringbuffer_write :: "ringbuffer \<Rightarrow> u8 list \<Rightarrow> (int \<times> ringbuffer) option" where
  "ringbuffer_write r data =
     (let size = length data in
      if size = 0 then Some (0, r)
      else
       let pread = read_p r; pwrite = write_p r in
       do {
         (m, pwrite', skip) \<leftarrow>
           (if pread \<le> pwrite then
              (if pwrite + size \<le> end_p r then
                 do { m \<leftarrow> store (buffer r) pwrite data; Some (m, pwrite + size, 0) }
               else
                 let first = end_p r - pwrite; second = size - first in
                 if begin_p r + second < pread then
                   do {
                     m \<leftarrow> store (buffer r) pwrite (take first data);
                     m \<leftarrow> store m (begin_p r) (drop first data);
                     Some (m, begin_p r + second, 0)
                   }
                 else Some (buffer r, pwrite, size))
            else
              (if pwrite + size < pread then
                 do { m \<leftarrow> store (buffer r) pwrite data; Some (m, pwrite + size, 0) }
               else Some (buffer r, pwrite, size)));
         let r = r\<lparr>buffer := m, write_p := pwrite'\<rparr> in
         if skip > 0 then
           Some (-1, r\<lparr>skip_count := skip_count r + of_nat skip,
                       log_write_buffer_is_full := False\<rparr>)
         else Some (int size, r)
       })"

definition ringbuffer_is_empty :: "ringbuffer \<Rightarrow> bool" where
  "ringbuffer_is_empty r = (read_p r = write_p r)"

definition ringbuffer_clear :: "ringbuffer \<Rightarrow> RESULT \<times> ringbuffer" where
  "ringbuffer_clear r =
     (RESULT_Success, r\<lparr>read_p := 0, write_p := 0, log_write_buffer_is_full := True\<rparr>)"

definition ringbuffer_get_used_size :: "ringbuffer \<Rightarrow> nat" where
  "ringbuffer_get_used_size r =
     (if write_p r \<ge> read_p r then write_p r - read_p r
      else (write_p r - begin_p r) + (end_p r - read_p r))"

definition ringbuffer_get_free_size :: "ringbuffer \<Rightarrow> nat" where
  "ringbuffer_get_free_size r = buffer_size r - ringbuffer_get_used_size r"

subsection \<open>The guards against NULL\<close>

definition ringbuffer_init_p ::
  "(nat \<Rightarrow> u8 list option) \<Rightarrow> ringbuffer option \<Rightarrow> nat \<Rightarrow> RESULT \<times> ringbuffer option" where
  "ringbuffer_init_p vmalloc p sz = (case p of None \<Rightarrow> (RESULT_Failure, None)
     | Some r \<Rightarrow> (let (result, r) = ringbuffer_init vmalloc r sz in (result, Some r)))"

definition ringbuffer_term_p :: "ringbuffer option \<Rightarrow> RESULT \<times> ringbuffer option" where
  "ringbuffer_term_p p = (case p of None \<Rightarrow> (RESULT_Failure, None)
     | Some r \<Rightarrow> (let (result, r) = ringbuffer_term r in (result, Some r)))"

text \<open>\<open>dst\<close> and \<open>data\<close> tell whether the other pointer is there.\<close>

definition ringbuffer_read_p ::
  "(nat \<Rightarrow> nat \<Rightarrow> nat) \<Rightarrow> ringbuffer option \<Rightarrow> bool \<Rightarrow> nat \<Rightarrow> (int \<times> u8 list \<times> ringbuffer option) option"
where
  "ringbuffer_read_p copy_to_user p dst sz = (case p of None \<Rightarrow> Some (-1, [], None)
     | Some r \<Rightarrow> if \<not> dst then Some (-1, [], p)
         else map_option (\<lambda>(n, bs, r). (n, bs, Some r)) (ringbuffer_read copy_to_user r sz))"

definition ringbuffer_rawread_p ::
  "ringbuffer option \<Rightarrow> bool \<Rightarrow> nat \<Rightarrow> (int \<times> u8 list \<times> ringbuffer option) option" where
  "ringbuffer_rawread_p p dst sz = (case p of None \<Rightarrow> Some (-1, [], None)
     | Some r \<Rightarrow> if \<not> dst then Some (-1, [], p)
         else map_option (\<lambda>(n, bs, r). (n, bs, Some r)) (ringbuffer_rawread r sz))"

definition ringbuffer_write_p ::
  "ringbuffer option \<Rightarrow> u8 list option \<Rightarrow> (int \<times> ringbuffer option) option" where
  "ringbuffer_write_p p data = (case p of None \<Rightarrow> Some (-1, None)
     | Some r \<Rightarrow> (case data of None \<Rightarrow> Some (-1, p)
         | Some bs \<Rightarrow> map_option (\<lambda>(n, r). (n, Some r)) (ringbuffer_write r bs)))"

definition ringbuffer_is_empty_p :: "ringbuffer option \<Rightarrow> bool" where
  "ringbuffer_is_empty_p p = (case p of None \<Rightarrow> False | Some r \<Rightarrow> ringbuffer_is_empty r)"

definition ringbuffer_clear_p :: "ringbuffer option \<Rightarrow> RESULT \<times> ringbuffer option" where
  "ringbuffer_clear_p p = (case p of None \<Rightarrow> (RESULT_Failure, None)
     | Some r \<Rightarrow> (let (result, r) = ringbuffer_clear r in (result, Some r)))"

definition ringbuffer_get_used_size_p :: "ringbuffer option \<Rightarrow> nat" where
  "ringbuffer_get_used_size_p p = (case p of None \<Rightarrow> 0 | Some r \<Rightarrow> ringbuffer_get_used_size r)"

text \<open>\<open>get_free_size\<close> reads \<open>ringbuffer->buffer_size\<close> without a guard of its own.\<close>

definition ringbuffer_get_free_size_p :: "ringbuffer option \<Rightarrow> nat option" where
  "ringbuffer_get_free_size_p p = (let used_size = ringbuffer_get_used_size_p p in
     case p of None \<Rightarrow> None | Some r \<Rightarrow> Some (buffer_size r - used_size))"

subsection \<open>Invariant and abstraction\<close>

text \<open>
  The last clause says that the write pointer stands at the start of the buffer only when nothing
  was written since the last reset: without it a wrapped buffer could have distinct pointers and
  no byte in it, which \<open>is_empty\<close> would report as not empty.
\<close>

definition rb_inv :: "ringbuffer \<Rightarrow> bool" where
  "rb_inv r \<longleftrightarrow> length (buffer r) = buffer_size r \<and> begin_p r = 0 \<and> end_p r = buffer_size r
     \<and> read_p r \<le> buffer_size r \<and> write_p r \<le> buffer_size r
     \<and> (write_p r = 0 \<longrightarrow> read_p r = 0)"

definition rb_bytes :: "ringbuffer \<Rightarrow> u8 list" where
  "rb_bytes r =
     (if read_p r \<le> write_p r then seg (buffer r) (read_p r) (write_p r)
      else seg (buffer r) (read_p r) (end_p r) @ seg (buffer r) 0 (write_p r))"

text \<open>The writes the code accepts: one byte is kept free, unless the data fits before \<open>end\<close>.\<close>

definition rb_fits :: "ringbuffer \<Rightarrow> nat \<Rightarrow> bool" where
  "rb_fits r n \<longleftrightarrow> n < ringbuffer_get_free_size r \<or> (read_p r \<le> write_p r \<and> write_p r + n \<le> end_p r)"

lemma rb_inv_simps:
  "rb_inv r \<Longrightarrow> begin_p r = 0" "rb_inv r \<Longrightarrow> end_p r = length (buffer r)"
  "rb_inv r \<Longrightarrow> buffer_size r = length (buffer r)"
  "rb_inv r \<Longrightarrow> read_p r \<le> length (buffer r)" "rb_inv r \<Longrightarrow> write_p r \<le> length (buffer r)"
  by (auto simp: rb_inv_def)

lemma rb_inv_wrapped: "rb_inv r \<Longrightarrow> write_p r < read_p r \<Longrightarrow> 0 < write_p r"
  by (auto simp: rb_inv_def)

lemma used_size_bytes: "rb_inv r \<Longrightarrow> ringbuffer_get_used_size r = length (rb_bytes r)"
  by (auto simp: ringbuffer_get_used_size_def rb_bytes_def rb_inv_def)

lemma is_empty_bytes: "rb_inv r \<Longrightarrow> ringbuffer_is_empty r \<longleftrightarrow> rb_bytes r = []"
  by (auto simp: ringbuffer_is_empty_def rb_bytes_def rb_inv_def seg_def)

lemma free_size_bytes:
  "rb_inv r \<Longrightarrow> ringbuffer_get_free_size r + length (rb_bytes r) = buffer_size r"
  by (auto simp: ringbuffer_get_free_size_def used_size_bytes [symmetric]
      ringbuffer_get_used_size_def rb_inv_def)

lemma rb_bytes_le_size: "rb_inv r \<Longrightarrow> length (rb_bytes r) \<le> buffer_size r"
  using free_size_bytes by fastforce


subsection \<open>Reading takes a prefix of the bytes stored\<close>

lemma rb_bytes_linear:
  "rb_inv r \<Longrightarrow> read_p r \<le> write_p r \<Longrightarrow> rb_bytes r = seg (buffer r) (read_p r) (write_p r)"
  by (simp add: rb_bytes_def)

lemma rb_bytes_wrapped:
  "rb_inv r \<Longrightarrow> write_p r < read_p r \<Longrightarrow>
     rb_bytes r = seg (buffer r) (read_p r) (length (buffer r)) @ seg (buffer r) 0 (write_p r)"
  by (simp add: rb_bytes_def rb_inv_simps)

text \<open>The state after reading: where the read pointer goes.\<close>

definition rb_advance :: "ringbuffer \<Rightarrow> nat \<Rightarrow> ringbuffer" where
  "rb_advance r n = (let k = min n (length (rb_bytes r)) in
     if k = 0 then r
     else if read_p r \<le> write_p r \<or> read_p r + n \<le> end_p r then r\<lparr>read_p := read_p r + k\<rparr>
     else r\<lparr>read_p := k - (end_p r - read_p r)\<rparr>)"

lemma take_seg_min: "take k (seg m i l) = seg m i (min l (i + k))"
proof -
  have "min k (l - i) = min l (i + k) - i" by linarith
  then show ?thesis by (simp add: seg_def)
qed

lemma take_two_segs:
  "i \<le> j \<Longrightarrow> j \<le> length m \<Longrightarrow> l \<le> length m \<Longrightarrow> j < i + n \<Longrightarrow>
   take n (seg m i j @ seg m 0 l) = seg m i j @ seg m 0 (min l (n - (j - i)))"
  by (simp add: take_seg_min)

lemma drop_two_segs:
  "i \<le> j \<Longrightarrow> j \<le> length m \<Longrightarrow> l \<le> length m \<Longrightarrow> j \<le> i + n \<Longrightarrow>
   drop n (seg m i j @ seg m 0 l) = seg m (n - (j - i)) l"
  by (simp add: drop_seg)

lemma rawread_linear:
  assumes inv: "rb_inv r" and le: "read_p r \<le> write_p r"
  shows "ringbuffer_rawread r n
     = Some (int (min n (length (rb_bytes r))), take n (rb_bytes r), rb_advance r n)"
proof -
  note b = rb_bytes_linear [OF inv le] and s = rb_inv_simps [OF inv]
  consider "n = 0 \<or> read_p r = write_p r"
    | "n \<noteq> 0" "read_p r < write_p r" "read_p r + n \<le> write_p r"
    | "n \<noteq> 0" "read_p r < write_p r" "\<not> read_p r + n \<le> write_p r"
    using le by linarith
  then show ?thesis
  proof cases
    case 1
    then show ?thesis by (auto simp: ringbuffer_rawread_def rb_advance_def b)
  next
    case 2
    moreover have "min n (write_p r - read_p r) = n" using 2 by simp
    ultimately show ?thesis using s
      by (simp add: ringbuffer_rawread_def rb_advance_def b load_seg take_seg Let_def)
  next
    case 3
    moreover have "min n (write_p r - read_p r) = write_p r - read_p r" using 3 by simp
    ultimately show ?thesis using s
      by (simp add: ringbuffer_rawread_def rb_advance_def b load_seg Let_def)
  qed
qed

lemma rawread_wrapped:
  assumes inv: "rb_inv r" and le: "write_p r < read_p r"
  shows "ringbuffer_rawread r n
     = Some (int (min n (length (rb_bytes r))), take n (rb_bytes r), rb_advance r n)"
proof -
  note b = rb_bytes_wrapped [OF inv le] and s = rb_inv_simps [OF inv]
  let ?N = "length (buffer r)"
  consider "n = 0" | "n \<noteq> 0" "read_p r + n \<le> ?N" | "n \<noteq> 0" "?N < read_p r + n" by linarith
  then show ?thesis
  proof cases
    case 1
    then show ?thesis by (simp add: ringbuffer_rawread_def rb_advance_def)
  next
    case 2
    moreover have "min n (?N - read_p r + write_p r) = n" "n \<le> ?N - read_p r" using 2 by simp_all
    ultimately show ?thesis using le s
      by (simp add: ringbuffer_rawread_def rb_advance_def b load_seg take_seg Let_def)
  next
    case 3
    define second where "second = min (write_p r) (n - (?N - read_p r))"
    have pos: "second \<le> ?N" "0 < second"
      using s le 3 rb_inv_wrapped [OF inv le] by (simp_all add: second_def)
    have k: "min n (?N - read_p r + write_p r) = ?N - read_p r + second"
      using 3 s(4) by (simp add: second_def)
    have bytes: "take n (rb_bytes r) = seg (buffer r) (read_p r) ?N @ seg (buffer r) 0 second"
      using 3 s by (simp add: b take_seg_min second_def)
    have "ringbuffer_rawread r n = Some (int (?N - read_p r + second),
        seg (buffer r) (read_p r) ?N @ seg (buffer r) 0 second, r\<lparr>read_p := second\<rparr>)"
      using 3 le s(1,2,4) pos
      by (cases "write_p r < n - (?N - read_p r)")
        (simp_all add: ringbuffer_rawread_def Let_def load_seg second_def)
    moreover have "rb_advance r n = r\<lparr>read_p := second\<rparr>"
      using 3 le s pos k by (simp add: rb_advance_def Let_def b)
    moreover have "length (rb_bytes r) = ?N - read_p r + write_p r"
      using s by (simp add: b)
    ultimately show ?thesis using bytes k by simp
  qed
qed

lemma rawread_eq:
  "rb_inv r \<Longrightarrow> ringbuffer_rawread r n
     = Some (int (min n (length (rb_bytes r))), take n (rb_bytes r), rb_advance r n)"
  using rawread_linear rawread_wrapped linorder_not_le by blast

lemma rb_inv_advance: "rb_inv r \<Longrightarrow> rb_inv (rb_advance r n)"
  by (cases "read_p r \<le> write_p r") (auto simp: rb_inv_def rb_advance_def rb_bytes_def Let_def)

lemma rb_bytes_advance:
  assumes inv: "rb_inv r"
  shows "rb_bytes (rb_advance r n) = drop n (rb_bytes r)"
proof -
  note s = rb_inv_simps [OF inv]
  let ?N = "length (buffer r)"
  consider (zero) "min n (length (rb_bytes r)) = 0"
    | (linear) "min n (length (rb_bytes r)) \<noteq> 0" "read_p r \<le> write_p r"
    | (before) "min n (length (rb_bytes r)) \<noteq> 0" "write_p r < read_p r" "read_p r + n \<le> ?N"
    | (across) "min n (length (rb_bytes r)) \<noteq> 0" "write_p r < read_p r" "?N < read_p r + n"
    by linarith
  then show ?thesis
  proof cases
    case zero
    then show ?thesis by (auto simp: rb_advance_def min_def split: if_splits)
  next
    case linear
    note b = rb_bytes_linear [OF inv linear(2)]
    have "read_p r + min n (write_p r - read_p r) \<le> write_p r" using linear by simp
    then show ?thesis using linear s by (auto simp: rb_advance_def rb_bytes_def drop_seg min_def)
  next
    case before
    note b = rb_bytes_wrapped [OF inv before(2)]
    have "min n (length (rb_bytes r)) = n" using before s by (simp add: b)
    moreover have "n \<le> ?N - read_p r" using before by simp
    ultimately show ?thesis
      using before s by (simp add: rb_advance_def rb_bytes_def drop_seg)
  next
    case across
    note b = rb_bytes_wrapped [OF inv across(2)]
    have "min n (length (rb_bytes r)) - (?N - read_p r) = min (write_p r) (n - (?N - read_p r))"
      using across s by (simp add: b)
    then have "rb_bytes (rb_advance r n)
        = seg (buffer r) (min (write_p r) (n - (?N - read_p r))) (write_p r)"
      using across s by (simp add: rb_advance_def rb_bytes_def Let_def)
    also have "\<dots> = seg (buffer r) (n - (?N - read_p r)) (write_p r)"
      by (simp add: min_def)
    finally show ?thesis using across s by (simp add: b drop_seg)
  qed
qed

lemma read_eq_rawread:
  "rb_inv r \<Longrightarrow> (\<And>off k. copy_to_user off k = 0) \<Longrightarrow>
     ringbuffer_read copy_to_user r n = ringbuffer_rawread r n"
  by (simp add: ringbuffer_read_def ringbuffer_rawread_def Let_def cong: option.case_cong)

subsection \<open>Writing appends\<close>

lemma used_size_lt:
  "rb_inv r \<Longrightarrow> write_p r < read_p r \<Longrightarrow>
     ringbuffer_get_free_size r = read_p r - write_p r"
  by (auto simp: rb_inv_def ringbuffer_get_free_size_def ringbuffer_get_used_size_def)

lemma used_size_ge:
  "rb_inv r \<Longrightarrow> read_p r \<le> write_p r \<Longrightarrow>
     ringbuffer_get_free_size r = buffer_size r - (write_p r - read_p r)"
  by (auto simp: rb_inv_def ringbuffer_get_free_size_def ringbuffer_get_used_size_def)

text \<open>The state after an accepted write and after a refused one.\<close>

definition rb_append :: "ringbuffer \<Rightarrow> u8 list \<Rightarrow> ringbuffer" where
  "rb_append r data = (let n = length data; m = buffer r in
     if read_p r \<le> write_p r \<and> end_p r < write_p r + n
     then let first = end_p r - write_p r in
       r\<lparr>buffer := drop first data @ seg m (n - first) (write_p r) @ take first data,
         write_p := n - first\<rparr>
     else r\<lparr>buffer := seg m 0 (write_p r) @ data @ drop (write_p r + n) m, write_p := write_p r + n\<rparr>)"

definition rb_refuse :: "ringbuffer \<Rightarrow> nat \<Rightarrow> ringbuffer" where
  "rb_refuse r n = r\<lparr>skip_count := skip_count r + of_nat n, log_write_buffer_is_full := False\<rparr>"

lemma rb_fits_linear:
  "rb_inv r \<Longrightarrow> read_p r \<le> write_p r \<Longrightarrow> rb_fits r n \<longleftrightarrow>
     write_p r + n \<le> length (buffer r) \<or> n - (length (buffer r) - write_p r) < read_p r"
  using rb_inv_simps [of r] by (auto simp: rb_fits_def used_size_ge)

lemma rb_fits_wrapped:
  "rb_inv r \<Longrightarrow> write_p r < read_p r \<Longrightarrow> rb_fits r n \<longleftrightarrow> write_p r + n < read_p r"
  by (auto simp: rb_fits_def used_size_lt)

lemma write_eq:
  assumes inv: "rb_inv r" and n: "data \<noteq> []"
  shows "ringbuffer_write r data =
     Some (if rb_fits r (length data) then (int (length data), rb_append r data)
           else (-1, rb_refuse r (length data)))"
proof (cases "read_p r \<le> write_p r")
  case le: True
  note s = rb_inv_simps [OF inv] and f = rb_fits_linear [OF inv le]
  show ?thesis
  proof (cases "write_p r + length data \<le> length (buffer r)")
    case True
    then show ?thesis using le s n
      by (simp add: f ringbuffer_write_def rb_append_def store_eq seg_def Let_def)
  next
    case False
    then show ?thesis using le s n
      by (simp add: f ringbuffer_write_def rb_append_def rb_refuse_def store_eq seg_def Let_def
          drop_take)
  qed
next
  case False
  then have lt: "write_p r < read_p r" by simp
  note s = rb_inv_simps [OF inv] and f = rb_fits_wrapped [OF inv lt]
  show ?thesis using lt s n
    by (simp add: f ringbuffer_write_def rb_append_def rb_refuse_def store_eq seg_def Let_def)
qed

lemma rb_append_inv_bytes:
  assumes inv: "rb_inv r" and n: "data \<noteq> []" and fits: "rb_fits r (length data)"
  shows "rb_inv (rb_append r data) \<and> rb_bytes (rb_append r data) = rb_bytes r @ data"
proof -
  note s = rb_inv_simps [OF inv]
  let ?m = "buffer r" and ?N = "length (buffer r)"
  consider (linear) "read_p r \<le> write_p r" "write_p r + length data \<le> ?N"
    | (wrap) "read_p r \<le> write_p r" "?N < write_p r + length data"
        "length data - (?N - write_p r) < read_p r"
    | (wrapped) "write_p r < read_p r" "write_p r + length data < read_p r"
    using fits rb_fits_linear [OF inv] rb_fits_wrapped [OF inv] by fastforce
  then show ?thesis
  proof cases
    case linear
    then show ?thesis using s n
      by (auto simp: rb_append_def rb_inv_def rb_bytes_def Let_def seg_def drop_take)
  next
    case wrap
    define sec where "sec = length data - (?N - write_p r)"
    define new where "new = rb_append r data"
    have new: "buffer new = drop (?N - write_p r) data @ seg ?m sec (write_p r) @ take (?N - write_p r) data"
      "write_p new = sec" "read_p new = read_p r" "begin_p new = 0" "end_p new = ?N" "buffer_size new = ?N"
      using wrap s by (simp_all add: new_def rb_append_def sec_def Let_def)
    have sec: "0 < sec" "sec < read_p r" "length (drop (?N - write_p r) data) = sec"
      using wrap s by (simp_all add: sec_def)
    have len: "length (buffer new) = ?N"
      using wrap s sec by (simp add: new)
    have "drop (read_p r) (buffer new) = seg ?m (read_p r) (write_p r) @ take (?N - write_p r) data"
      using wrap s sec by (simp add: new drop_seg)
    moreover have "seg (buffer new) (read_p r) ?N = drop (read_p r) (buffer new)"
      using len by (simp add: seg_def)
    moreover have "seg (buffer new) 0 sec = drop (?N - write_p r) data"
      using sec by (simp add: seg_def new)
    ultimately have "rb_bytes new = rb_bytes r @ data"
      using wrap sec by (simp add: rb_bytes_def new)
    moreover have "rb_inv new" using len sec s by (simp add: rb_inv_def new)
    ultimately show ?thesis by (simp add: new_def)
  next
    case wrapped
    then show ?thesis using s n
      by (simp add: rb_append_def rb_inv_def rb_bytes_def Let_def seg_def)
  qed
qed

lemmas rb_inv_append = rb_append_inv_bytes [THEN conjunct1]
lemmas rb_bytes_append = rb_append_inv_bytes [THEN conjunct2]

lemma rb_refuse [simp]:
  "rb_inv (rb_refuse r n) = rb_inv r" "rb_bytes (rb_refuse r n) = rb_bytes r"
  by (simp_all add: rb_refuse_def rb_inv_def rb_bytes_def)

text \<open>Reading into user memory: the same bytes, or a fault that consumes nothing.\<close>

lemma read_rawread:
  assumes raw: "ringbuffer_rawread r n = Some (k, cs, r1)"
  shows "\<exists>ret bs r'. ringbuffer_read cu r n = Some (ret, bs, r') \<and>
     ((ret, bs, r') = (k, cs, r1) \<or> ret = -1 \<and> r' = r \<and> prefix bs cs)"
proof -
  have p: "prefix (take i xs) (xs @ ys)" for i and xs ys :: "u8 list"
    by (meson prefixI prefix_order.trans take_is_prefix)
  consider "n = 0 \<or> read_p r = write_p r" | "n \<noteq> 0" "read_p r < write_p r"
    | "n \<noteq> 0" "write_p r < read_p r" "read_p r + n \<le> end_p r"
    | "n \<noteq> 0" "write_p r < read_p r" "end_p r < read_p r + n" by linarith
  then show ?thesis
  proof cases
    case 1
    with raw show ?thesis by (auto simp: ringbuffer_read_def ringbuffer_rawread_def)
  next
    case 2
    define todo where "todo = (if read_p r + n \<le> write_p r then n else write_p r - read_p r)"
    from 2 raw obtain bs where "load (buffer r) (read_p r) todo = Some bs"
      "(k, cs, r1) = (int todo, bs, if 0 < todo then r\<lparr>read_p := read_p r + todo\<rparr> else r)"
      unfolding ringbuffer_rawread_def todo_def [symmetric] Let_def by (auto split: bind_splits)
    with 2 show ?thesis
      unfolding ringbuffer_read_def todo_def [symmetric] Let_def by (simp add: take_is_prefix)
  next
    case 3
    with raw obtain bs where "load (buffer r) (read_p r) n = Some bs"
      "(k, cs, r1) = (int n, bs, r\<lparr>read_p := read_p r + n\<rparr>)"
      unfolding ringbuffer_rawread_def Let_def by (auto split: bind_splits)
    with 3 show ?thesis unfolding ringbuffer_read_def Let_def by (simp add: take_is_prefix)
  next
    case 4
    define fst where "fst = end_p r - read_p r"
    define snd where "snd = (if begin_p r + (n - fst) > write_p r then write_p r - begin_p r else n - fst)"
    from 4 raw obtain bs ds where "load (buffer r) (read_p r) fst = Some bs"
      "load (buffer r) (begin_p r) snd = Some ds"
      "(k, cs, r1) = (int (fst + snd), bs @ ds,
         if 0 < fst + snd then r\<lparr>read_p := begin_p r + snd\<rparr> else r)"
      unfolding ringbuffer_rawread_def Let_def fst_def [symmetric] snd_def [symmetric]
      by (auto split: bind_splits)
    with 4 show ?thesis
      unfolding ringbuffer_read_def Let_def fst_def [symmetric] snd_def [symmetric]
      by (simp add: p take_is_prefix)
  qed
qed

lemma skip_count_after [simp]:
  "skip_count (rb_append r data) = skip_count r"
  "skip_count (rb_refuse r n) = skip_count r + of_nat n"
  by (simp_all add: rb_append_def rb_refuse_def Let_def)

subsection \<open>The ring buffer is a byte queue\<close>

lemma write_nil: "ringbuffer_write r [] = Some (0, r)"
  by (simp add: ringbuffer_write_def)

interpretation rbq: byte_queue rb_bytes rb_inv ringbuffer_write ringbuffer_rawread
proof
  fix r n assume "rb_inv r"
  then show "\<exists>q'. ringbuffer_rawread r n
      = Some (int (min n (length (rb_bytes r))), take n (rb_bytes r), q')
      \<and> rb_inv q' \<and> rb_bytes q' = drop n (rb_bytes r)"
    by (simp add: rawread_eq rb_inv_advance rb_bytes_advance)
next
  fix r and xs :: "u8 list" assume "rb_inv r" "xs \<noteq> []"
  then show "\<exists>k q'. ringbuffer_write r xs = Some (k, q') \<and> rb_inv q'
      \<and> (k = int (length xs) \<and> rb_bytes q' = rb_bytes r @ xs \<or> k = -1 \<and> rb_bytes q' = rb_bytes r)"
    by (cases "rb_fits r (length xs)") (simp_all add: write_eq rb_inv_append rb_bytes_append)
qed (simp add: write_nil)

lemma init_inv:
  assumes "vmalloc n = Some area" and "length area = n"
  shows "\<exists>r'. ringbuffer_init vmalloc r n = (RESULT_Success, r') \<and> rb_inv r' \<and> rb_bytes r' = []
    \<and> buffer_size r' = n"
  using assms by (auto simp: ringbuffer_init_def ringbuffer_init_instance_def rb_inv_def rb_bytes_def)

lemma clear_inv:
  "rb_inv r \<Longrightarrow> \<exists>r'. ringbuffer_clear r = (RESULT_Success, r') \<and> rb_inv r' \<and> rb_bytes r' = []"
  by (auto simp: ringbuffer_clear_def rb_inv_def rb_bytes_def)

lemma term_inv:
  "rb_inv r \<Longrightarrow> \<exists>r'. ringbuffer_term r = (RESULT_Success, r') \<and> rb_inv r' \<and> buffer r' = []"
  by (auto simp: ringbuffer_term_def rb_inv_def)

subsection \<open>Properties\<close>

text \<open>C10: from a ring buffer in a consistent state, every sequence of writes and raw reads runs
  without an illegal memory access and keeps the state consistent, and the bytes stored at the start
  followed by the bytes of the accepted writes are exactly the bytes read followed by the bytes
  still stored: nothing is lost, invented, duplicated or reordered, and a refused write leaves no
  part of its data behind.\<close>

theorem ringbuffer_fifo:
  assumes "rb_inv r"
  shows "\<exists>ins outs r'. q_run ringbuffer_write ringbuffer_rawread r ops = Some (ins, outs, r')
    \<and> rb_inv r' \<and> rb_bytes r @ ins = outs @ rb_bytes r'"
  using assms by (rule rbq.run_fifo)

definition rb_example :: ringbuffer where
  "rb_example = \<lparr>buffer = [1, 2, 3, 4, 5, 6, 7, 8], buffer_size = 8, begin_p = 0, end_p = 8,
     read_p = 6, write_p = 2, skip_count = 0, log_write_buffer_is_full = True\<rparr>"

lemma rb_example_inv: "rb_inv rb_example" "rb_bytes rb_example = [7, 8, 1, 2]"
  by (simp_all add: rb_example_def rb_inv_def rb_bytes_def seg_def)

lemma rb_example_state: "ringbuffer_get_free_size rb_example = 4" "skip_count rb_example = 0"
  by (simp_all add: rb_example_def ringbuffer_get_free_size_def ringbuffer_get_used_size_def)

lemma ringbuffer_fifo_witness:
  "\<exists>ins outs r'. q_run ringbuffer_write ringbuffer_rawread rb_example
       [Put [9, 10], Put [11, 12], Get 3, Put [13, 14], Get 5] = Some (ins, outs, r')
     \<and> rb_inv r' \<and> rb_bytes rb_example @ ins = outs @ rb_bytes r'"
  by (rule ringbuffer_fifo [OF rb_example_inv(1)])

text \<open>A write of at least one byte is accepted exactly when the data fits before the end of an
  unwrapped buffer or is smaller than the free size (one byte stays free, so that equal pointers
  mean empty); it then returns its size and appends the data, and otherwise it returns -1, keeps the
  bytes and adds the size to the skip count.\<close>

theorem ringbuffer_write_exact:
  assumes "rb_inv r" and "data \<noteq> []"
  shows "\<exists>n r'. ringbuffer_write r data = Some (n, r') \<and> rb_inv r' \<and>
    (if length data < ringbuffer_get_free_size r
        \<or> (read_p r \<le> write_p r \<and> write_p r + length data \<le> end_p r)
     then n = int (length data) \<and> rb_bytes r' = rb_bytes r @ data \<and> skip_count r' = skip_count r
     else n = -1 \<and> rb_bytes r' = rb_bytes r
        \<and> skip_count r' = skip_count r + of_nat (length data))"
  using assms
  by (simp add: write_eq rb_inv_append rb_bytes_append rb_fits_def [symmetric])

lemma ringbuffer_write_exact_witness:
  "\<exists>n r'. ringbuffer_write rb_example [9, 10, 11] = Some (n, r') \<and> rb_inv r' \<and>
    n = 3 \<and> rb_bytes r' = [7, 8, 1, 2, 9, 10, 11] \<and> skip_count r' = 0"
  using ringbuffer_write_exact [OF rb_example_inv(1), of "[9, 10, 11]"]
  by (simp add: rb_example_inv(2) rb_example_state)

text \<open>Reading into user memory never accesses memory outside the buffer. It either returns the
  number of bytes asked for or available, delivers exactly the oldest of them and removes them, or,
  when the kernel cannot copy, returns -1 and leaves the ring buffer unchanged, with no more than a
  prefix of those bytes in the user's memory.\<close>

theorem ringbuffer_read_user:
  assumes "rb_inv r"
  shows "\<exists>ret bs r'. ringbuffer_read copy_to_user r n = Some (ret, bs, r') \<and> rb_inv r' \<and>
     (ret = int (min n (length (rb_bytes r))) \<and> bs = take n (rb_bytes r)
        \<and> rb_bytes r' = drop n (rb_bytes r)
      \<or> ret = -1 \<and> r' = r \<and> prefix bs (take n (rb_bytes r)))"
  using read_rawread [OF rawread_eq [OF assms, of n], of copy_to_user] assms
  by (auto simp: rb_inv_advance rb_bytes_advance)

lemma ringbuffer_read_user_witness:
  "\<exists>ret bs r'. ringbuffer_read (\<lambda>off k. if off = 0 then 0 else 1) rb_example 3 = Some (ret, bs, r')
     \<and> rb_inv r' \<and>
     (ret = int (min 3 (length (rb_bytes rb_example))) \<and> bs = take 3 (rb_bytes rb_example)
        \<and> rb_bytes r' = drop 3 (rb_bytes rb_example)
      \<or> ret = -1 \<and> r' = rb_example \<and> prefix bs (take 3 (rb_bytes rb_example)))"
  by (rule ringbuffer_read_user [OF rb_example_inv(1)])

end
