(* ===== verification/Msg.thy ===== *)
theory Msg
  imports Prelude
begin

text \<open>
  The message layer shared by all devices: \<open>module/apt_usbtrx_msg.c\<close>, \<open>apt_usbtrx_msg.h\<close> and
  the command numbers of \<open>apt_usbtrx_cmd_def.h\<close>. Function names drop the prefix
  \<open>apt_usbtrx_\<close>.

  A message on the wire is \<open>SOB length id payload EOB\<close>, \<open>length\<close> counting all of it. A pointer
  argument \<open>u8 *data\<close> is the list of the bytes from the pointer to the end of the array it points
  into; \<open>data_size\<close> (a non-negative \<open>int\<close> at every call) may be smaller. The output parameters
  are returned next to the result code.

  The lemmas give the classification \<open>classify\<close> the parser makes of its input, that it depends
  only on the message and not on what follows, that it never reads beyond the input, and the round
  trip with \<open>msg_pack\<close>.
\<close>

unbundle bit_operations_syntax

subsection \<open>Constants\<close>

abbreviation (input) MSG_SOB :: u8 where "MSG_SOB \<equiv> 0xF7"
abbreviation (input) MSG_EOB :: u8 where "MSG_EOB \<equiv> 0xFA"
abbreviation (input) MSG_MAX_LENGTH :: nat where "MSG_MAX_LENGTH \<equiv> 128"
abbreviation (input) CMD_MIN_LENGTH :: nat where "CMD_MIN_LENGTH \<equiv> 4"
abbreviation (input) CMD_MAX_LENGTH :: nat where "CMD_MAX_LENGTH \<equiv> 82"

text \<open>The members of \<open>enum APT_USBTRX_CMD\<close>; \<open>Unknown\<close> is -1, no byte has its value.\<close>

abbreviation (input) CMD_GetDeviceId :: u8 where "CMD_GetDeviceId \<equiv> 0x00"
abbreviation (input) CMD_GetFWVersion :: u8 where "CMD_GetFWVersion \<equiv> 0x01"
abbreviation (input) CMD_GetFWVersionRevision :: u8 where "CMD_GetFWVersionRevision \<equiv> 0x0D"
abbreviation (input) CMD_EnableResetTS :: u8 where "CMD_EnableResetTS \<equiv> 0x02"
abbreviation (input) CMD_ResetTS :: u8 where "CMD_ResetTS \<equiv> 0x07"
abbreviation (input) CMD_ResetDevice :: u8 where "CMD_ResetDevice \<equiv> 0x08"
abbreviation (input) CMD_GetSerialNo :: u8 where "CMD_GetSerialNo \<equiv> 0x0C"
abbreviation (input) CMD_MoveDFU :: u8 where "CMD_MoveDFU \<equiv> 0x09"
abbreviation (input) CMD_SendFWData :: u8 where "CMD_SendFWData \<equiv> 0x56"
abbreviation (input) CMD_SendFWDataS :: u8 where "CMD_SendFWDataS \<equiv> 0x55"
abbreviation (input) CMD_SendFWDataE :: u8 where "CMD_SendFWDataE \<equiv> 0x57"
abbreviation (input) CMD_NotifyBufferStatus :: u8 where "CMD_NotifyBufferStatus \<equiv> 0x28"
abbreviation (input) CMD_ResponseGetDeviceId :: u8 where "CMD_ResponseGetDeviceId \<equiv> 0x20"
abbreviation (input) CMD_ResponseGetSerialNo :: u8 where "CMD_ResponseGetSerialNo \<equiv> 0x2C"
abbreviation (input) CMD_ResponseGetFWVersion :: u8 where "CMD_ResponseGetFWVersion \<equiv> 0x21"
abbreviation (input) CMD_ResponseGetFWVersionRevision :: u8 where
  "CMD_ResponseGetFWVersionRevision \<equiv> 0x22"
abbreviation (input) CMD_ACK :: u8 where "CMD_ACK \<equiv> 0x25"
abbreviation (input) CMD_NACK :: u8 where "CMD_NACK \<equiv> 0x26"

subsection \<open>The message structure\<close>

record msg =
  msg_id :: u8
  payload :: "u8 list"
  payload_size :: u8

definition msg_wf :: "msg \<Rightarrow> bool" where
  "msg_wf m \<longleftrightarrow> length (payload m) = CMD_MAX_LENGTH - 4"

subsection \<open>Parsing and packing\<close>

text \<open>\<open>msg\<close> is the caller's structure, whose old contents the parser partly overwrites.\<close>

definition msg_parse :: "u8 list \<Rightarrow> nat \<Rightarrow> msg \<Rightarrow> (RESULT \<times> msg) option" where
  "msg_parse data data_size msg = do {
     sob \<leftarrow> load1 data 0;
     if sob \<noteq> MSG_SOB then Some (RESULT_Failure, msg)
     else do {
       len \<leftarrow> load1 data 1;
       if unat len < CMD_MIN_LENGTH then Some (RESULT_Failure, msg)
       else if unat len > MSG_MAX_LENGTH then Some (RESULT_Failure, msg)
       else if unat len > CMD_MAX_LENGTH then Some (RESULT_Failure, msg)
       else if unat len > data_size then Some (RESULT_NotEnough, msg)
       else do {
         last \<leftarrow> load1 data (unat len - 1);
         if last \<noteq> MSG_EOB then Some (RESULT_Failure, msg)
         else do {
           i \<leftarrow> load1 data 2;
           let psize = len - 4;
           if unat psize > CMD_MAX_LENGTH - 4 then Some (RESULT_Failure, msg)
           else do {
             bs \<leftarrow> load data 3 (unat psize);
             pl \<leftarrow> store (payload msg) 0 bs;
             let msg = msg\<lparr>payload := pl\<rparr>;
             eob \<leftarrow> load1 data (3 + unat psize);
             if eob \<noteq> MSG_EOB then Some (RESULT_Failure, msg)
             else Some (RESULT_Success, msg\<lparr>msg_id := i, payload_size := psize\<rparr>)
           }
         }
       }
     }
   }"

definition msg_pack :: "msg \<Rightarrow> u8 list \<Rightarrow> nat \<Rightarrow> (RESULT \<times> u8 list) option" where
  "msg_pack msg data data_size =
     (let len = unat (payload_size msg) + 4 in
      if len > data_size then Some (RESULT_Failure, data)
      else do {
        data \<leftarrow> store1 data 0 MSG_SOB;
        data \<leftarrow> store1 data 1 (of_nat len);
        data \<leftarrow> store1 data 2 (msg_id msg);
        bs \<leftarrow> load (payload msg) 0 (unat (payload_size msg));
        data \<leftarrow> store data 3 bs;
        data \<leftarrow> store1 data (3 + unat (payload_size msg)) MSG_EOB;
        Some (RESULT_Success, data)
      })"

text \<open>The guards against a \<open>NULL\<close> structure.\<close>

definition msg_parse_p :: "u8 list \<Rightarrow> nat \<Rightarrow> msg option \<Rightarrow> (RESULT \<times> msg option) option" where
  "msg_parse_p data data_size p = (case p of None \<Rightarrow> Some (RESULT_Failure, None)
     | Some m \<Rightarrow> map_option (\<lambda>(r, m). (r, Some m)) (msg_parse data data_size m))"

definition msg_pack_p :: "msg option \<Rightarrow> u8 list \<Rightarrow> nat \<Rightarrow> (RESULT \<times> u8 list) option" where
  "msg_pack_p p data data_size = (case p of None \<Rightarrow> Some (RESULT_Failure, data)
     | Some m \<Rightarrow> msg_pack m data data_size)"

subsection \<open>Parsing the payloads of the common responses\<close>

definition msg_parse_response_get_device_id ::
  "u8 list \<Rightarrow> (RESULT \<times> u8 list \<times> int) option" where
  "msg_parse_response_get_device_id data = do {
     device_id \<leftarrow> load data 0 4;
     b \<leftarrow> load1 data 4;
     Some (RESULT_Success, device_id, uint (b AND 1))
   }"

definition msg_parse_response_get_serial_no ::
  "u8 list \<Rightarrow> (RESULT \<times> u8 list \<times> int \<times> int) option" where
  "msg_parse_response_get_serial_no data = do {
     serial_no \<leftarrow> load data 0 14;
     b \<leftarrow> load1 data 14;
     Some (RESULT_Success, serial_no, uint (b AND 1), uint (drop_bit 1 b AND 1))
   }"

definition msg_parse_response_get_fw_version :: "u8 list \<Rightarrow> (RESULT \<times> int \<times> int) option" where
  "msg_parse_response_get_fw_version data = do {
     major \<leftarrow> load1 data 0;
     minor \<leftarrow> load1 data 1;
     Some (RESULT_Success, uint major, uint minor)
   }"

definition msg_parse_response_get_fw_version_revision ::
  "u8 list \<Rightarrow> (RESULT \<times> int \<times> int \<times> int) option" where
  "msg_parse_response_get_fw_version_revision data = do {
     major \<leftarrow> load1 data 0;
     minor \<leftarrow> load1 data 1;
     revision \<leftarrow> load1 data 2;
     Some (RESULT_Success, uint major, uint minor, uint revision)
   }"

definition msg_parse_ack :: "u8 list \<Rightarrow> (RESULT \<times> u8) option" where
  "msg_parse_ack data = do { i \<leftarrow> load1 data 0; Some (RESULT_Success, i) }"

definition msg_parse_notify_buffer_status :: "u8 list \<Rightarrow> (RESULT \<times> u8) option" where
  "msg_parse_notify_buffer_status data = do { rate \<leftarrow> load1 data 0; Some (RESULT_Success, rate) }"

definition msg_get_length :: "u8 list option \<Rightarrow> nat \<Rightarrow> u8 option \<Rightarrow> (RESULT \<times> u8 option) option" where
  "msg_get_length data data_size len = (case data of
     None \<Rightarrow> Some (RESULT_Failure, len)
   | Some bs \<Rightarrow> (case len of
       None \<Rightarrow> Some (RESULT_Failure, None)
     | Some _ \<Rightarrow>
         if data_size < CMD_MIN_LENGTH then Some (RESULT_Failure, len)
         else do { b \<leftarrow> load1 bs 1; Some (RESULT_Success, Some b) }))"

subsection \<open>What the parser accepts\<close>

text \<open>The classification of an input of at least two bytes.\<close>

definition classify :: "u8 list \<Rightarrow> RESULT" where
  "classify d =
     (if d ! 0 \<noteq> MSG_SOB then RESULT_Failure
      else let len = unat (d ! 1) in
        if len < CMD_MIN_LENGTH \<or> len > CMD_MAX_LENGTH then RESULT_Failure
        else if len > length d then RESULT_NotEnough
        else if d ! (len - 1) \<noteq> MSG_EOB then RESULT_Failure
        else RESULT_Success)"

text \<open>The structure a complete message at the head of \<open>d\<close> is parsed into.\<close>

definition frame_msg :: "u8 list \<Rightarrow> msg \<Rightarrow> msg" where
  "frame_msg d m = m\<lparr>msg_id := d ! 2, payload_size := d ! 1 - 4,
     payload := seg d 3 (unat (d ! 1) - 1) @ drop (unat (d ! 1) - 4) (payload m)\<rparr>"

text \<open>The bytes of a message on the wire.\<close>

definition msg_bytes :: "msg \<Rightarrow> u8 list" where
  "msg_bytes m = [MSG_SOB, payload_size m + 4, msg_id m]
     @ take (unat (payload_size m)) (payload m) @ [MSG_EOB]"

lemma unat_minus_4: "4 \<le> unat (b :: u8) \<Longrightarrow> unat (b - 4) = unat b - 4"
  by (subst unat_sub) (simp_all add: word_le_nat_alt)

lemma unat_plus_4: "unat (b :: u8) \<le> 78 \<Longrightarrow> unat (b + 4) = unat b + 4"
  by (subst unat_add_lem [THEN iffD1]) simp_all

lemma msg_parse_eq:
  assumes "2 \<le> n" and "n \<le> length data" and "msg_wf m"
  shows "msg_parse data n m = Some (classify (take n data),
     if classify (take n data) = RESULT_Success then frame_msg data m else m)"
proof -
  have m: "length (payload m) = 78" using assms by (simp add: msg_wf_def)
  have l: "0 < length data" "1 < length data" using assms by linarith+
  show ?thesis
  proof (cases "data ! 0 = MSG_SOB \<and> 4 \<le> unat (data ! 1) \<and> unat (data ! 1) \<le> 82
      \<and> unat (data ! 1) \<le> n")
    case False
    then show ?thesis using assms(1,2) l
      by (auto simp: msg_parse_def classify_def load1_def Let_def)
  next
    case True
    then have "unat (data ! 1) - 1 < length data" "2 < length data" "unat (data ! 1) - 1 < n"
      "3 + (unat (data ! 1) - 4) = unat (data ! 1) - 1" "unat (data ! 1) - 4 \<le> 78"
      using assms by linarith+
    moreover from this have "load data 3 (unat (data ! 1) - 4) = Some (seg data 3 (unat (data ! 1) - 1))"
      by (simp add: load_seg)
    moreover have "length (seg data 3 (unat (data ! 1) - 1)) = unat (data ! 1) - 4"
      using True assms(2) by (subst length_seg) auto
    ultimately show ?thesis using True assms(1,2) l m
      by (simp add: msg_parse_def classify_def load1_eq store_eq unat_minus_4 frame_msg_def Let_def
          del: One_nat_def)
  qed
qed


text \<open>The verdict does not change when more bytes follow, except that more bytes are awaited.\<close>

lemma classify_append:
  "2 \<le> length d \<Longrightarrow> classify d \<noteq> RESULT_NotEnough \<Longrightarrow> classify (d @ e) = classify d"
  by (auto simp: classify_def nth_append Let_def split: if_splits)

lemma classify_cases:
  "classify d = RESULT_Failure \<or> classify d = RESULT_NotEnough \<or> classify d = RESULT_Success"
  by (simp add: classify_def Let_def)

lemma classify_success:
  assumes "classify d = RESULT_Success"
  shows "d ! 0 = MSG_SOB" "4 \<le> unat (d ! 1)" "unat (d ! 1) \<le> 82" "unat (d ! 1) \<le> length d"
    "d ! (unat (d ! 1) - 1) = MSG_EOB"
  using assms by (auto simp: classify_def Let_def split: if_splits)

lemma classify_take:
  assumes "classify d = RESULT_Success" and "unat (d ! 1) \<le> n"
  shows "classify (take n d) = RESULT_Success"
  using assms classify_success [OF assms(1)] by (simp add: classify_def Let_def)

lemma classify_not_enough:
  "classify d = RESULT_NotEnough \<Longrightarrow> length d < unat (d ! 1) \<and> unat (d ! 1) \<le> 82"
  by (auto simp: classify_def Let_def split: if_splits)

text \<open>What is accepted is a message followed by anything.\<close>

lemma length_msg_bytes:
  "msg_wf m \<Longrightarrow> unat (payload_size m) \<le> 78 \<Longrightarrow> length (msg_bytes m) = unat (payload_size m) + 4"
  by (simp add: msg_bytes_def msg_wf_def)

lemma msg_bytes_nth:
  assumes "msg_wf m" and "unat (payload_size m) \<le> 78"
  shows "(msg_bytes m @ e) ! 0 = MSG_SOB" "(msg_bytes m @ e) ! 1 = payload_size m + 4"
    "(msg_bytes m @ e) ! 2 = msg_id m" "(msg_bytes m @ e) ! (unat (payload_size m) + 3) = MSG_EOB"
  using assms by (simp_all add: msg_bytes_def msg_wf_def nth_append)

lemma classify_msg_bytes:
  assumes "msg_wf m" and "unat (payload_size m) \<le> 78"
  shows "classify (msg_bytes m @ e) = RESULT_Success"
  using assms msg_bytes_nth [OF assms, of e]
  by (simp add: classify_def Let_def unat_plus_4 length_msg_bytes add.commute)

lemma frame_msg_bytes:
  assumes d: "classify d = RESULT_Success" and m: "msg_wf m"
  shows "msg_bytes (frame_msg d m) = take (unat (d ! 1)) d" "msg_wf (frame_msg d m)"
    "unat (payload_size (frame_msg d m)) = unat (d ! 1) - 4"
proof -
  note c = classify_success [OF d]
  let ?n = "unat (d ! 1)"
  have len: "length (seg d 3 (?n - 1)) = ?n - 4" using c by (subst length_seg) auto
  have sz: "unat (d ! 1 - 4) = ?n - 4" using c(2) by (rule unat_minus_4)
  show "unat (payload_size (frame_msg d m)) = ?n - 4"
    by (simp add: frame_msg_def sz del: One_nat_def)
  show "msg_wf (frame_msg d m)" using m len c by (simp add: frame_msg_def msg_wf_def)
  have "take ?n d = seg d 0 3 @ seg d 3 (?n - 1) @ seg d (?n - 1) ?n"
    using c by (simp add: seg_append) (simp add: seg_def)
  moreover have "seg d 0 3 = [d ! 0, d ! 1, d ! 2]" 
  proof -
    obtain a b c' rest where "d = a # b # c' # rest"
      using c(2,4) by (cases d; cases "tl d"; cases "tl (tl d)") auto
    then show ?thesis by (simp add: seg_def numeral_3_eq_3 numeral_2_eq_2)
  qed
  moreover have "seg d (?n - 1) ?n = [d ! (?n - 1)]"
    using c(2,4) by (simp add: seg_def take_Suc_conv_app_nth hd_drop_conv_nth take_Suc)
  ultimately show "msg_bytes (frame_msg d m) = take ?n d"
    using c len by (simp add: msg_bytes_def frame_msg_def sz del: One_nat_def)
qed

lemma frame_msg_of_bytes:
  assumes "msg_wf m" and "unat (payload_size m) \<le> 78" and "msg_wf m0"
  shows "msg_id (frame_msg (msg_bytes m @ e) m0) = msg_id m"
    "payload_size (frame_msg (msg_bytes m @ e) m0) = payload_size m"
    "take (unat (payload_size m)) (payload (frame_msg (msg_bytes m @ e) m0))
       = take (unat (payload_size m)) (payload m)"
proof -
  note nth = msg_bytes_nth [OF assms(1,2), of e] and u = unat_plus_4 [OF assms(2)]
  show "msg_id (frame_msg (msg_bytes m @ e) m0) = msg_id m"
    "payload_size (frame_msg (msg_bytes m @ e) m0) = payload_size m"
    using nth by (simp_all add: frame_msg_def)
  have "seg (msg_bytes m @ e) 3 (unat (payload_size m) + 3)
      = take (unat (payload_size m)) (payload m)"
    using assms by (simp add: seg_def msg_bytes_def msg_wf_def)
  then show "take (unat (payload_size m)) (payload (frame_msg (msg_bytes m @ e) m0))
       = take (unat (payload_size m)) (payload m)"
    using nth u assms(1,2) by (simp add: frame_msg_def msg_wf_def add.commute)
qed

lemma frame_msg_take:
  assumes "classify d = RESULT_Success" and "unat (d ! 1) \<le> k"
  shows "frame_msg (take k d) m = frame_msg d m"
proof -
  note c = classify_success(2,4) [OF assms(1)]
  have "take k d ! 1 = d ! 1" "take k d ! 2 = d ! 2" using c assms(2) by simp_all
  moreover have "seg (take k d) 3 (unat (d ! 1) - 1) = seg d 3 (unat (d ! 1) - 1)"
    using assms(2) by (simp add: seg_def drop_take min_def)
  ultimately show ?thesis by (simp add: frame_msg_def del: One_nat_def)
qed

lemma msg_pack_eq:
  assumes m: "msg_wf m" and n: "unat (payload_size m) \<le> 78" and d: "data_size \<le> length data"
  shows "msg_pack m data data_size =
    (if data_size < unat (payload_size m) + 4 then Some (RESULT_Failure, data)
     else Some (RESULT_Success, msg_bytes m @ drop (unat (payload_size m) + 4) data))"
proof (cases "data_size < unat (payload_size m) + 4")
  case False
  then obtain a b c rest where data: "data = a # b # c # rest" and "3 \<le> data_size"
    using d by (cases data; cases "tl data"; cases "tl (tl data)") auto
  moreover have "unat (payload_size m) < length rest" using False d data by simp
  moreover have "(of_nat (unat (payload_size m) + 4) :: u8) = payload_size m + 4" by simp
  moreover have "drop (3 + k) (x # y # z # zs) = drop k zs" "drop (k + 4) (x # y # z # zs) = drop (Suc k) zs"
    for k x y z and zs :: "u8 list"
    by (simp_all add: numeral_3_eq_3 numeral_eq_Suc)
  moreover from calculation have "drop (unat (payload_size m)) rest
      = rest ! unat (payload_size m) # drop (Suc (unat (payload_size m))) rest"
    by (simp add: Cons_nth_drop_Suc)
  ultimately show ?thesis using False m n
    by (simp add: msg_pack_def msg_wf_def msg_bytes_def load_eq store_def store1_def
        list_update_append nth_append)
qed (simp add: msg_pack_def)

subsection \<open>Finding the messages of a stream\<close>

text \<open>
  The specification of what both receive loops do with a stream of bytes: skip one byte on a
  failure, take a message off on success, stop when the rest may still become a message. The
  result is the messages found, as wire bytes, and the rest.
\<close>

function scan :: "u8 list \<Rightarrow> u8 list list \<times> u8 list" where
  "scan d =
     (if length d < CMD_MIN_LENGTH then ([], d)
      else if classify d = RESULT_NotEnough then ([], d)
      else if classify d = RESULT_Success
      then (let (fs, l) = scan (drop (unat (d ! 1)) d) in (take (unat (d ! 1)) d # fs, l))
      else scan (tl d))"
  by pat_completeness auto
termination
proof (relation "measure length")
  fix d :: "u8 list" assume "\<not> length d < 4" and c: "classify d = RESULT_Success"
  then show "(drop (unat (d ! 1)) d, d) \<in> measure length"
    using classify_success(2) [OF c] by simp
qed auto

declare scan.simps [simp del]

lemma scan_short [simp]: "length d < 4 \<Longrightarrow> scan d = ([], d)"
  by (simp add: scan.simps)

lemma scan_NotEnough: "classify d = RESULT_NotEnough \<Longrightarrow> scan d = ([], d)"
  by (simp add: scan.simps)

lemma scan_Success:
  "classify d = RESULT_Success \<Longrightarrow> scan d
     = (take (unat (d ! 1)) d # fst (scan (drop (unat (d ! 1)) d)), snd (scan (drop (unat (d ! 1)) d)))"
  using classify_success(2,4) [of d] by (subst scan.simps) (auto split: prod.splits)

lemma scan_Failure:
  "4 \<le> length d \<Longrightarrow> classify d = RESULT_Failure \<Longrightarrow> scan d = scan (tl d)"
  by (subst scan.simps) simp

lemma scan_append:
  "scan (xs @ ys) = (fst (scan xs) @ fst (scan (snd (scan xs) @ ys)), snd (scan (snd (scan xs) @ ys)))"
proof (induction xs rule: scan.induct)
  case (1 d)
  show ?case
  proof (cases "length d < 4 \<or> classify d = RESULT_NotEnough")
    case True
    then show ?thesis by (auto simp: scan_NotEnough)
  next
    case False
    then have len: "4 \<le> length d" by simp
    have app: "classify (d @ ys) = classify d"
      using False by (intro classify_append) auto
    show ?thesis
    proof (cases "classify d = RESULT_Success")
      case True
      have n: "unat ((d @ ys) ! 1) = unat (d ! 1)" using len by (simp add: nth_append)
      show ?thesis
        using classify_success(4) [OF True] app True False "1.IH"(1)
        by (simp add: scan_Success n del: One_nat_def)
    next
      case f: False
      then have "classify d = RESULT_Failure" using False classify_cases [of d] by auto
      moreover have "tl (d @ ys) = tl d @ ys" using len by (cases d) auto
      ultimately show ?thesis using len app False "1.IH"(2) by (simp add: scan_Failure)
    qed
  qed
qed

lemma scan_settled: "scan (snd (scan d)) = ([], snd (scan d))"
proof (induction d rule: scan.induct)
  case (1 d)
  consider "length d < 4 \<or> classify d = RESULT_NotEnough"
    | "4 \<le> length d" "classify d = RESULT_Success" | "4 \<le> length d" "classify d = RESULT_Failure"
    using classify_cases [of d] by linarith
  then show ?case
  proof cases
    case 1
    then show ?thesis by (auto simp: scan_NotEnough)
  next
    case 2
    then show ?thesis using "1.IH"(1) by (simp add: scan_Success)
  next
    case 3
    then show ?thesis using "1.IH"(2) by (simp add: scan_Failure)
  qed
qed

lemma scan_rest_bound: "length (snd (scan d)) < CMD_MAX_LENGTH"
proof (induction d rule: scan.induct)
  case (1 d)
  then show ?case
    using classify_not_enough [of d]
    by (subst scan.simps) (auto split: prod.splits simp: Let_def)
qed

lemma scan_msg_bytes:
  assumes "msg_wf m" and "unat (payload_size m) \<le> 78"
  shows "scan (msg_bytes m @ e) = (msg_bytes m # fst (scan e), snd (scan e))"
  using classify_msg_bytes [OF assms, of e] msg_bytes_nth(2) [OF assms, of e]
    length_msg_bytes [OF assms] unat_plus_4 [OF assms(2)]
  by (simp add: scan_Success)

lemma scan_msgs:
  "(\<And>m. m \<in> set ms \<Longrightarrow> msg_wf m \<and> unat (payload_size m) \<le> 78) \<Longrightarrow>
     scan (concat (map msg_bytes ms)) = (map msg_bytes ms, [])"
  by (induction ms) (simp_all add: scan_msg_bytes)

lemma scan_garbage:
  "MSG_SOB \<notin> set g \<Longrightarrow> 4 \<le> length e \<Longrightarrow> scan (g @ e) = scan e"
proof (induction g)
  case (Cons b g)
  have "classify (b # g @ e) = RESULT_Failure" using Cons.prems by (simp add: classify_def)
  then show ?case using Cons by (simp add: scan_Failure)
qed simp

text \<open>Every message found is one the parser accepts.\<close>

lemma scan_frames: "f \<in> set (fst (scan d)) \<Longrightarrow> classify f = RESULT_Success \<and> length f = unat (f ! 1)"
proof (induction d rule: scan.induct)
  case (1 d)
  show ?case
  proof (cases "length d < 4 \<or> classify d = RESULT_NotEnough")
    case True
    then show ?thesis using "1.prems" by (auto simp: scan_NotEnough)
  next
    case False
    show ?thesis
    proof (cases "classify d = RESULT_Success")
      case True
      then have n: "unat (d ! 1) \<le> length d" "1 < unat (d ! 1)" using classify_success [OF True] by auto
      from "1.prems" consider "f = take (unat (d ! 1)) d" | "f \<in> set (fst (scan (drop (unat (d ! 1)) d)))"
        using True by (auto simp: scan_Success)
      then show ?thesis
      proof cases
        case 1
        then show ?thesis using n True by (simp add: classify_take)
      next
        case 2
        then show ?thesis using "1.IH"(1) False True by auto
      qed
    next
      case f: False
      then show ?thesis using False "1.IH"(2) "1.prems" classify_cases [of d] 
        by (auto simp: scan_Failure)
    qed
  qed
qed

subsection \<open>Properties\<close>

text \<open>C11: packing a message into a buffer that is large enough and parsing the result, with any bytes
  behind it, gives back the same id, payload size and payload.\<close>

theorem msg_pack_parse:
  assumes "msg_wf m" and "unat (payload_size m) \<le> 78" and "msg_wf m0"
    and "unat (payload_size m) + 4 \<le> data_size" and "data_size \<le> length data"
  shows "\<exists>out m'. msg_pack m data data_size = Some (RESULT_Success, out)
    \<and> length out = length data
    \<and> drop (unat (payload_size m) + 4) out = drop (unat (payload_size m) + 4) data
    \<and> msg_parse out data_size m0 = Some (RESULT_Success, m')
    \<and> msg_id m' = msg_id m \<and> payload_size m' = payload_size m
    \<and> take (unat (payload_size m)) (payload m') = take (unat (payload_size m)) (payload m)"
proof -
  let ?n = "unat (payload_size m) + 4"
  let ?out = "msg_bytes m @ drop ?n data"
  note l = length_msg_bytes [OF assms(1,2)]
  have "take data_size ?out = msg_bytes m @ take (data_size - ?n) (drop ?n data)"
    using assms(4) by (simp add: l)
  then have "classify (take data_size ?out) = RESULT_Success"
    using classify_msg_bytes [OF assms(1,2)] by simp
  then have "msg_parse ?out data_size m0 = Some (RESULT_Success, frame_msg ?out m0)"
    using assms l by (subst msg_parse_eq) simp_all
  moreover have "msg_pack m data data_size = Some (RESULT_Success, ?out)"
    using assms by (simp add: msg_pack_eq)
  ultimately show ?thesis
    using frame_msg_of_bytes [OF assms(1-3)] l assms by simp
qed

lemma msg_pack_parse_witness:
  "\<exists>out m'. msg_pack \<lparr>msg_id = 7, payload = replicate 78 1, payload_size = 2\<rparr> (replicate 10 0) 10
       = Some (RESULT_Success, out)
    \<and> length out = 10 \<and> drop 6 out = replicate 4 0
    \<and> msg_parse out 10 \<lparr>msg_id = 0, payload = replicate 78 9, payload_size = 0\<rparr>
       = Some (RESULT_Success, m')
    \<and> msg_id m' = 7 \<and> payload_size m' = 2 \<and> take 2 (payload m') = replicate 2 1"
  using msg_pack_parse [of "\<lparr>msg_id = 7, payload = replicate 78 1, payload_size = 2\<rparr>"
      "\<lparr>msg_id = 0, payload = replicate 78 9, payload_size = 0\<rparr>" 10 "replicate 10 0"]
  by (simp add: msg_wf_def)

text \<open>C12: on an input of at least two bytes the parser never reads outside the input nor writes
  outside the message structure; it succeeds exactly on \<open>SOB\<close>, a length from 4 to 82 that the input
  contains, and \<open>EOB\<close> as the last byte of that length; it asks for more bytes exactly when only the
  length is not reached; and a verdict other than that is not changed by what follows the input.\<close>

theorem msg_parse_verdict:
  assumes "2 \<le> length data" and "msg_wf m"
  shows "\<exists>r m'. msg_parse data (length data) m = Some (r, m') \<and> msg_wf m'
    \<and> (r = RESULT_Success \<longleftrightarrow> data ! 0 = MSG_SOB \<and> 4 \<le> unat (data ! 1) \<and> unat (data ! 1) \<le> 82
         \<and> unat (data ! 1) \<le> length data \<and> data ! (unat (data ! 1) - 1) = MSG_EOB)
    \<and> (r = RESULT_NotEnough \<longleftrightarrow> data ! 0 = MSG_SOB \<and> 4 \<le> unat (data ! 1) \<and> unat (data ! 1) \<le> 82
         \<and> length data < unat (data ! 1))
    \<and> (r \<noteq> RESULT_NotEnough \<longrightarrow> (\<forall>more. \<exists>m''. msg_parse (data @ more) (length (data @ more)) m
         = Some (r, m'')))"
proof -
  have "msg_parse (data @ more) (length (data @ more)) m = Some (classify (data @ more),
     if classify (data @ more) = RESULT_Success then frame_msg (data @ more) m else m)" for more
    using assms msg_parse_eq [of "length (data @ more)" "data @ more" m] by simp
  moreover have "msg_parse data (length data) m = Some (classify data,
     if classify data = RESULT_Success then frame_msg data m else m)"
    using assms msg_parse_eq [of "length data" data m] by simp
  moreover have "msg_wf (if classify data = RESULT_Success then frame_msg data m else m)"
    using frame_msg_bytes(2) assms(2) by simp
  ultimately show ?thesis using classify_append [OF assms(1)]
    by (auto simp: classify_def Let_def)
qed

lemma msg_parse_verdict_witness:
  "\<exists>r m'. msg_parse [0xF7, 5, 0x25, 7, 0xFA] (length [0xF7, 5, 0x25, 7, 0xFA :: u8])
     \<lparr>msg_id = 0, payload = replicate 78 9, payload_size = 0\<rparr> = Some (r, m')
     \<and> r = RESULT_Success"
proof -
  let ?d = "[0xF7, 5, 0x25, 7, 0xFA] :: u8 list"
  let ?m = "\<lparr>msg_id = 0, payload = replicate 78 9, payload_size = 0\<rparr>"
  have "2 \<le> length ?d" "msg_wf ?m" by (simp_all add: msg_wf_def)
  from msg_parse_verdict [OF this] obtain r m' where r: "msg_parse ?d (length ?d) ?m = Some (r, m')"
    and "r = RESULT_Success \<longleftrightarrow> ?d ! 0 = MSG_SOB \<and> 4 \<le> unat (?d ! 1) \<and> unat (?d ! 1) \<le> 82
         \<and> unat (?d ! 1) \<le> length ?d \<and> ?d ! (unat (?d ! 1) - 1) = MSG_EOB" by blast
  then have "r = RESULT_Success" by simp
  then show ?thesis using r by blast
qed

text \<open>The precondition is needed: on a single \<open>SOB\<close> byte the parser reads the byte behind it.\<close>

lemma msg_parse_one_byte: "msg_parse [MSG_SOB] 1 m = None"
  by (simp add: msg_parse_def load1_def)

end
