(* ===== verification/Ct2a_Msg.thy ===== *)
theory Ct2a_Msg
  imports Msg
begin

text \<open>
  The messages of the AP-CT2A: \<open>module/ap_ct2a/ap_ct2a_msg.c\<close> and the structures of
  \<open>ap_ct2a_cmd_def.h\<close>. A packer stores into the payload area \<open>data\<close> of the request and
  returns it; a parser returns the structure it fills (after a failure, the fields already set).

  The lemmas: the two bitrate conversions are inverse to each other and accept exactly the
  supported bitrates; a mode and a trigger survive packing and parsing, up to the trigger
  polarity, which the two directions encode differently.
\<close>

unbundle bit_operations_syntax

abbreviation (input) CMD_SendCANFrame :: u8 where "CMD_SendCANFrame \<equiv> 0x0F"
abbreviation (input) CMD_SetMode :: u8 where "CMD_SetMode \<equiv> 0x0A"
abbreviation (input) CMD_GetStatus :: u8 where "CMD_GetStatus \<equiv> 0x05"
abbreviation (input) CMD_ResetCANSummary :: u8 where "CMD_ResetCANSummary \<equiv> 0x04"
abbreviation (input) CMD_StartStopCAN :: u8 where "CMD_StartStopCAN \<equiv> 0x06"
abbreviation (input) CMD_SetTrigger :: u8 where "CMD_SetTrigger \<equiv> 0x0B"
abbreviation (input) CMD_NotifyRecvCANFrame :: u8 where "CMD_NotifyRecvCANFrame \<equiv> 0x2F"
abbreviation (input) CMD_NotifyCANSummary :: u8 where "CMD_NotifyCANSummary \<equiv> 0x2B"
abbreviation (input) CMD_ResponseGetStatus :: u8 where "CMD_ResponseGetStatus \<equiv> 0x27"

abbreviation (input) TRIGGER_LOGIC_Positive :: int where "TRIGGER_LOGIC_Positive \<equiv> 0"
abbreviation (input) TRIGGER_LOGIC_Negative :: int where "TRIGGER_LOGIC_Negative \<equiv> 1"

record trigger =
  tr_enable :: bool
  tr_logic :: int
  tr_id :: int

record msg_set_trigger =
  tr_input :: trigger
  tr_output :: trigger
  pulse_width :: int
  pulse_interval :: int

text \<open>\<open>enum APT_USBTRX_BITRATE_MODE\<close>\<close>

abbreviation (input) BITRATE_MODE_Unknown :: int where "BITRATE_MODE_Unknown \<equiv> -1"
abbreviation (input) BITRATE_MODE_None :: int where "BITRATE_MODE_None \<equiv> 0x00"
abbreviation (input) BITRATE_MODE_33K :: int where "BITRATE_MODE_33K \<equiv> 0x10"
abbreviation (input) BITRATE_MODE_50K :: int where "BITRATE_MODE_50K \<equiv> 0x11"
abbreviation (input) BITRATE_MODE_83K :: int where "BITRATE_MODE_83K \<equiv> 0x12"
abbreviation (input) BITRATE_MODE_100K :: int where "BITRATE_MODE_100K \<equiv> 0x13"
abbreviation (input) BITRATE_MODE_125K :: int where "BITRATE_MODE_125K \<equiv> 0x14"
abbreviation (input) BITRATE_MODE_250K :: int where "BITRATE_MODE_250K \<equiv> 0x15"
abbreviation (input) BITRATE_MODE_500K :: int where "BITRATE_MODE_500K \<equiv> 0x16"
abbreviation (input) BITRATE_MODE_1M :: int where "BITRATE_MODE_1M \<equiv> 0x17"

record msg_set_mode =
  silent :: bool
  start :: bool
  baudrate :: int

record msg_resp_get_status =
  st_mode :: msg_set_mode
  enable_trigger :: bool
  st_trigger :: msg_set_trigger

record can_frame =
  can_id :: u32
  can_dlc :: u8
  can_data :: "u8 list"

subsection \<open>Packing and parsing\<close>

text \<open>The byte holding the upper bits of a trigger's id and its two flags.\<close>

definition trigger_upper :: "trigger \<Rightarrow> u8" where
  "trigger_upper t = (word_of_int (drop_bit 8 (tr_id t)) AND 0x07)
     OR (if tr_enable t then 0x80 else 0) OR (if tr_logic t = 0 then 0x40 else 0)"

definition msg_pack_set_trigger :: "msg_set_trigger \<Rightarrow> u8 list \<Rightarrow> (RESULT \<times> u8 list) option" where
  "msg_pack_set_trigger param data =
     do {
       data \<leftarrow> store data 0
         [word_of_int (tr_id (tr_input param)), trigger_upper (tr_input param),
          word_of_int (tr_id (tr_output param)), trigger_upper (tr_output param),
          word_of_int (pulse_width param), word_of_int (drop_bit 8 (pulse_width param)),
          word_of_int (pulse_interval param), word_of_int (drop_bit 8 (pulse_interval param))];
       Some (RESULT_Success, data)
     }"

definition convert_baudrate_mode :: "int \<Rightarrow> int" where
  "convert_baudrate_mode rate =
     (if rate = 33 then BITRATE_MODE_33K else if rate = 50 then BITRATE_MODE_50K
      else if rate = 83 then BITRATE_MODE_83K else if rate = 100 then BITRATE_MODE_100K
      else if rate = 125 then BITRATE_MODE_125K else if rate = 250 then BITRATE_MODE_250K
      else if rate = 500 then BITRATE_MODE_500K else if rate = 1000 then BITRATE_MODE_1M
      else BITRATE_MODE_Unknown)"

definition convert_baudrate_value :: "int \<Rightarrow> int" where
  "convert_baudrate_value mode =
     (if mode = BITRATE_MODE_None then 0
      else if mode = BITRATE_MODE_33K then 33 else if mode = BITRATE_MODE_50K then 50
      else if mode = BITRATE_MODE_83K then 83 else if mode = BITRATE_MODE_100K then 100
      else if mode = BITRATE_MODE_125K then 125 else if mode = BITRATE_MODE_250K then 250
      else if mode = BITRATE_MODE_500K then 500 else if mode = BITRATE_MODE_1M then 1000
      else -1)"

definition msg_pack_set_mode :: "msg_set_mode \<Rightarrow> u8 list \<Rightarrow> (RESULT \<times> u8 list) option" where
  "msg_pack_set_mode param data =
     (let baudrate_mode = convert_baudrate_mode (baudrate param) in
      if baudrate_mode = BITRATE_MODE_Unknown then Some (RESULT_Failure, data)
      else do {
        data \<leftarrow> store1 data 0
          (push_bit 6 (if silent param = False then 1 else 0)
           OR push_bit 5 (if start param then 1 else 0) OR word_of_int baudrate_mode);
        Some (RESULT_Success, data)
      })"

definition msg_pack_start_stop_can :: "bool \<Rightarrow> u8 list \<Rightarrow> (RESULT \<times> u8 list) option" where
  "msg_pack_start_stop_can st data = do {
     data \<leftarrow> store1 data 0 (if st then 1 else 0);
     Some (RESULT_Success, data)
   }"

definition parse_trigger :: "u8 \<Rightarrow> u8 \<Rightarrow> trigger" where
  "parse_trigger lower b =
     \<lparr>tr_enable = (drop_bit 7 b AND 1 = 1),
      tr_logic = (if drop_bit 6 b AND 1 = 1 then TRIGGER_LOGIC_Negative else TRIGGER_LOGIC_Positive),
      tr_id = le_value [lower, b AND 0x07]\<rparr>"

definition msg_parse_response_get_status ::
  "u8 list \<Rightarrow> msg_resp_get_status \<Rightarrow> (RESULT \<times> msg_resp_get_status) option" where
  "msg_parse_response_get_status data status = do {
     b \<leftarrow> load1 data 0;
     let status = status\<lparr>enable_trigger := (drop_bit 7 b AND 1 = 1),
           st_mode := (st_mode status)\<lparr>silent := \<not> (drop_bit 6 b AND 1 = 1),
             start := (drop_bit 5 b AND 1 = 1)\<rparr>\<rparr>;
     let baudrate_mode = uint (b AND 0x1f);
     let rate = convert_baudrate_value baudrate_mode;
     if rate = -1 then Some (RESULT_Failure, status)
     else do {
       bs \<leftarrow> load data 1 8;
       Some (RESULT_Success,
         status\<lparr>st_mode := (st_mode status)\<lparr>baudrate := rate\<rparr>,
           st_trigger := \<lparr>tr_input = parse_trigger (bs ! 0) (bs ! 1),
             tr_output = parse_trigger (bs ! 2) (bs ! 3),
             pulse_width = le_value [bs ! 4, bs ! 5],
             pulse_interval = le_value [bs ! 6, bs ! 7]\<rparr>\<rparr>)
     }
   }"

definition msg_parse_notify_recv_can_summary ::
  "u8 list \<Rightarrow> (RESULT \<times> u32 \<times> can_frame) option" where
  "msg_parse_notify_recv_can_summary data = do {
     cnt \<leftarrow> load data 0 4;
     cid \<leftarrow> load data 4 4;
     dlc \<leftarrow> load1 data 8;
     bs \<leftarrow> load data 9 8;
     Some (RESULT_Success, word_of_int (le_value cnt),
       \<lparr>can_id = word_of_int (le_value cid), can_dlc = dlc AND 0x0f, can_data = bs\<rparr>)
   }"

subsection \<open>Lemmas\<close>

lemma convert_baudrate_range:
  "convert_baudrate_mode rate \<noteq> -1 \<Longrightarrow>
     convert_baudrate_value (convert_baudrate_mode rate) = rate
     \<and> convert_baudrate_mode rate \<in> {0x10..0x17}"
  by (auto simp: convert_baudrate_mode_def convert_baudrate_value_def split: if_splits)

lemma uint_and_7: "uint (b AND 7 :: u8) = uint b mod 8"
proof -
  have "b AND 7 = take_bit 3 b" by (simp add: take_bit_eq_mask mask_eq_exp_minus_1)
  then show ?thesis by (simp add: take_bit_eq_mod uint_mod)
qed

lemma parse_pack_trigger:
  "parse_trigger (word_of_int (tr_id t)) (trigger_upper t) =
     \<lparr>tr_enable = tr_enable t, tr_logic = (if tr_logic t = 0 then 1 else 0),
      tr_id = tr_id t mod 2048\<rparr>"
proof -
  let ?u = "word_of_int (drop_bit 8 (tr_id t)) AND 7 :: u8"
  define b where "b = trigger_upper t"
  have b_eq: "b = ?u OR (if tr_enable t then 0x80 else 0) OR (if tr_logic t = 0 then 0x40 else 0)"
    by (simp add: b_def trigger_upper_def)
  have b7: "b AND 7 = ?u" by (simp add: b_eq bit.conj_disj_distrib2 and.assoc)
  have *: "drop_bit 7 ?u = 0" "drop_bit 6 ?u = 0"
    by (simp_all add: drop_bit_and)
  have "drop_bit 7 b AND 1 = (if tr_enable t then 1 else 0)"
    by (simp add: b_eq drop_bit_or * bit.conj_disj_distrib2)
  moreover have "drop_bit 6 b AND 1 = (if tr_logic t = 0 then 1 else 0)"
    by (simp add: b_eq drop_bit_or * bit.conj_disj_distrib2)
  moreover have "tr_id t mod 256 + 256 * (tr_id t div 256 mod 8) = tr_id t mod 2048"
    using zmod_zmult2_eq [of 8 "tr_id t" 256] by simp
  ultimately show ?thesis
    by (simp add: parse_trigger_def b_def [symmetric] b7 uint_and_7 uint_word_of_int drop_bit_eq_div mod_mod_cancel)
qed

lemma mode_byte:
  fixes s r :: bool
  assumes "m \<in> {0x10..0x17 :: int}"
  defines "b \<equiv> push_bit 6 (if s then 0 else 1) OR push_bit 5 (if r then 1 else 0) OR word_of_int m :: u8"
  shows "drop_bit 7 b AND 1 = 0" "drop_bit 6 b AND 1 = (if s then 0 else 1)"
    "drop_bit 5 b AND 1 = (if r then 1 else 0)" "uint (b AND 0x1f) = m"
proof -
  have "m = 0x10 \<or> m = 0x11 \<or> m = 0x12 \<or> m = 0x13 \<or> m = 0x14 \<or> m = 0x15 \<or> m = 0x16 \<or> m = 0x17"
    using assms(1) by auto
  then show "drop_bit 7 b AND 1 = 0" "drop_bit 6 b AND 1 = (if s then 0 else 1)"
    "drop_bit 5 b AND 1 = (if r then 1 else 0)" "uint (b AND 0x1f) = m"
    unfolding b_def by (elim disjE; cases s; cases r; simp)+
qed

lemma pack_mode_bytes:
  "convert_baudrate_mode (baudrate p) \<noteq> -1 \<Longrightarrow> data \<noteq> [] \<Longrightarrow>
   msg_pack_set_mode p data = Some (RESULT_Success,
     (push_bit 6 (if silent p then 0 else 1) OR push_bit 5 (if start p then 1 else 0)
        OR word_of_int (convert_baudrate_mode (baudrate p))) # tl data)"
  by (cases data) (auto simp: msg_pack_set_mode_def store1_def)

lemma le_value_pair:
  "le_value [word_of_int x, word_of_int (drop_bit 8 x)] = x mod 65536"
  using le_value_le_bytes [of 2 x] by (simp add: numeral_2_eq_2 del: le_value.simps)

lemma pack_trigger_bytes:
  assumes "8 \<le> length data"
  shows "\<exists>bs. msg_pack_set_trigger p data = Some (RESULT_Success, bs @ drop 8 data) \<and> length bs = 8
     \<and> parse_trigger (bs ! 0) (bs ! 1)
         = \<lparr>tr_enable = tr_enable (tr_input p), tr_logic = (if tr_logic (tr_input p) = 0 then 1 else 0),
            tr_id = tr_id (tr_input p) mod 2048\<rparr>
     \<and> parse_trigger (bs ! 2) (bs ! 3)
         = \<lparr>tr_enable = tr_enable (tr_output p), tr_logic = (if tr_logic (tr_output p) = 0 then 1 else 0),
            tr_id = tr_id (tr_output p) mod 2048\<rparr>
     \<and> le_value [bs ! 4, bs ! 5] = pulse_width p mod 65536
     \<and> le_value [bs ! 6, bs ! 7] = pulse_interval p mod 65536"
proof (intro exI conjI)
  let ?bs = "[word_of_int (tr_id (tr_input p)), trigger_upper (tr_input p),
          word_of_int (tr_id (tr_output p)), trigger_upper (tr_output p),
          word_of_int (pulse_width p), word_of_int (drop_bit 8 (pulse_width p)),
          word_of_int (pulse_interval p), word_of_int (drop_bit 8 (pulse_interval p))] :: u8 list"
  have "store data 0 ?bs = Some (?bs @ drop 8 data)"
    using assms by (subst store_eq) (simp_all add: numeral_eq_Suc)
  then show "msg_pack_set_trigger p data = Some (RESULT_Success, ?bs @ drop 8 data)"
    by (simp add: msg_pack_set_trigger_def)
qed (simp_all add: parse_pack_trigger le_value_pair del: le_value.simps)

subsection \<open>Properties\<close>

text \<open>A mode packed into a SetMode request is rejected exactly when the bitrate is none of the
  eight supported ones; otherwise the status parser reads the packed byte, at the head of any
  status response, back as the same silent flag, start flag and bitrate, with the trigger off.\<close>

theorem set_mode_roundtrip:
  assumes "data \<noteq> []"
  shows "\<exists>r out. msg_pack_set_mode p data = Some (r, out)
    \<and> (r = RESULT_Failure \<longleftrightarrow> baudrate p \<notin> {33, 50, 83, 100, 125, 250, 500, 1000})
    \<and> (r = RESULT_Failure \<longrightarrow> out = data)
    \<and> (r \<noteq> RESULT_Failure \<longrightarrow> r = RESULT_Success \<and> tl out = tl data
       \<and> (\<forall>rest st. 8 \<le> length rest \<longrightarrow>
            (\<exists>st'. msg_parse_response_get_status (hd out # rest) st = Some (RESULT_Success, st')
               \<and> silent (st_mode st') = silent p \<and> start (st_mode st') = start p
               \<and> baudrate (st_mode st') = baudrate p \<and> \<not> enable_trigger st')))"
proof (cases "convert_baudrate_mode (baudrate p) = -1")
  case True
  then show ?thesis
    by (auto simp: msg_pack_set_mode_def convert_baudrate_mode_def split: if_splits)
next
  case False
  note c = convert_baudrate_range [OF False]
  note m = mode_byte [OF conjunct2 [OF c], of "silent p" "start p"]
  have "baudrate p \<in> {33, 50, 83, 100, 125, 250, 500, 1000}" "baudrate p \<noteq> -1"
    using False by (auto simp: convert_baudrate_mode_def split: if_splits)
  then show ?thesis using pack_mode_bytes [OF False assms] m c
    by (auto simp: msg_parse_response_get_status_def load1_def load_def Let_def)
qed

lemma set_mode_roundtrip_witness:
  "\<exists>out. msg_pack_set_mode \<lparr>silent = True, start = False, baudrate = 500\<rparr> (replicate 78 0)
     = Some (RESULT_Success, out) \<and> tl out = replicate 77 0"
proof -
  have "replicate 78 0 \<noteq> ([] :: u8 list)" by simp
  from set_mode_roundtrip [OF this, of "\<lparr>silent = True, start = False, baudrate = 500\<rparr>"]
  show ?thesis by (auto simp: numeral_eq_Suc)
qed

text \<open>A trigger configuration packed into a SetTrigger request and read back by the status parser
  from the same bytes keeps the enable flags, the 11-bit identifiers and the 16-bit pulse width and
  interval, but comes back with the opposite polarity: the packer sets bit 6 for positive logic, the
  parser takes bit 6 as negative logic.\<close>

theorem trigger_roundtrip:
  assumes "8 \<le> length data" and "convert_baudrate_value (uint (b AND 0x1f)) \<noteq> -1"
    and "tr_logic (tr_input p) \<in> {0, 1}" and "tr_logic (tr_output p) \<in> {0, 1}"
    and "tr_id (tr_input p) \<in> {0..<2048}" and "tr_id (tr_output p) \<in> {0..<2048}"
    and "pulse_width p \<in> {0..<65536}" and "pulse_interval p \<in> {0..<65536}"
  shows "\<exists>out st'. msg_pack_set_trigger p data = Some (RESULT_Success, out)
    \<and> msg_parse_response_get_status (b # out) st = Some (RESULT_Success, st')
    \<and> st_trigger st' = p\<lparr>tr_input := (tr_input p)\<lparr>tr_logic := 1 - tr_logic (tr_input p)\<rparr>,
                        tr_output := (tr_output p)\<lparr>tr_logic := 1 - tr_logic (tr_output p)\<rparr>\<rparr>"
proof -
  from pack_trigger_bytes [OF assms(1), of p] obtain bs where
    bs: "msg_pack_set_trigger p data = Some (RESULT_Success, bs @ drop 8 data)" "length bs = 8"
      "parse_trigger (bs ! 0) (bs ! 1) = \<lparr>tr_enable = tr_enable (tr_input p),
         tr_logic = (if tr_logic (tr_input p) = 0 then 1 else 0), tr_id = tr_id (tr_input p) mod 2048\<rparr>"
      "parse_trigger (bs ! 2) (bs ! 3) = \<lparr>tr_enable = tr_enable (tr_output p),
         tr_logic = (if tr_logic (tr_output p) = 0 then 1 else 0), tr_id = tr_id (tr_output p) mod 2048\<rparr>"
      "le_value [bs ! 4, bs ! 5] = pulse_width p mod 65536"
      "le_value [bs ! 6, bs ! 7] = pulse_interval p mod 65536" by blast
  have "load (b # bs @ drop 8 data) 1 8 = Some bs" using bs(2) by (simp add: load_def)
  moreover have "load1 (b # bs @ drop 8 data) 0 = Some b" by (simp add: load1_def)
  moreover have "\<lparr>tr_enable = tr_enable t, tr_logic = (if tr_logic t = 0 then 1 else 0),
      tr_id = tr_id t mod 2048\<rparr> = t\<lparr>tr_logic := 1 - tr_logic t\<rparr>"
    if "tr_logic t \<in> {0, 1}" "tr_id t \<in> {0..<2048}" for t :: trigger
    using that by (cases t) auto
  note this [OF assms(3,5)] this [OF assms(4,6)]
  moreover have "\<lparr>tr_input = i, tr_output = o', pulse_width = pulse_width p,
      pulse_interval = pulse_interval p\<rparr> = p\<lparr>tr_input := i, tr_output := o'\<rparr>" for i o' by simp
  ultimately show ?thesis using assms(2,7,8) bs
    by (simp add: msg_parse_response_get_status_def Let_def del: le_value.simps One_nat_def)
qed

lemma trigger_roundtrip_witness:
  "\<forall>st. \<exists>out st'. msg_pack_set_trigger
       \<lparr>tr_input = \<lparr>tr_enable = True, tr_logic = 0, tr_id = 0x123\<rparr>,
        tr_output = \<lparr>tr_enable = False, tr_logic = 1, tr_id = 0x7FF\<rparr>,
        pulse_width = 1000, pulse_interval = 5000\<rparr> (replicate 78 0) = Some (RESULT_Success, out)
    \<and> msg_parse_response_get_status (0x16 # out) st = Some (RESULT_Success, st')
    \<and> tr_logic (tr_input (st_trigger st')) = 1"
proof
  fix st
  from trigger_roundtrip [of "replicate 78 0" "0x16"
      "\<lparr>tr_input = \<lparr>tr_enable = True, tr_logic = 0, tr_id = 0x123\<rparr>,
        tr_output = \<lparr>tr_enable = False, tr_logic = 1, tr_id = 0x7FF\<rparr>,
        pulse_width = 1000, pulse_interval = 5000\<rparr>" st]
  show "\<exists>out st'. msg_pack_set_trigger
       \<lparr>tr_input = \<lparr>tr_enable = True, tr_logic = 0, tr_id = 0x123\<rparr>,
        tr_output = \<lparr>tr_enable = False, tr_logic = 1, tr_id = 0x7FF\<rparr>,
        pulse_width = 1000, pulse_interval = 5000\<rparr> (replicate 78 0) = Some (RESULT_Success, out)
    \<and> msg_parse_response_get_status (0x16 # out) st = Some (RESULT_Success, st')
    \<and> tr_logic (tr_input (st_trigger st')) = 1"
    by (auto simp: convert_baudrate_value_def)
qed

end
