(* ===== verification/Ch02a_Msg.thy ===== *)
theory Ch02a_Msg
  imports Ct2a_Msg
begin

text \<open>
  The messages of the EP1-CH02A: \<open>module/ep1_ch02a/ep1_ch02a_msg.c\<close> and the structures of
  \<open>ep1_ch02a_cmd_def.h\<close>, which inherits the AP-CT2A's commands. The main lemma is the round trip
  of a bit timing.
\<close>

unbundle bit_operations_syntax

abbreviation (input) CH02A_CMD_SetBitTiming :: u8 where "CH02A_CMD_SetBitTiming \<equiv> 0x0B"
abbreviation (input) CH02A_CMD_GetBitTiming :: u8 where "CH02A_CMD_GetBitTiming \<equiv> 0x0E"
abbreviation (input) CH02A_CMD_ResponseGetBitTiming :: u8 where
  "CH02A_CMD_ResponseGetBitTiming \<equiv> 0x2E"

record ch02a_msg_resp_get_status =
  ch_mode :: msg_set_mode
  enable_sync :: bool

record ch02a_msg_set_bit_timing =
  ch_prop_seg :: int
  ch_phase_seg1 :: int
  ch_phase_seg2 :: int
  ch_sjw :: int
  ch_brp :: int

record ch02a_msg_resp_get_bit_timing =
  ch_can_clock :: int
  ch_params :: ch02a_msg_set_bit_timing

text \<open>The file has its own copy of the conversion.\<close>

definition ch02a_convert_baudrate_value :: "int \<Rightarrow> int" where
  "ch02a_convert_baudrate_value mode =
     (if mode = BITRATE_MODE_None then 0
      else if mode = BITRATE_MODE_33K then 33 else if mode = BITRATE_MODE_50K then 50
      else if mode = BITRATE_MODE_83K then 83 else if mode = BITRATE_MODE_100K then 100
      else if mode = BITRATE_MODE_125K then 125 else if mode = BITRATE_MODE_250K then 250
      else if mode = BITRATE_MODE_500K then 500 else if mode = BITRATE_MODE_1M then 1000
      else -1)"

definition ch02a_msg_parse_response_get_status ::
  "u8 list \<Rightarrow> ch02a_msg_resp_get_status \<Rightarrow> (RESULT \<times> ch02a_msg_resp_get_status) option" where
  "ch02a_msg_parse_response_get_status data status = do {
     b \<leftarrow> load1 data 0;
     let status = status\<lparr>enable_sync := (drop_bit 7 b AND 1 = 1),
           ch_mode := (ch_mode status)\<lparr>silent := \<not> (drop_bit 6 b AND 1 = 1),
             start := (drop_bit 5 b AND 1 = 1)\<rparr>\<rparr>;
     let rate = ch02a_convert_baudrate_value (uint (b AND 0x1f));
     if rate = -1 then Some (RESULT_Failure, status)
     else Some (RESULT_Success, status\<lparr>ch_mode := (ch_mode status)\<lparr>baudrate := rate\<rparr>\<rparr>)
   }"

definition ch02a_msg_pack_set_bit_timing ::
  "ch02a_msg_set_bit_timing \<Rightarrow> u8 list \<Rightarrow> (RESULT \<times> u8 list) option" where
  "ch02a_msg_pack_set_bit_timing param data = do {
     data \<leftarrow> store data 0
       [word_of_int (ch_prop_seg param), word_of_int (ch_phase_seg1 param),
        word_of_int (ch_phase_seg2 param), word_of_int (ch_sjw param),
        word_of_int (ch_brp param), word_of_int (drop_bit 8 (ch_brp param))];
     Some (RESULT_Success, data)
   }"

definition ch02a_msg_parse_response_get_bit_timing ::
  "u8 list \<Rightarrow> (RESULT \<times> ch02a_msg_resp_get_bit_timing) option" where
  "ch02a_msg_parse_response_get_bit_timing data = do {
     clk \<leftarrow> load data 0 4;
     bs \<leftarrow> load data 4 6;
     Some (RESULT_Success, \<lparr>ch_can_clock = i32_of (le_value clk),
       ch_params = \<lparr>ch_prop_seg = uint (bs ! 0), ch_phase_seg1 = uint (bs ! 1),
         ch_phase_seg2 = uint (bs ! 2), ch_sjw = uint (bs ! 3), ch_brp = le_value [bs ! 4, bs ! 5]\<rparr>\<rparr>)
   }"

lemma ch02a_convert_eq: "ch02a_convert_baudrate_value = convert_baudrate_value"
  by (rule ext) (simp add: ch02a_convert_baudrate_value_def convert_baudrate_value_def)

subsection \<open>Property\<close>

text \<open>A bit timing whose four segment fields fit a byte and whose prescaler fits 16 bits comes back
  unchanged when the bytes packed into a SetBitTiming request are read, behind any CAN clock, as a
  GetBitTiming response.\<close>

theorem ch02a_bit_timing_roundtrip:
  assumes "6 \<le> length data" and "length clk = 4"
    and "ch_prop_seg p \<in> {0..<256}" and "ch_phase_seg1 p \<in> {0..<256}"
    and "ch_phase_seg2 p \<in> {0..<256}" and "ch_sjw p \<in> {0..<256}" and "ch_brp p \<in> {0..<65536}"
  shows "\<exists>out. ch02a_msg_pack_set_bit_timing p data = Some (RESULT_Success, out)
    \<and> length out = length data
    \<and> ch02a_msg_parse_response_get_bit_timing (clk @ out)
        = Some (RESULT_Success, \<lparr>ch_can_clock = i32_of (le_value clk), ch_params = p\<rparr>)"
proof -
  let ?bs = "[word_of_int (ch_prop_seg p), word_of_int (ch_phase_seg1 p),
        word_of_int (ch_phase_seg2 p), word_of_int (ch_sjw p),
        word_of_int (ch_brp p), word_of_int (drop_bit 8 (ch_brp p))] :: u8 list"
  have store: "store data 0 ?bs = Some (?bs @ drop 6 data)"
    using assms(1) by (subst store_eq) (simp_all add: numeral_eq_Suc)
  have "load (clk @ ?bs @ drop 6 data) 0 4 = Some clk"
    "load (clk @ ?bs @ drop 6 data) 4 6 = Some ?bs"
    using assms(2) by (simp_all add: load_def)
  then have "ch02a_msg_parse_response_get_bit_timing (clk @ ?bs @ drop 6 data)
      = Some (RESULT_Success, \<lparr>ch_can_clock = i32_of (le_value clk), ch_params = p\<rparr>)"
    using assms(3-)
    by (simp add: ch02a_msg_parse_response_get_bit_timing_def uint_word_of_int le_value_pair
        del: le_value.simps)
  moreover have "length (?bs @ drop 6 data) = length data" using assms(1) by simp
  ultimately show ?thesis
    unfolding ch02a_msg_pack_set_bit_timing_def store by simp
qed

lemma ch02a_bit_timing_roundtrip_witness:
  "\<exists>out. ch02a_msg_pack_set_bit_timing \<lparr>ch_prop_seg = 5, ch_phase_seg1 = 6, ch_phase_seg2 = 4,
       ch_sjw = 1, ch_brp = 300\<rparr> (replicate 78 0) = Some (RESULT_Success, out) \<and> length out = 78
    \<and> ch02a_msg_parse_response_get_bit_timing ([0, 0x5A, 0x62, 2] @ out)
        = Some (RESULT_Success, \<lparr>ch_can_clock = i32_of (le_value [0, 0x5A, 0x62, 2]),
            ch_params = \<lparr>ch_prop_seg = 5, ch_phase_seg1 = 6, ch_phase_seg2 = 4,
              ch_sjw = 1, ch_brp = 300\<rparr>\<rparr>)"
  using ch02a_bit_timing_roundtrip [of "replicate 78 0" "[0, 0x5A, 0x62, 2]"
      "\<lparr>ch_prop_seg = 5, ch_phase_seg1 = 6, ch_phase_seg2 = 4, ch_sjw = 1, ch_brp = 300\<rparr>"]
  by (simp del: le_value.simps)

end
