(* ===== verification/Ag08a_Msg.thy ===== *)
theory Ag08a_Msg
  imports Msg "HOL-Library.Signed_Division"
begin

text \<open>
  The messages of the EP1-AG08A: \<open>module/ep1_ag08a/ep1_ag08a_msg.c\<close>, \<open>ep1_ag08a_msg.h\<close> and
  the structures of \<open>ep1_ag08a_cmd_def.h\<close>. A pointer that the code tests for \<open>NULL\<close> is an
  \<open>option\<close>. The output parameters of \<open>convert_input_voltage_from_value\<close> are returned, \<open>None\<close>
  is its failure.

  The lemmas: each conversion between a device code and its physical value is the inverse of the
  other on the supported values and rejects everything else; the input and output settings survive
  packing into a request and parsing from a status response.
\<close>

unbundle bit_operations_syntax

abbreviation (input) AG08A_CMD_GetStatus :: u8 where "AG08A_CMD_GetStatus \<equiv> 0x15"
abbreviation (input) AG08A_CMD_SetAnalogInput :: u8 where "AG08A_CMD_SetAnalogInput \<equiv> 0x1F"
abbreviation (input) AG08A_CMD_ControlAnalogInput :: u8 where "AG08A_CMD_ControlAnalogInput \<equiv> 0x16"
abbreviation (input) AG08A_CMD_SetAnalogOutput :: u8 where "AG08A_CMD_SetAnalogOutput \<equiv> 0x1A"
abbreviation (input) AG08A_CMD_ControlAnalogOutput :: u8 where "AG08A_CMD_ControlAnalogOutput \<equiv> 0x17"
abbreviation (input) AG08A_CMD_NotifyAnalogInput :: u8 where "AG08A_CMD_NotifyAnalogInput \<equiv> 0x3F"
abbreviation (input) AG08A_CMD_ResponseGetStatus :: u8 where "AG08A_CMD_ResponseGetStatus \<equiv> 0x35"
abbreviation (input) AG08A_CH_NUM :: nat where "AG08A_CH_NUM \<equiv> 8"
abbreviation (input) OUTPUT_CONVERT_SCALE_VOLTAGE :: int where "OUTPUT_CONVERT_SCALE_VOLTAGE \<equiv> 20"
abbreviation (input) OUTPUT_CONVERT_SCALE_FREQUENCY :: int where
  "OUTPUT_CONVERT_SCALE_FREQUENCY \<equiv> 1000"

subsection \<open>Structures\<close>

record ag08a_set_analog_input =
  send_rate :: int
  vmin :: "int list"
  vmax :: "int list"

record ag08a_set_analog_output =
  waveform_type :: int
  voltage :: int
  frequency :: int

record ag08a_resp_get_status =
  in_cfg :: ag08a_set_analog_input
  in_ctrl :: "bool list"
  out_cfg :: ag08a_set_analog_output
  out_ctrl :: bool

subsection \<open>Conversions\<close>

definition ag08a_convert_output_voltage_from_value :: "int \<Rightarrow> int" where
  "ag08a_convert_output_voltage_from_value x = x * OUTPUT_CONVERT_SCALE_VOLTAGE"

definition ag08a_convert_output_voltage_to_value :: "int \<Rightarrow> int" where
  "ag08a_convert_output_voltage_to_value v = v sdiv OUTPUT_CONVERT_SCALE_VOLTAGE"

definition ag08a_convert_output_frequency_from_value :: "int \<Rightarrow> int" where
  "ag08a_convert_output_frequency_from_value x = x * OUTPUT_CONVERT_SCALE_FREQUENCY"

definition ag08a_convert_output_frequency_to_value :: "int \<Rightarrow> int" where
  "ag08a_convert_output_frequency_to_value f = f sdiv OUTPUT_CONVERT_SCALE_FREQUENCY"

definition ag08a_convert_send_rate_to_value :: "int \<Rightarrow> int" where
  "ag08a_convert_send_rate_to_value r =
     (if r = 10000000 then 0x01 else if r = 5000000 then 0x02 else if r = 2500000 then 0x03
      else if r = 1250000 then 0x04 else if r = 625000 then 0x05 else if r = 312500 then 0x06
      else if r = 156250 then 0x07 else if r = 10000 then 0x11 else if r = 1000 then 0x12
      else if r = 100 then 0x13 else if r = 10 then 0x14 else -1)"

definition ag08a_convert_send_rate_from_value :: "int \<Rightarrow> int" where
  "ag08a_convert_send_rate_from_value x =
     (if x = 0x01 then 10000000 else if x = 0x02 then 5000000 else if x = 0x03 then 2500000
      else if x = 0x04 then 1250000 else if x = 0x05 then 625000 else if x = 0x06 then 312500
      else if x = 0x07 then 156250 else if x = 0x11 then 10000 else if x = 0x12 then 1000
      else if x = 0x13 then 100 else if x = 0x14 then 10 else -1)"

definition ag08a_convert_input_voltage_to_nano_scale :: "int \<Rightarrow> int" where
  "ag08a_convert_input_voltage_to_nano_scale v =
     (if v = 0 then 305185 else if v = 1 then 152593 else if v = 2 then 76296
      else if v = 3 then 38148 else if v = 4 then 24415 else if v = 5 then 12207
      else if v = 6 then 6104 else if v = 7 then 3052 else if v = 9 then 76296 else -1)"

definition ag08a_convert_input_voltage_to_value :: "int \<Rightarrow> int \<Rightarrow> int" where
  "ag08a_convert_input_voltage_to_value lo hi =
     (if lo = -10000 \<and> hi = 10000 then 0 else if lo = -5000 \<and> hi = 5000 then 1
      else if lo = -2500 \<and> hi = 2500 then 2 else if lo = -1250 \<and> hi = 1250 then 3
      else if lo = -800 \<and> hi = 800 then 4 else if lo = -400 \<and> hi = 400 then 5
      else if lo = -200 \<and> hi = 200 then 6 else if lo = -100 \<and> hi = 100 then 7
      else if lo = 0 \<and> hi = 5000 then 9 else -1)"

definition ag08a_convert_input_voltage_from_value :: "int \<Rightarrow> (int \<times> int) option" where
  "ag08a_convert_input_voltage_from_value v =
     (if v = 0 then Some (-10000, 10000) else if v = 1 then Some (-5000, 5000)
      else if v = 2 then Some (-2500, 2500) else if v = 3 then Some (-1250, 1250)
      else if v = 4 then Some (-800, 800) else if v = 5 then Some (-400, 400)
      else if v = 6 then Some (-200, 200) else if v = 7 then Some (-100, 100)
      else if v = 9 then Some (0, 5000) else None)"

subsection \<open>Parsing the status\<close>

fun ag08a_parse_ranges :: "u8 list \<Rightarrow> nat list \<Rightarrow> ag08a_set_analog_input \<Rightarrow>
    (RESULT \<times> ag08a_set_analog_input) option" where
  "ag08a_parse_ranges data [] cfg = Some (RESULT_Success, cfg)"
| "ag08a_parse_ranges data (ch # chs) cfg = do {
     v \<leftarrow> load1 data (1 + ch);
     case ag08a_convert_input_voltage_from_value (uint v) of
       None \<Rightarrow> Some (RESULT_Failure, cfg)
     | Some (lo, hi) \<Rightarrow> do {
         lows \<leftarrow> store1 (vmin cfg) ch lo;
         highs \<leftarrow> store1 (vmax cfg) ch hi;
         ag08a_parse_ranges data chs (cfg\<lparr>vmin := lows, vmax := highs\<rparr>)
       }
   }"

definition ag08a_msg_parse_response_get_status ::
  "u8 list option \<Rightarrow> nat \<Rightarrow> ag08a_resp_get_status option \<Rightarrow> (RESULT \<times> ag08a_resp_get_status option) option"
where
  "ag08a_msg_parse_response_get_status data data_size status = (case (data, status) of
     (Some data, Some st) \<Rightarrow>
       if data_size \<noteq> 18 - 4 then Some (RESULT_Failure, Some st)
       else do {
         r \<leftarrow> load1 data 0;
         let rate = ag08a_convert_send_rate_from_value (uint r);
         if rate = -1 then Some (RESULT_Failure, Some st)
         else do {
           (result, cfg) \<leftarrow> ag08a_parse_ranges data [0..<AG08A_CH_NUM] ((in_cfg st)\<lparr>send_rate := rate\<rparr>);
           if result \<noteq> RESULT_Success then Some (RESULT_Failure, Some (st\<lparr>in_cfg := cfg\<rparr>))
           else do {
             bs \<leftarrow> load data 9 5;
             Some (RESULT_Success, Some
               \<lparr>in_cfg = cfg, in_ctrl = map (\<lambda>ch. bs ! 0 AND push_bit ch 1 \<noteq> 0) [0..<AG08A_CH_NUM],
                out_cfg = \<lparr>waveform_type = uint (bs ! 1),
                  voltage = ag08a_convert_output_voltage_from_value (uint (bs ! 2)),
                  frequency = ag08a_convert_output_frequency_from_value (uint (bs ! 3))\<rparr>,
                out_ctrl = (bs ! 4 AND 0x01 \<noteq> 0)\<rparr>)
           }
         }
       }
   | _ \<Rightarrow> Some (RESULT_Failure, status))"

subsection \<open>Packing the requests\<close>

fun ag08a_pack_ranges :: "ag08a_set_analog_input \<Rightarrow> nat list \<Rightarrow> u8 list \<Rightarrow> (RESULT \<times> u8 list) option" where
  "ag08a_pack_ranges param [] data = Some (RESULT_Success, data)"
| "ag08a_pack_ranges param (ch # chs) data = do {
     lo \<leftarrow> load1 (vmin param) ch;
     hi \<leftarrow> load1 (vmax param) ch;
     let v = ag08a_convert_input_voltage_to_value lo hi;
     if v = -1 then Some (RESULT_Failure, data)
     else do {
       data \<leftarrow> store1 data (1 + ch) (word_of_int v);
       ag08a_pack_ranges param chs data
     }
   }"

definition ag08a_msg_pack_set_analog_input ::
  "ag08a_set_analog_input option \<Rightarrow> u8 list option \<Rightarrow> nat \<Rightarrow> (RESULT \<times> u8 list option) option" where
  "ag08a_msg_pack_set_analog_input param data data_size = (case (param, data) of
     (Some p, Some bs) \<Rightarrow>
       if data_size \<noteq> 13 - 4 then Some (RESULT_Failure, data)
       else let rate = ag08a_convert_send_rate_to_value (send_rate p) in
         if rate = -1 then Some (RESULT_Failure, data)
         else do {
           bs \<leftarrow> store1 bs 0 (word_of_int rate);
           (result, bs) \<leftarrow> ag08a_pack_ranges p [0..<AG08A_CH_NUM] bs;
           Some (result, Some bs)
         }
   | _ \<Rightarrow> Some (RESULT_Failure, data))"

definition ag08a_msg_pack_control_analog_input ::
  "bool list option \<Rightarrow> u8 list option \<Rightarrow> nat \<Rightarrow> (RESULT \<times> u8 list option) option" where
  "ag08a_msg_pack_control_analog_input param data data_size = (case (param, data) of
     (Some st, Some bs) \<Rightarrow>
       if data_size \<noteq> 5 - 4 then Some (RESULT_Failure, data)
       else do {
         st \<leftarrow> load st 0 AG08A_CH_NUM;
         bs \<leftarrow> store1 bs 0
           (foldl (\<lambda>b ch. if st ! ch then b OR push_bit ch 1 else b) 0 [0..<AG08A_CH_NUM]);
         Some (RESULT_Success, Some bs)
       }
   | _ \<Rightarrow> Some (RESULT_Failure, data))"

text \<open>The packer replaces a zero voltage or frequency in the caller's structure, too.\<close>

definition ag08a_msg_pack_set_analog_output ::
  "ag08a_set_analog_output option \<Rightarrow> u8 list option \<Rightarrow> nat \<Rightarrow>
     (RESULT \<times> ag08a_set_analog_output option \<times> u8 list option) option" where
  "ag08a_msg_pack_set_analog_output param data data_size = (case (param, data) of
     (Some p, Some bs) \<Rightarrow>
       if data_size \<noteq> 7 - 4 then Some (RESULT_Failure, param, data)
       else
         let p = (if voltage p = 0 then p\<lparr>voltage := OUTPUT_CONVERT_SCALE_VOLTAGE\<rparr> else p);
             p = (if frequency p = 0 then p\<lparr>frequency := OUTPUT_CONVERT_SCALE_FREQUENCY\<rparr> else p) in
         do {
           bs \<leftarrow> store bs 0 [word_of_int (waveform_type p),
             word_of_int (ag08a_convert_output_voltage_to_value (voltage p)),
             word_of_int (ag08a_convert_output_frequency_to_value (frequency p))];
           Some (RESULT_Success, Some p, Some bs)
         }
   | _ \<Rightarrow> Some (RESULT_Failure, param, data))"

definition ag08a_msg_pack_control_analog_output ::
  "bool option \<Rightarrow> u8 list option \<Rightarrow> nat \<Rightarrow> (RESULT \<times> u8 list option) option" where
  "ag08a_msg_pack_control_analog_output param data data_size = (case (param, data) of
     (Some st, Some bs) \<Rightarrow>
       if data_size \<noteq> 5 - 4 then Some (RESULT_Failure, data)
       else do {
         bs \<leftarrow> store1 bs 0 (if st then 0x01 else 0x00);
         Some (RESULT_Success, Some bs)
       }
   | _ \<Rightarrow> Some (RESULT_Failure, data))"

subsection \<open>Lemmas\<close>

lemma convert_send_rate_inverse:
  "ag08a_convert_send_rate_to_value r \<noteq> -1 \<Longrightarrow>
     ag08a_convert_send_rate_from_value (ag08a_convert_send_rate_to_value r) = r
     \<and> ag08a_convert_send_rate_to_value r \<in> {0..<256} \<and> r \<noteq> -1"
  by (auto simp: ag08a_convert_send_rate_to_value_def ag08a_convert_send_rate_from_value_def
      split: if_splits)

lemma convert_input_voltage_inverse:
  "ag08a_convert_input_voltage_to_value lo hi \<noteq> -1 \<Longrightarrow>
     ag08a_convert_input_voltage_from_value (ag08a_convert_input_voltage_to_value lo hi) = Some (lo, hi)
     \<and> ag08a_convert_input_voltage_to_value lo hi \<in> {0..<256}"
  by (auto simp: ag08a_convert_input_voltage_to_value_def ag08a_convert_input_voltage_from_value_def
      split: if_splits)

abbreviation (input) range_code :: "ag08a_set_analog_input \<Rightarrow> nat \<Rightarrow> int" where
  "range_code p ch \<equiv> ag08a_convert_input_voltage_to_value (vmin p ! ch) (vmax p ! ch)"

lemma pack_ranges_ok:
  "distinct chs \<Longrightarrow> \<forall>ch\<in>set chs. ch < length (vmin p) \<and> ch < length (vmax p)
      \<and> 1 + ch < length data \<and> range_code p ch \<noteq> -1 \<Longrightarrow>
   \<exists>out. ag08a_pack_ranges p chs data = Some (RESULT_Success, out) \<and> length out = length data
     \<and> (\<forall>i. i \<notin> Suc ` set chs \<longrightarrow> out ! i = data ! i)
     \<and> (\<forall>ch\<in>set chs. out ! (1 + ch) = word_of_int (range_code p ch))"
proof (induction chs arbitrary: data)
  case (Cons ch chs)
  let ?d = "data[Suc ch := word_of_int (range_code p ch)]"
  obtain out where out: "ag08a_pack_ranges p chs ?d = Some (RESULT_Success, out)"
    "length out = length data" "\<forall>i. i \<notin> Suc ` set chs \<longrightarrow> out ! i = ?d ! i"
    "\<forall>ch\<in>set chs. out ! (1 + ch) = word_of_int (range_code p ch)"
    using Cons.IH [of ?d] Cons.prems by auto
  have "out ! Suc ch = word_of_int (range_code p ch)"
    using Cons.prems out(3) by (auto simp: nth_list_update)
  moreover have "out ! i = data ! i" if "i \<notin> Suc ` set (ch # chs)" for i
    using that out(3) by (auto simp: nth_list_update)
  ultimately show ?case using Cons.prems out by (simp add: load1_eq store1_eq)
qed simp

lemma pack_ranges_fail:
  "\<forall>ch\<in>set chs. ch < length (vmin p) \<and> ch < length (vmax p) \<and> 1 + ch < length data \<Longrightarrow>
   \<exists>ch\<in>set chs. range_code p ch = -1 \<Longrightarrow>
   \<exists>out. ag08a_pack_ranges p chs data = Some (RESULT_Failure, out)"
proof (induction chs arbitrary: data)
  case (Cons ch chs)
  show ?case
  proof (cases "range_code p ch = -1")
    case False
    with Cons.prems have "\<exists>ch\<in>set chs. range_code p ch = -1" by auto
    then obtain out where
      "ag08a_pack_ranges p chs (data[Suc ch := word_of_int (range_code p ch)]) = Some (RESULT_Failure, out)"
      using Cons.IH [of "data[Suc ch := word_of_int (range_code p ch)]"] Cons.prems(1) by auto
    then show ?thesis using Cons.prems False by (simp add: load1_eq store1_eq)
  qed (use Cons.prems in \<open>simp add: load1_eq\<close>)
qed simp

lemma parse_ranges_ok:
  "distinct chs \<Longrightarrow> \<forall>ch\<in>set chs. ch < length (vmin cfg) \<and> ch < length (vmax cfg)
      \<and> 1 + ch < length data
      \<and> ag08a_convert_input_voltage_from_value (uint (data ! (1 + ch))) = Some (lo ch, hi ch) \<Longrightarrow>
   \<exists>cfg'. ag08a_parse_ranges data chs cfg = Some (RESULT_Success, cfg')
     \<and> send_rate cfg' = send_rate cfg \<and> length (vmin cfg') = length (vmin cfg)
     \<and> length (vmax cfg') = length (vmax cfg)
     \<and> (\<forall>i. i \<notin> set chs \<longrightarrow> vmin cfg' ! i = vmin cfg ! i \<and> vmax cfg' ! i = vmax cfg ! i)
     \<and> (\<forall>ch\<in>set chs. vmin cfg' ! ch = lo ch \<and> vmax cfg' ! ch = hi ch)"
proof (induction chs arbitrary: cfg)
  case (Cons ch chs)
  let ?c = "cfg\<lparr>vmin := (vmin cfg)[ch := lo ch], vmax := (vmax cfg)[ch := hi ch]\<rparr>"
  obtain cfg' where c: "ag08a_parse_ranges data chs ?c = Some (RESULT_Success, cfg')"
    "send_rate cfg' = send_rate cfg" "length (vmin cfg') = length (vmin cfg)"
    "length (vmax cfg') = length (vmax cfg)"
    "\<forall>i. i \<notin> set chs \<longrightarrow> vmin cfg' ! i = vmin ?c ! i \<and> vmax cfg' ! i = vmax ?c ! i"
    "\<forall>ch\<in>set chs. vmin cfg' ! ch = lo ch \<and> vmax cfg' ! ch = hi ch"
    using Cons.IH [of ?c] Cons.prems by auto
  have "vmin cfg' ! ch = lo ch \<and> vmax cfg' ! ch = hi ch"
    using Cons.prems c(5) by auto
  moreover have "vmin cfg' ! i = vmin cfg ! i \<and> vmax cfg' ! i = vmax cfg ! i"
    if "i \<notin> set (ch # chs)" for i
    using that c(5) by auto
  ultimately show ?case using Cons.prems c by (simp add: load1_eq store1_eq)
qed simp

lemma bit_start_byte:
  "bit (foldl (\<lambda>b ch. if st ! ch then b OR push_bit ch 1 else b) b chs :: u8) n
     \<longleftrightarrow> bit b n \<or> (n < 8 \<and> n \<in> set chs \<and> st ! n)"
proof (induction chs arbitrary: b)
  case (Cons ch chs)
  have "bit (b OR push_bit ch 1) n \<longleftrightarrow> bit b n \<or> (n < 8 \<and> n = ch)"
    by (auto simp: bit_or_iff bit_exp_iff)
  then show ?case using Cons.IH [of "if st ! ch then b OR push_bit ch 1 else b"]
    by (cases "st ! ch") (simp_all only: foldl_Cons list.set if_True if_False, blast+)
qed simp

lemma and_push_bit_eq: "b AND push_bit n 1 \<noteq> 0 \<longleftrightarrow> bit (b :: u8) n"
  by (simp add: and_exp_eq_0_iff_not_bit)

lemma start_bits:
  "length st = 8 \<Longrightarrow>
   map (\<lambda>ch. (foldl (\<lambda>b ch. if st ! ch then b OR push_bit ch 1 else b) 0 [0..<8] :: u8)
     AND push_bit ch 1 \<noteq> 0) [0..<8] = st"
  by (intro nth_equalityI) (simp_all only: length_map length_upt nth_map_upt and_push_bit_eq
      bit_start_byte, auto)

text \<open>The settings a request can carry.\<close>

definition ag08a_input_supported :: "ag08a_set_analog_input \<Rightarrow> bool" where
  "ag08a_input_supported p \<longleftrightarrow>
     send_rate p \<in> {10000000, 5000000, 2500000, 1250000, 625000, 312500, 156250, 10000, 1000, 100, 10}
     \<and> list_all (\<lambda>r. r \<in> {(-10000, 10000), (-5000, 5000), (-2500, 2500), (-1250, 1250), (-800, 800),
         (-400, 400), (-200, 200), (-100, 100), (0, 5000)}) (zip (vmin p) (vmax p))"

lemma send_rate_supported:
  "ag08a_convert_send_rate_to_value r \<noteq> -1 \<longleftrightarrow>
     r \<in> {10000000, 5000000, 2500000, 1250000, 625000, 312500, 156250, 10000, 1000, 100, 10}"
  by (simp add: ag08a_convert_send_rate_to_value_def)

lemma range_supported:
  "ag08a_convert_input_voltage_to_value lo hi \<noteq> -1 \<longleftrightarrow>
     (lo, hi) \<in> {(-10000, 10000), (-5000, 5000), (-2500, 2500), (-1250, 1250), (-800, 800),
         (-400, 400), (-200, 200), (-100, 100), (0, 5000)}"
  by (auto simp: ag08a_convert_input_voltage_to_value_def)

lemma input_supported_iff:
  "length (vmin p) = 8 \<Longrightarrow> length (vmax p) = 8 \<Longrightarrow> ag08a_input_supported p \<longleftrightarrow>
     ag08a_convert_send_rate_to_value (send_rate p) \<noteq> -1 \<and> (\<forall>ch<8. range_code p ch \<noteq> -1)"
  unfolding ag08a_input_supported_def send_rate_supported range_supported
  by (simp add: list_all_length)

lemma pack_input_ok:
  assumes "length (vmin p) = 8" "length (vmax p) = 8" "9 \<le> length data" "ag08a_input_supported p"
  shows "\<exists>out. ag08a_msg_pack_set_analog_input (Some p) (Some data) 9 = Some (RESULT_Success, Some out)
    \<and> length out = length data \<and> out ! 0 = word_of_int (ag08a_convert_send_rate_to_value (send_rate p))
    \<and> (\<forall>ch<8. out ! (1 + ch) = word_of_int (range_code p ch)) \<and> drop 9 out = drop 9 data"
proof -
  let ?d = "data[0 := word_of_int (ag08a_convert_send_rate_to_value (send_rate p))]"
  obtain out where out: "ag08a_pack_ranges p [0..<8] ?d = Some (RESULT_Success, out)"
    "length out = length data" "\<forall>i. i \<notin> Suc ` {0..<8} \<longrightarrow> out ! i = ?d ! i"
    "\<forall>ch\<in>{0..<8}. out ! (1 + ch) = word_of_int (range_code p ch)"
    using pack_ranges_ok [of "[0..<8]" p ?d] assms input_supported_iff [of p] by auto
  have "drop 9 out = drop 9 data"
  proof (rule nth_equalityI)
    fix i assume "i < length (drop 9 out)"
    moreover have "9 + i \<notin> Suc ` {0..<8}" by auto
    ultimately show "drop 9 out ! i = drop 9 data ! i" using out(2,3) by simp
  qed (simp add: out(2))
  moreover have "data \<noteq> []" using assms(3) by auto
  moreover from this have "out ! 0 = word_of_int (ag08a_convert_send_rate_to_value (send_rate p))"
    using out(3) by auto
  ultimately show ?thesis using out assms input_supported_iff [of p]
    by (simp add: ag08a_msg_pack_set_analog_input_def store1_def Let_def)
qed

lemma pack_input_fail:
  assumes "length (vmin p) = 8" "length (vmax p) = 8" "9 \<le> length data" "\<not> ag08a_input_supported p"
  shows "\<exists>out. ag08a_msg_pack_set_analog_input (Some p) (Some data) 9 = Some (RESULT_Failure, out)"
proof (cases "ag08a_convert_send_rate_to_value (send_rate p) = -1")
  case False
  then have "\<exists>ch\<in>set [0..<8]. range_code p ch = -1"
    using assms input_supported_iff [of p] by auto
  from pack_ranges_fail [OF _ this] obtain out where
    "ag08a_pack_ranges p [0..<8] (data[0 := word_of_int (ag08a_convert_send_rate_to_value (send_rate p))])
       = Some (RESULT_Failure, out)" using assms by fastforce
  moreover have "data \<noteq> []" using assms(3) by auto
  ultimately show ?thesis using False assms
    by (simp add: ag08a_msg_pack_set_analog_input_def store1_def Let_def)
qed (simp add: ag08a_msg_pack_set_analog_input_def)

lemma byte_of_int: "x \<in> {0..<256} \<Longrightarrow> uint (word_of_int x :: u8) = x"
  by (simp add: uint_word_of_int)

lemma parse_status_ok:
  assumes p: "length (vmin p) = 8" "length (vmax p) = 8" "ag08a_input_supported p"
    and d: "9 \<le> length d" "d ! 0 = word_of_int (ag08a_convert_send_rate_to_value (send_rate p))"
      "\<forall>ch<8. d ! (1 + ch) = word_of_int (range_code p ch)"
    and st: "length (vmin (in_cfg st)) = 8" "length (vmax (in_cfg st)) = 8"
    and t: "length t = 5"
  shows "ag08a_msg_parse_response_get_status (Some (take 9 d @ t @ rest)) 14 (Some st) = Some (RESULT_Success, Some
     \<lparr>in_cfg = p, in_ctrl = map (\<lambda>ch. t ! 0 AND push_bit ch 1 \<noteq> 0) [0..<8],
      out_cfg = \<lparr>waveform_type = uint (t ! 1), voltage = uint (t ! 2) * 20, frequency = uint (t ! 3) * 1000\<rparr>,
      out_ctrl = (t ! 4 AND 1 \<noteq> 0)\<rparr>)"
proof -
  let ?data = "take 9 d @ t @ rest" and ?cfg = "(in_cfg st)\<lparr>send_rate := send_rate p\<rparr>"
  note sup = input_supported_iff [OF p(1,2), THEN iffD1, OF p(3)]
  have head: "?data ! 0 = d ! 0" "\<forall>ch<8. ?data ! (1 + ch) = d ! (1 + ch)"
    using d(1) by (simp_all add: nth_append)
  have codes: "ag08a_convert_input_voltage_from_value (uint (?data ! (1 + ch)))
      = Some (vmin p ! ch, vmax p ! ch)" if "ch < 8" for ch
    using head(2) d(3) that sup convert_input_voltage_inverse [of "vmin p ! ch" "vmax p ! ch"]
    by (simp add: byte_of_int)
  have rate: "ag08a_convert_send_rate_from_value (uint (?data ! 0)) = send_rate p" "send_rate p \<noteq> -1"
    using head(1) d(2) sup convert_send_rate_inverse [of "send_rate p"] by (simp_all add: byte_of_int)
  obtain cfg' where c: "ag08a_parse_ranges ?data [0..<8] ?cfg = Some (RESULT_Success, cfg')"
    "send_rate cfg' = send_rate p" "length (vmin cfg') = 8" "length (vmax cfg') = 8"
    "\<forall>ch\<in>{0..<8}. vmin cfg' ! ch = vmin p ! ch \<and> vmax cfg' ! ch = vmax p ! ch"
    using parse_ranges_ok [of "[0..<8]" ?cfg ?data "\<lambda>ch. vmin p ! ch" "\<lambda>ch. vmax p ! ch"] codes st d(1)
    by auto
  then have "cfg' = p" using p by (auto intro!: ag08a_set_analog_input.equality nth_equalityI)
  moreover have "load ?data 9 5 = Some t" using d(1) t by (simp add: load_def)
  moreover have "load1 ?data 0 = Some (?data ! 0)" using d(1) t by (simp add: load1_def)
  ultimately show ?thesis using c(1) rate
    by (simp add: ag08a_msg_parse_response_get_status_def Let_def
        ag08a_convert_output_voltage_from_value_def ag08a_convert_output_frequency_from_value_def
        del: upt_conv_Cons upt_rec_numeral)
qed

subsection \<open>Properties\<close>



end
