(* ===== verification/Cf02a_Msg.thy ===== *)
theory Cf02a_Msg
  imports Msg
begin

text \<open>
  The messages of the EP1-CF02A: \<open>module/ep1_cf02a/ep1_cf02a_msg.c\<close> and the structures of
  \<open>ep1_cf02a_cmd_def.h\<close>. The functions take \<open>void *msg\<close> in the code, because the command layer
  passes them around as function pointers; here each has the type of the structure it casts the
  pointer to, and a structure of one member is that member. Every parser overwrites its whole
  structure. The host is little-endian (the three parsers that \<open>memcpy\<close> a number rely on it).

  The theorem is that every setting written by a Set command is read back by the parser of the
  corresponding Get response.
\<close>

unbundle bit_operations_syntax

abbreviation (input) CF02A_STORE_DATA_ID_MAX_LENGTH :: nat where
  "CF02A_STORE_DATA_ID_MAX_LENGTH \<equiv> 32"

record cf02a_bit_timing =
  bt_prop_seg :: int
  bt_phase_seg1 :: int
  bt_phase_seg2 :: int
  bt_sjw :: int
  bt_brp :: int

record timestamp =
  ts_sec :: u32
  ts_usec :: u32

record timespec =
  tv_sec :: int
  tv_nsec :: int

record cf02a_rtc_time =
  weekday :: u8
  month :: u8
  date :: u8
  year :: u8
  hour :: u8
  minute :: u8
  second :: u8
  microsecond :: u32

record cf02a_store_data_state =
  sd_state :: u8
  sd_id :: "u8 list"

record cf02a_store_data_meta =
  start_rtc :: cf02a_rtc_time
  start_ts :: timestamp
  reset_device_ts :: timestamp
  reset_host :: timespec
  can_frame_count :: u64

record cf02a_store_data_rx_control =
  rc_store_id :: "u8 list"
  rc_start :: u8
  can_frame_count_per_request :: u64

record cf02a_can_statistics =
  rx_dropped :: u32
  can_state :: u8
  reserved1 :: "u8 list"
  reserved2 :: "u8 list"

subsection \<open>Modes\<close>

definition cf02a_msg_parse_response_get_silent_mode :: "u8 list \<Rightarrow> (RESULT \<times> bool) option" where
  "cf02a_msg_parse_response_get_silent_mode data = do {
     b \<leftarrow> load1 data 0; Some (RESULT_Success, b AND 0x01 = 0) }"

definition cf02a_msg_pack_set_silent_mode :: "bool \<Rightarrow> u8 list \<Rightarrow> (RESULT \<times> u8 list) option" where
  "cf02a_msg_pack_set_silent_mode silent data = do {
     data \<leftarrow> store1 data 0 (if silent then 0x00 else 0x01); Some (RESULT_Success, data) }"

definition cf02a_msg_parse_response_get_fd_mode :: "u8 list \<Rightarrow> (RESULT \<times> bool) option" where
  "cf02a_msg_parse_response_get_fd_mode data = do {
     b \<leftarrow> load1 data 0; Some (RESULT_Success, \<not> (b AND 0x01 = 0)) }"

definition cf02a_msg_pack_set_fd_mode :: "bool \<Rightarrow> u8 list \<Rightarrow> (RESULT \<times> u8 list) option" where
  "cf02a_msg_pack_set_fd_mode fd data = do {
     data \<leftarrow> store1 data 0 (if fd then 0x01 else 0x00); Some (RESULT_Success, data) }"

definition cf02a_msg_parse_response_get_iso_mode :: "u8 list \<Rightarrow> (RESULT \<times> bool) option" where
  "cf02a_msg_parse_response_get_iso_mode data = do {
     b \<leftarrow> load1 data 0; Some (RESULT_Success, \<not> (b AND 0x01 = 0)) }"

definition cf02a_msg_pack_set_iso_mode :: "bool \<Rightarrow> u8 list \<Rightarrow> (RESULT \<times> u8 list) option" where
  "cf02a_msg_pack_set_iso_mode non_iso data = do {
     data \<leftarrow> store1 data 0 (if non_iso then 0x01 else 0x00); Some (RESULT_Success, data) }"

definition cf02a_msg_parse_response_get_tx_rx_control :: "u8 list \<Rightarrow> (RESULT \<times> bool) option" where
  "cf02a_msg_parse_response_get_tx_rx_control data = do {
     b \<leftarrow> load1 data 0; Some (RESULT_Success, b = 0x01) }"

definition cf02a_msg_pack_set_tx_rx_control :: "bool \<Rightarrow> u8 list \<Rightarrow> (RESULT \<times> u8 list) option" where
  "cf02a_msg_pack_set_tx_rx_control st data = do {
     data \<leftarrow> store1 data 0 (if st then 0x01 else 0x00); Some (RESULT_Success, data) }"

definition cf02a_msg_parse_response_get_store_enable :: "u8 list \<Rightarrow> (RESULT \<times> bool) option" where
  "cf02a_msg_parse_response_get_store_enable data = do {
     b \<leftarrow> load1 data 0; Some (RESULT_Success, b = 0x01) }"

definition cf02a_msg_pack_set_store_enable :: "bool \<Rightarrow> u8 list \<Rightarrow> (RESULT \<times> u8 list) option" where
  "cf02a_msg_pack_set_store_enable enable data = do {
     data \<leftarrow> store1 data 0 (if enable then 0x01 else 0x00); Some (RESULT_Success, data) }"

subsection \<open>Bit timing and clock\<close>

definition cf02a_msg_parse_response_get_bit_timing ::
  "u8 list \<Rightarrow> (RESULT \<times> cf02a_bit_timing) option" where
  "cf02a_msg_parse_response_get_bit_timing data = do {
     p \<leftarrow> load data 0 2; s1 \<leftarrow> load data 2 2; s2 \<leftarrow> load data 4 2; j \<leftarrow> load data 6 2; b \<leftarrow> load data 8 2;
     Some (RESULT_Success, \<lparr>bt_prop_seg = le_value p, bt_phase_seg1 = le_value s1,
       bt_phase_seg2 = le_value s2, bt_sjw = le_value j, bt_brp = le_value b\<rparr>)
   }"

definition cf02a_msg_pack_set_bit_timing ::
  "cf02a_bit_timing \<Rightarrow> u8 list \<Rightarrow> (RESULT \<times> u8 list) option" where
  "cf02a_msg_pack_set_bit_timing t data = do {
     data \<leftarrow> store data 0 (le_bytes 2 (bt_prop_seg t));
     data \<leftarrow> store data 2 (le_bytes 2 (bt_phase_seg1 t));
     data \<leftarrow> store data 4 (le_bytes 2 (bt_phase_seg2 t));
     data \<leftarrow> store data 6 (le_bytes 2 (bt_sjw t));
     data \<leftarrow> store data 8 (le_bytes 2 (bt_brp t));
     Some (RESULT_Success, data)
   }"

definition cf02a_msg_parse_response_get_data_bit_timing ::
  "u8 list \<Rightarrow> (RESULT \<times> cf02a_bit_timing) option" where
  "cf02a_msg_parse_response_get_data_bit_timing data = cf02a_msg_parse_response_get_bit_timing data"

definition cf02a_msg_pack_set_data_bit_timing ::
  "cf02a_bit_timing \<Rightarrow> u8 list \<Rightarrow> (RESULT \<times> u8 list) option" where
  "cf02a_msg_pack_set_data_bit_timing t data = cf02a_msg_pack_set_bit_timing t data"

definition cf02a_msg_parse_response_get_can_clock :: "u8 list \<Rightarrow> (RESULT \<times> int) option" where
  "cf02a_msg_parse_response_get_can_clock data = do {
     c \<leftarrow> load data 0 4; Some (RESULT_Success, i32_of (le_value c)) }"

subsection \<open>Times\<close>

definition cf02a_msg_parse_response_get_device_timestamp_reset_time ::
  "u8 list \<Rightarrow> (RESULT \<times> timestamp) option" where
  "cf02a_msg_parse_response_get_device_timestamp_reset_time data = do {
     s \<leftarrow> load data 0 4; u \<leftarrow> load data 4 4;
     Some (RESULT_Success, \<lparr>ts_sec = word_of_int (le_value s), ts_usec = word_of_int (le_value u)\<rparr>)
   }"

definition cf02a_msg_pack_set_host_timestamp_reset_time ::
  "timespec \<Rightarrow> u8 list \<Rightarrow> (RESULT \<times> u8 list) option" where
  "cf02a_msg_pack_set_host_timestamp_reset_time t data = do {
     data \<leftarrow> store data 0 (le_bytes 4 (tv_sec t));
     data \<leftarrow> store data 4 (le_bytes 4 (tv_nsec t));
     Some (RESULT_Success, data)
   }"

definition cf02a_msg_parse_response_get_rtc_time :: "u8 list \<Rightarrow> (RESULT \<times> cf02a_rtc_time) option" where
  "cf02a_msg_parse_response_get_rtc_time data = do {
     b \<leftarrow> load data 0 7; us \<leftarrow> load data 7 4;
     Some (RESULT_Success, \<lparr>weekday = b ! 0, month = b ! 1, date = b ! 2, year = b ! 3, hour = b ! 4,
       minute = b ! 5, second = b ! 6, microsecond = word_of_int (le_value us)\<rparr>)
   }"

definition cf02a_msg_pack_set_rtc_time :: "cf02a_rtc_time \<Rightarrow> u8 list \<Rightarrow> (RESULT \<times> u8 list) option" where
  "cf02a_msg_pack_set_rtc_time t data = do {
     data \<leftarrow> store data 0 [weekday t, month t, date t, year t, hour t, minute t, second t];
     data \<leftarrow> store data 7 (le_bytes 4 (uint (microsecond t)));
     Some (RESULT_Success, data)
   }"

subsection \<open>Stored data\<close>

definition cf02a_msg_parse_response_get_current_store_data_state ::
  "u8 list \<Rightarrow> (RESULT \<times> cf02a_store_data_state) option" where
  "cf02a_msg_parse_response_get_current_store_data_state data = do {
     s \<leftarrow> load1 data 0;
     i \<leftarrow> load data 1 CF02A_STORE_DATA_ID_MAX_LENGTH;
     Some (RESULT_Success, \<lparr>sd_state = s, sd_id = i\<rparr>)
   }"

definition cf02a_msg_parse_response_get_store_data_id_list_count ::
  "u8 list \<Rightarrow> (RESULT \<times> u32) option" where
  "cf02a_msg_parse_response_get_store_data_id_list_count data = do {
     c \<leftarrow> load data 0 4; Some (RESULT_Success, word_of_int (le_value c)) }"

definition cf02a_msg_pack_get_store_data_id :: "int \<Rightarrow> u8 list \<Rightarrow> (RESULT \<times> u8 list) option" where
  "cf02a_msg_pack_get_store_data_id index data = do {
     data \<leftarrow> store data 0 (le_bytes 4 index); Some (RESULT_Success, data) }"

definition cf02a_msg_parse_response_get_store_data_id :: "u8 list \<Rightarrow> (RESULT \<times> u8 list) option" where
  "cf02a_msg_parse_response_get_store_data_id data = do {
     i \<leftarrow> load data 0 CF02A_STORE_DATA_ID_MAX_LENGTH; Some (RESULT_Success, i) }"

text \<open>\<open>store_id\<close> is the caller's array of 32 characters.\<close>

definition cf02a_msg_pack_get_store_data_meta :: "u8 list \<Rightarrow> u8 list \<Rightarrow> (RESULT \<times> u8 list) option" where
  "cf02a_msg_pack_get_store_data_meta store_id data = do {
     i \<leftarrow> load store_id 0 CF02A_STORE_DATA_ID_MAX_LENGTH;
     data \<leftarrow> store data 0 i;
     Some (RESULT_Success, data)
   }"

definition cf02a_msg_parse_response_get_store_data_meta ::
  "u8 list \<Rightarrow> (RESULT \<times> cf02a_store_data_meta) option" where
  "cf02a_msg_parse_response_get_store_data_meta data = do {
     (_, rtc) \<leftarrow> cf02a_msg_parse_response_get_rtc_time data;
     s1 \<leftarrow> load data 11 4; u1 \<leftarrow> load data 15 4;
     s2 \<leftarrow> load data 19 4; u2 \<leftarrow> load data 23 4;
     s3 \<leftarrow> load data 27 4; n3 \<leftarrow> load data 31 4;
     cnt \<leftarrow> load data 35 8;
     Some (RESULT_Success,
       \<lparr>start_rtc = rtc,
        start_ts = \<lparr>ts_sec = word_of_int (le_value s1), ts_usec = word_of_int (le_value u1)\<rparr>,
        reset_device_ts = \<lparr>ts_sec = word_of_int (le_value s2), ts_usec = word_of_int (le_value u2)\<rparr>,
        reset_host = \<lparr>tv_sec = i32_of (le_value s3), tv_nsec = i32_of (le_value n3)\<rparr>,
        can_frame_count = word_of_int (le_value cnt)\<rparr>)
   }"

definition cf02a_msg_parse_response_get_store_data_rx_control ::
  "u8 list \<Rightarrow> (RESULT \<times> cf02a_store_data_rx_control) option" where
  "cf02a_msg_parse_response_get_store_data_rx_control data = do {
     i \<leftarrow> load data 0 CF02A_STORE_DATA_ID_MAX_LENGTH;
     s \<leftarrow> load1 data 32;
     cnt \<leftarrow> load data 33 8;
     Some (RESULT_Success, \<lparr>rc_store_id = i, rc_start = (if s = 0x01 then 1 else 0),
       can_frame_count_per_request = word_of_int (le_value cnt)\<rparr>)
   }"

definition cf02a_msg_pack_set_store_data_rx_control ::
  "cf02a_store_data_rx_control \<Rightarrow> u8 list \<Rightarrow> (RESULT \<times> u8 list) option" where
  "cf02a_msg_pack_set_store_data_rx_control c data = do {
     i \<leftarrow> load (rc_store_id c) 0 CF02A_STORE_DATA_ID_MAX_LENGTH;
     data \<leftarrow> store data 0 i;
     data \<leftarrow> store1 data 32 (if rc_start c = 1 then 0x01 else 0x00);
     data \<leftarrow> store data 33 (le_bytes 8 (uint (can_frame_count_per_request c)));
     Some (RESULT_Success, data)
   }"

definition cf02a_msg_pack_delete_store_data :: "u8 list \<Rightarrow> u8 list \<Rightarrow> (RESULT \<times> u8 list) option" where
  "cf02a_msg_pack_delete_store_data store_id data = do {
     i \<leftarrow> load store_id 0 CF02A_STORE_DATA_ID_MAX_LENGTH;
     data \<leftarrow> store data 0 i;
     Some (RESULT_Success, data)
   }"

definition cf02a_msg_parse_response_get_store_max_duration :: "u8 list \<Rightarrow> (RESULT \<times> u32) option" where
  "cf02a_msg_parse_response_get_store_max_duration data = do {
     d \<leftarrow> load data 0 4; Some (RESULT_Success, word_of_int (le_value d)) }"

definition cf02a_msg_pack_set_store_max_duration :: "u32 \<Rightarrow> u8 list \<Rightarrow> (RESULT \<times> u8 list) option" where
  "cf02a_msg_pack_set_store_max_duration d data = do {
     data \<leftarrow> store data 0 (le_bytes 4 (uint d)); Some (RESULT_Success, data) }"

definition cf02a_msg_parse_response_get_capabilities :: "u8 list \<Rightarrow> (RESULT \<times> u64) option" where
  "cf02a_msg_parse_response_get_capabilities data = do {
     c \<leftarrow> load data 0 8; Some (RESULT_Success, word_of_int (le_value c)) }"

definition cf02a_msg_parse_response_get_can_statistics ::
  "u8 list \<Rightarrow> (RESULT \<times> cf02a_can_statistics) option" where
  "cf02a_msg_parse_response_get_can_statistics data = do {
     d \<leftarrow> load data 0 4; s \<leftarrow> load1 data 4; r1 \<leftarrow> load data 5 3; r2 \<leftarrow> load data 8 64;
     Some (RESULT_Success, \<lparr>rx_dropped = word_of_int (le_value d), can_state = s,
       reserved1 = r1, reserved2 = r2\<rparr>)
   }"

subsection \<open>Lemmas\<close>

lemma flag_roundtrip [simp]:
  "data \<noteq> [] \<Longrightarrow> store1 data 0 b = Some (b # tl data)" "load1 (b # data) 0 = Some b"
  by (cases data; simp add: store1_def load1_def)+

lemma store_next:
  "length pre = p \<Longrightarrow> length xs \<le> length rest \<Longrightarrow>
     store (pre @ rest) p xs = Some ((pre @ xs) @ drop (length xs) rest)"
  by (simp add: store_def)

lemma load_next:
  "length pre = p \<Longrightarrow> length xs = n \<Longrightarrow> load (pre @ xs @ rest) p n = Some xs"
  by (simp add: load_def)

lemma store_first: "length xs \<le> length rest \<Longrightarrow> store rest 0 xs = Some (xs @ drop (length xs) rest)"
  by (simp add: store_def)

lemma load_first: "length xs = n \<Longrightarrow> load (xs @ rest) 0 n = Some xs"
  by (simp add: load_def)

lemma le_roundtrip:
  "word_of_int (le_value (le_bytes 4 (uint x))) = (x :: u32)"
  "word_of_int (le_value (le_bytes 8 (uint y))) = (y :: u64)"
  "0 \<le> z \<Longrightarrow> z < 65536 \<Longrightarrow> le_value (le_bytes 2 z) = z"
  using uint_bounded [of x] uint_bounded [of y] by (simp_all add: le_value_le_bytes)

lemma cf02a_bit_timing_bytes:
  assumes "10 \<le> length data"
    and "bt_prop_seg t \<in> {0..<65536}" "bt_phase_seg1 t \<in> {0..<65536}"
    "bt_phase_seg2 t \<in> {0..<65536}" "bt_sjw t \<in> {0..<65536}" "bt_brp t \<in> {0..<65536}"
  shows "\<exists>out. cf02a_msg_pack_set_bit_timing t data = Some (RESULT_Success, out)
    \<and> length out = length data \<and> cf02a_msg_parse_response_get_bit_timing out = Some (RESULT_Success, t)"
proof -
  let ?a = "le_bytes 2 (bt_prop_seg t)" and ?b = "le_bytes 2 (bt_phase_seg1 t)"
  let ?c = "le_bytes 2 (bt_phase_seg2 t)" and ?d = "le_bytes 2 (bt_sjw t)" and ?e = "le_bytes 2 (bt_brp t)"
  let ?out = "?a @ ?b @ ?c @ ?d @ ?e @ drop 10 data"
  have "cf02a_msg_pack_set_bit_timing t data = Some (RESULT_Success, ?out)"
    using assms(1) by (simp add: cf02a_msg_pack_set_bit_timing_def store_eq)
  moreover have "cf02a_msg_parse_response_get_bit_timing ?out = Some (RESULT_Success, t)"
    using assms(2-) by (simp add: cf02a_msg_parse_response_get_bit_timing_def load_def le_roundtrip)
  ultimately show ?thesis using assms(1) by fastforce
qed

lemma cf02a_rtc_time_bytes:
  assumes "11 \<le> length data"
  shows "\<exists>out. cf02a_msg_pack_set_rtc_time t data = Some (RESULT_Success, out)
    \<and> length out = length data \<and> cf02a_msg_parse_response_get_rtc_time out = Some (RESULT_Success, t)"
proof -
  let ?bs = "[weekday t, month t, date t, year t, hour t, minute t, second t]"
  let ?us = "le_bytes 4 (uint (microsecond t))"
  have "store data 0 ?bs = Some (?bs @ drop 7 data)"
    using assms by (subst store_first) (simp_all add: numeral_eq_Suc)
  moreover have "store (?bs @ drop 7 data) 7 ?us = Some ((?bs @ ?us) @ drop 4 (drop 7 data))"
    using assms by (subst store_next) simp_all
  ultimately have "cf02a_msg_pack_set_rtc_time t data = Some (RESULT_Success, (?bs @ ?us) @ drop 11 data)"
    unfolding cf02a_msg_pack_set_rtc_time_def by simp
  moreover have "load (?bs @ ?us @ drop 11 data) 0 7 = Some ?bs"
    by (intro load_first) simp
  moreover have "load (?bs @ ?us @ drop 11 data) 7 4 = Some ?us"
    by (intro load_next) simp_all
  ultimately show ?thesis using assms
    unfolding cf02a_msg_parse_response_get_rtc_time_def by (simp add: le_roundtrip)
qed

lemma cf02a_rx_control_bytes:
  assumes "41 \<le> length data" and "length (rc_store_id c) = 32" and "rc_start c \<in> {0, 1}"
  shows "\<exists>out. cf02a_msg_pack_set_store_data_rx_control c data = Some (RESULT_Success, out)
    \<and> length out = length data
    \<and> cf02a_msg_parse_response_get_store_data_rx_control out = Some (RESULT_Success, c)"
proof -
  let ?i = "rc_store_id c" and ?n = "le_bytes 8 (uint (can_frame_count_per_request c))"
  let ?s = "if rc_start c = 1 then 1 else 0 :: u8"
  let ?out = "?i @ [?s] @ ?n @ drop 41 data"
  have "load ?i 0 32 = Some ?i" using assms by (simp add: load_def)
  moreover have "store data 0 ?i = Some (?i @ drop 32 data)"
    using assms by (simp add: store_first)
  moreover have "store1 (?i @ drop 32 data) 32 ?s = Some (?i @ ?s # drop 33 data)"
  proof -
    obtain x rest where x: "drop 32 data = x # rest" using assms(1) by (cases "drop 32 data") auto
    then have "drop (Suc 32) data = rest" by (metis drop_Suc list.sel(3) tl_drop)
    then have "drop 33 data = rest" by simp
    then show ?thesis using assms(2) x by (simp add: store1_def list_update_append)
  qed
  moreover have "store (?i @ ?s # drop 33 data) 33 ?n = Some ?out"
    using store_next [of "?i @ [?s]" 33 ?n "drop 33 data"] assms by simp
  ultimately have "cf02a_msg_pack_set_store_data_rx_control c data = Some (RESULT_Success, ?out)"
    unfolding cf02a_msg_pack_set_store_data_rx_control_def by simp
  moreover have "load ?out 0 32 = Some ?i" using assms by (intro load_first) simp
  moreover have "load1 ?out 32 = Some ?s" using assms by (simp add: load1_def nth_append)
  moreover have "load ?out 33 8 = Some ?n"
    using load_next [of "?i @ [?s]" 33 ?n 8 "drop 41 data"] assms by simp
  ultimately show ?thesis using assms
    unfolding cf02a_msg_parse_response_get_store_data_rx_control_def by (auto simp: le_roundtrip)
qed

lemma cf02a_max_duration_bytes:
  assumes "4 \<le> length data"
  shows "\<exists>out. cf02a_msg_pack_set_store_max_duration d data = Some (RESULT_Success, out)
    \<and> length out = length data
    \<and> cf02a_msg_parse_response_get_store_max_duration out = Some (RESULT_Success, d)"
  using assms
  by (simp add: cf02a_msg_pack_set_store_max_duration_def store_first load_first
      cf02a_msg_parse_response_get_store_max_duration_def le_roundtrip)

subsection \<open>Property\<close>

text \<open>C13: every setting the driver can write to the EP1-CF02A is read back unchanged by the parser of
  the matching response: the silent, FD, ISO, transfer and store flags, both bit timings (16 bits a
  field), the real-time clock, the download control (a 32-byte id, a flag, a 64-bit count) and the
  maximum store duration.\<close>

theorem cf02a_settings_roundtrip:
  assumes "length data = 78"
    and "bt_prop_seg t \<in> {0..<65536}" "bt_phase_seg1 t \<in> {0..<65536}"
    "bt_phase_seg2 t \<in> {0..<65536}" "bt_sjw t \<in> {0..<65536}" "bt_brp t \<in> {0..<65536}"
    and "length (rc_store_id c) = 32" and "rc_start c \<in> {0, 1}"
  shows "(\<exists>out. cf02a_msg_pack_set_silent_mode b data = Some (RESULT_Success, out) \<and> length out = 78
      \<and> cf02a_msg_parse_response_get_silent_mode out = Some (RESULT_Success, b))
    \<and> (\<exists>out. cf02a_msg_pack_set_fd_mode b data = Some (RESULT_Success, out) \<and> length out = 78
      \<and> cf02a_msg_parse_response_get_fd_mode out = Some (RESULT_Success, b))
    \<and> (\<exists>out. cf02a_msg_pack_set_iso_mode b data = Some (RESULT_Success, out) \<and> length out = 78
      \<and> cf02a_msg_parse_response_get_iso_mode out = Some (RESULT_Success, b))
    \<and> (\<exists>out. cf02a_msg_pack_set_tx_rx_control b data = Some (RESULT_Success, out) \<and> length out = 78
      \<and> cf02a_msg_parse_response_get_tx_rx_control out = Some (RESULT_Success, b))
    \<and> (\<exists>out. cf02a_msg_pack_set_store_enable b data = Some (RESULT_Success, out) \<and> length out = 78
      \<and> cf02a_msg_parse_response_get_store_enable out = Some (RESULT_Success, b))
    \<and> (\<exists>out. cf02a_msg_pack_set_bit_timing t data = Some (RESULT_Success, out) \<and> length out = 78
      \<and> cf02a_msg_parse_response_get_bit_timing out = Some (RESULT_Success, t))
    \<and> (\<exists>out. cf02a_msg_pack_set_data_bit_timing t data = Some (RESULT_Success, out) \<and> length out = 78
      \<and> cf02a_msg_parse_response_get_data_bit_timing out = Some (RESULT_Success, t))
    \<and> (\<exists>out. cf02a_msg_pack_set_rtc_time rtc data = Some (RESULT_Success, out) \<and> length out = 78
      \<and> cf02a_msg_parse_response_get_rtc_time out = Some (RESULT_Success, rtc))
    \<and> (\<exists>out. cf02a_msg_pack_set_store_data_rx_control c data = Some (RESULT_Success, out)
      \<and> length out = 78
      \<and> cf02a_msg_parse_response_get_store_data_rx_control out = Some (RESULT_Success, c))
    \<and> (\<exists>out. cf02a_msg_pack_set_store_max_duration d data = Some (RESULT_Success, out)
      \<and> length out = 78
      \<and> cf02a_msg_parse_response_get_store_max_duration out = Some (RESULT_Success, d))"
proof -
  have ne: "data \<noteq> []" "10 \<le> length data" "11 \<le> length data" "41 \<le> length data" "4 \<le> length data"
    using assms(1) by auto
  note flags = cf02a_msg_pack_set_silent_mode_def cf02a_msg_parse_response_get_silent_mode_def
    cf02a_msg_pack_set_fd_mode_def cf02a_msg_parse_response_get_fd_mode_def
    cf02a_msg_pack_set_iso_mode_def cf02a_msg_parse_response_get_iso_mode_def
    cf02a_msg_pack_set_tx_rx_control_def cf02a_msg_parse_response_get_tx_rx_control_def
    cf02a_msg_pack_set_store_enable_def cf02a_msg_parse_response_get_store_enable_def
  show ?thesis
    unfolding cf02a_msg_pack_set_data_bit_timing_def cf02a_msg_parse_response_get_data_bit_timing_def
    using cf02a_bit_timing_bytes [OF ne(2) assms(2-6)] cf02a_rtc_time_bytes [OF ne(3), of rtc]
      cf02a_rx_control_bytes [OF ne(4) assms(7,8)] cf02a_max_duration_bytes [OF ne(5), of d] assms(1)
    by (cases b) (simp_all add: flags ne(1))
qed

lemma cf02a_settings_roundtrip_witness:
  "\<exists>out. cf02a_msg_pack_set_bit_timing
       \<lparr>bt_prop_seg = 29, bt_phase_seg1 = 30, bt_phase_seg2 = 20, bt_sjw = 1, bt_brp = 2\<rparr> (replicate 78 0)
       = Some (RESULT_Success, out)
     \<and> cf02a_msg_parse_response_get_bit_timing out = Some (RESULT_Success,
       \<lparr>bt_prop_seg = 29, bt_phase_seg1 = 30, bt_phase_seg2 = 20, bt_sjw = 1, bt_brp = 2\<rparr>)"
proof -
  let ?t = "\<lparr>bt_prop_seg = 29, bt_phase_seg1 = 30, bt_phase_seg2 = 20, bt_sjw = 1, bt_brp = 2\<rparr>"
  let ?c = "\<lparr>rc_store_id = replicate 32 65, rc_start = 1, can_frame_count_per_request = 100\<rparr>"
  have "length (replicate 78 0 :: u8 list) = 78" "bt_prop_seg ?t \<in> {0..<65536}"
    "bt_phase_seg1 ?t \<in> {0..<65536}" "bt_phase_seg2 ?t \<in> {0..<65536}" "bt_sjw ?t \<in> {0..<65536}"
    "bt_brp ?t \<in> {0..<65536}" "length (rc_store_id ?c) = 32" "rc_start ?c \<in> {0, 1}"
    by simp_all
  from cf02a_settings_roundtrip [OF this] show ?thesis by blast
qed

end
