(* ===== verification/Device.thy ===== *)
theory Device
  imports Ringbuffer Ct2a_Msg Ch02a_Msg Ag08a_Msg Cf02a_Msg
begin

text \<open>
  The state the driver works on: \<open>apt_usbtrx_dev_t\<close> of \<open>module/apt_usbtrx_def.h\<close>, the unique data
  of the four products, and the environment.

  \<^item> \<open>env\<close> is what is outside the driver. The kernel functions that may fail (allocation, submission
    of an URB, a bulk transfer, a semaphore interrupted by a signal) consume one element of
    \<open>choices\<close>, \<open>True\<close> for success; an exhausted list means success from then on. \<open>incoming\<close> are the
    completions of receive URBs, with status and data, that arrive while the driver waits;
    \<open>device_fw\<close> is the connected device: the completions it causes after the messages sent so far.
    \<open>deadline\<close> counts how often the check against the deadline still succeeds. \<open>sent\<close> and
    \<open>events\<close> log what leaves the driver. \<open>stack_msg\<close> is the arbitrary content of an uninitialised
    message structure. \<open>can_fd_dlc2len\<close> is the kernel's table from length codes to lengths.
  \<^item> \<open>dev\<close> adds the members of \<open>apt_usbtrx_dev_t\<close>: \<open>rxt_\<close> are those of \<open>rx_transfer\<close> (a
    buffer of \<open>2 * RX_BUFFER_SIZE\<close> bytes), \<open>rxc_\<close> those of \<open>rx_complete\<close>, whose completion
    is its counter. \<open>resettime\<close> is the module's \<open>g_resettime\<close>. A semaphore is its count.
  \<^item> \<open>world\<close> adds the unique data of the products, and the private data of their network and IIO
    devices; a product uses only its own part. \<open>ctrlmode\<close>, \<open>can_bt\<close>, \<open>can_data_bt\<close> and \<open>candev_state\<close> are
    members of the network device's \<open>struct can_priv\<close>. \<open>rx_done\<close> and \<open>rx_store_data_done\<close> count the
    completions of the readers.
\<close>

abbreviation (input) MAX_RX_URBS :: nat where "MAX_RX_URBS \<equiv> 4"
abbreviation (input) MAX_TX_URBS :: nat where "MAX_TX_URBS \<equiv> 4"
abbreviation (input) RX_BUFFER_SIZE :: nat where "RX_BUFFER_SIZE \<equiv> 1024"
abbreviation (input) TX_TRANSFER_LIMIT_RATE :: nat where "TX_TRANSFER_LIMIT_RATE \<equiv> 80"

abbreviation (input) EPERM :: int where "EPERM \<equiv> 1"
abbreviation (input) ENOENT :: int where "ENOENT \<equiv> 2"
abbreviation (input) EIO :: int where "EIO \<equiv> 5"
abbreviation (input) ENOMEM :: int where "ENOMEM \<equiv> 12"
abbreviation (input) EFAULT :: int where "EFAULT \<equiv> 14"
abbreviation (input) EBUSY :: int where "EBUSY \<equiv> 16"
abbreviation (input) ENODEV :: int where "ENODEV \<equiv> 19"
abbreviation (input) EINVAL :: int where "EINVAL \<equiv> 22"
abbreviation (input) EPIPE :: int where "EPIPE \<equiv> 32"
abbreviation (input) EPROTO :: int where "EPROTO \<equiv> 71"
abbreviation (input) EOPNOTSUPP :: int where "EOPNOTSUPP \<equiv> 95"
abbreviation (input) ESHUTDOWN :: int where "ESHUTDOWN \<equiv> 108"
abbreviation (input) ERESTARTSYS :: int where "ERESTARTSYS \<equiv> 512"

datatype product = CT2A | CH02A | CF02A | AG08A

datatype if_type = IF_NONE | IF_FILE | IF_NET | IF_IIO

record stats =
  st_kt :: int
  st_timestamp :: nat
  st_num :: u32
  st_total_num :: u32

record can_summary =
  dat_std :: stats
  dat_ext :: stats
  rtr_std :: stats
  rtr_ext :: stats
  err :: stats

text \<open>What the driver passes on: a received CAN frame (identifier, length, flags, data, hardware time
  stamp in ns), an IIO sample (buffer, time stamp), a wake-up of the readers.\<close>

datatype event =
  Net_rx u32 u8 u8 "u8 list" int
| Iio_push "u8 list" int
| Wake_rx
| Wake_store
| Net_echo
| Net_wake_queue
| Net_start_queue
| Net_stop_queue
| Open_candev
| Close_candev
| Start_statistics
| Cancel_statistics
| Put_echo

text \<open>The kernel's \<open>struct can_bittiming\<close> and \<open>enum can_state\<close>, as far as the driver uses them.\<close>

record can_bittiming =
  cb_bitrate :: u32
  cb_sample_point :: u32
  cb_tq :: u32
  cb_prop_seg :: u32
  cb_phase_seg1 :: u32
  cb_phase_seg2 :: u32
  cb_sjw :: u32
  cb_brp :: u32

datatype can_state = CAN_STATE_ERROR_ACTIVE | CAN_STATE_ERROR_WARNING | CAN_STATE_ERROR_PASSIVE
  | CAN_STATE_BUS_OFF | CAN_STATE_STOPPED

record env =
  choices :: "bool list"
  incoming :: "(int \<times> u8 list) list"
  device_fw :: "u8 list list \<Rightarrow> (int \<times> u8 list) list"
  deadline :: nat
  sent :: "u8 list list"
  events :: "event list"
  stack_msg :: msg
  jiffies :: nat
  mono_now :: timespec
  raw_now :: timespec
  real_now :: int
  iio_now :: int
  can_fd_dlc2len :: "u8 \<Rightarrow> nat"

record dev = env +
  product :: product
  rx_data :: ringbuffer
  tx_data :: ringbuffer
  rxt_buffer :: "u8 list"
  rxt_data_size :: nat
  rxc_id :: u8
  rxc_buffer :: "u8 list"
  rxc_data_size :: nat
  rxc_done :: nat
  rx_urbs :: nat
  rx_ongoing :: bool
  onopening :: bool
  onclosing :: bool
  clock_monotonic :: bool
  basetime :: timespec
  resettime :: timespec
  fw_count :: int
  send_msg_sem :: nat
  tx_usb_transfer_sem :: nat
  tx_data_clear_requested :: bool
  tx_transfer_expired :: nat
  tx_transfer_max_token :: int
  tx_transfer_token :: int
  tx_buffer_rate :: u8
  ch :: int
  serial_no :: "u8 list"
  sync_pulse :: int
  fw_major :: int
  fw_minor :: int
  fw_revision :: int
  timestamp_mode :: int
  rx_rbmsg :: "u8 list"
  rx_done :: nat

record world = dev +
  if_type :: if_type
  netdev_present :: bool
  summary :: can_summary
  rx_packets :: u64
  rx_bytes :: u64
  tx_packets :: u64
  tx_bytes :: u64
  tx_data_size :: u8
  hw_timestamp :: bool
  iio_buffer :: "u8 list"
  rx_store_data :: ringbuffer
  received_store_data_size :: int
  store_data_complete :: bool
  reset_ts :: timespec
  ctrlmode :: u32
  can_bt :: can_bittiming
  can_data_bt :: can_bittiming
  candev_state :: can_state
  fw_rx_dropped :: u64
  file_open_count :: int
  frames_per_request :: u64
  rx_store_data_done :: nat
  is_store_data_enabled :: bool
  on_terminating :: bool

text \<open>The answer of a kernel function that may fail.\<close>

definition may_fail :: "world \<Rightarrow> bool \<times> world" where
  "may_fail w = (case choices w of [] \<Rightarrow> (True, w) | b # bs \<Rightarrow> (b, w\<lparr>choices := bs\<rparr>))"

definition emit :: "event \<Rightarrow> world \<Rightarrow> world" where
  "emit e w = w\<lparr>events := events w @ [e]\<rparr>"

text \<open>\<open>get_ts64\<close>\<close>

definition get_ts64 :: "world \<Rightarrow> timespec" where
  "get_ts64 w = (if clock_monotonic w then mono_now w else raw_now w)"

definition timespec_to_ns :: "timespec \<Rightarrow> int" where
  "timespec_to_ns t = tv_sec t * 1000000000 + tv_nsec t"

definition get_relative_time_ns :: "world \<Rightarrow> timespec \<Rightarrow> u64" where
  "get_relative_time_ns w base = word_of_int (timespec_to_ns (get_ts64 w) - timespec_to_ns base)"

text \<open>The microseconds are multiplied in 32 bits.\<close>

definition convert_timestamp_to_timespec64 :: "timestamp \<Rightarrow> timespec" where
  "convert_timestamp_to_timespec64 t =
     \<lparr>tv_sec = uint (ts_sec t), tv_nsec = uint (ts_usec t * 1000)\<rparr>"

text \<open>The time stamp at the head of every notification payload.\<close>

definition payload_timestamp :: "u8 list \<Rightarrow> timestamp option" where
  "payload_timestamp p = do {
     s \<leftarrow> load p 0 4; u \<leftarrow> load p 4 4;
     Some \<lparr>ts_sec = word_of_int (le_value s), ts_usec = word_of_int (le_value u)\<rparr>
   }"

end
