(* ===== verification/Rx.thy ===== *)
theory Rx
  imports Device
begin

text \<open>
  The receive path of \<open>module/apt_usbtrx_core.c\<close>: the completion handler of the receive URBs,
  which puts the transfers together and finds the messages in them, and the dispatch of a message.

  The handler calls the product's \<open>unique_func.dispatch_msg\<close> through a function pointer, here the
  parameter \<open>disp\<close>. The locale \<open>rx_device\<close> is what the core relies on: the handler answers on
  every frame satisfying \<open>ok\<close>, keeps the invariant \<open>rx_inv\<close>, leaves the reassembly state alone and
  reads nothing of the buffer behind the message. Every product interprets it in its own theory.
  In the locale: the completion handler never leaves a buffer, and dispatches exactly the
  messages that the specification \<open>scan\<close> finds in the byte stream, however the stream is cut into
  transfers.
\<close>

subsection \<open>Dispatch\<close>

text \<open>\<open>APT_USBTRX_CMD_Unknown\<close> is -1.\<close>

definition get_request_command_from_response_command :: "u8 \<Rightarrow> int" where
  "get_request_command_from_response_command response =
     (if response = CMD_ResponseGetDeviceId then uint CMD_GetDeviceId
      else if response = CMD_ResponseGetSerialNo then uint CMD_GetSerialNo
      else if response = CMD_ResponseGetFWVersion then uint CMD_GetFWVersion
      else if response = CMD_ResponseGetFWVersionRevision then uint CMD_GetFWVersionRevision
      else -1)"

text \<open>What every matching response does: copy the message for the waiting caller and wake it.\<close>

definition complete_rx :: "world \<Rightarrow> u8 list \<Rightarrow> msg \<Rightarrow> world option" where
  "complete_rx w data m = do {
     let n = unat (payload_size m) + 4;
     bs \<leftarrow> load data 0 n;
     buf \<leftarrow> store (rxc_buffer w) 0 bs;
     Some (w\<lparr>rxc_data_size := n, rxc_buffer := buf, rxc_done := Suc (rxc_done w)\<rparr>)
   }"

definition dispatch_msg ::
  "(world \<Rightarrow> u8 list \<Rightarrow> msg \<Rightarrow> (RESULT \<times> world) option) \<Rightarrow>
   world \<Rightarrow> u8 list \<Rightarrow> msg \<Rightarrow> (RESULT \<times> world) option" where
  "dispatch_msg disp w data m =
     (if \<not> rx_ongoing w then Some (RESULT_Success, w)
      else if msg_id m = CMD_NotifyBufferStatus then do {
        (result, rate) \<leftarrow> msg_parse_notify_buffer_status (payload m);
        if result \<noteq> RESULT_Success then Some (RESULT_Success, w)
        else Some (RESULT_Success, w\<lparr>tx_buffer_rate := rate\<rparr>)
      }
      else if msg_id m \<in> {CMD_ResponseGetDeviceId, CMD_ResponseGetSerialNo, CMD_ResponseGetFWVersion,
                          CMD_ResponseGetFWVersionRevision} then
        (if uint (rxc_id w) = get_request_command_from_response_command (msg_id m)
         then do { w \<leftarrow> complete_rx w data m; Some (RESULT_Success, w) }
         else Some (RESULT_Success, w))
      else if msg_id m \<in> {CMD_ACK, CMD_NACK} then do {
        (result, i) \<leftarrow> msg_parse_ack (payload m);
        if result \<noteq> RESULT_Success then Some (RESULT_Success, w)
        else let w = (if i = CMD_ResetTS \<and> msg_id m = CMD_ACK then w\<lparr>basetime := resettime w\<rparr> else w) in
          if rxc_id w = i
          then do { w \<leftarrow> complete_rx w data m; Some (RESULT_Success, w) }
          else Some (RESULT_Success, w)
      }
      else do {
        (result, w) \<leftarrow> disp w data m;
        if result \<noteq> RESULT_Success then Some (RESULT_Failure, w) else Some (RESULT_Success, w)
      })"

subsection \<open>The completion handler\<close>

text \<open>The loop over the messages in the buffer: \<open>p\<close> bytes are processed, \<open>n\<close> remain.\<close>

function rx_loop ::
  "(world \<Rightarrow> u8 list \<Rightarrow> msg \<Rightarrow> (RESULT \<times> world) option) \<Rightarrow> world \<Rightarrow> nat \<Rightarrow> nat \<Rightarrow>
   (world \<times> nat \<times> nat) option" where
  "rx_loop disp w p n =
     (if n < CMD_MIN_LENGTH then Some (w, p, n)
      else case msg_parse (drop p (rxt_buffer w)) n (stack_msg w) of
        None \<Rightarrow> None
      | Some (result, m) \<Rightarrow>
          if result \<noteq> RESULT_Success then
            (if result = RESULT_NotEnough then Some (w, p, n) else rx_loop disp w (p + 1) (n - 1))
          else case dispatch_msg disp w (drop p (rxt_buffer w)) m of
            None \<Rightarrow> None
          | Some (_, w) \<Rightarrow>
              rx_loop disp w (p + (unat (payload_size m) + 4)) (n - (unat (payload_size m) + 4)))"
  by pat_completeness auto
termination
  by (relation "measure (\<lambda>(_, _, _, n). n)") auto

declare rx_loop.simps [simp del]

text \<open>A completed URB is idle until \<open>usb_submit_urb\<close> succeeds.\<close>

definition resubmit_rx_urb :: "world \<Rightarrow> world" where
  "resubmit_rx_urb w = (let (ok, w) = may_fail w in if ok then w\<lparr>rx_urbs := rx_urbs w + 1\<rparr> else w)"


definition read_bulk_callback ::
  "(world \<Rightarrow> u8 list \<Rightarrow> msg \<Rightarrow> (RESULT \<times> world) option) \<Rightarrow> world \<Rightarrow> int \<times> u8 list \<Rightarrow> world option" where
  "read_bulk_callback disp w urb = (case urb of (status, xs) \<Rightarrow>
     let w = w\<lparr>rx_urbs := rx_urbs w - 1\<rparr> in
     if onclosing w then Some w
     else if status \<noteq> 0 then
       (if status \<in> {-ENOENT, -EPIPE, -EPROTO, -ESHUTDOWN} then Some w
        else Some (resubmit_rx_urb w))
     else do {
       buf \<leftarrow> store (rxt_buffer w) (rxt_data_size w) xs;
       (w, processed_size, remain_size) \<leftarrow>
         rx_loop disp (w\<lparr>rxt_buffer := buf\<rparr>) 0 (rxt_data_size w + length xs);
       w \<leftarrow> (if remain_size > 0 then do {
              rest \<leftarrow> load (rxt_buffer w) processed_size remain_size;
              buf \<leftarrow> (if processed_size > 0 then store (rxt_buffer w) 0 rest else Some (rxt_buffer w));
              Some (w\<lparr>rxt_buffer := buf, rxt_data_size := remain_size\<rparr>)
            }
            else Some (w\<lparr>rxt_data_size := 0\<rparr>));
       Some (resubmit_rx_urb w)
     })"

text \<open>A sequence of completions.\<close>

fun rx_run ::
  "(world \<Rightarrow> u8 list \<Rightarrow> msg \<Rightarrow> (RESULT \<times> world) option) \<Rightarrow> world \<Rightarrow> (int \<times> u8 list) list \<Rightarrow> world option"
where
  "rx_run disp w [] = Some w"
| "rx_run disp w (u # us) = do { w \<leftarrow> read_bulk_callback disp w u; rx_run disp w us }"

text \<open>Setting up the receive URBs: \<open>usb_alloc_urb\<close>, \<open>usb_alloc_coherent\<close> and \<open>usb_submit_urb\<close> may
  fail for each of them, which leaves those submitted before.\<close>

fun setup_urbs :: "world \<Rightarrow> nat \<Rightarrow> bool \<times> world" where
  "setup_urbs w 0 = (True, w)"
| "setup_urbs w (Suc k) =
     (let (ok, w) = may_fail w in if \<not> ok then (False, w)
      else let (ok, w) = may_fail w in if \<not> ok then (False, w)
      else let (ok, w) = may_fail w in if \<not> ok then (False, w)
      else setup_urbs (w\<lparr>rx_urbs := rx_urbs w + 1\<rparr>) k)"

definition setup_rx_urbs :: "world \<Rightarrow> RESULT \<times> world" where
  "setup_rx_urbs w =
     (let w = w\<lparr>rxt_buffer := replicate (length (rxt_buffer w)) 0, rxt_data_size := 0\<rparr>;
          (ok, w) = setup_urbs w MAX_RX_URBS in
      if \<not> ok then (RESULT_Failure, w) else (RESULT_Success, w\<lparr>rx_ongoing := True\<rparr>))"

subsection \<open>What a product's handler must guarantee\<close>

definition set_rxt :: "u8 list \<Rightarrow> nat \<Rightarrow> nat \<Rightarrow> world \<Rightarrow> world" where
  "set_rxt b k u w = w\<lparr>rxt_buffer := b, rxt_data_size := k, rx_urbs := u\<rparr>"

text \<open>The last clause is the documented range of the kernel's \<open>can_fd_dlc2len\<close>.\<close>

definition rx_inv :: "world \<Rightarrow> bool" where
  "rx_inv w \<longleftrightarrow> length (rxt_buffer w) = 2 * RX_BUFFER_SIZE \<and> rxt_data_size w < CMD_MAX_LENGTH
     \<and> length (rxc_buffer w) = RX_BUFFER_SIZE \<and> msg_wf (stack_msg w)
     \<and> rb_inv (rx_data w) \<and> rb_inv (rx_store_data w) \<and> length (iio_buffer w) = 24
     \<and> (\<forall>d. can_fd_dlc2len w d \<le> 64)"

text \<open>What a dispatch leaves alone.\<close>

definition rx_frame :: "world \<Rightarrow> world \<Rightarrow> bool" where
  "rx_frame w w' \<longleftrightarrow> rxt_buffer w' = rxt_buffer w \<and> rxt_data_size w' = rxt_data_size w
     \<and> rx_urbs w' = rx_urbs w \<and> stack_msg w' = stack_msg w \<and> onclosing w' = onclosing w
     \<and> rx_ongoing w' = rx_ongoing w \<and> incoming w' = incoming w \<and> sent w' = sent w
     \<and> tx_data w' = tx_data w \<and> rxc_id w' = rxc_id w \<and> send_msg_sem w' = send_msg_sem w
     \<and> device_fw w' = device_fw w \<and> deadline w' = deadline w \<and> product w' = product w
     \<and> resettime w' = resettime w
     \<and> (choices w = [] \<longrightarrow> choices w' = [])"

lemma rx_frame_refl [simp]: "rx_frame w w"
  by (simp add: rx_frame_def)

lemma rx_frame_trans: "rx_frame w w1 \<Longrightarrow> rx_frame w1 w2 \<Longrightarrow> rx_frame w w2"
  by (simp add: rx_frame_def)

text \<open>The bytes received that may still become a message.\<close>

definition leftover :: "world \<Rightarrow> u8 list" where
  "leftover w = take (rxt_data_size w) (rxt_buffer w)"

definition is_frame :: "u8 list \<Rightarrow> bool" where
  "is_frame f \<longleftrightarrow> classify f = RESULT_Success \<and> length f = unat (f ! 1)"

text \<open>Dispatching a list of messages in order; the result codes are ignored.\<close>

fun dispatch_all ::
  "(world \<Rightarrow> u8 list \<Rightarrow> msg \<Rightarrow> (RESULT \<times> world) option) \<Rightarrow> world \<Rightarrow> u8 list list \<Rightarrow> world option"
where
  "dispatch_all disp w [] = Some w"
| "dispatch_all disp w (f # fs) = do {
     (_, w) \<leftarrow> dispatch_msg disp w f (frame_msg f (stack_msg w));
     dispatch_all disp w fs
   }"

lemma dispatch_all_append:
  "dispatch_all disp w (fs @ gs) = (dispatch_all disp w fs \<bind> (\<lambda>w. dispatch_all disp w gs))"
  by (induction fs arbitrary: w) (auto split: bind_splits)

lemma complete_rx_prefix:
  "length f = unat (payload_size m) + 4 \<Longrightarrow> complete_rx w (f @ rest) m = complete_rx w f m"
  by (simp add: complete_rx_def load_def Let_def)

lemma complete_rx_safe:
  assumes "rx_inv w" and "length f = unat (payload_size m) + 4"
  shows "\<exists>w'. complete_rx w f m = Some w' \<and> rx_inv w' \<and> rx_frame w w'"
proof -
  have "length f \<le> 1024" using assms(2) unat_u8 [of "payload_size m"] by simp
  then show ?thesis using assms
    by (simp add: complete_rx_def load_def store_def rx_inv_def rx_frame_def Let_def)
qed

lemma complete_rx_indep:
  "complete_rx (set_rxt b k u w) f m = map_option (set_rxt b k u) (complete_rx w f m)"
  by (simp add: complete_rx_def set_rxt_def load_def store_def Let_def)

lemma frame_length:
  "is_frame f \<Longrightarrow> length f = unat (payload_size (frame_msg f m)) + 4"
  using classify_success(2) [of f] by (simp add: is_frame_def frame_msg_def unat_minus_4)

locale rx_device =
  fixes disp :: "world \<Rightarrow> u8 list \<Rightarrow> msg \<Rightarrow> (RESULT \<times> world) option"
    and ok :: "u8 list \<Rightarrow> bool"
  assumes disp_prefix: "length f = unat (payload_size m) + 4 \<Longrightarrow> disp w (f @ rest) m = disp w f m"
    and disp_safe: "rx_inv w \<Longrightarrow> is_frame f \<Longrightarrow> ok f \<Longrightarrow> msg_wf m \<Longrightarrow>
      \<exists>r w'. disp w f (frame_msg f m) = Some (r, w') \<and> rx_inv w' \<and> rx_frame w w'"
    and disp_indep: "disp (set_rxt b k u w) f m
      = map_option (\<lambda>(r, w'). (r, set_rxt b k u w')) (disp w f m)"
begin

lemma dispatch_prefix:
  "length f = unat (payload_size m) + 4 \<Longrightarrow> dispatch_msg disp w (f @ rest) m = dispatch_msg disp w f m"
  by (simp add: dispatch_msg_def complete_rx_prefix disp_prefix cong: if_cong)

lemma dispatch_safe:
  assumes inv: "rx_inv w" and f: "is_frame f" and ok: "ok f" and m: "msg_wf m"
  shows "\<exists>r w'. dispatch_msg disp w f (frame_msg f m) = Some (r, w') \<and> rx_inv w' \<and> rx_frame w w'"
proof -
  let ?m = "frame_msg f m"
  have "msg_wf ?m" using f m frame_msg_bytes(2) by (simp add: is_frame_def)
  then have pl: "load1 (payload ?m) 0 = Some (payload ?m ! 0)" by (simp add: msg_wf_def load1_def)
  have base: "rx_inv (w\<lparr>basetime := b\<rparr>)" "rx_frame w (w\<lparr>basetime := b\<rparr>)"
    "rx_inv (w\<lparr>tx_buffer_rate := x\<rparr>)" "rx_frame w (w\<lparr>tx_buffer_rate := x\<rparr>)" for b x
    using inv by (simp_all add: rx_inv_def rx_frame_def)
  have complete: "\<exists>w2. complete_rx w1 f ?m = Some w2 \<and> rx_inv w2 \<and> rx_frame w w2"
    if "rx_inv w1" "rx_frame w w1" for w1
    using complete_rx_safe [OF that(1) frame_length [OF f]] that(2) rx_frame_trans by blast
  show ?thesis
    using complete [of w] complete [of "w\<lparr>basetime := resettime w\<rparr>"] base inv
      disp_safe [OF inv f ok m] pl
    by (auto simp: dispatch_msg_def msg_parse_notify_buffer_status_def msg_parse_ack_def Let_def)
qed

lemma dispatch_indep:
  "dispatch_msg disp (set_rxt b k u w) f m
     = map_option (\<lambda>(r, w'). (r, set_rxt b k u w')) (dispatch_msg disp w f m)"
proof -
  have [simp]: "rx_ongoing (set_rxt b k u v) = rx_ongoing v" "rxc_id (set_rxt b k u v) = rxc_id v"
    "resettime (set_rxt b k u v) = resettime v"
    "(set_rxt b k u v)\<lparr>basetime := t\<rparr> = set_rxt b k u (v\<lparr>basetime := t\<rparr>)"
    "(set_rxt b k u v)\<lparr>tx_buffer_rate := x\<rparr> = set_rxt b k u (v\<lparr>tx_buffer_rate := x\<rparr>)" for t x v
    by (simp_all add: set_rxt_def)
  show ?thesis
    by (cases "load1 (payload m) 0"; cases "complete_rx w f m";
        cases "complete_rx (w\<lparr>basetime := resettime w\<rparr>) f m"; cases "disp w f m")
      (simp_all add: dispatch_msg_def msg_parse_notify_buffer_status_def msg_parse_ack_def Let_def
        complete_rx_indep disp_indep split_def)
qed

text \<open>The loop dispatches what the specification finds.\<close>

lemma rx_loop_scan:
  assumes "rx_inv w" and "p + n \<le> length (rxt_buffer w)"
    and "\<forall>f \<in> set (fst (scan (seg (rxt_buffer w) p (p + n)))). ok f"
  shows "\<exists>w' q r. rx_loop disp w p n = Some (w', q, r) \<and> q + r = p + n
    \<and> seg (rxt_buffer w) q (q + r) = snd (scan (seg (rxt_buffer w) p (p + n)))
    \<and> dispatch_all disp w (fst (scan (seg (rxt_buffer w) p (p + n)))) = Some w'
    \<and> rx_inv w' \<and> rx_frame w w'"
  using assms
proof (induction n arbitrary: w p rule: less_induct)
  case (less n)
  let ?buf = "rxt_buffer w" and ?d = "seg (rxt_buffer w) p (p + n)"
  have len: "length ?d = n" using less.prems(2) by simp
  have d: "take n (drop p ?buf) = ?d" by (simp add: seg_def)
  have wf: "msg_wf (stack_msg w)" using less.prems(1) by (simp add: rx_inv_def)
  have parse: "msg_parse (drop p ?buf) n (stack_msg w) = Some (classify ?d,
      if classify ?d = RESULT_Success then frame_msg (drop p ?buf) (stack_msg w) else stack_msg w)"
    if "4 \<le> n" using that less.prems(2) wf msg_parse_eq [of n "drop p ?buf"] d by simp
  consider (stop) "n < 4 \<or> classify ?d = RESULT_NotEnough"
    | (skip) "4 \<le> n" "classify ?d = RESULT_Failure" | (msg) "4 \<le> n" "classify ?d = RESULT_Success"
    using classify_cases [of ?d] by linarith
  then show ?case
  proof cases
    case stop
    then have "scan ?d = ([], ?d)" using len by (auto simp: scan_NotEnough)
    moreover have "rx_loop disp w p n = Some (w, p, n)"
      using stop parse by (subst rx_loop.simps) (auto simp: not_less)
    ultimately show ?thesis using less.prems(1) by simp
  next
    case skip
    have "tl ?d = seg ?buf (p + 1) (p + 1 + (n - 1))"
      using skip drop_seg [of 1 ?buf p "p + n"] by (simp add: drop_Suc)
    moreover have "scan ?d = scan (tl ?d)" using skip len by (simp add: scan_Failure)
    moreover have "rx_loop disp w p n = rx_loop disp w (p + 1) (n - 1)"
      using skip parse by (subst rx_loop.simps) simp
    ultimately show ?thesis
      using less.IH [of "n - 1" w "p + 1"] less.prems skip by (simp add: add.commute)
  next
    case msg
    let ?L = "unat (?d ! 1)"
    let ?f = "take ?L ?d"
    note c = classify_success [OF msg(2)]
    have L: "4 \<le> ?L" "?L \<le> n" using c len by auto
    have f: "is_frame ?f"
      using msg(2) L len by (simp add: is_frame_def classify_take)
    have scan: "scan ?d = (?f # fst (scan (drop ?L ?d)), snd (scan (drop ?L ?d)))"
      using msg(2) by (rule scan_Success)
    have app: "drop p ?buf = ?d @ drop (p + n) ?buf"
      using append_take_drop_id [of n "drop p ?buf"] by (simp add: d add.commute)
    then have hd: "drop p ?buf ! 1 = ?d ! 1" "classify (drop p ?buf) = RESULT_Success"
      using msg len classify_append [of ?d "drop (p + n) ?buf"] by (simp_all add: nth_append)
    have m: "frame_msg (drop p ?buf) (stack_msg w) = frame_msg ?f (stack_msg w)"
      using frame_msg_take [OF hd(2), of n] frame_msg_take [OF msg(2), of ?L] hd(1) L d by simp
    have split: "drop p ?buf = ?f @ drop (p + ?L) ?buf"
    proof -
      have "?f = take ?L (drop p ?buf)" using L take_take [of ?L n "drop p ?buf"] d by (simp add: min_absorb1)
      moreover have "drop (p + ?L) ?buf = drop ?L (drop p ?buf)" by (simp add: add.commute)
      ultimately show ?thesis by (simp only: append_take_drop_id)
    qed
    obtain r w1 where w1: "dispatch_msg disp w ?f (frame_msg ?f (stack_msg w)) = Some (r, w1)"
      "rx_inv w1" "rx_frame w w1"
      using dispatch_safe [OF less.prems(1) f _ wf] less.prems(3) scan by auto
    have ps: "unat (payload_size (frame_msg ?f (stack_msg w))) + 4 = ?L"
      using frame_length [OF f, of "stack_msg w"] L len by simp
    have "rx_loop disp w p n = rx_loop disp w1 (p + ?L) (n - ?L)"
      using msg parse w1(1) m ps dispatch_prefix [of ?f "frame_msg ?f (stack_msg w)" w] split
        frame_length [OF f, of "stack_msg w"]
      by (subst rx_loop.simps) simp
    moreover have "drop ?L ?d = seg (rxt_buffer w1) (p + ?L) (p + ?L + (n - ?L))"
      using w1(3) L by (simp add: rx_frame_def drop_seg)
    ultimately show ?thesis
      using less.IH [of "n - ?L" w1 "p + ?L"] less.prems w1 L scan rx_frame_trans [OF w1(3)]
      by (auto simp: rx_frame_def)
  qed
qed

lemma dispatch_all_indep:
  "dispatch_all disp (set_rxt b k u w) fs = map_option (set_rxt b k u) (dispatch_all disp w fs)"
proof (induction fs arbitrary: w)
  case (Cons f fs)
  have "stack_msg (set_rxt b k u w) = stack_msg w" by (simp add: set_rxt_def)
  then show ?case
    by (cases "dispatch_msg disp w f (frame_msg f (stack_msg w))")
      (auto simp: dispatch_indep Cons.IH)
qed simp

lemma dispatch_all_safe:
  "rx_inv w \<Longrightarrow> \<forall>f \<in> set fs. is_frame f \<and> ok f \<Longrightarrow>
     \<exists>w'. dispatch_all disp w fs = Some w' \<and> rx_inv w' \<and> rx_frame w w'"
proof (induction fs arbitrary: w)
  case (Cons f fs)
  have "msg_wf (stack_msg w)" using Cons.prems by (simp add: rx_inv_def)
  then obtain r w1 where "dispatch_msg disp w f (frame_msg f (stack_msg w)) = Some (r, w1)"
    "rx_inv w1" "rx_frame w w1"
    using dispatch_safe [of w f "stack_msg w"] Cons.prems by auto
  then show ?case using Cons.IH [of w1] Cons.prems rx_frame_trans by fastforce
qed simp

lemma callback_scan:
  assumes inv: "rx_inv w" and run: "\<not> onclosing w" and xs: "length xs \<le> RX_BUFFER_SIZE"
    and ok: "\<forall>f \<in> set (fst (scan (leftover w @ xs))). ok f"
  defines "l \<equiv> snd (scan (leftover w @ xs))"
  shows "\<exists>w2 b. dispatch_all disp w (fst (scan (leftover w @ xs))) = Some w2
    \<and> read_bulk_callback disp w (0, xs)
        = Some (resubmit_rx_urb (set_rxt b (length l) (rx_urbs w - 1) w2))
    \<and> take (length l) b = l \<and> length b = 2 * RX_BUFFER_SIZE \<and> length l < CMD_MAX_LENGTH
    \<and> rx_inv w2 \<and> rx_frame w w2"
proof -
  let ?k = "rxt_data_size w" and ?u = "rx_urbs w - 1"
  let ?n = "?k + length xs"
  have sz: "length (rxt_buffer w) = 2048" "?k < 82" using inv by (simp_all add: rx_inv_def)
  define buf where "buf = take ?k (rxt_buffer w) @ xs @ drop ?n (rxt_buffer w)"
  have store: "store (rxt_buffer w) ?k xs = Some buf" and lb: "length buf = 2048"
    using sz xs by (simp_all add: store_def buf_def)
  define w1 where "w1 = set_rxt buf ?k ?u w"
  have w1: "w\<lparr>rx_urbs := ?u, rxt_buffer := buf\<rparr> = w1" by (simp add: w1_def set_rxt_def)
  have inv1: "rx_inv w1" using inv lb by (simp add: w1_def set_rxt_def rx_inv_def)
  have d: "seg (rxt_buffer w1) 0 (0 + ?n) = leftover w @ xs"
    using sz xs by (simp add: w1_def set_rxt_def seg_def buf_def leftover_def)
  obtain w3 q r where loop: "rx_loop disp w1 0 ?n = Some (w3, q, r)" "q + r = ?n"
    "seg buf q (q + r) = l"
    "dispatch_all disp w1 (fst (scan (leftover w @ xs))) = Some w3" "rx_inv w3" "rx_frame w1 w3"
    using rx_loop_scan [OF inv1, of 0 ?n] ok sz xs lb
    unfolding d l_def by (auto simp: w1_def set_rxt_def)
  then obtain w2 where w2: "dispatch_all disp w (fst (scan (leftover w @ xs))) = Some w2"
    "w3 = set_rxt buf ?k ?u w2"
    by (auto simp: w1_def dispatch_all_indep)
  have b3: "rxt_buffer w3 = buf" by (simp add: w2(2) set_rxt_def)
  have r: "r = length l" using loop(2,3) lb b3 sz xs by auto
  have small: "length l < 82" using scan_rest_bound by (simp add: l_def)
  define b where "b = (if r > 0 \<and> q > 0 then l @ drop r buf else buf)"
  have load: "load buf q r = Some l" using loop(2,3) lb sz xs by (simp add: load_seg)
  have b: "take r b = l" "length b = 2048"
    using r lb loop(2,3) sz xs by (auto simp: b_def seg_def)
  have tail: "(if r > 0 then do {
              rest \<leftarrow> load (rxt_buffer w3) q r;
              buf \<leftarrow> (if q > 0 then store (rxt_buffer w3) 0 rest else Some (rxt_buffer w3));
              Some (w3\<lparr>rxt_buffer := buf, rxt_data_size := r\<rparr>)
            }
            else Some (w3\<lparr>rxt_data_size := 0\<rparr>)) = Some (set_rxt b r ?u w2)"
    using r lb small load by (simp add: b3 store_def b_def) (simp add: w2(2) set_rxt_def)
  have "read_bulk_callback disp w (0, xs) = Some (resubmit_rx_urb (set_rxt b r ?u w2))"
    using run store loop(1) tail
    by (simp add: read_bulk_callback_def w1 Let_def del: One_nat_def)
  moreover have "rx_inv w2" "rx_frame w w2"
    using dispatch_all_safe [OF inv, of "fst (scan (leftover w @ xs))"] w2(1) ok scan_frames
    by (auto simp: is_frame_def)
  ultimately show ?thesis using w2(1) b small r by auto
qed

text \<open>Any number of transfers: the messages dispatched and the bytes kept depend on the byte stream
  only, not on how it is cut into transfers.\<close>

lemma rx_run_scan:
  assumes "rx_inv w" and "scan (leftover w) = ([], leftover w)"
    and "\<not> onclosing w" and "choices w = []" and "0 < rx_urbs w"
    and "\<forall>xs \<in> set xss. length xs \<le> RX_BUFFER_SIZE"
    and "\<forall>f \<in> set (fst (scan (leftover w @ concat xss))). ok f"
  shows "\<exists>w2 b k. rx_run disp w (map (Pair 0) xss) = Some (set_rxt b k (rx_urbs w) w2)
    \<and> dispatch_all disp w (fst (scan (leftover w @ concat xss))) = Some w2
    \<and> take k b = snd (scan (leftover w @ concat xss))
    \<and> rx_inv (set_rxt b k (rx_urbs w) w2) \<and> rx_frame w w2"
  using assms
proof (induction xss arbitrary: w)
  case Nil
  have "set_rxt (rxt_buffer w) (rxt_data_size w) (rx_urbs w) w = w" by (simp add: set_rxt_def)
  moreover have "take (rxt_data_size w) (rxt_buffer w) = leftover w" by (simp add: leftover_def)
  ultimately show ?case using Nil by simp (metis rx_frame_refl)
next
  case (Cons xs xss)
  let ?d = "leftover w @ xs" and ?l = "snd (scan (leftover w @ xs))"
  have app: "scan (leftover w @ concat (xs # xss))
      = (fst (scan ?d) @ fst (scan (?l @ concat xss)), snd (scan (?l @ concat xss)))"
    using scan_append [of ?d "concat xss"] by simp
  obtain w2 b where w2: "dispatch_all disp w (fst (scan ?d)) = Some w2"
    "read_bulk_callback disp w (0, xs) = Some (resubmit_rx_urb (set_rxt b (length ?l) (rx_urbs w - 1) w2))"
    "take (length ?l) b = ?l" "length b = 2048" "length ?l < 82" "rx_inv w2" "rx_frame w w2"
    using callback_scan [OF Cons.prems(1,3), of xs] Cons.prems(6,7) app by auto
  define w1 where "w1 = set_rxt b (length ?l) (rx_urbs w) w2"
  have w1: "resubmit_rx_urb (set_rxt b (length ?l) (rx_urbs w - 1) w2) = w1"
    using w2(7) Cons.prems(4,5)
    by (simp add: w1_def resubmit_rx_urb_def may_fail_def set_rxt_def rx_frame_def)
  have left: "leftover w1 = ?l" using w2(3) by (simp add: w1_def set_rxt_def leftover_def)
  have "rx_inv w1" "\<not> onclosing w1" "choices w1 = []" "rx_urbs w1 = rx_urbs w"
    using w2(4-7) Cons.prems(3,4)
    by (simp_all add: w1_def set_rxt_def rx_inv_def rx_frame_def)
  then obtain w3 b3 k3 where w3: "rx_run disp w1 (map (Pair 0) xss) = Some (set_rxt b3 k3 (rx_urbs w) w3)"
    "dispatch_all disp w1 (fst (scan (?l @ concat xss))) = Some w3"
    "take k3 b3 = snd (scan (?l @ concat xss))" "rx_inv (set_rxt b3 k3 (rx_urbs w) w3)"
    "rx_frame w1 w3"
    using Cons.IH [of w1] Cons.prems(5-7) app scan_settled [of ?d] left by auto
  then obtain w4 where w4: "dispatch_all disp w2 (fst (scan (?l @ concat xss))) = Some w4"
    "w3 = set_rxt b (length ?l) (rx_urbs w) w4"
    by (auto simp: w1_def dispatch_all_indep)
  have w34: "set_rxt b3 k3 (rx_urbs w) w3 = set_rxt b3 k3 (rx_urbs w) w4"
    unfolding w4(2) by (simp add: set_rxt_def)
  have "\<forall>f \<in> set (fst (scan (?l @ concat xss))). is_frame f \<and> ok f"
    using Cons.prems(7) unfolding app is_frame_def by (simp add: scan_frames)
  from dispatch_all_safe [OF w2(6) this] have "rx_frame w2 w4" using w4(1) by (elim exE) simp
  then have "rx_frame w w4" by (rule rx_frame_trans [OF w2(7)])
  moreover have "rx_run disp w (map (Pair 0) (xs # xss)) = Some (set_rxt b3 k3 (rx_urbs w) w4)"
    using w2(2) w3(1) by (simp only: list.map rx_run.simps w1 w34 bind.bind_lunit)
  moreover have "dispatch_all disp w (fst (scan (leftover w @ concat (xs # xss)))) = Some w4"
    using w2(1) w4(1) by (simp only: app fst_conv dispatch_all_append bind.bind_lunit)
  moreover have "take k3 b3 = snd (scan (leftover w @ concat (xs # xss)))"
    using w3(3) by (simp only: app snd_conv)
  moreover have "rx_inv (set_rxt b3 k3 (rx_urbs w) w4)" using w3(4) by (simp only: w34)
  ultimately show ?case by blast
qed

end

end
