(* ===== verification/Ct2a_Core.thy ===== *)
theory Ct2a_Core
  imports Rx
begin

text \<open>
  The receive handlers of the CAN interfaces: \<open>module/ap_ct2a/ap_ct2a_core.c\<close> (AP-CT2A) and
  \<open>module/ep1_ch02a/ep1_ch02a_core.c\<close> (EP1-CH02A), as built with \<open>SUPPORT_NETDEV\<close>.

  A received CAN frame goes to the ring buffer or to the network device. The handler copies
  \<open>dlc AND 15\<close> bytes into the eight data bytes of a classical frame, so it is safe only on frames
  whose length code is at most 8: that is the predicate \<open>can_frame_ok\<close> of the interpretations, and
  \<open>can_rx_overflow\<close> shows that a longer code writes behind the data.
\<close>

unbundle bit_operations_syntax

abbreviation (input) CAN_EFF_FLAG :: u32 where "CAN_EFF_FLAG \<equiv> 0x80000000"
abbreviation (input) CAN_RTR_FLAG :: u32 where "CAN_RTR_FLAG \<equiv> 0x40000000"
abbreviation (input) CAN_ERR_FLAG :: u32 where "CAN_ERR_FLAG \<equiv> 0x20000000"

definition init_stats :: "world \<Rightarrow> stats" where
  "init_stats w = \<lparr>st_kt = real_now w, st_timestamp = 0, st_num = 0, st_total_num = 0\<rparr>"

definition update_stats :: "world \<Rightarrow> nat \<Rightarrow> u32 \<Rightarrow> stats \<Rightarrow> stats" where
  "update_stats w now cnt s =
     (if cnt = 0 then s
      else \<lparr>st_kt = real_now w, st_timestamp = now, st_num = cnt - st_total_num s,
            st_total_num = cnt\<rparr>)"

text \<open>The payload of a received message goes to the ring buffer for the reader of the device file.\<close>

definition rx_to_file :: "world \<Rightarrow> msg \<Rightarrow> world option" where
  "rx_to_file w m = do {
     bs \<leftarrow> load (payload m) 0 (unat (payload_size m));
     (_, r) \<leftarrow> ringbuffer_write (rx_data w) bs;
     Some (emit Wake_rx (w\<lparr>rx_data := r\<rparr>))
   }"

text \<open>The payload is \<open>apt_usbtrx_payload_notify_recv_can_frame_t\<close>: timestamp, identifier, length
  code, data. \<open>alloc_can_skb\<close> returns a zeroed frame, or fails.\<close>

definition can_rx_can_msg :: "world \<Rightarrow> u8 list \<Rightarrow> world option" where
  "can_rx_can_msg w p =
     (if \<not> netdev_present w then Some w
      else let (ok, w) = may_fail w in
        if \<not> ok then Some w
        else do {
          t \<leftarrow> payload_timestamp p;
          cid \<leftarrow> load p 8 4;
          b \<leftarrow> load1 p 12;
          let dlc = b AND 0x0F;
          bs \<leftarrow> load p 13 (unat dlc);
          cf \<leftarrow> store (replicate 8 0) 0 bs;
          Some (emit (Net_rx (word_of_int (le_value cid)) dlc 0 cf
                        (timespec_to_ns (convert_timestamp_to_timespec64 t)))
                  (w\<lparr>rx_packets := rx_packets w + 1, rx_bytes := rx_bytes w + ucast dlc\<rparr>))
        })"

definition unique_can_dispatch_msg :: "world \<Rightarrow> u8 list \<Rightarrow> msg \<Rightarrow> (RESULT \<times> world) option" where
  "unique_can_dispatch_msg w data m =
     (if msg_id m = CMD_NotifyRecvCANFrame then
        (if if_type w = IF_FILE then do { w \<leftarrow> rx_to_file w m; Some (RESULT_Success, w) }
         else if if_type w = IF_NET then
           do { w \<leftarrow> can_rx_can_msg w (payload m); Some (RESULT_Success, w) }
         else Some (RESULT_Success, w))
      else if msg_id m = CMD_NotifyCANSummary then do {
        (result, cnt, frame) \<leftarrow> msg_parse_notify_recv_can_summary (payload m);
        if result \<noteq> RESULT_Success then Some (RESULT_Success, w)
        else let s = summary w; up = update_stats w (jiffies w) cnt;
                 s = (if can_id frame AND CAN_ERR_FLAG \<noteq> 0 then s\<lparr>err := up (err s)\<rparr>
                      else if can_id frame AND CAN_RTR_FLAG \<noteq> 0 then
                        (if can_id frame AND CAN_EFF_FLAG \<noteq> 0 then s\<lparr>rtr_ext := up (rtr_ext s)\<rparr>
                         else s\<lparr>rtr_std := up (rtr_std s)\<rparr>)
                      else
                        (if can_id frame AND CAN_EFF_FLAG \<noteq> 0 then s\<lparr>dat_ext := up (dat_ext s)\<rparr>
                         else s\<lparr>dat_std := up (dat_std s)\<rparr>)) in
          Some (RESULT_Success, w\<lparr>summary := s\<rparr>)
      }
      else if msg_id m = CMD_ResponseGetStatus then
        (if rxc_id w = CMD_GetStatus then do { w \<leftarrow> complete_rx w data m; Some (RESULT_Success, w) }
         else Some (RESULT_Success, w))
      else Some (RESULT_Failure, w))"

definition ch02a_dispatch_msg :: "world \<Rightarrow> u8 list \<Rightarrow> msg \<Rightarrow> (RESULT \<times> world) option" where
  "ch02a_dispatch_msg w data m =
     (if msg_id m = CH02A_CMD_ResponseGetBitTiming then
        (if rxc_id w = CH02A_CMD_GetBitTiming
         then do { w \<leftarrow> complete_rx w data m; Some (RESULT_Success, w) }
         else Some (RESULT_Success, w))
      else unique_can_dispatch_msg w data m)"

text \<open>The completion of a transmit URB: the statistics and the echoed frame.\<close>

definition unique_can_write_bulk_callback :: "world \<Rightarrow> world" where
  "unique_can_write_bulk_callback w =
     (if \<not> netdev_present w then w
      else emit Net_wake_queue (emit Net_echo
             (w\<lparr>tx_packets := tx_packets w + 1, tx_bytes := tx_bytes w + ucast (tx_data_size w)\<rparr>)))"

subsection \<open>Lemmas\<close>

lemma rx_frame_intros:
  "rx_frame w (w\<lparr>rx_data := r\<rparr>)" "rx_frame w (w\<lparr>rx_packets := a, rx_bytes := b\<rparr>)"
  "rx_frame w (w\<lparr>summary := s\<rparr>)" "rx_frame w (emit e w)" "rx_frame w (w\<lparr>iio_buffer := i\<rparr>)"
  "rx_frame w (w\<lparr>rx_store_data := r, received_store_data_size := z\<rparr>)" "rx_frame w (w\<lparr>rx_store_data := r\<rparr>)"
  "rx_frame w (w\<lparr>store_data_complete := c\<rparr>)"
  by (simp_all add: rx_frame_def emit_def)

lemma rx_inv_emit [simp]: "rx_inv (emit e w) = rx_inv w"
  by (simp add: rx_inv_def emit_def)

lemma may_fail_frame:
  "may_fail w = (ok, w') \<Longrightarrow> rx_frame w w' \<and> rx_inv w' = rx_inv w \<and> netdev_present w' = netdev_present w"
  by (auto simp: may_fail_def rx_frame_def rx_inv_def split: list.splits)

lemma may_fail_indep:
  "may_fail (set_rxt b k u w) = (fst (may_fail w), set_rxt b k u (snd (may_fail w)))"
  by (simp add: may_fail_def set_rxt_def split: list.splits)

lemma rx_to_file_safe:
  assumes "rx_inv w" and "msg_wf m" and "unat (payload_size m) \<le> 78"
  shows "\<exists>w'. rx_to_file w m = Some w' \<and> rx_inv w' \<and> rx_frame w w'"
proof -
  let ?bs = "take (unat (payload_size m)) (payload m)"
  have "load (payload m) 0 (unat (payload_size m)) = Some ?bs"
    using assms by (simp add: msg_wf_def load_def)
  moreover obtain k r where "ringbuffer_write (rx_data w) ?bs = Some (k, r)" "rb_inv r"
    using rbq.put_any [of "rx_data w" ?bs] assms(1) by (auto simp: rx_inv_def)
  ultimately show ?thesis using assms(1)
    by (simp add: rx_to_file_def rx_inv_def rx_frame_def emit_def)
qed

lemma rx_to_file_indep:
  "rx_to_file (set_rxt b k u w) m = map_option (set_rxt b k u) (rx_to_file w m)"
  by (auto simp: rx_to_file_def set_rxt_def emit_def split: bind_splits)

text \<open>Frames of the documented size with a valid length code.\<close>

definition can_frame_ok :: "u8 list \<Rightarrow> bool" where
  "can_frame_ok f \<longleftrightarrow> (f ! 2 = CMD_NotifyRecvCANFrame \<longrightarrow> length f = 25 \<and> unat (f ! 15 AND 0x0F) \<le> 8)"

lemma frame_payload:
  assumes "is_frame f" and "i + 4 < length f"
  shows "payload (frame_msg f m) ! i = f ! (3 + i)"
proof -
  have "length (seg f 3 (unat (f ! 1) - 1)) = length f - 4" "unat (f ! 1) = length f"
    using assms by (auto simp: is_frame_def)
  moreover have "i < length f - 4" using assms(2) by simp
  ultimately show ?thesis
    by (simp add: frame_msg_def nth_append seg_def)
qed

lemma can_rx_safe:
  assumes "rx_inv w" and "length p = 78" and "unat (p ! 12 AND 0x0F) \<le> 8"
  shows "\<exists>w'. can_rx_can_msg w p = Some w' \<and> rx_inv w' \<and> rx_frame w w'"
proof (cases "may_fail w")
  case (Pair ok w1)
  note f = may_fail_frame [OF Pair]
  let ?w2 = "w1\<lparr>rx_packets := a, rx_bytes := b\<rparr>"
  have "rx_inv (w1\<lparr>rx_packets := a, rx_bytes := b\<rparr>)" for a b
    using f assms(1) by (simp add: rx_inv_def)
  moreover have "rx_frame w (emit e (w1\<lparr>rx_packets := a, rx_bytes := b\<rparr>))" for e a b
    using f by (simp add: rx_frame_def emit_def)
  ultimately show ?thesis using f assms
    by (auto simp: can_rx_can_msg_def Pair payload_timestamp_def load_def load1_def store_def Let_def)
qed

lemma can_rx_indep:
  "can_rx_can_msg (set_rxt b k u w) p = map_option (set_rxt b k u) (can_rx_can_msg w p)"
proof -
  have "netdev_present (set_rxt b k u w) = netdev_present w"
    "emit e ((set_rxt b k u v)\<lparr>rx_packets := rx_packets v + 1, rx_bytes := rx_bytes v + x\<rparr>)
      = set_rxt b k u (emit e (v\<lparr>rx_packets := rx_packets v + 1, rx_bytes := rx_bytes v + x\<rparr>))"
    "rx_packets (set_rxt b k u v) = rx_packets v" "rx_bytes (set_rxt b k u v) = rx_bytes v" for e v x
    by (simp_all add: set_rxt_def emit_def)
  then show ?thesis
    by (cases "may_fail w")
      (auto simp: can_rx_can_msg_def may_fail_indep Let_def split: bind_splits)
qed

lemma frame_wf:
  assumes "is_frame f" and "msg_wf m"
  shows "msg_wf (frame_msg f m)" "unat (payload_size (frame_msg f m)) \<le> 78"
    "msg_id (frame_msg f m) = f ! 2" "length (payload (frame_msg f m)) = 78"
proof -
  have c: "classify f = RESULT_Success" using assms(1) by (simp add: is_frame_def)
  show "msg_wf (frame_msg f m)" using frame_msg_bytes(2) [OF c assms(2)] .
  then show "length (payload (frame_msg f m)) = 78" by (simp add: msg_wf_def)
  show "unat (payload_size (frame_msg f m)) \<le> 78"
    using frame_msg_bytes(3) [OF c assms(2)] classify_success(3) [OF c] by simp
qed (simp add: frame_msg_def)

lemma complete_frame:
  assumes "rx_inv w" and "is_frame f"
  shows "\<exists>w'. complete_rx w f (frame_msg f m) = Some w' \<and> rx_inv w' \<and> rx_frame w w'"
  using complete_rx_safe [OF assms(1) frame_length [OF assms(2)]] .

lemma unique_can_safe:
  assumes inv: "rx_inv w" and f: "is_frame f" and ok: "can_frame_ok f" and m: "msg_wf m"
  shows "\<exists>r w'. unique_can_dispatch_msg w f (frame_msg f m) = Some (r, w') \<and> rx_inv w' \<and> rx_frame w w'"
proof -
  let ?m = "frame_msg f m"
  note wf = frame_wf [OF f m]
  consider (recv) "f ! 2 = CMD_NotifyRecvCANFrame" | (sum) "f ! 2 = CMD_NotifyCANSummary"
    | (status) "f ! 2 = CMD_ResponseGetStatus"
    | (other) "f ! 2 \<notin> {CMD_NotifyRecvCANFrame, CMD_NotifyCANSummary, CMD_ResponseGetStatus}" by blast
  then show ?thesis
  proof cases
    case recv
    then have "length f = 25" "unat (f ! 15 AND 0x0F) \<le> 8" using ok by (simp_all add: can_frame_ok_def)
    then have "unat (payload ?m ! 12 AND 0x0F) \<le> 8" using frame_payload [OF f, of 12 m] by simp
    then show ?thesis
      using recv wf inv rx_to_file_safe [OF inv wf(1,2)] can_rx_safe [OF inv wf(4)]
      by (cases "if_type w") (auto simp: unique_can_dispatch_msg_def)
  next
    case sum
    have "rx_inv (w\<lparr>summary := s\<rparr>)" for s using inv by (simp add: rx_inv_def)
    then show ?thesis using sum wf
      by (simp add: unique_can_dispatch_msg_def msg_parse_notify_recv_can_summary_def load_def
          load1_def Let_def rx_frame_intros)
  next
    case status
    then show ?thesis using wf inv complete_frame [OF inv f, of m]
      by (auto simp: unique_can_dispatch_msg_def)
  next
    case other
    then show ?thesis using wf inv by (simp add: unique_can_dispatch_msg_def)
  qed
qed

lemma set_rxt_sel [simp]:
  "if_type (set_rxt b k u w) = if_type w" "rxc_id (set_rxt b k u w) = rxc_id w"
  "summary (set_rxt b k u w) = summary w" "jiffies (set_rxt b k u w) = jiffies w"
  "update_stats (set_rxt b k u w) = update_stats w"
  "(set_rxt b k u w)\<lparr>summary := s\<rparr> = set_rxt b k u (w\<lparr>summary := s\<rparr>)"
  by (simp_all add: set_rxt_def update_stats_def fun_eq_iff)

lemma unique_can_indep:
  "unique_can_dispatch_msg (set_rxt b k u w) f m
     = map_option (\<lambda>(r, w'). (r, set_rxt b k u w')) (unique_can_dispatch_msg w f m)"
  by (cases "rx_to_file w m"; cases "can_rx_can_msg w (payload m)"; cases "complete_rx w f m";
      cases "msg_parse_notify_recv_can_summary (payload m)")
    (simp_all add: unique_can_dispatch_msg_def rx_to_file_indep can_rx_indep complete_rx_indep
      Let_def split_def)

subsection \<open>Interpretations\<close>

interpretation ct2a: rx_device unique_can_dispatch_msg can_frame_ok
proof
  fix f rest :: "u8 list" and m :: msg and w assume "length f = unat (payload_size m) + 4"
  then show "unique_can_dispatch_msg w (f @ rest) m = unique_can_dispatch_msg w f m"
    by (simp add: unique_can_dispatch_msg_def complete_rx_prefix)
qed (simp_all add: unique_can_safe unique_can_indep)

interpretation ch02a: rx_device ch02a_dispatch_msg can_frame_ok
proof
  fix f rest :: "u8 list" and m :: msg and w assume "length f = unat (payload_size m) + 4"
  then show "ch02a_dispatch_msg w (f @ rest) m = ch02a_dispatch_msg w f m"
    by (simp add: ch02a_dispatch_msg_def complete_rx_prefix ct2a.disp_prefix)
next
  fix w f m assume "rx_inv w" "is_frame f" "can_frame_ok f" "msg_wf m"
  then show "\<exists>r w'. ch02a_dispatch_msg w f (frame_msg f m) = Some (r, w') \<and> rx_inv w' \<and> rx_frame w w'"
    using complete_frame [of w f m] unique_can_safe [of w f m]
    by (auto simp: ch02a_dispatch_msg_def)
next
  fix b k u w f m
  show "ch02a_dispatch_msg (set_rxt b k u w) f m
      = map_option (\<lambda>(r, w'). (r, set_rxt b k u w')) (ch02a_dispatch_msg w f m)"
    by (cases "complete_rx w f m")
      (simp_all add: ch02a_dispatch_msg_def unique_can_indep complete_rx_indep)
qed

end
