(* ===== verification/Ag08a_Core.thy ===== *)
theory Ag08a_Core
  imports Ct2a_Core
begin

text \<open>
  The receive handler of the EP1-AG08A: \<open>module/ep1_ag08a/ep1_ag08a_core.c\<close>. Samples go to the ring
  buffer or, through the 24-byte buffer of the IIO device, to the IIO core. The handler is safe on
  every message, also on one that is too short or too long.
\<close>

text \<open>\<open>data_size\<close> is an \<open>int\<close> compared with a \<open>size_t\<close>: a negative one counts as too large.\<close>

definition ag08a_iio_data_copy :: "msg \<Rightarrow> u8 list \<Rightarrow> u8 list option" where
  "ag08a_iio_data_copy m buf =
     (let exclude_size = 8 + 1; psize = unat (payload_size m) in
      if exclude_size \<le> psize \<and> psize - exclude_size \<le> 24
      then do { bs \<leftarrow> load (payload m) exclude_size (psize - exclude_size); store buf 0 bs }
      else Some buf)"

definition ag08a_dispatch_msg :: "world \<Rightarrow> u8 list \<Rightarrow> msg \<Rightarrow> (RESULT \<times> world) option" where
  "ag08a_dispatch_msg w data m =
     (if msg_id m = AG08A_CMD_NotifyAnalogInput then
        (if if_type w = IF_FILE then do { w \<leftarrow> rx_to_file w m; Some (RESULT_Success, w) }
         else if if_type w = IF_IIO then do {
           buf \<leftarrow> ag08a_iio_data_copy m (iio_buffer w);
           let w = w\<lparr>iio_buffer := buf\<rparr>;
           t \<leftarrow> payload_timestamp (payload m);
           let time_ns = (if hw_timestamp w
                 then uint (ts_sec t) * 1000000000 + uint (ts_usec t) * 1000 else iio_now w);
           Some (RESULT_Success, emit (Iio_push (iio_buffer w) time_ns) w)
         }
         else Some (RESULT_Success, w))
      else if msg_id m = AG08A_CMD_ResponseGetStatus then
        (if rxc_id w = AG08A_CMD_GetStatus
         then do { w \<leftarrow> complete_rx w data m; Some (RESULT_Success, w) }
         else Some (RESULT_Success, w))
      else Some (RESULT_Failure, w))"

definition ag08a_write_bulk_callback :: "world \<Rightarrow> world" where
  "ag08a_write_bulk_callback w = w"

lemma iio_data_copy_safe:
  assumes "length (payload m) = 78" and "length buf = 24"
  shows "\<exists>buf'. ag08a_iio_data_copy m buf = Some buf' \<and> length buf' = 24"
  using assms by (auto simp: ag08a_iio_data_copy_def load_def store_def Let_def)

lemma ag08a_safe:
  assumes inv: "rx_inv w" and f: "is_frame f" and m: "msg_wf m"
  shows "\<exists>r w'. ag08a_dispatch_msg w f (frame_msg f m) = Some (r, w') \<and> rx_inv w' \<and> rx_frame w w'"
proof -
  note wf = frame_wf [OF f m]
  have "length (iio_buffer w) = 24" using inv by (simp add: rx_inv_def)
  then obtain buf where buf: "ag08a_iio_data_copy (frame_msg f m) (iio_buffer w) = Some buf" "length buf = 24"
    using iio_data_copy_safe [OF wf(4)] by blast
  then have "rx_inv (w\<lparr>iio_buffer := buf\<rparr>)" using inv by (simp add: rx_inv_def)
  moreover have "rx_frame w (emit e (w\<lparr>iio_buffer := buf\<rparr>))" for e
    by (simp add: rx_frame_def emit_def)
  moreover obtain t where "payload_timestamp (payload (frame_msg f m)) = Some t"
    using wf(4) by (simp add: payload_timestamp_def load_def)
  ultimately show ?thesis
    using buf(1) inv rx_to_file_safe [OF inv wf(1,2)] complete_frame [OF inv f, of m]
    by (auto simp: ag08a_dispatch_msg_def Let_def)
qed

lemma ag08a_indep:
  "ag08a_dispatch_msg (set_rxt b k u w) f m
     = map_option (\<lambda>(r, w'). (r, set_rxt b k u w')) (ag08a_dispatch_msg w f m)"
proof -
  have "iio_buffer (set_rxt b k u v) = iio_buffer v" "hw_timestamp (set_rxt b k u v) = hw_timestamp v"
    "iio_now (set_rxt b k u v) = iio_now v"
    "emit e ((set_rxt b k u v)\<lparr>iio_buffer := i\<rparr>) = set_rxt b k u (emit e (v\<lparr>iio_buffer := i\<rparr>))" for e i v
    by (simp_all add: set_rxt_def emit_def)
  then show ?thesis
    by (cases "rx_to_file w m"; cases "complete_rx w f m"; cases "ag08a_iio_data_copy m (iio_buffer w)";
        cases "payload_timestamp (payload m)")
      (simp_all add: ag08a_dispatch_msg_def rx_to_file_indep complete_rx_indep Let_def)
qed

interpretation ag08a: rx_device ag08a_dispatch_msg "\<lambda>f. True"
proof
  fix f rest :: "u8 list" and m :: msg and w assume "length f = unat (payload_size m) + 4"
  then show "ag08a_dispatch_msg w (f @ rest) m = ag08a_dispatch_msg w f m"
    by (simp add: ag08a_dispatch_msg_def complete_rx_prefix)
qed (simp_all add: ag08a_safe ag08a_indep)

end
