(* ===== verification/Cf02a_Core.thy ===== *)
theory Cf02a_Core
  imports Ct2a_Core
begin

text \<open>
  The receive handler of the EP1-CF02A: \<open>module/ep1_cf02a/ep1_cf02a_core.c\<close>, as built with
  \<open>SUPPORT_NETDEV\<close> on a kernel from 5.14 on. Classical and FD frames go to the network device with
  a time stamp relative to the reset; the frames of a stored recording go to a ring buffer of their
  own. As for the AP-CT2A, a classical frame with a length code above 8 is copied over the end of
  its eight data bytes, which the predicate \<open>canfd_frame_ok\<close> excludes.
\<close>

unbundle bit_operations_syntax

abbreviation (input) CF02A_CMD_NotifyRecvCANFrame :: u8 where "CF02A_CMD_NotifyRecvCANFrame \<equiv> 0x3B"
abbreviation (input) CF02A_CMD_NotifyStoreDataRecvCanFrame :: u8 where
  "CF02A_CMD_NotifyStoreDataRecvCanFrame \<equiv> 0x49"
abbreviation (input) CF02A_CMD_NotifyStoreDataRecvCanFrameComplete :: u8 where
  "CF02A_CMD_NotifyStoreDataRecvCanFrameComplete \<equiv> 0x81"

definition cf02a_dispatch_msg_common_response :: "world \<Rightarrow> u8 list \<Rightarrow> msg \<Rightarrow> u8 \<Rightarrow> world option" where
  "cf02a_dispatch_msg_common_response w data m request_id =
     (if rxc_id w = request_id then complete_rx w data m else Some w)"

text \<open>The payload is \<open>ep1_cf02a_payload_notify_recv_can_frame_t\<close>: timestamp, identifier, length code,
  flags, data. The frame flags are BRS, ESI and FDF, from the lowest bit, as in the kernel.\<close>

definition cf02a_rx_can_msg :: "world \<Rightarrow> u8 list \<Rightarrow> world option" where
  "cf02a_rx_can_msg w p =
     (if \<not> netdev_present w then Some w
      else do {
        t \<leftarrow> payload_timestamp p;
        let ts = timespec_to_ns (convert_timestamp_to_timespec64 t) - timespec_to_ns (reset_ts w);
        flags \<leftarrow> load1 p 13;
        let (ok, w) = may_fail w;
        if \<not> ok then Some w
        else do {
          cid \<leftarrow> load p 8 4;
          dlc \<leftarrow> load1 p 12;
          if flags AND 4 \<noteq> 0 then do {
            let len = can_fd_dlc2len w (dlc AND 0x0F);
            bs \<leftarrow> load p 14 len;
            cfd \<leftarrow> store (replicate 64 0) 0 bs;
            let cfd_flags = (if flags AND 1 \<noteq> 0 then 1 else 0) OR (if flags AND 2 \<noteq> 0 then 2 else 0) OR 4;
            Some (emit (Net_rx (word_of_int (le_value cid)) (of_nat len) cfd_flags cfd ts)
              (w\<lparr>rx_packets := rx_packets w + 1, rx_bytes := rx_bytes w + of_nat len\<rparr>))
          }
          else do {
            let can_dlc = dlc AND 0x0F;
            bs \<leftarrow> load p 14 (unat can_dlc);
            cf \<leftarrow> store (replicate 8 0) 0 bs;
            Some (emit (Net_rx (word_of_int (le_value cid)) can_dlc 0 cf ts)
              (w\<lparr>rx_packets := rx_packets w + 1, rx_bytes := rx_bytes w + ucast can_dlc\<rparr>))
          }
        }
      })"

text \<open>The request each response of the device answers.\<close>

definition cf02a_request_of_response :: "u8 \<Rightarrow> u8 option" where
  "cf02a_request_of_response i = map_of
     [(0x61, 0x31), (0x7D, 0x4D), (0x63, 0x33), (0x65, 0x35), (0x67, 0x37), (0x69, 0x39),
      (0x6D, 0x3D), (0x6E, 0x3E), (0x72, 0x42), (0x73, 0x43), (0x74, 0x44), (0x75, 0x45),
      (0x76, 0x46), (0x78, 0x48), (0x7E, 0x4F), (0x95, 0x85), (0xF0, 0xE0), (0x92, 0x82)] i"

definition cf02a_dispatch_msg :: "world \<Rightarrow> u8 list \<Rightarrow> msg \<Rightarrow> (RESULT \<times> world) option" where
  "cf02a_dispatch_msg w data m =
     (if msg_id m = CF02A_CMD_NotifyRecvCANFrame then
        (if if_type w = IF_FILE then do { w \<leftarrow> rx_to_file w m; Some (RESULT_Success, w) }
         else if if_type w = IF_NET then
           do { w \<leftarrow> cf02a_rx_can_msg w (payload m); Some (RESULT_Success, w) }
         else Some (RESULT_Success, w))
      else if msg_id m = CF02A_CMD_NotifyStoreDataRecvCanFrame then do {
        bs \<leftarrow> load (payload m) 0 (unat (payload_size m));
        (write_size, r) \<leftarrow> ringbuffer_write (rx_store_data w) bs;
        let w = w\<lparr>rx_store_data := r\<rparr>;
        let w = (if write_size > 0
          then w\<lparr>received_store_data_size := received_store_data_size w + write_size\<rparr> else w);
        Some (RESULT_Success, emit Wake_store w)
      }
      else if msg_id m = CF02A_CMD_NotifyStoreDataRecvCanFrameComplete then
        Some (RESULT_Success, emit Wake_store (w\<lparr>store_data_complete := True\<rparr>))
      else case cf02a_request_of_response (msg_id m) of
        Some request_id \<Rightarrow> do {
          w \<leftarrow> cf02a_dispatch_msg_common_response w data m request_id;
          Some (RESULT_Success, w)
        }
      | None \<Rightarrow> Some (RESULT_Failure, w))"

definition cf02a_write_bulk_callback :: "world \<Rightarrow> world" where
  "cf02a_write_bulk_callback w =
     (if \<not> netdev_present w then w
      else emit Net_wake_queue (emit Net_echo
             (w\<lparr>tx_packets := tx_packets w + 1, tx_bytes := tx_bytes w + ucast (tx_data_size w)\<rparr>)))"

subsection \<open>Lemmas\<close>

definition canfd_frame_ok :: "u8 list \<Rightarrow> bool" where
  "canfd_frame_ok f \<longleftrightarrow> (f ! 2 = CF02A_CMD_NotifyRecvCANFrame \<longrightarrow>
     length f = 82 \<and> (f ! 16 AND 4 \<noteq> 0 \<or> unat (f ! 15 AND 0x0F) \<le> 8))"

lemma cf02a_rx_can_safe:
  assumes "rx_inv w" and "length p = 78" and "p ! 13 AND 4 \<noteq> 0 \<or> unat (p ! 12 AND 0x0F) \<le> 8"
  shows "\<exists>w'. cf02a_rx_can_msg w p = Some w' \<and> rx_inv w' \<and> rx_frame w w'"
proof (cases "may_fail w")
  case (Pair ok w1)
  note f = may_fail_frame [OF Pair]
  have inv: "rx_inv (w1\<lparr>rx_packets := a, rx_bytes := b\<rparr>)" for a b
    using f assms(1) by (simp add: rx_inv_def)
  have fr: "rx_frame w (emit e (w1\<lparr>rx_packets := a, rx_bytes := b\<rparr>))" for e a b
    using f by (simp add: rx_frame_def emit_def)
  have len: "can_fd_dlc2len w1 d \<le> 64" for d using f assms(1) by (simp add: rx_inv_def)
  show ?thesis
  proof (cases "p ! 13 AND 4 \<noteq> 0")
    case True
    then show ?thesis using f inv fr len assms(1,2)
      by (auto simp: cf02a_rx_can_msg_def Pair payload_timestamp_def load_def load1_def store_def Let_def)
  next
    case False
    then show ?thesis using f inv fr assms
      by (auto simp: cf02a_rx_can_msg_def Pair payload_timestamp_def load_def load1_def store_def Let_def)
  qed
qed

lemma cf02a_rx_can_indep:
  "cf02a_rx_can_msg (set_rxt b k u w) p = map_option (set_rxt b k u) (cf02a_rx_can_msg w p)"
proof -
  have "netdev_present (set_rxt b k u w) = netdev_present w" "reset_ts (set_rxt b k u w) = reset_ts w"
    "emit e ((set_rxt b k u v)\<lparr>rx_packets := rx_packets v + 1, rx_bytes := rx_bytes v + x\<rparr>)
      = set_rxt b k u (emit e (v\<lparr>rx_packets := rx_packets v + 1, rx_bytes := rx_bytes v + x\<rparr>))"
    "rx_packets (set_rxt b k u v) = rx_packets v" "rx_bytes (set_rxt b k u v) = rx_bytes v"
    "can_fd_dlc2len (set_rxt b k u v) = can_fd_dlc2len v" for e v x
    by (simp_all add: set_rxt_def emit_def)
  then show ?thesis
    by (cases "may_fail w"; cases "payload_timestamp p"; cases "load1 p 13"; cases "load p 8 4";
        cases "load1 p 12")
      (auto simp: cf02a_rx_can_msg_def may_fail_indep Let_def split: bind_splits)
qed

lemma cf02a_safe:
  assumes inv: "rx_inv w" and f: "is_frame f" and ok: "canfd_frame_ok f" and m: "msg_wf m"
  shows "\<exists>r w'. cf02a_dispatch_msg w f (frame_msg f m) = Some (r, w') \<and> rx_inv w' \<and> rx_frame w w'"
proof -
  let ?m = "frame_msg f m"
  note wf = frame_wf [OF f m]
  consider (recv) "f ! 2 = 0x3B" | (st) "f ! 2 = 0x49" | (complete) "f ! 2 = 0x81"
    | (resp) "f ! 2 \<notin> {0x3B, 0x49, 0x81}" by blast
  then show ?thesis
  proof cases
    case recv
    then have "length f = 82" "f ! 16 AND 4 \<noteq> 0 \<or> unat (f ! 15 AND 0x0F) \<le> 8"
      using ok by (simp_all add: canfd_frame_ok_def)
    then have "payload ?m ! 13 AND 4 \<noteq> 0 \<or> unat (payload ?m ! 12 AND 0x0F) \<le> 8"
      using frame_payload [OF f, of 12 m] frame_payload [OF f, of 13 m] by simp
    then show ?thesis
      using recv wf inv rx_to_file_safe [OF inv wf(1,2)] cf02a_rx_can_safe [OF inv wf(4)]
      by (cases "if_type w") (auto simp: cf02a_dispatch_msg_def)
  next
    case st
    let ?bs = "take (unat (payload_size ?m)) (payload ?m)"
    have "load (payload ?m) 0 (unat (payload_size ?m)) = Some ?bs"
      using wf by (simp add: load_def)
    moreover obtain k r where "ringbuffer_write (rx_store_data w) ?bs = Some (k, r)" "rb_inv r"
      using rbq.put_any [of "rx_store_data w" ?bs] inv by (auto simp: rx_inv_def)
    ultimately show ?thesis using st wf inv
      by (simp add: cf02a_dispatch_msg_def rx_inv_def rx_frame_def emit_def Let_def)
  next
    case complete
    have "rx_inv (w\<lparr>store_data_complete := True\<rparr>)" using inv by (simp add: rx_inv_def)
    then show ?thesis using complete wf
      by (simp add: cf02a_dispatch_msg_def) (simp add: rx_frame_def emit_def)
  next
    case resp
    then show ?thesis using wf inv complete_frame [OF inv f, of m]
      by (cases "cf02a_request_of_response (f ! 2)")
        (auto simp: cf02a_dispatch_msg_def cf02a_dispatch_msg_common_response_def)
  qed
qed

lemma cf02a_indep:
  "cf02a_dispatch_msg (set_rxt b k u w) f m
     = map_option (\<lambda>(r, w'). (r, set_rxt b k u w')) (cf02a_dispatch_msg w f m)"
proof -
  have st: "rx_store_data (set_rxt b k u w) = rx_store_data w"
    "received_store_data_size (set_rxt b k u w) = received_store_data_size w"
    "emit e ((set_rxt b k u w)\<lparr>store_data_complete := c\<rparr>) = set_rxt b k u (emit e (w\<lparr>store_data_complete := c\<rparr>))"
    "emit e ((set_rxt b k u w)\<lparr>rx_store_data := r\<rparr>) = set_rxt b k u (emit e (w\<lparr>rx_store_data := r\<rparr>))"
    "emit e ((set_rxt b k u w)\<lparr>rx_store_data := r, received_store_data_size := z\<rparr>)
       = set_rxt b k u (emit e (w\<lparr>rx_store_data := r, received_store_data_size := z\<rparr>))" for e c r z
    by (simp_all add: set_rxt_def emit_def)
  have common: "cf02a_dispatch_msg_common_response (set_rxt b k u w) f m i
      = map_option (set_rxt b k u) (cf02a_dispatch_msg_common_response w f m i)" for i
    by (simp add: cf02a_dispatch_msg_common_response_def complete_rx_indep)
  show ?thesis
  proof (cases "msg_id m = 0x49")
    case True
    then show ?thesis
      by (auto simp: cf02a_dispatch_msg_def st Let_def split: bind_splits)
  next
    case False
    then show ?thesis
      by (cases "rx_to_file w m"; cases "cf02a_rx_can_msg w (payload m)";
          cases "cf02a_request_of_response (msg_id m)")
        (auto simp: cf02a_dispatch_msg_def rx_to_file_indep cf02a_rx_can_indep common st
          split: bind_splits)
  qed
qed

interpretation cf02a: rx_device cf02a_dispatch_msg canfd_frame_ok
proof
  fix f rest :: "u8 list" and m :: msg and w assume "length f = unat (payload_size m) + 4"
  then show "cf02a_dispatch_msg w (f @ rest) m = cf02a_dispatch_msg w f m"
    by (simp add: cf02a_dispatch_msg_def cf02a_dispatch_msg_common_response_def complete_rx_prefix
        split: option.split)
qed (simp_all add: cf02a_safe cf02a_indep)

end
