(* ===== verification/Products.thy ===== *)
theory Products
  imports Ag08a_Core Cf02a_Core
begin

text \<open>
  The choice of a product's handlers by \<open>apt_usbtrx_init_function\<close> of
  \<open>module/apt_usbtrx_main.c\<close>, the interface \<open>rx_device\<close> for all of them at once, and the
  properties of the receive path of the whole driver.
\<close>

unbundle bit_operations_syntax

abbreviation (input) AP_CT2A_PRODUCT_ID :: u16 where "AP_CT2A_PRODUCT_ID \<equiv> 0x0100"
abbreviation (input) AP_CT2A_DEVP_PRODUCT_ID :: u16 where "AP_CT2A_DEVP_PRODUCT_ID \<equiv> 0x5740"
abbreviation (input) EP1_CH02A_PRODUCT_ID :: u16 where "EP1_CH02A_PRODUCT_ID \<equiv> 0x0105"
abbreviation (input) EP1_CF02A_PRODUCT_ID :: u16 where "EP1_CF02A_PRODUCT_ID \<equiv> 0x0101"
abbreviation (input) EP1_AG08A_PRODUCT_ID :: u16 where "EP1_AG08A_PRODUCT_ID \<equiv> 0x102"

datatype device_type = DEVICE_TYPE_CAN | DEVICE_TYPE_ANALOG | DEVICE_TYPE_CAN_FD

definition init_function :: "u16 \<Rightarrow> product option" where
  "init_function product_id =
     (if product_id = AP_CT2A_PRODUCT_ID \<or> product_id = AP_CT2A_DEVP_PRODUCT_ID then Some CT2A
      else if product_id = EP1_CH02A_PRODUCT_ID then Some CH02A
      else if product_id = EP1_CF02A_PRODUCT_ID then Some CF02A
      else if product_id = EP1_AG08A_PRODUCT_ID then Some AG08A
      else None)"

definition device_type_of :: "product \<Rightarrow> device_type" where
  "device_type_of p = (case p of CT2A \<Rightarrow> DEVICE_TYPE_CAN | CH02A \<Rightarrow> DEVICE_TYPE_CAN
     | CF02A \<Rightarrow> DEVICE_TYPE_CAN_FD | AG08A \<Rightarrow> DEVICE_TYPE_ANALOG)"

text \<open>The sizes of the receive ring buffers.\<close>

definition rx_data_size_of :: "product \<Rightarrow> nat" where
  "rx_data_size_of p = (case p of CT2A \<Rightarrow> 4 * 1024 | CH02A \<Rightarrow> 4 * 1024
     | CF02A \<Rightarrow> 128 * 4 * 1024 | AG08A \<Rightarrow> 64 * 1024)"

text \<open>\<open>unique_func.dispatch_msg\<close>\<close>

definition dispatch_of :: "product \<Rightarrow> world \<Rightarrow> u8 list \<Rightarrow> msg \<Rightarrow> (RESULT \<times> world) option" where
  "dispatch_of p = (case p of CT2A \<Rightarrow> unique_can_dispatch_msg | CH02A \<Rightarrow> ch02a_dispatch_msg
     | CF02A \<Rightarrow> cf02a_dispatch_msg | AG08A \<Rightarrow> ag08a_dispatch_msg)"

definition is_support_revision_command :: "device_type \<Rightarrow> int \<Rightarrow> int \<Rightarrow> bool" where
  "is_support_revision_command t major minor = (case t of
     DEVICE_TYPE_CAN \<Rightarrow> major > 2 \<or> (major = 2 \<and> minor \<ge> 2)
   | DEVICE_TYPE_ANALOG \<Rightarrow> True | DEVICE_TYPE_CAN_FD \<Rightarrow> True)"

text \<open>The frames a product's handler is safe on.\<close>

definition frame_ok_of :: "product \<Rightarrow> u8 list \<Rightarrow> bool" where
  "frame_ok_of p = (case p of CT2A \<Rightarrow> can_frame_ok | CH02A \<Rightarrow> can_frame_ok
     | CF02A \<Rightarrow> canfd_frame_ok | AG08A \<Rightarrow> (\<lambda>f. True))"

lemma rx_device_of: "rx_device (dispatch_of p) (frame_ok_of p)"
  by (cases p)
    (simp_all add: dispatch_of_def frame_ok_of_def ct2a.rx_device_axioms ch02a.rx_device_axioms
      cf02a.rx_device_axioms ag08a.rx_device_axioms)

interpretation any: rx_device "dispatch_of p" "frame_ok_of p" for p
  by (rule rx_device_of)

subsection \<open>A state to start from\<close>

definition rb_empty :: "nat \<Rightarrow> ringbuffer" where
  "rb_empty n = \<lparr>buffer = replicate n 0, buffer_size = n, begin_p = 0, end_p = n, read_p = 0,
     write_p = 0, skip_count = 0, log_write_buffer_is_full = True\<rparr>"

definition stats0 :: stats where
  "stats0 = \<lparr>st_kt = 0, st_timestamp = 0, st_num = 0, st_total_num = 0\<rparr>"

definition can_bittiming0 :: can_bittiming where
  "can_bittiming0 = \<lparr>cb_bitrate = 0, cb_sample_point = 0, cb_tq = 0, cb_prop_seg = 0, cb_phase_seg1 = 0,
     cb_phase_seg2 = 0, cb_sjw = 0, cb_brp = 0\<rparr>"

definition world0 :: "product \<Rightarrow> world" where
  "world0 p =
    \<lparr>choices = [], incoming = [], device_fw = (\<lambda>_. []), deadline = 0, sent = [], events = [],
     stack_msg = \<lparr>msg_id = 0, payload = replicate 78 0, payload_size = 0\<rparr>,
     jiffies = 0, mono_now = \<lparr>tv_sec = 0, tv_nsec = 0\<rparr>, raw_now = \<lparr>tv_sec = 0, tv_nsec = 0\<rparr>,
     real_now = 0, iio_now = 0, can_fd_dlc2len = (\<lambda>d. min 8 (unat d)),
     product = p, rx_data = rb_empty 64, tx_data = rb_empty 256,
     rxt_buffer = replicate 2048 0, rxt_data_size = 0, rxc_id = 0, rxc_buffer = replicate 1024 0,
     rxc_data_size = 0, rxc_done = 0, rx_urbs = 4, rx_ongoing = True, onopening = False,
     onclosing = False, clock_monotonic = False, basetime = \<lparr>tv_sec = 0, tv_nsec = 0\<rparr>,
     resettime = \<lparr>tv_sec = 0, tv_nsec = 0\<rparr>, fw_count = 0, send_msg_sem = 1,
     tx_usb_transfer_sem = 4, tx_data_clear_requested = False, tx_transfer_expired = 0,
     tx_transfer_max_token = 16, tx_transfer_token = 16, tx_buffer_rate = 0, ch = 0,
     serial_no = replicate 15 0, sync_pulse = 0, fw_major = 0, fw_minor = 0, fw_revision = 0,
     timestamp_mode = 0, rx_rbmsg = replicate 64 0, rx_done = 0,
     if_type = IF_FILE, netdev_present = True,
     summary = \<lparr>dat_std = stats0, dat_ext = stats0, rtr_std = stats0, rtr_ext = stats0, err = stats0\<rparr>,
     rx_packets = 0, rx_bytes = 0, tx_packets = 0, tx_bytes = 0, tx_data_size = 0,
     hw_timestamp = True, iio_buffer = replicate 24 0, rx_store_data = rb_empty 64,
     received_store_data_size = 0, store_data_complete = False,
     reset_ts = \<lparr>tv_sec = 0, tv_nsec = 0\<rparr>, ctrlmode = 0, can_bt = can_bittiming0,
     can_data_bt = can_bittiming0, candev_state = CAN_STATE_STOPPED, fw_rx_dropped = 0, file_open_count = 0,
     frames_per_request = 420, rx_store_data_done = 0, is_store_data_enabled = False,
     on_terminating = False\<rparr>"

lemma rb_empty_inv: "rb_inv (rb_empty n)" "rb_bytes (rb_empty n) = []"
  by (simp_all add: rb_empty_def rb_inv_def rb_bytes_def)

lemma world0_inv: "rx_inv (world0 p)"
  by (auto simp: world0_def rx_inv_def rb_empty_inv msg_wf_def intro: min.coboundedI1)

lemma world0_sel [simp]:
  "leftover (world0 p) = []" "onclosing (world0 p) = False" "choices (world0 p) = []"
  "rx_urbs (world0 p) = 4" "rx_ongoing (world0 p) = True" "product (world0 p) = p"
  by (simp_all add: world0_def leftover_def)

subsection \<open>Properties\<close>

text \<open>C1: what the receive path does depends on the stream of bytes only. However the stream is cut into
  bulk transfers (of at most \<open>RX_BUFFER_SIZE\<close> bytes each), the completion handler dispatches, in
  order, exactly the messages that \<open>scan\<close> finds in the bytes left over before followed by the
  stream, no access leaves a buffer, and the same unfinished bytes are kept for the next transfer.
  The hypothesis on the frames excludes malformed CAN frames, on which the handlers of the CAN
  products overflow; it is void for the EP1-AG08A.\<close>

theorem receive_chunking_independent:
  assumes "rx_inv w" and "scan (leftover w) = ([], leftover w)" and "\<not> onclosing w"
    and "choices w = []" and "0 < rx_urbs w"
    and "concat yss = concat xss"
    and "\<forall>xs \<in> set xss. length xs \<le> RX_BUFFER_SIZE" and "\<forall>ys \<in> set yss. length ys \<le> RX_BUFFER_SIZE"
    and "\<forall>f \<in> set (fst (scan (leftover w @ concat xss))). frame_ok_of p f"
  shows "\<exists>w2 b k b' k'.
      dispatch_all (dispatch_of p) w (fst (scan (leftover w @ concat xss))) = Some w2
    \<and> rx_run (dispatch_of p) w (map (Pair 0) xss)
        = Some (w2\<lparr>rxt_buffer := b, rxt_data_size := k, rx_urbs := rx_urbs w\<rparr>)
    \<and> rx_run (dispatch_of p) w (map (Pair 0) yss)
        = Some (w2\<lparr>rxt_buffer := b', rxt_data_size := k', rx_urbs := rx_urbs w\<rparr>)
    \<and> take k b = snd (scan (leftover w @ concat xss)) \<and> take k' b' = take k b"
proof -
  obtain w2 b k where 1: "rx_run (dispatch_of p) w (map (Pair 0) xss) = Some (set_rxt b k (rx_urbs w) w2)"
    "dispatch_all (dispatch_of p) w (fst (scan (leftover w @ concat xss))) = Some w2"
    "take k b = snd (scan (leftover w @ concat xss))"
    using any.rx_run_scan [OF assms(1-5,7,9)] by blast
  obtain w2' b' k' where 2: "rx_run (dispatch_of p) w (map (Pair 0) yss) = Some (set_rxt b' k' (rx_urbs w) w2')"
    "dispatch_all (dispatch_of p) w (fst (scan (leftover w @ concat xss))) = Some w2'"
    "take k' b' = snd (scan (leftover w @ concat xss))"
    using any.rx_run_scan [OF assms(1-5,8), unfolded assms(6), OF assms(9)] by blast
  have "w2' = w2" using 1(2) 2(2) by simp
  then show ?thesis using 1 2 unfolding set_rxt_def by metis
qed

lemma receive_chunking_independent_witness:
  "\<exists>w2 b k b' k'.
      dispatch_all (dispatch_of AG08A) (world0 AG08A) (fst (scan [0, 0xF7, 5, 0x28, 50, 0xFA, 0xF7])) = Some w2
    \<and> rx_run (dispatch_of AG08A) (world0 AG08A) (map (Pair 0) [[0, 0xF7, 5], [0x28, 50, 0xFA, 0xF7]])
        = Some (w2\<lparr>rxt_buffer := b, rxt_data_size := k, rx_urbs := 4\<rparr>)
    \<and> rx_run (dispatch_of AG08A) (world0 AG08A) (map (Pair 0) [[0, 0xF7, 5, 0x28, 50, 0xFA, 0xF7]])
        = Some (w2\<lparr>rxt_buffer := b', rxt_data_size := k', rx_urbs := 4\<rparr>)
    \<and> take k b = snd (scan [0, 0xF7, 5, 0x28, 50, 0xFA, 0xF7]) \<and> take k' b' = take k b"
  using receive_chunking_independent [OF world0_inv, of AG08A
      "[[0, 0xF7, 5, 0x28, 50, 0xFA, 0xF7]]" "[[0, 0xF7, 5], [0x28, 50, 0xFA, 0xF7]]" AG08A]
  by (simp add: frame_ok_of_def)

end
