(* ===== verification/Tx.thy ===== *)
theory Tx
  imports Products "HOL-Library.Sublist"
begin

text \<open>
  The transmit path: the writer \<open>write_tx_rb\<close> of \<open>module/apt_usbtrx_fops.c\<close> puts packed messages into
  the transmit ring buffer, the thread \<open>tx_thread_func\<close> of \<open>module/apt_usbtrx_core.c\<close> takes them out
  one by one, as far as its tokens and the semaphore of the transmit URBs allow, and submits each in
  an URB whose completion gives the semaphore back.

  \<^item> One iteration of the thread is one step; the environment moves the clock, the receive path the
    fill level the device reports, and other callers request that the buffer be cleared. A run is
    a sequence of such operations in any order, so it ranges over all interleavings of writers,
    thread, completions and environment at this grain.
  \<^item> A step of the thread that reads a length for which not enough bytes are there would spin, which
    is the result \<open>Tx_spin\<close>.

  The refinement: the ring buffer always holds whole messages, the thread never spins and
  never leaves a buffer, and what is sent is a subsequence, in order, of the messages accepted; without
  failures and clear requests it is all of them.
\<close>

unbundle bit_operations_syntax

abbreviation (input) TX_TOKEN_EXPIRED_TIME :: nat where "TX_TOKEN_EXPIRED_TIME \<equiv> 1"

subsection \<open>The writer\<close>

text \<open>\<open>get_write_cmd_id\<close> as stored in the message's one-byte identifier; the EP1-AG08A answers -1.\<close>

definition get_write_cmd_id :: "product \<Rightarrow> u8" where
  "get_write_cmd_id p = (case p of CT2A \<Rightarrow> CMD_SendCANFrame | CH02A \<Rightarrow> CMD_SendCANFrame
     | CF02A \<Rightarrow> 0x3A | AG08A \<Rightarrow> 0xFF)"

text \<open>\<open>payload\<close> is the caller's buffer, of which \<open>payload_size\<close> bytes are sent. The local message and
  the local \<open>data\<close> start uninitialised.\<close>

definition write_tx_rb :: "world \<Rightarrow> u8 list \<Rightarrow> u8 \<Rightarrow> (int \<times> world) option" where
  "write_tx_rb w pl psize =
     (if psize = 0 then Some (0, w)
      else if onopening w then Some (-ENODEV, w)
      else if onclosing w then Some (-ESHUTDOWN, w)
      else if unat psize > CMD_MAX_LENGTH - 4 then Some (-EIO, w)
      else do {
        let msg_size = psize + 4;
        bs \<leftarrow> load pl 0 (unat psize);
        p \<leftarrow> store (payload (stack_msg w)) 0 bs;
        let m = \<lparr>msg_id = get_write_cmd_id (product w), payload = p, payload_size = psize\<rparr>;
        (result, data) \<leftarrow> msg_pack m (replicate CMD_MAX_LENGTH 0) (unat msg_size);
        if result \<noteq> RESULT_Success then Some (-EIO, w)
        else if ringbuffer_get_free_size (tx_data w) < unat msg_size then Some (-EIO, w)
        else do {
          bytes \<leftarrow> load data 0 (unat msg_size);
          (wsize, r) \<leftarrow> ringbuffer_write (tx_data w) bytes;
          let w = w\<lparr>tx_data := r\<rparr>;
          if wsize < 0 then Some (-EIO, w)
          else Some (uint psize, w)
        }
      })"

subsection \<open>The thread\<close>

definition setup_tx_urb :: "world \<Rightarrow> u8 list \<Rightarrow> nat \<Rightarrow> (RESULT \<times> world) option" where
  "setup_tx_urb w data data_size =
     (let (ok, w) = may_fail w in
      if \<not> ok then Some (RESULT_Failure, w)
      else let (ok, w) = may_fail w in
        if \<not> ok then Some (RESULT_Failure, w)
        else do {
          buf \<leftarrow> load data 0 data_size;
          let (ok, w) = may_fail w;
          if \<not> ok then Some (RESULT_Failure, w)
          else do {
            let w = w\<lparr>sent := sent w @ [buf]\<rparr>;
            Some (RESULT_Success, w\<lparr>incoming := incoming w @ device_fw w (sent w)\<rparr>)
          }
        })"

definition is_write_enable :: "world \<Rightarrow> bool" where
  "is_write_enable w =
     (if onclosing w then True
      else if ringbuffer_is_empty (tx_data w) \<noteq> True then True
      else if tx_data_clear_requested w then True
      else False)"

definition up_tx_usb_transfer_sem :: "world \<Rightarrow> world" where
  "up_tx_usb_transfer_sem w = w\<lparr>tx_usb_transfer_sem := tx_usb_transfer_sem w + 1\<rparr>"

text \<open>The thread that finds no URB free waits until a signal interrupts it.\<close>

definition down_tx_usb_transfer_sem :: "world \<Rightarrow> bool \<times> world" where
  "down_tx_usb_transfer_sem w =
     (let (ok, w) = may_fail w in
      if ok \<and> 0 < tx_usb_transfer_sem w
      then (True, w\<lparr>tx_usb_transfer_sem := tx_usb_transfer_sem w - 1\<rparr>) else (False, w))"

datatype tx_result = Tx_continue | Tx_spin

text \<open>The inner loop: fill \<open>buf\<close> from position \<open>pos\<close> with \<open>remain\<close> bytes. The first component is what
  remains when the loop is left, or \<open>None\<close> when nothing is left to read and the loop runs on.\<close>

function tx_read_rest ::
  "ringbuffer \<Rightarrow> u8 list \<Rightarrow> nat \<Rightarrow> nat \<Rightarrow> (nat option \<times> u8 list \<times> ringbuffer) option" where
  "tx_read_rest r buf pos remain =
     (if remain = 0 then Some (Some 0, buf, r)
      else case ringbuffer_rawread r remain of
        None \<Rightarrow> None
      | Some (rsize, bs, r) \<Rightarrow>
          if rsize < 0 then Some (Some remain, buf, r)
          else if rsize = 0 then Some (None, buf, r)
          else case store buf pos bs of
            None \<Rightarrow> None
          | Some buf \<Rightarrow> tx_read_rest r buf (pos + nat rsize) (remain - nat rsize))"
  by pat_completeness auto
termination
  by (relation "measure (\<lambda>(_, _, _, n). n)") auto

declare tx_read_rest.simps [simp del]

text \<open>The tokens that are refilled when their period has expired. One millisecond is one tick, as on
  every kernel with \<open>HZ\<close> at most 1000.\<close>

definition refill_tokens :: "world \<Rightarrow> world" where
  "refill_tokens w =
     (if tx_transfer_expired w < jiffies w then
        let w = w\<lparr>tx_transfer_expired := jiffies w + TX_TOKEN_EXPIRED_TIME,
                  tx_transfer_token := tx_transfer_max_token w * int TX_TOKEN_EXPIRED_TIME\<rparr> in
        if unat (tx_buffer_rate w) > TX_TRANSFER_LIMIT_RATE then w\<lparr>tx_transfer_token := 0\<rparr> else w
      else w)"

text \<open>One message: from the ring buffer to an URB, with the semaphore taken.\<close>

definition tx_one_message :: "world \<Rightarrow> (tx_result \<times> world) option" where
  "tx_one_message w = do {
     (rsize, bs, r) \<leftarrow> ringbuffer_rawread (tx_data w) CMD_MIN_LENGTH;
     let w = w\<lparr>tx_data := r\<rparr>;
     if rsize = 0 then Some (Tx_continue, up_tx_usb_transfer_sem w)
     else if rsize < 0 \<or> rsize \<noteq> int CMD_MIN_LENGTH then Some (Tx_continue, up_tx_usb_transfer_sem w)
     else do {
       buffer \<leftarrow> store (replicate CMD_MAX_LENGTH 0) 0 bs;
       (result, len) \<leftarrow> msg_get_length (Some buffer) CMD_MIN_LENGTH (Some 0);
       case (result, len) of
         (RESULT_Success, Some msg_length) \<Rightarrow>
           if unat msg_length < CMD_MIN_LENGTH \<or> unat msg_length > CMD_MAX_LENGTH
           then Some (Tx_continue, up_tx_usb_transfer_sem w)
           else do {
             (remain, buffer, r) \<leftarrow>
               tx_read_rest (tx_data w) buffer CMD_MIN_LENGTH (unat msg_length - CMD_MIN_LENGTH);
             let w = w\<lparr>tx_data := r\<rparr>;
             case remain of
               None \<Rightarrow> Some (Tx_spin, w)
             | Some remain \<Rightarrow>
                 if remain \<noteq> 0 then Some (Tx_continue, up_tx_usb_transfer_sem w)
                 else do {
                   (result, w) \<leftarrow> setup_tx_urb w buffer (unat msg_length);
                   if result \<noteq> RESULT_Success then Some (Tx_continue, up_tx_usb_transfer_sem w)
                   else Some (Tx_continue, w\<lparr>tx_transfer_token := tx_transfer_token w - 1\<rparr>)
                 }
           }
       | _ \<Rightarrow> Some (Tx_continue, up_tx_usb_transfer_sem w)
     }
   }"

text \<open>One iteration of the loop; \<open>wait_event_interruptible_timeout\<close> ends by a signal, by the
  time-out (nothing to do), or because there is something to do.\<close>

definition tx_thread_iteration :: "world \<Rightarrow> (tx_result \<times> world) option" where
  "tx_thread_iteration w =
     (if tx_data_clear_requested w then
        let (_, r) = ringbuffer_clear (tx_data w) in
        Some (Tx_continue, w\<lparr>tx_data := r, tx_data_clear_requested := False\<rparr>)
      else let (ok, w) = may_fail w in
        if \<not> ok then Some (Tx_continue, w)
        else if \<not> is_write_enable w then Some (Tx_continue, w)
        else let w = refill_tokens w in
          if tx_transfer_token w \<le> 0 then Some (Tx_continue, w)
          else let (ok, w) = down_tx_usb_transfer_sem w in
            if \<not> ok then Some (Tx_continue, w)
            else tx_one_message w)"

text \<open>\<open>unique_func.write_bulk_callback\<close>\<close>

definition unique_write_bulk_callback :: "product \<Rightarrow> world \<Rightarrow> world" where
  "unique_write_bulk_callback p = (case p of CT2A \<Rightarrow> unique_can_write_bulk_callback
     | CH02A \<Rightarrow> unique_can_write_bulk_callback | CF02A \<Rightarrow> cf02a_write_bulk_callback
     | AG08A \<Rightarrow> ag08a_write_bulk_callback)"

text \<open>The completion of a transmit URB, whatever its status.\<close>

definition write_bulk_callback :: "world \<Rightarrow> world" where
  "write_bulk_callback w = unique_write_bulk_callback (product w) (up_tx_usb_transfer_sem w)"

subsection \<open>A run of the transmit path\<close>

text \<open>The operations that run concurrently, each atomic: a writer, an iteration of the thread, the
  completion of an URB, a request to clear the buffer, and a change of the environment (clock, fill
  level reported by the device, answers of the kernel).\<close>

datatype tx_op =
  Tx_write "u8 list" u8
| Tx_iterate
| Tx_complete
| Tx_clear
| Tx_env nat u8 "bool list"

text \<open>\<open>tx_frame w pl n\<close> is the message of the first \<open>n\<close> bytes of \<open>pl\<close>.\<close>

definition tx_frame :: "world \<Rightarrow> u8 list \<Rightarrow> u8 \<Rightarrow> u8 list" where
  "tx_frame w pl n = [MSG_SOB, n + 4, get_write_cmd_id (product w)] @ take (unat n) pl @ [MSG_EOB]"

text \<open>A step collects the message its write has accepted.\<close>

fun tx_step :: "tx_op \<Rightarrow> world \<Rightarrow> (tx_result \<times> u8 list list \<times> world) option" where
  "tx_step (Tx_write pl n) w = do {
     (r, w') \<leftarrow> write_tx_rb w pl n;
     Some (Tx_continue, if 0 < r then [tx_frame w pl n] else [], w')
   }"
| "tx_step Tx_iterate w = do { (t, w) \<leftarrow> tx_thread_iteration w; Some (t, [], w) }"
| "tx_step Tx_complete w = Some (Tx_continue, [], write_bulk_callback w)"
| "tx_step Tx_clear w = Some (Tx_continue, [], w\<lparr>tx_data_clear_requested := True\<rparr>)"
| "tx_step (Tx_env j rate cs) w =
     Some (Tx_continue, [], w\<lparr>jiffies := j, tx_buffer_rate := rate, choices := cs\<rparr>)"

fun tx_run :: "tx_op list \<Rightarrow> world \<Rightarrow> (tx_result \<times> u8 list list \<times> world) option" where
  "tx_run [] w = Some (Tx_continue, [], w)"
| "tx_run (op # ops) w = do {
     (t, acc, w) \<leftarrow> tx_step op w;
     if t = Tx_spin then Some (t, acc, w)
     else do { (t, accs, w) \<leftarrow> tx_run ops w; Some (t, acc @ accs, w) }
   }"

subsection \<open>Whole messages in the ring buffer\<close>

definition frame :: "u8 list \<Rightarrow> bool" where
  "frame b \<longleftrightarrow> classify b = RESULT_Success \<and> length b = unat (b ! 1)"

definition tx_pending :: "world \<Rightarrow> u8 list list \<Rightarrow> bool" where
  "tx_pending w ps \<longleftrightarrow> rb_inv (tx_data w) \<and> rb_bytes (tx_data w) = concat ps
     \<and> list_all frame ps \<and> msg_wf (stack_msg w)"

lemma frame_msg_bytes_frame:
  "msg_wf m \<Longrightarrow> unat (payload_size m) \<le> 78 \<Longrightarrow> frame (msg_bytes m)"
  using classify_msg_bytes [of m "[]"] msg_bytes_nth(2) [of m "[]"]
  by (simp add: frame_def length_msg_bytes unat_plus_4)

lemma frame_bounds:
  assumes "frame f"
  shows "4 \<le> length f" "length f \<le> 82" "unat (f ! 1) = length f"
  using assms classify_success [of f] by (auto simp: frame_def)

lemma frame_not_Nil: "frame f \<Longrightarrow> f \<noteq> []"
  using frame_bounds(1) by fastforce

lemma tx_pending_empty: "tx_pending w ps \<Longrightarrow> ringbuffer_is_empty (tx_data w) \<longleftrightarrow> ps = []"
  by (cases ps) (auto simp: tx_pending_def is_empty_bytes frame_not_Nil)

text \<open>What the writer answers in every case, and what it leaves in the buffer.\<close>

lemma tx_frame_msg_bytes:
  assumes "unat n \<le> 78" and "unat n \<le> length pl"
  shows "msg_bytes \<lparr>msg_id = get_write_cmd_id (product w), payload = take (unat n) pl @ rest, payload_size = n\<rparr>
    = tx_frame w pl n"
  using assms by (simp add: msg_bytes_def tx_frame_def)

lemma tx_frame_frame:
  assumes "unat n \<le> 78" and "unat n \<le> length pl"
  shows "frame (tx_frame w pl n)" "length (tx_frame w pl n) = unat n + 4"
proof -
  let ?m = "\<lparr>msg_id = get_write_cmd_id (product w), payload = take (unat n) pl @ replicate (78 - unat n) 0,
    payload_size = n\<rparr>"
  have "msg_wf ?m" using assms by (simp add: msg_wf_def)
  then show "frame (tx_frame w pl n)"
    using frame_msg_bytes_frame [of ?m] assms by (simp add: tx_frame_msg_bytes)
  show "length (tx_frame w pl n) = unat n + 4" using assms by (simp add: tx_frame_def)
qed

definition write_tx_rb_result :: "world \<Rightarrow> u8 \<Rightarrow> int" where
  "write_tx_rb_result w n =
     (if n = 0 then 0
      else if onopening w then -ENODEV
      else if onclosing w then -ESHUTDOWN
      else if 78 < unat n \<or> ringbuffer_get_free_size (tx_data w) < unat n + 4
        \<or> \<not> rb_fits (tx_data w) (unat n + 4) then -EIO
      else uint n)"

lemma write_tx_rb_result_pos:
  "0 < write_tx_rb_result w n \<longleftrightarrow> n \<noteq> 0 \<and> \<not> onopening w \<and> \<not> onclosing w \<and> unat n \<le> 78
     \<and> unat n + 4 \<le> ringbuffer_get_free_size (tx_data w) \<and> rb_fits (tx_data w) (unat n + 4)"
proof -
  have "n \<noteq> 0 \<Longrightarrow> 0 < uint n" by (metis order_le_less unsigned_eq_0_iff unsigned_greater_eq)
  then show ?thesis by (auto simp: write_tx_rb_result_def)
qed

lemma write_tx_rb_exact:
  assumes inv: "rb_inv (tx_data w)" and st: "msg_wf (stack_msg w)" and n: "unat n \<le> length pl"
  shows "\<exists>tx. write_tx_rb w pl n = Some (write_tx_rb_result w n, w\<lparr>tx_data := tx\<rparr>) \<and> rb_inv tx \<and>
    rb_bytes tx = rb_bytes (tx_data w) @ (if 0 < write_tx_rb_result w n then tx_frame w pl n else [])"
proof (cases "n = 0 \<or> onopening w \<or> onclosing w \<or> 78 < unat n")
  case True
  have "w\<lparr>tx_data := tx_data w\<rparr> = w" by simp
  then have "write_tx_rb w pl n = Some (write_tx_rb_result w n, w\<lparr>tx_data := tx_data w\<rparr>)"
    using True by (auto simp: write_tx_rb_def write_tx_rb_result_def)
  then show ?thesis using True inv write_tx_rb_result_pos [of w n]
    by (intro exI [of _ "tx_data w"]) auto
next
  case False
  define m where "m = \<lparr>msg_id = get_write_cmd_id (product w),
    payload = take (unat n) pl @ drop (unat n) (payload (stack_msg w)), payload_size = n\<rparr>"
  have len: "unat (n + 4) = unat n + 4" using False by (intro unat_plus_4) simp
  have m: "msg_wf m" "payload_size m = n" using st n False by (simp_all add: m_def msg_wf_def)
  have fr: "msg_bytes m = tx_frame w pl n" and lf: "length (tx_frame w pl n) = unat n + 4"
    using False n tx_frame_frame(2) [of n pl w] by (simp_all add: m_def tx_frame_msg_bytes)
  have pack: "msg_pack m (replicate 82 0) (unat (n + 4))
    = Some (RESULT_Success, tx_frame w pl n @ drop (unat n + 4) (replicate 82 0))"
    using False m len fr by (subst msg_pack_eq) simp_all
  show ?thesis
  proof (cases "ringbuffer_get_free_size (tx_data w) < unat n + 4")
    case True
    have "w\<lparr>tx_data := tx_data w\<rparr> = w" by simp
    then have "write_tx_rb w pl n = Some (write_tx_rb_result w n, w\<lparr>tx_data := tx_data w\<rparr>)"
      using True False n st len pack
      by (simp add: write_tx_rb_def write_tx_rb_result_def mem_simps msg_wf_def m_def Let_def)
    then show ?thesis using True inv write_tx_rb_result_pos [of w n]
      by (intro exI [of _ "tx_data w"]) auto
  next
    case free: False
    have ne: "tx_frame w pl n \<noteq> []" using lf by fastforce
    note wr = write_eq [OF inv ne, unfolded lf]
    have nn: "\<not> uint n + 4 < 0" using uint_ge_0 [of n] by linarith
    define tx where "tx = (if rb_fits (tx_data w) (unat n + 4) then rb_append (tx_data w) (tx_frame w pl n)
      else rb_refuse (tx_data w) (unat n + 4))"
    have "write_tx_rb w pl n = Some (write_tx_rb_result w n, w\<lparr>tx_data := tx\<rparr>)"
      using free False n st len pack wr lf nn
      by (simp add: write_tx_rb_def write_tx_rb_result_def mem_simps msg_wf_def m_def Let_def tx_def)
    moreover have "rb_inv tx \<and> rb_bytes tx = rb_bytes (tx_data w)
        @ (if rb_fits (tx_data w) (unat n + 4) then tx_frame w pl n else [])"
      using inv ne lf by (simp add: tx_def rb_inv_append rb_bytes_append)
    ultimately show ?thesis using free False by (auto simp: write_tx_rb_result_pos)
  qed
qed

subsection \<open>One message taken by the thread\<close>

lemma may_fail_fields [simp]:
  "tx_data (snd (may_fail w)) = tx_data w" "sent (snd (may_fail w)) = sent w"
  "stack_msg (snd (may_fail w)) = stack_msg w" "product (snd (may_fail w)) = product w"
  "tx_usb_transfer_sem (snd (may_fail w)) = tx_usb_transfer_sem w"
  "tx_transfer_token (snd (may_fail w)) = tx_transfer_token w"
  "tx_transfer_max_token (snd (may_fail w)) = tx_transfer_max_token w"
  "tx_transfer_expired (snd (may_fail w)) = tx_transfer_expired w"
  "tx_data_clear_requested (snd (may_fail w)) = tx_data_clear_requested w"
  "onclosing (snd (may_fail w)) = onclosing w" "jiffies (snd (may_fail w)) = jiffies w"
  "tx_buffer_rate (snd (may_fail w)) = tx_buffer_rate w"
  by (simp_all add: may_fail_def split: list.split)

lemma may_fail_success: "choices w = [] \<Longrightarrow> may_fail w = (True, w)"
  by (simp add: may_fail_def)

lemma tx_read_rest_available:
  assumes inv: "rb_inv r" and b: "rb_bytes r = xs @ ys" and room: "p + length xs \<le> length buf"
  shows "\<exists>r'. tx_read_rest r buf p (length xs) = Some (Some 0, take p buf @ xs @ drop (p + length xs) buf, r')
    \<and> rb_inv r' \<and> rb_bytes r' = ys"
proof (cases "xs = []")
  case True
  then show ?thesis using assms by (simp add: tx_read_rest.simps)
next
  case False
  obtain r' where "ringbuffer_rawread r (length xs) = Some (int (length xs), xs, r')"
    "rb_inv r'" "rb_bytes r' = ys"
    using rbq.get_head [OF inv b] by blast
  then show ?thesis using False room
    by (subst tx_read_rest.simps) (simp add: store_eq tx_read_rest.simps [of _ _ _ 0])
qed

text \<open>What changes of the state when a message is taken: it is sent, or a failure drops it; then the
  semaphore is given back and no token is used.\<close>

definition tx_taken :: "world \<Rightarrow> u8 list \<Rightarrow> world \<Rightarrow> bool" where
  "tx_taken w f w' \<longleftrightarrow>
     stack_msg w' = stack_msg w \<and> product w' = product w
     \<and> tx_transfer_expired w' = tx_transfer_expired w \<and> jiffies w' = jiffies w
     \<and> tx_transfer_max_token w' = tx_transfer_max_token w
     \<and> tx_data_clear_requested w' = tx_data_clear_requested w
     \<and> (sent w' = sent w @ [f] \<and> tx_transfer_token w' = tx_transfer_token w - 1
          \<and> tx_usb_transfer_sem w' = tx_usb_transfer_sem w
        \<or> sent w' = sent w \<and> tx_transfer_token w' = tx_transfer_token w
          \<and> tx_usb_transfer_sem w' = tx_usb_transfer_sem w + 1)
     \<and> (choices w = [] \<longrightarrow> sent w' = sent w @ [f] \<and> choices w' = [])"

lemma setup_tx_urb_cases:
  assumes "n \<le> length buf"
  shows "\<exists>res w'. setup_tx_urb w buf n = Some (res, w') \<and> tx_data w' = tx_data w \<and>
    tx_taken w (take n buf)
      (if res = RESULT_Success then w'\<lparr>tx_transfer_token := tx_transfer_token w' - 1\<rparr>
       else up_tx_usb_transfer_sem w')"
proof -
  have l: "load buf 0 n = Some (take n buf)" using assms by (simp add: load_eq)
  obtain a w1 where 1: "may_fail w = (a, w1)" by fastforce
  obtain b w2 where 2: "may_fail w1 = (b, w2)" by fastforce
  obtain c w3 where 3: "may_fail w2 = (c, w3)" by fastforce
  note f = may_fail_fields [of w, unfolded 1, simplified] may_fail_fields [of w1, unfolded 2, simplified]
    may_fail_fields [of w2, unfolded 3, simplified]
  have "choices w = [] \<Longrightarrow> a \<and> b \<and> c \<and> choices w3 = []"
    using 1 2 3 by (auto simp: may_fail_success)
  then show ?thesis using l f
    by (cases a; cases b; cases c)
      (auto simp: setup_tx_urb_def 1 2 3 Let_def tx_taken_def up_tx_usb_transfer_sem_def)
qed

lemma frame_split:
  assumes "frame f"
  shows "length (take 4 f) = 4" "take 4 f ! 1 = f ! 1" "take 4 f @ drop 4 f = f"
    "length (drop 4 f) = unat (f ! 1) - 4"
  using frame_bounds [OF assms] by simp_all

lemma tx_one_message_taken:
  assumes inv: "rb_inv (tx_data w)" and b: "rb_bytes (tx_data w) = f @ rest" and f: "frame f"
  shows "\<exists>w'. tx_one_message w = Some (Tx_continue, w') \<and> rb_inv (tx_data w')
    \<and> rb_bytes (tx_data w') = rest \<and> tx_taken w f w'"
proof -
  note fb = frame_bounds [OF f] and fs = frame_split [OF f]
  have b4: "rb_bytes (tx_data w) = take 4 f @ (drop 4 f @ rest)"
    using b fs(3) by (metis append.assoc)
  obtain r1 where r1: "ringbuffer_rawread (tx_data w) 4 = Some (4, take 4 f, r1)" "rb_inv r1"
    "rb_bytes r1 = drop 4 f @ rest"
    using rbq.get_head [OF inv b4] fs(1) by auto
  define buf where "buf = take 4 f @ replicate 78 (0 :: u8)"
  have "4 + length (drop 4 f) \<le> length buf" using fb by (simp add: buf_def)
  from tx_read_rest_available [OF r1(2,3) this] obtain r2 where
    r2: "tx_read_rest r1 buf 4 (unat (f ! 1) - 4)
      = Some (Some 0, take 4 buf @ drop 4 f @ drop (length f) buf, r2)" "rb_inv r2" "rb_bytes r2 = rest"
    using fb fs by auto
  define buf2 where "buf2 = f @ drop (length f) buf"
  have buf2: "take 4 buf @ drop 4 f @ drop (length f) buf = buf2"
    using fs(1,3) by (simp add: buf_def buf2_def)
  have st: "store (replicate 82 0) 0 (take 4 f) = Some buf"
    using fs(1) by (simp add: store_eq buf_def)
  have len: "msg_get_length (Some buf) 4 (Some 0) = Some (RESULT_Success, Some (f ! 1))"
    using fs(1,2) by (simp add: msg_get_length_def load1_eq buf_def nth_append)
  have l82: "length f \<le> length buf2" "take (length f) buf2 = f" by (simp_all add: buf2_def)
  obtain res w' where su: "setup_tx_urb (w\<lparr>tx_data := r2\<rparr>) buf2 (length f) = Some (res, w')"
    "tx_data w' = r2" "tx_taken (w\<lparr>tx_data := r2\<rparr>) f
      (if res = RESULT_Success then w'\<lparr>tx_transfer_token := tx_transfer_token w' - 1\<rparr>
       else up_tx_usb_transfer_sem w')"
    using setup_tx_urb_cases [OF l82(1), of "w\<lparr>tx_data := r2\<rparr>"] l82(2) by auto
  have "tx_one_message w = Some (Tx_continue,
      if res = RESULT_Success then w'\<lparr>tx_transfer_token := tx_transfer_token w' - 1\<rparr>
      else up_tx_usb_transfer_sem w')"
    using fb r1(1) r2(1) su(1) st len by (simp add: tx_one_message_def Let_def buf2)
  moreover have "tx_taken w f w'' = tx_taken (w\<lparr>tx_data := r2\<rparr>) f w''" for w''
    by (simp add: tx_taken_def)
  ultimately show ?thesis using su r2 by (simp add: up_tx_usb_transfer_sem_def)
qed

subsection \<open>The abstract message queue\<close>

text \<open>The specification: a queue of whole messages and the log of the messages sent. A message is
  accepted at the end; the first is sent, or dropped after a failure; a clear request drops all.\<close>

inductive mq :: "u8 list list \<times> u8 list list \<Rightarrow> u8 list list \<Rightarrow> u8 list list \<times> u8 list list \<Rightarrow> bool" where
  mq_stay: "mq (q, s) [] (q, s)"
| mq_accept: "mq (q, s) [f] (q @ [f], s)"
| mq_send: "mq (f # q, s) [] (q, s @ [f])"
| mq_drop: "mq (f # q, s) [] (q, s)"
| mq_clear: "mq (q, s) [] ([], s)"

inductive mq_run :: "u8 list list \<times> u8 list list \<Rightarrow> u8 list list \<Rightarrow> u8 list list \<times> u8 list list \<Rightarrow> bool" where
  mq_done: "mq_run a [] a"
| mq_more: "mq a acc b \<Longrightarrow> mq_run b accs c \<Longrightarrow> mq_run a (acc @ accs) c"

inductive_cases mq_elim: "mq (q, s) acc (q', s')"

lemma mq_conserves:
  "mq (q, s) acc (q', s') \<Longrightarrow>
     \<exists>taken out. q @ acc = taken @ q' \<and> s' = s @ out \<and> subseq out taken"
proof (erule mq_elim, goal_cases)
  case 2
  then show ?case by auto
next
  case (3 f)
  then show ?case by (intro exI [of _ "[f]"]) auto
next
  case (4 f)
  then show ?case by (intro exI [of _ "[f]"] exI [of _ "[]"]) auto
qed auto

text \<open>Messages are sent in the order of acceptance, and none twice or unaccepted.\<close>

lemma mq_run_conserves:
  "mq_run a acc b \<Longrightarrow>
     \<exists>taken out. fst a @ acc = taken @ fst b \<and> snd b = snd a @ out \<and> subseq out taken"
proof (induction rule: mq_run.induct)
  case (mq_more a acc b accs c)
  obtain t1 o1 where 1: "fst a @ acc = t1 @ fst b" "snd b = snd a @ o1" "subseq o1 t1"
    using mq_conserves [of "fst a" "snd a" acc "fst b" "snd b"] mq_more.hyps(1) by auto
  obtain t2 o2 where 2: "fst b @ accs = t2 @ fst c" "snd c = snd b @ o2" "subseq o2 t2"
    using mq_more.IH by blast
  have "fst a @ acc @ accs = (t1 @ t2) @ fst c" using 1(1) 2(1) by (metis append.assoc)
  moreover have "snd c = snd a @ (o1 @ o2)" using 1(2) 2(2) by simp
  moreover have "subseq (o1 @ o2) (t1 @ t2)" using 1(3) 2(3) by (rule list_emb_append_mono)
  ultimately show ?case by blast
qed simp

subsection \<open>The transmit path implements the queue\<close>

fun quiet :: "tx_op \<Rightarrow> bool" where
  "quiet Tx_clear = False" | "quiet (Tx_env _ _ cs) = (cs = [])" | "quiet _ = True"

fun clock_le :: "nat \<Rightarrow> tx_op \<Rightarrow> bool" where
  "clock_le J (Tx_env j _ _) = (j \<le> J)" | "clock_le J _ = True"

definition completions :: "tx_op list \<Rightarrow> nat" where
  "completions ops = length (filter (\<lambda>op. op = Tx_complete) ops)"

text \<open>The messages that may still be sent up to the tick \<open>J\<close>: the tokens left, and a refill in every
  second tick after the expiry.\<close>

definition tx_budget :: "nat \<Rightarrow> world \<Rightarrow> int" where
  "tx_budget J w = max 0 (tx_transfer_token w)
     + max 0 (tx_transfer_max_token w) * int ((J + 1 - tx_transfer_expired w) div 2)"

definition tx_ok :: "tx_op list \<Rightarrow> world \<Rightarrow> u8 list list \<Rightarrow> u8 list list \<Rightarrow> world \<Rightarrow> u8 list list \<Rightarrow> bool" where
  "tx_ok ops w ps acc w' ps' \<longleftrightarrow> tx_pending w' ps' \<and> mq_run (ps, sent w) acc (ps', sent w')
     \<and> (list_all quiet ops \<and> choices w = [] \<and> \<not> tx_data_clear_requested w \<longrightarrow>
          (\<exists>out. ps @ acc = out @ ps' \<and> sent w' = sent w @ out)
          \<and> choices w' = [] \<and> \<not> tx_data_clear_requested w')
     \<and> tx_usb_transfer_sem w' + length (sent w') = tx_usb_transfer_sem w + length (sent w) + completions ops
     \<and> tx_transfer_max_token w' = tx_transfer_max_token w
     \<and> (\<forall>J. jiffies w \<le> J \<and> list_all (clock_le J) ops \<longrightarrow> jiffies w' \<le> J
          \<and> int (length (sent w')) + tx_budget J w' \<le> int (length (sent w)) + tx_budget J w)"

lemma mq_run_single: "mq a acc b \<Longrightarrow> mq_run a acc b"
  using mq_more [of a acc b "[]" b] mq_done by simp

lemma mq_run_trans: "mq_run a x b \<Longrightarrow> mq_run b y c \<Longrightarrow> mq_run a (x @ y) c"
  by (induction rule: mq_run.induct) (simp_all add: mq_more)

lemma tx_ok_Nil: "tx_pending w ps \<Longrightarrow> tx_ok [] w ps [] w ps"
  by (simp add: tx_ok_def mq_done completions_def)

lemma tx_ok_Cons:
  assumes 1: "tx_ok [op] w ps acc w1 ps1" and 2: "tx_ok ops w1 ps1 accs w2 ps2"
  shows "tx_ok (op # ops) w ps (acc @ accs) w2 ps2"
  unfolding tx_ok_def
proof (intro conjI allI impI)
  show "tx_pending w2 ps2" using 2 by (simp add: tx_ok_def)
  show "mq_run (ps, sent w) (acc @ accs) (ps2, sent w2)"
    using 1 2 mq_run_trans by (auto simp: tx_ok_def)
  show "tx_usb_transfer_sem w2 + length (sent w2)
      = tx_usb_transfer_sem w + length (sent w) + completions (op # ops)"
    using 1 2 by (auto simp: tx_ok_def completions_def)
  show "tx_transfer_max_token w2 = tx_transfer_max_token w" using 1 2 by (simp add: tx_ok_def)
next
  assume q: "list_all quiet (op # ops) \<and> choices w = [] \<and> \<not> tx_data_clear_requested w"
  then obtain o1 where o1: "ps @ acc = o1 @ ps1" "sent w1 = sent w @ o1" "choices w1 = []"
    "\<not> tx_data_clear_requested w1" using 1 by (auto simp: tx_ok_def)
  then obtain o2 where o2: "ps1 @ accs = o2 @ ps2" "sent w2 = sent w1 @ o2" "choices w2 = []"
    "\<not> tx_data_clear_requested w2" using 2 q by (auto simp: tx_ok_def)
  have "ps @ acc @ accs = (o1 @ o2) @ ps2" using o1(1) o2(1) by (metis append.assoc)
  then show "\<exists>out. ps @ acc @ accs = out @ ps2 \<and> sent w2 = sent w @ out"
    using o1(2) o2(2) by (metis append.assoc)
  show "choices w2 = []" "\<not> tx_data_clear_requested w2" using o2 by simp_all
next
  fix J assume J: "jiffies w \<le> J \<and> list_all (clock_le J) (op # ops)"
  then have "jiffies w1 \<le> J \<and> int (length (sent w1)) + tx_budget J w1 \<le> int (length (sent w)) + tx_budget J w"
    using 1 by (simp add: tx_ok_def)
  moreover from this have "jiffies w2 \<le> J
      \<and> int (length (sent w2)) + tx_budget J w2 \<le> int (length (sent w1)) + tx_budget J w1"
    using 2 J by (simp add: tx_ok_def)
  ultimately show "jiffies w2 \<le> J"
    "int (length (sent w2)) + tx_budget J w2 \<le> int (length (sent w)) + tx_budget J w" by simp_all
qed

text \<open>Each kind of step.\<close>

lemma tx_ok_unique_callback:
  "tx_data (unique_write_bulk_callback p w) = tx_data w" "sent (unique_write_bulk_callback p w) = sent w"
  "stack_msg (unique_write_bulk_callback p w) = stack_msg w"
  "choices (unique_write_bulk_callback p w) = choices w"
  "jiffies (unique_write_bulk_callback p w) = jiffies w"
  "tx_data_clear_requested (unique_write_bulk_callback p w) = tx_data_clear_requested w"
  "tx_usb_transfer_sem (unique_write_bulk_callback p w) = tx_usb_transfer_sem w"
  "tx_transfer_token (unique_write_bulk_callback p w) = tx_transfer_token w"
  "tx_transfer_max_token (unique_write_bulk_callback p w) = tx_transfer_max_token w"
  "tx_transfer_expired (unique_write_bulk_callback p w) = tx_transfer_expired w"
  by (cases p; simp add: unique_write_bulk_callback_def unique_can_write_bulk_callback_def
      cf02a_write_bulk_callback_def ag08a_write_bulk_callback_def emit_def)+

lemma tx_ok_complete: "tx_pending w ps \<Longrightarrow> tx_ok [Tx_complete] w ps [] (write_bulk_callback w) ps"
  by (simp add: tx_ok_def tx_pending_def write_bulk_callback_def up_tx_usb_transfer_sem_def
      tx_ok_unique_callback mq_run_single mq_stay completions_def tx_budget_def)

lemma tx_ok_unchanged:
  assumes "tx_pending w ps" and "op \<noteq> Tx_complete"
    and "w' = w\<lparr>jiffies := j, tx_buffer_rate := rate, choices := cs, tx_data_clear_requested := c\<rparr>"
    and "quiet op \<Longrightarrow> choices w = [] \<Longrightarrow> \<not> tx_data_clear_requested w \<Longrightarrow> cs = [] \<and> \<not> c"
    and "\<And>J. clock_le J op \<Longrightarrow> jiffies w \<le> J \<Longrightarrow> j \<le> J"
  shows "tx_ok [op] w ps [] w' ps"
  using assms by (auto simp: tx_ok_def tx_pending_def mq_run_single mq_stay completions_def tx_budget_def)

lemma tx_ok_write:
  assumes p: "tx_pending w ps" and n: "unat n \<le> length pl"
  shows "\<exists>acc w' ps'. tx_step (Tx_write pl n) w = Some (Tx_continue, acc, w')
    \<and> tx_ok [Tx_write pl n] w ps acc w' ps'"
proof -
  have inv: "rb_inv (tx_data w)" and st: "msg_wf (stack_msg w)" using p by (simp_all add: tx_pending_def)
  define acc where "acc = (if 0 < write_tx_rb_result w n then [tx_frame w pl n] else [])"
  obtain tx where wr: "write_tx_rb w pl n = Some (write_tx_rb_result w n, w\<lparr>tx_data := tx\<rparr>)" "rb_inv tx"
    "rb_bytes tx = rb_bytes (tx_data w) @ concat acc"
    using write_tx_rb_exact [OF inv st n] by (auto simp: acc_def)
  have "list_all frame acc" "acc = [] \<or> (\<exists>f. acc = [f])"
    using tx_frame_frame(1) [of n pl w] n by (auto simp: acc_def write_tx_rb_result_pos)
  then have "tx_ok [Tx_write pl n] w ps acc (w\<lparr>tx_data := tx\<rparr>) (ps @ acc)"
    using p wr(2,3)
    by (auto simp: tx_ok_def tx_pending_def completions_def tx_budget_def
        intro!: mq_run_single intro: mq_stay mq_accept)
  then show ?thesis using wr(1) by (auto simp: acc_def)
qed

text \<open>The thread: the state before a message is taken, and the tokens.\<close>

lemma refill_budget:
  assumes "jiffies w \<le> J"
  shows "tx_budget J (refill_tokens w) \<le> tx_budget J w"
proof (cases "tx_transfer_expired w < jiffies w")
  case True
  define M where "M = max 0 (tx_transfer_max_token w)"
  have "(J + 1 - (jiffies w + 1)) div 2 + 1 \<le> (J + 1 - tx_transfer_expired w) div 2"
    using True assms by (simp add: div_le_mono flip: div_add_self2)
  then have "M * (int ((J + 1 - (jiffies w + 1)) div 2) + 1) \<le> M * int ((J + 1 - tx_transfer_expired w) div 2)"
    by (intro mult_left_mono) (simp_all add: M_def del: of_nat_add)
  then have "M + M * int ((J - jiffies w) div 2) \<le> M * int ((Suc J - tx_transfer_expired w) div 2)"
    by (simp add: algebra_simps)
  moreover have "0 \<le> M" "0 \<le> max 0 (tx_transfer_token w)" by (simp_all add: M_def)
  ultimately show ?thesis using True
    by (cases "unat (tx_buffer_rate w) > TX_TRANSFER_LIMIT_RATE")
      (simp_all add: refill_tokens_def tx_budget_def Let_def flip: M_def)
qed (simp add: refill_tokens_def)

lemma refill_fields:
  "tx_data (refill_tokens w) = tx_data w" "sent (refill_tokens w) = sent w" "jiffies (refill_tokens w) = jiffies w"
  "stack_msg (refill_tokens w) = stack_msg w" "choices (refill_tokens w) = choices w"
  "tx_usb_transfer_sem (refill_tokens w) = tx_usb_transfer_sem w"
  "tx_transfer_max_token (refill_tokens w) = tx_transfer_max_token w"
  "tx_data_clear_requested (refill_tokens w) = tx_data_clear_requested w"
  by (simp_all add: refill_tokens_def Let_def)

lemma tx_one_message_empty:
  "rb_inv (tx_data w) \<Longrightarrow> rb_bytes (tx_data w) = [] \<Longrightarrow>
     tx_one_message w = Some (Tx_continue, up_tx_usb_transfer_sem w)"
  by (simp add: tx_one_message_def rawread_eq rb_advance_def)

text \<open>\<open>w1\<close> is the state in which the thread has taken the semaphore.\<close>

definition tx_entered :: "world \<Rightarrow> world \<Rightarrow> bool" where
  "tx_entered w w1 \<longleftrightarrow> tx_data w1 = tx_data w \<and> sent w1 = sent w \<and> stack_msg w1 = stack_msg w
     \<and> jiffies w1 = jiffies w \<and> tx_transfer_max_token w1 = tx_transfer_max_token w
     \<and> tx_data_clear_requested w1 = tx_data_clear_requested w
     \<and> (\<forall>J. jiffies w \<le> J \<longrightarrow> tx_budget J w1 \<le> tx_budget J w)
     \<and> (choices w = [] \<longrightarrow> choices w1 = [])"

lemma tx_ok_idle:
  assumes p: "tx_pending w ps" and e: "tx_entered w w1"
    and "tx_usb_transfer_sem w1 = tx_usb_transfer_sem w"
  shows "tx_ok [Tx_iterate] w ps [] w1 ps"
  using assms unfolding tx_entered_def
  by (simp add: tx_ok_def tx_pending_def mq_run_single mq_stay completions_def)

lemma tx_ok_message:
  assumes p: "tx_pending w (f # ps)" and e: "tx_entered w w1"
    and s: "tx_usb_transfer_sem w1 + 1 = tx_usb_transfer_sem w" and t: "0 < tx_transfer_token w1"
    and k: "tx_taken w1 f w2" "rb_inv (tx_data w2)" "rb_bytes (tx_data w2) = concat ps"
  shows "tx_ok [Tx_iterate] w (f # ps) [] w2 ps"
  unfolding tx_ok_def
proof (intro conjI allI impI)
  show "tx_pending w2 ps" using assms by (simp add: tx_pending_def tx_taken_def tx_entered_def)
  have "mq (f # ps, sent w) [] (ps, sent w2)"
    using k(1) e by (auto simp: tx_taken_def tx_entered_def mq_send mq_drop)
  then show "mq_run (f # ps, sent w) [] (ps, sent w2)" by (rule mq_run_single)
  show "tx_usb_transfer_sem w2 + length (sent w2)
      = tx_usb_transfer_sem w + length (sent w) + completions [Tx_iterate]"
    using k(1) e s by (auto simp: tx_taken_def tx_entered_def completions_def)
  show "tx_transfer_max_token w2 = tx_transfer_max_token w"
    using k(1) e by (simp add: tx_taken_def tx_entered_def)
next
  assume "list_all quiet [Tx_iterate] \<and> choices w = [] \<and> \<not> tx_data_clear_requested w"
  then have q: "choices w1 = []" "\<not> tx_data_clear_requested w1" using e by (simp_all add: tx_entered_def)
  then show "\<exists>out. (f # ps) @ [] = out @ ps \<and> sent w2 = sent w @ out"
    using k(1) e by (intro exI [of _ "[f]"]) (simp add: tx_taken_def tx_entered_def)
  show "choices w2 = []" "\<not> tx_data_clear_requested w2" using q k(1) by (simp_all add: tx_taken_def)
next
  fix J assume "jiffies w \<le> J \<and> list_all (clock_le J) [Tx_iterate]"
  then have J: "jiffies w \<le> J" by simp
  then have b: "tx_budget J w1 \<le> tx_budget J w" using e by (simp add: tx_entered_def)
  show "jiffies w2 \<le> J" using J k(1) e by (simp add: tx_taken_def tx_entered_def)
  have "int (length (sent w2)) + tx_budget J w2 = int (length (sent w1)) + tx_budget J w1"
    using k(1) t by (auto simp: tx_taken_def tx_budget_def)
  then show "int (length (sent w2)) + tx_budget J w2 \<le> int (length (sent w)) + tx_budget J w"
    using b e by (simp add: tx_entered_def)
qed

lemma tx_budget_sem [simp]:
  "tx_budget J (tx_usb_transfer_sem_update k w) = tx_budget J w"
  "tx_budget J (up_tx_usb_transfer_sem w) = tx_budget J w"
  by (simp_all add: tx_budget_def up_tx_usb_transfer_sem_def)

lemma tx_entered_down:
  assumes "down_tx_usb_transfer_sem w2 = (got, w3)" and "tx_entered w w2"
  shows "tx_entered w w3 \<and> tx_transfer_token w3 = tx_transfer_token w2
    \<and> tx_usb_transfer_sem w3 + (if got then 1 else 0) = tx_usb_transfer_sem w2"
proof -
  obtain ok w' where m: "may_fail w2 = (ok, w')" by fastforce
  note f = may_fail_fields [of w2, unfolded m, simplified]
  have c: "choices w2 = [] \<Longrightarrow> choices w' = []" using may_fail_success [of w2] m by auto
  have "tx_budget J w' = tx_budget J w2" for J using f by (simp add: tx_budget_def)
  then have "tx_entered w w' \<and> tx_transfer_token w' = tx_transfer_token w2
    \<and> tx_usb_transfer_sem w' = tx_usb_transfer_sem w2"
    using assms(2) f c by (simp add: tx_entered_def)
  moreover have "w3 = (if got then w'\<lparr>tx_usb_transfer_sem := tx_usb_transfer_sem w' - 1\<rparr> else w')"
    "got \<Longrightarrow> 0 < tx_usb_transfer_sem w'"
    using assms(1) m by (auto simp: down_tx_usb_transfer_sem_def split: if_splits)
  ultimately show ?thesis by (cases got) (simp_all add: tx_entered_def)
qed

lemma tx_ok_iterate:
  assumes p: "tx_pending w ps"
  shows "\<exists>w' ps'. tx_step Tx_iterate w = Some (Tx_continue, [], w') \<and> tx_ok [Tx_iterate] w ps [] w' ps'"
proof -
  have inv: "rb_inv (tx_data w)" and b: "rb_bytes (tx_data w) = concat ps" using p by (simp_all add: tx_pending_def)
  obtain ok w1 where 1: "may_fail w = (ok, w1)" by fastforce
  define w2 where "w2 = refill_tokens w1"
  obtain got w3 where 3: "down_tx_usb_transfer_sem w2 = (got, w3)" by fastforce
  have e1: "tx_entered w w1" "tx_usb_transfer_sem w1 = tx_usb_transfer_sem w"
    using may_fail_fields [of w, unfolded 1, simplified] may_fail_success [of w] 1
    by (auto simp: tx_entered_def tx_budget_def)
  have "tx_budget J w2 \<le> tx_budget J w" if "jiffies w \<le> J" for J
  proof -
    have "tx_budget J w2 \<le> tx_budget J w1"
      unfolding w2_def using e1(1) that by (intro refill_budget) (simp add: tx_entered_def)
    also have "\<dots> \<le> tx_budget J w" using e1(1) that by (simp add: tx_entered_def)
    finally show ?thesis .
  qed
  then have e2: "tx_entered w w2" "tx_usb_transfer_sem w2 = tx_usb_transfer_sem w"
    using e1 by (simp_all add: tx_entered_def w2_def refill_fields)
  have w3: "tx_entered w w3" "tx_transfer_token w3 = tx_transfer_token w2"
    "tx_usb_transfer_sem w3 + (if got then 1 else 0) = tx_usb_transfer_sem w"
    using tx_entered_down [OF 3 e2(1)] e2(2) by simp_all
  consider (clear) "tx_data_clear_requested w" | (idle1) "\<not> tx_data_clear_requested w" "\<not> ok \<or> \<not> is_write_enable w1"
    | (idle2) "\<not> tx_data_clear_requested w" "ok" "is_write_enable w1" "tx_transfer_token w2 \<le> 0"
    | (idle3) "\<not> tx_data_clear_requested w" "ok" "is_write_enable w1" "0 < tx_transfer_token w2" "\<not> got"
    | (go) "\<not> tx_data_clear_requested w" "ok" "is_write_enable w1" "0 < tx_transfer_token w2" "got"
    by fastforce
  then show ?thesis
  proof cases
    case clear
    define r where "r = snd (ringbuffer_clear (tx_data w))"
    let ?w = "w\<lparr>tx_data := r, tx_data_clear_requested := False\<rparr>"
    have "tx_thread_iteration w = Some (Tx_continue, ?w)"
      using clear by (simp add: tx_thread_iteration_def r_def split_beta)
    moreover have "tx_ok [Tx_iterate] w ps [] ?w []"
      using clear p clear_inv [OF inv] unfolding r_def
      by (auto simp: tx_ok_def tx_pending_def mq_run_single mq_clear completions_def tx_budget_def)
    ultimately show ?thesis by auto
  next
    case idle1
    then show ?thesis using tx_ok_idle [OF p e1] 1 by (auto simp: tx_thread_iteration_def)
  next
    case idle2
    then show ?thesis using tx_ok_idle [OF p e2] 1 by (auto simp: tx_thread_iteration_def w2_def)
  next
    case idle3
    then show ?thesis using tx_ok_idle [OF p w3(1)] w3(3) 1 3
      by (auto simp: tx_thread_iteration_def Let_def simp flip: w2_def)
  next
    case go
    then have it: "tx_thread_iteration w = tx_one_message w3"
      using 1 3 by (simp add: tx_thread_iteration_def Let_def flip: w2_def)
    have d3: "tx_data w3 = tx_data w" using w3(1) by (simp add: tx_entered_def)
    show ?thesis
    proof (cases ps)
      case Nil
      then have "tx_one_message w3 = Some (Tx_continue, up_tx_usb_transfer_sem w3)"
        using inv b d3 by (intro tx_one_message_empty) simp_all
      moreover have "tx_entered w (up_tx_usb_transfer_sem w3)"
        using w3(1) by (simp add: tx_entered_def) (simp add: up_tx_usb_transfer_sem_def)
      moreover from this have "tx_ok [Tx_iterate] w ps [] (up_tx_usb_transfer_sem w3) ps"
        using w3(3) go(5) by (intro tx_ok_idle [OF p]) (simp_all add: up_tx_usb_transfer_sem_def)
      ultimately show ?thesis using it by auto
    next
      case (Cons f qs)
      have f: "frame f" using p Cons by (simp add: tx_pending_def)
      obtain w' where "tx_one_message w3 = Some (Tx_continue, w')" "rb_inv (tx_data w')"
        "rb_bytes (tx_data w') = concat qs" "tx_taken w3 f w'"
        using tx_one_message_taken [of w3 f "concat qs"] inv b d3 f Cons by auto
      then show ?thesis using tx_ok_message [of w f qs w3 w'] p w3 go it Cons by auto
    qed
  qed
qed

text \<open>A writer passes a buffer that holds the bytes it announces.\<close>

fun write_ok :: "tx_op \<Rightarrow> bool" where
  "write_ok (Tx_write pl n) = (unat n \<le> length pl)" | "write_ok _ = True"

lemma tx_ok_step:
  assumes p: "tx_pending w ps" and op: "write_ok op"
  shows "\<exists>acc w' ps'. tx_step op w = Some (Tx_continue, acc, w') \<and> tx_ok [op] w ps acc w' ps'"
proof (cases op)
  case (Tx_write pl n)
  then show ?thesis using tx_ok_write [OF p] op by simp
next
  case Tx_iterate
  then show ?thesis using tx_ok_iterate [OF p] by blast
next
  case Tx_complete
  then show ?thesis using tx_ok_complete [OF p] by auto
next
  case Tx_clear
  have "tx_ok [Tx_clear] w ps [] (w\<lparr>tx_data_clear_requested := True\<rparr>) ps"
    by (rule tx_ok_unchanged [OF p, where j = "jiffies w" and rate = "tx_buffer_rate w"
          and cs = "choices w" and c = True]) simp_all
  then show ?thesis using Tx_clear by auto
next
  case (Tx_env j rate cs)
  have "tx_ok [Tx_env j rate cs] w ps [] (w\<lparr>jiffies := j, tx_buffer_rate := rate, choices := cs\<rparr>) ps"
    by (rule tx_ok_unchanged [OF p, where j = j and rate = rate
          and cs = cs and c = "tx_data_clear_requested w"]) simp_all
  then show ?thesis using Tx_env by auto
qed

lemma tx_ok_run:
  "tx_pending w ps \<Longrightarrow> list_all write_ok ops \<Longrightarrow>
     \<exists>acc w' ps'. tx_run ops w = Some (Tx_continue, acc, w') \<and> tx_ok ops w ps acc w' ps'"
proof (induction ops arbitrary: w ps)
  case Nil
  then show ?case using tx_ok_Nil by auto
next
  case (Cons op ops)
  obtain acc w1 ps1 where 1: "tx_step op w = Some (Tx_continue, acc, w1)" "tx_ok [op] w ps acc w1 ps1"
    using tx_ok_step [OF Cons.prems(1), of op] Cons.prems(2) by auto
  have "tx_pending w1 ps1" using 1(2) by (simp add: tx_ok_def)
  then obtain accs w2 ps2 where 2: "tx_run ops w1 = Some (Tx_continue, accs, w2)"
    "tx_ok ops w1 ps1 accs w2 ps2"
    using Cons.IH [of w1 ps1] Cons.prems(2) by auto
  show ?case using 1(1) 2(1) tx_ok_Cons [OF 1(2) 2(2)] by auto
qed

subsection \<open>Properties\<close>

text \<open>A state for the witnesses: the EP1-CH02A with an empty transmit buffer.\<close>

lemma world0_pending: "tx_pending (world0 p) []"
  by (simp add: tx_pending_def world0_def rb_empty_inv msg_wf_def)

text \<open>C3: the transmit path implements a queue of messages. In every interleaving of writers, thread,
  completions, clear requests and changes of the environment, no access leaves a buffer, the thread
  never spins on an incomplete message, the ring buffer always holds whole messages, and the messages
  sent are a subsequence, in order, of those that were pending or accepted: none is sent
  twice, out of order, in part or without having been accepted.\<close>

theorem tx_path_refines_queue:
  assumes "tx_pending w ps" and "list_all write_ok ops"
  shows "\<exists>acc w' ps' taken out. tx_run ops w = Some (Tx_continue, acc, w') \<and> tx_pending w' ps'
    \<and> mq_run (ps, sent w) acc (ps', sent w')
    \<and> ps @ acc = taken @ ps' \<and> sent w' = sent w @ out \<and> subseq out taken"
proof -
  obtain acc w' ps' where 1: "tx_run ops w = Some (Tx_continue, acc, w')" "tx_pending w' ps'"
    "mq_run (ps, sent w) acc (ps', sent w')"
    using tx_ok_run [OF assms] by (auto simp: tx_ok_def)
  then show ?thesis using mq_run_conserves [OF 1(3)] by auto
qed

definition tx_example :: "tx_op list" where
  "tx_example = [Tx_write [1, 2] 2, Tx_env 1 0 [True, False], Tx_iterate, Tx_write [3] 1, Tx_iterate,
     Tx_complete, Tx_clear, Tx_iterate]"

lemma tx_path_refines_queue_witness:
  "\<exists>acc w' ps' taken out. tx_run tx_example (world0 CH02A) = Some (Tx_continue, acc, w') \<and> tx_pending w' ps'
    \<and> mq_run ([], sent (world0 CH02A)) acc (ps', sent w')
    \<and> [] @ acc = taken @ ps' \<and> sent w' = sent (world0 CH02A) @ out \<and> subseq out taken"
  using tx_path_refines_queue [OF world0_pending, of tx_example CH02A]
  by (simp add: tx_example_def)

text \<open>C4: nothing is lost without a cause. When no clear request is made and no kernel function fails, the
  messages sent followed by the messages still in the ring buffer are exactly the messages that were
  pending followed by those accepted.\<close>

theorem tx_path_lossless:
  assumes "tx_pending w ps" and "list_all write_ok ops" and "list_all quiet ops"
    and "choices w = []" and "\<not> tx_data_clear_requested w"
  shows "\<exists>acc w' ps' out. tx_run ops w = Some (Tx_continue, acc, w') \<and> tx_pending w' ps'
    \<and> sent w' = sent w @ out \<and> ps @ acc = out @ ps'"
  using tx_ok_run [OF assms(1,2)] assms(3-5) by (auto simp: tx_ok_def)

lemma tx_path_lossless_witness:
  "\<exists>acc w' ps' out. tx_run [Tx_write [1, 2] 2, Tx_iterate, Tx_write [3] 1, Tx_env 9 81 [], Tx_iterate]
       (world0 CH02A) = Some (Tx_continue, acc, w') \<and> tx_pending w' ps'
    \<and> sent w' = sent (world0 CH02A) @ out \<and> [] @ acc = out @ ps'"
  by (rule tx_path_lossless [OF world0_pending]) (simp_all add: world0_def)

text \<open>C5: a URB in flight is counted. The count of the semaphore plus the messages handed to the USB core
  grows by exactly the completions, in every interleaving and on every error path of the thread; so
  with the initial count 4 at most 4 URBs more are submitted than have completed, and a failed
  attempt never costs a slot.\<close>

theorem tx_urbs_accounted:
  assumes "tx_pending w ps" and "list_all write_ok ops"
  shows "\<exists>acc w'. tx_run ops w = Some (Tx_continue, acc, w')
    \<and> tx_usb_transfer_sem w' + length (sent w')
        = tx_usb_transfer_sem w + length (sent w) + length (filter (\<lambda>op. op = Tx_complete) ops)"
  using tx_ok_run [OF assms] by (auto simp: tx_ok_def completions_def)

lemma tx_urbs_accounted_witness:
  "\<exists>acc w'. tx_run tx_example (world0 CH02A) = Some (Tx_continue, acc, w')
    \<and> tx_usb_transfer_sem w' + length (sent w') = 5"
  using tx_urbs_accounted [OF world0_pending, of tx_example CH02A]
  by (simp add: tx_example_def world0_def)

text \<open>C6: the token bucket bounds the transmit rate. Up to the tick \<open>J\<close> no more messages are sent than there
  were tokens, plus one refill of \<open>tx_transfer_max_token\<close> for every second tick after the last refill
  expired; the fill level the device reports can only lower this.\<close>

theorem tx_rate_bounded:
  assumes "tx_pending w ps" and "list_all write_ok ops"
    and "jiffies w \<le> J" and "list_all (clock_le J) ops"
  shows "\<exists>acc w'. tx_run ops w = Some (Tx_continue, acc, w')
    \<and> int (length (sent w')) \<le> int (length (sent w)) + max 0 (tx_transfer_token w)
        + max 0 (tx_transfer_max_token w) * int ((J + 1 - tx_transfer_expired w) div 2)"
proof -
  obtain acc w' where 1: "tx_run ops w = Some (Tx_continue, acc, w')"
    "int (length (sent w')) + tx_budget J w' \<le> int (length (sent w)) + tx_budget J w"
    using tx_ok_run [OF assms(1,2)] assms(3,4) by (auto simp: tx_ok_def)
  have "0 \<le> tx_budget J w'" by (simp add: tx_budget_def)
  then have "int (length (sent w')) \<le> int (length (sent w)) + tx_budget J w" using 1(2) by linarith
  then show ?thesis using 1(1) by (simp add: tx_budget_def add.assoc)
qed

lemma tx_rate_bounded_witness:
  "\<exists>acc w'. tx_run (replicate 40 (Tx_write [3] 1) @ [Tx_env 2 0 []] @ replicate 40 Tx_iterate) (world0 CH02A)
      = Some (Tx_continue, acc, w') \<and> length (sent w') \<le> 32"
  using tx_rate_bounded [OF world0_pending, of
      "replicate 40 (Tx_write [3] 1) @ [Tx_env 2 0 []] @ replicate 40 Tx_iterate" CH02A 2]
  by (auto simp: list_all_iff world0_def)

text \<open>C8: what a write answers, in every case. It never accesses memory outside the caller's bytes or
  the message; a frame longer than a message holds, a closed device and a buffer without enough
  free space are refused with their error number, and then no byte of the message is left in the
  ring buffer; otherwise the whole message is appended and the count of the caller's bytes
  returned. A message of exactly the free size passes the check before it but is still refused when it
  would wrap around, since the ring buffer keeps one byte free.\<close>

theorem write_tx_rb_correct:
  assumes "rb_inv (tx_data w)" and "msg_wf (stack_msg w)" and "unat n \<le> length pl"
  shows "\<exists>r tx. write_tx_rb w pl n = Some (r, w\<lparr>tx_data := tx\<rparr>) \<and> rb_inv tx
    \<and> r = (if n = 0 then 0 else if onopening w then -ENODEV else if onclosing w then -ESHUTDOWN
        else if 78 < unat n \<or> ringbuffer_get_free_size (tx_data w) < unat n + 4 \<or>
          \<not> (unat n + 4 < ringbuffer_get_free_size (tx_data w)
             \<or> read_p (tx_data w) \<le> write_p (tx_data w)
                \<and> write_p (tx_data w) + (unat n + 4) \<le> end_p (tx_data w)) then -EIO
        else uint n)
    \<and> rb_bytes tx = rb_bytes (tx_data w) @ (if 0 < r
        then [MSG_SOB, n + 4, get_write_cmd_id (product w)] @ take (unat n) pl @ [MSG_EOB] else [])"
proof -
  obtain tx where "write_tx_rb w pl n = Some (write_tx_rb_result w n, w\<lparr>tx_data := tx\<rparr>)" "rb_inv tx"
    "rb_bytes tx = rb_bytes (tx_data w) @ (if 0 < write_tx_rb_result w n then tx_frame w pl n else [])"
    using write_tx_rb_exact [OF assms] by blast
  then show ?thesis
    by (intro exI [of _ "write_tx_rb_result w n"] exI [of _ tx] conjI)
      (simp_all only: write_tx_rb_result_def rb_fits_def tx_frame_def)
qed

lemma world0_tx_sel:
  "tx_data (world0 p) = rb_empty 256" "msg_wf (stack_msg (world0 p))" "onopening (world0 p) = False"
  "ringbuffer_get_free_size (rb_empty 256) = 256" "read_p (rb_empty 256) = 0" "write_p (rb_empty 256) = 0"
  by (simp_all add: world0_def msg_wf_def ringbuffer_get_free_size_def ringbuffer_get_used_size_def rb_empty_def)

lemma write_tx_rb_correct_witness:
  "\<exists>tx. write_tx_rb (world0 CT2A) [5, 6, 7] 2 = Some (2, (world0 CT2A)\<lparr>tx_data := tx\<rparr>)
    \<and> rb_bytes tx = [MSG_SOB, 6, CMD_SendCANFrame, 5, 6, MSG_EOB]"
  using write_tx_rb_correct [of "world0 CT2A" 2 "[5, 6, 7]"]
  by (auto simp: world0_tx_sel rb_empty_inv get_write_cmd_id_def)

lemma tx_progress:
  assumes "tx_pending w (f # ps)" and "\<not> tx_data_clear_requested w" and "choices w = []"
    and "0 < tx_usb_transfer_sem w"
    and "if tx_transfer_expired w < jiffies w
         then 0 < tx_transfer_max_token w \<and> unat (tx_buffer_rate w) \<le> TX_TRANSFER_LIMIT_RATE
         else 0 < tx_transfer_token w"
  shows "\<exists>w'. tx_thread_iteration w = Some (Tx_continue, w') \<and> tx_pending w' ps
    \<and> sent w' = sent w @ [f] \<and> tx_usb_transfer_sem w' + 1 = tx_usb_transfer_sem w
    \<and> tx_transfer_token w' + 1
        = (if tx_transfer_expired w < jiffies w then tx_transfer_max_token w else tx_transfer_token w)"
proof -
  define w1 where "w1 = refill_tokens w"
  define w2 where "w2 = w1\<lparr>tx_usb_transfer_sem := tx_usb_transfer_sem w1 - 1\<rparr>"
  note f1 = refill_fields [of w, folded w1_def]
  have tok: "tx_transfer_token w1
      = (if tx_transfer_expired w < jiffies w then tx_transfer_max_token w else tx_transfer_token w)"
    using assms(5) by (simp add: w1_def refill_tokens_def Let_def split: if_splits)
  have en: "is_write_enable w" using assms(1) tx_pending_empty [OF assms(1)] by (simp add: is_write_enable_def)
  have "down_tx_usb_transfer_sem w1 = (True, w2)"
    using assms(3,4) f1 by (simp add: down_tx_usb_transfer_sem_def may_fail_success w2_def)
  then have it: "tx_thread_iteration w = tx_one_message w2"
    using assms(2,3,5) en tok
    by (simp add: tx_thread_iteration_def may_fail_success Let_def split: if_splits flip: w1_def)
  have p: "rb_inv (tx_data w2)" "rb_bytes (tx_data w2) = f @ concat ps" "frame f" "list_all frame ps"
    "msg_wf (stack_msg w2)"
    using assms(1) f1 by (simp_all add: tx_pending_def w2_def)
  obtain w' where "tx_one_message w2 = Some (Tx_continue, w')" "rb_inv (tx_data w')"
    "rb_bytes (tx_data w') = concat ps" "tx_taken w2 f w'"
    using tx_one_message_taken [OF p(1-3)] by blast
  then show ?thesis using it p(4,5) tok assms(3,4) f1
    by (auto simp: tx_taken_def tx_pending_def w2_def)
qed

text \<open>C7: the thread makes progress. With a message pending, a token left or due, a free URB and no failure,
  one iteration sends exactly the oldest message, takes one slot of the semaphore and one token, and
  leaves the other messages as they are.\<close>

theorem tx_thread_progress:
  assumes "tx_pending w (f # ps)" and "\<not> tx_data_clear_requested w" and "choices w = []"
    and "0 < tx_usb_transfer_sem w"
    and "if tx_transfer_expired w < jiffies w
         then 0 < tx_transfer_max_token w \<and> unat (tx_buffer_rate w) \<le> TX_TRANSFER_LIMIT_RATE
         else 0 < tx_transfer_token w"
  shows "\<exists>w'. tx_thread_iteration w = Some (Tx_continue, w') \<and> tx_pending w' ps
    \<and> sent w' = sent w @ [f] \<and> tx_usb_transfer_sem w' + 1 = tx_usb_transfer_sem w
    \<and> tx_transfer_token w' + 1
        = (if tx_transfer_expired w < jiffies w then tx_transfer_max_token w else tx_transfer_token w)"
  using tx_progress [OF assms] .

definition tx_world :: world where
  "tx_world = (world0 CH02A)\<lparr>tx_data := (rb_empty 16)\<lparr>buffer := [0xF7, 5, 0x24, 9, 0xFA] @ replicate 11 0,
     write_p := 5\<rparr>\<rparr>"

lemma tx_thread_progress_witness:
  "\<exists>w'. tx_thread_iteration tx_world = Some (Tx_continue, w') \<and> tx_pending w' []
    \<and> sent w' = [[0xF7, 5, 0x24, 9, 0xFA]] \<and> tx_usb_transfer_sem w' = 3"
proof -
  have "tx_pending tx_world [[0xF7, 5, 0x24, 9, 0xFA]]"
    by (simp add: tx_pending_def tx_world_def rb_empty_def rb_inv_def rb_bytes_def seg_def frame_def
        classify_def world0_def msg_wf_def)
  from tx_thread_progress [OF this] show ?thesis by (auto simp: tx_world_def world0_def)
qed

text \<open>Why whole messages matter. If the ring buffer held the head of a message without its tail, the
  thread would read, wait for the rest without ever leaving its loop, and hold a slot of the
  semaphore: the result of one iteration is the endless loop.\<close>

theorem tx_truncated_message_spins:
  assumes "rb_inv (tx_data w)" and "rb_bytes (tx_data w) = h" and "length h = 4"
    and "4 < unat (h ! 1)" and "unat (h ! 1) \<le> 82"
  shows "\<exists>w'. tx_one_message w = Some (Tx_spin, w') \<and> rb_bytes (tx_data w') = []
    \<and> tx_usb_transfer_sem w' = tx_usb_transfer_sem w"
proof -
  obtain r1 where r1: "ringbuffer_rawread (tx_data w) 4 = Some (4, h, r1)" "rb_inv r1" "rb_bytes r1 = []"
    using rbq.get_head [of "tx_data w" h "[]"] assms by auto
  have "ringbuffer_rawread r1 n = Some (0, [], rb_advance r1 n)" for n
    using r1 by (simp add: rawread_eq)
  then have "tx_read_rest r1 buf 4 (unat (h ! 1) - 4) = Some (None, buf, rb_advance r1 (unat (h ! 1) - 4))" for buf
    using assms(4) by (simp add: tx_read_rest.simps)
  moreover have "store (replicate 82 0) 0 h = Some (h @ replicate 78 0)"
    using assms(3) by (simp add: store_eq)
  moreover have "msg_get_length (Some (h @ replicate 78 0)) 4 (Some 0) = Some (RESULT_Success, Some (h ! 1))"
    using assms(3) by (simp add: msg_get_length_def load1_eq nth_append)
  ultimately show ?thesis using assms r1
    by (simp add: tx_one_message_def Let_def rb_bytes_advance)
qed

lemma tx_truncated_message_spins_witness:
  "\<exists>w'. tx_one_message (tx_world\<lparr>tx_data := (tx_data tx_world)\<lparr>write_p := 4\<rparr>\<rparr>) = Some (Tx_spin, w')
     \<and> rb_bytes (tx_data w') = [] \<and> tx_usb_transfer_sem w' = 4"
  using tx_truncated_message_spins [of "tx_world\<lparr>tx_data := (tx_data tx_world)\<lparr>write_p := 4\<rparr>\<rparr>"
      "[0xF7, 5, 0x24, 9]"]
  by (auto simp: tx_world_def rb_empty_def rb_inv_def rb_bytes_def seg_def world0_def)

end
