(* ===== verification/Rx_Completion.thy ===== *)
theory Rx_Completion
  imports Products
begin

text \<open>
  Which received messages complete the wait of a command. \<open>core_answers\<close> is the part of
  \<open>apt_usbtrx_dispatch_msg\<close>, \<open>answers_of\<close> adds the product's own responses. The locale
  \<open>rx_completion\<close> extends the interface of the receive path: a message that answers the awaited
  identifier is copied to \<open>rx_complete\<close> and counted, every other message leaves it alone. In
  it: after any sequence of messages with one answer, \<open>rx_complete\<close> holds that answer.
\<close>

definition core_answers :: "u8 \<Rightarrow> msg \<Rightarrow> bool" where
  "core_answers i m \<longleftrightarrow>
     (if msg_id m \<in> {CMD_ResponseGetDeviceId, CMD_ResponseGetSerialNo, CMD_ResponseGetFWVersion,
                     CMD_ResponseGetFWVersionRevision}
      then uint i = get_request_command_from_response_command (msg_id m)
      else msg_id m \<in> {CMD_ACK, CMD_NACK} \<and> payload m ! 0 = i)"

definition is_core_id :: "u8 \<Rightarrow> bool" where
  "is_core_id i \<longleftrightarrow> i \<in> {CMD_NotifyBufferStatus, CMD_ResponseGetDeviceId, CMD_ResponseGetSerialNo,
     CMD_ResponseGetFWVersion, CMD_ResponseGetFWVersionRevision, CMD_ACK, CMD_NACK}"

definition answers_of :: "product \<Rightarrow> u8 \<Rightarrow> msg \<Rightarrow> bool" where
  "answers_of p i m = (case p of
     CT2A \<Rightarrow> msg_id m = CMD_ResponseGetStatus \<and> i = CMD_GetStatus
   | CH02A \<Rightarrow> msg_id m = CMD_ResponseGetStatus \<and> i = CMD_GetStatus
       \<or> msg_id m = CH02A_CMD_ResponseGetBitTiming \<and> i = CH02A_CMD_GetBitTiming
   | CF02A \<Rightarrow> cf02a_request_of_response (msg_id m) = Some i
   | AG08A \<Rightarrow> msg_id m = AG08A_CMD_ResponseGetStatus \<and> i = AG08A_CMD_GetStatus)"

text \<open>The messages that complete the wait for \<open>i\<close>, given the product's \<open>own\<close> answers.\<close>

definition answers :: "(u8 \<Rightarrow> msg \<Rightarrow> bool) \<Rightarrow> u8 \<Rightarrow> msg \<Rightarrow> bool" where
  "answers own i m \<longleftrightarrow> (if is_core_id (msg_id m) then core_answers i m else own i m)"

definition answering :: "(u8 \<Rightarrow> msg \<Rightarrow> bool) \<Rightarrow> world \<Rightarrow> u8 list \<Rightarrow> bool" where
  "answering own w f \<longleftrightarrow> answers own (rxc_id w) (frame_msg f (stack_msg w))"

definition same_rxc :: "world \<Rightarrow> world \<Rightarrow> bool" where
  "same_rxc w w' \<longleftrightarrow> rxc_buffer w' = rxc_buffer w \<and> rxc_done w' = rxc_done w"

lemma same_rxc_refl [simp]: "same_rxc w w"
  by (simp add: same_rxc_def)

locale rx_completion = rx_device disp ok
  for disp :: "world \<Rightarrow> u8 list \<Rightarrow> msg \<Rightarrow> (RESULT \<times> world) option" and ok :: "u8 list \<Rightarrow> bool" +
  fixes own :: "u8 \<Rightarrow> msg \<Rightarrow> bool"
  assumes own_answer: "\<not> is_core_id (msg_id m) \<Longrightarrow> own (rxc_id w) m \<Longrightarrow>
      disp w f m = map_option (Pair RESULT_Success) (complete_rx w f m)"
    and not_own: "\<not> is_core_id (msg_id m) \<Longrightarrow> \<not> own (rxc_id w) m \<Longrightarrow> disp w f m = Some (r, w') \<Longrightarrow>
      same_rxc w w'"
begin

lemma dispatch_answer:
  assumes "rx_ongoing w" and "answers own (rxc_id w) m" and "length (payload m) = 78"
    and "dispatch_msg disp w f m = Some (r, w')"
  shows "\<exists>v. complete_rx v f m = Some w' \<and> same_rxc w v"
proof -
  have pl: "load1 (payload m) 0 = Some (payload m ! 0)" using assms(3) by (simp add: load1_def)
  show ?thesis
  proof (cases "is_core_id (msg_id m)")
    case True
    have "same_rxc w (w\<lparr>basetime := b\<rparr>)" for b by (simp add: same_rxc_def)
    then show ?thesis using True assms pl same_rxc_refl [of w]
      by (auto simp: answers_def is_core_id_def core_answers_def dispatch_msg_def msg_parse_ack_def Let_def
          split: if_splits bind_splits)
  next
    case False
    then show ?thesis using assms own_answer [OF False, of w f] same_rxc_refl [of w]
      by (auto simp: answers_def is_core_id_def dispatch_msg_def split: if_splits bind_splits)
  qed
qed

lemma dispatch_silent:
  assumes "\<not> answers own (rxc_id w) m" and "length (payload m) = 78"
    and "dispatch_msg disp w f m = Some (r, w')"
  shows "same_rxc w w'"
proof -
  have pl: "load1 (payload m) 0 = Some (payload m ! 0)" using assms(2) by (simp add: load1_def)
  show ?thesis
  proof (cases "is_core_id (msg_id m)")
    case True
    then show ?thesis using assms pl
      by (auto simp: answers_def is_core_id_def core_answers_def dispatch_msg_def msg_parse_ack_def
          msg_parse_notify_buffer_status_def same_rxc_def Let_def split: if_splits bind_splits)
  next
    case False
    then show ?thesis using assms not_own [OF False, of w f]
      by (auto simp: answers_def is_core_id_def dispatch_msg_def split: if_splits bind_splits)
  qed
qed

lemma dispatch_all_rxc:
  assumes "rx_inv w" and "rx_ongoing w" and "\<forall>f \<in> set fs. is_frame f \<and> ok f"
    and "dispatch_all disp w fs = Some w'"
  shows "rxc_done w' = rxc_done w + length (filter (answering own w) fs)"
    and "filter (answering own w) fs = [] \<Longrightarrow> rxc_buffer w' = rxc_buffer w"
    and "filter (answering own w) fs = [f] \<Longrightarrow> store (rxc_buffer w) 0 f = Some (rxc_buffer w')"
proof -
  have "rxc_done w' = rxc_done w + length (filter (answering own w) fs)
    \<and> (filter (answering own w) fs = [] \<longrightarrow> rxc_buffer w' = rxc_buffer w)
    \<and> (\<forall>f. filter (answering own w) fs = [f] \<longrightarrow> store (rxc_buffer w) 0 f = Some (rxc_buffer w'))"
    using assms
  proof (induction fs arbitrary: w)
    case (Cons g gs)
    let ?m = "frame_msg g (stack_msg w)"
    have g: "is_frame g" "ok g" "msg_wf (stack_msg w)" using Cons.prems by (simp_all add: rx_inv_def)
    obtain r w1 where w1: "dispatch_msg disp w g ?m = Some (r, w1)" "rx_inv w1" "rx_frame w w1"
      using dispatch_safe [OF Cons.prems(1) g] by blast
    then have rest: "dispatch_all disp w1 gs = Some w'" using Cons.prems(4) by simp
    have same: "answering own w1 = answering own w" "rx_ongoing w1"
      using w1(3) Cons.prems(2) by (simp_all add: answering_def rx_frame_def fun_eq_iff)
    note IH = Cons.IH [OF w1(2) same(2) _ rest, unfolded same(1)]
    have pl: "length (payload ?m) = 78" using frame_wf(4) [OF g(1,3)] .
    show ?case
    proof (cases "answering own w g")
      case True
      then obtain v where v: "complete_rx v g ?m = Some w1" "same_rxc w v"
        using dispatch_answer [OF Cons.prems(2) _ pl w1(1)] by (auto simp: answering_def)
      have l: "load g 0 (unat (payload_size ?m) + 4) = Some g"
        using frame_length [OF g(1), of "stack_msg w"] by (simp add: load_def)
      have "rxc_done w1 = Suc (rxc_done w) \<and> store (rxc_buffer w) 0 g = Some (rxc_buffer w1)"
        using v l by (auto simp: complete_rx_def same_rxc_def Let_def split: bind_splits)
      then show ?thesis using True IH Cons.prems(3) by auto
    next
      case False
      then have "same_rxc w w1"
        using dispatch_silent [OF _ pl w1(1)] by (simp add: answering_def)
      then show ?thesis using False IH Cons.prems(3) by (auto simp: same_rxc_def)
    qed
  qed simp
  then show "rxc_done w' = rxc_done w + length (filter (answering own w) fs)"
    and "filter (answering own w) fs = [] \<Longrightarrow> rxc_buffer w' = rxc_buffer w"
    and "filter (answering own w) fs = [f] \<Longrightarrow> store (rxc_buffer w) 0 f = Some (rxc_buffer w')"
    by auto
qed

end

subsection \<open>The products\<close>

lemma rx_to_file_rxc: "rx_to_file w m = Some w' \<Longrightarrow> same_rxc w w'"
  by (auto simp: rx_to_file_def same_rxc_def emit_def split: bind_splits)

lemma may_fail_rxc: "may_fail w = (ok, w') \<Longrightarrow> same_rxc w w'"
  by (auto simp: may_fail_def same_rxc_def split: list.splits)

lemma can_rx_rxc: "can_rx_can_msg w p = Some w' \<Longrightarrow> same_rxc w w'"
  using may_fail_rxc [of w]
  by (cases "may_fail w")
    (auto simp: can_rx_can_msg_def same_rxc_def emit_def Let_def split: bind_splits if_splits)

lemma cf02a_rx_rxc: "cf02a_rx_can_msg w p = Some w' \<Longrightarrow> same_rxc w w'"
  using may_fail_rxc [of w]
  by (cases "may_fail w")
    (auto simp: cf02a_rx_can_msg_def same_rxc_def emit_def Let_def split: bind_splits if_splits)

lemma unique_can_rxc:
  "unique_can_dispatch_msg w f m = Some (r, w') \<Longrightarrow>
     \<not> (msg_id m = CMD_ResponseGetStatus \<and> rxc_id w = CMD_GetStatus) \<Longrightarrow> same_rxc w w'"
  by (auto simp: unique_can_dispatch_msg_def rx_to_file_rxc can_rx_rxc Let_def split: bind_splits if_splits)
    (simp_all add: same_rxc_def)

lemma ag08a_rxc:
  "ag08a_dispatch_msg w f m = Some (r, w') \<Longrightarrow>
     \<not> (msg_id m = AG08A_CMD_ResponseGetStatus \<and> rxc_id w = AG08A_CMD_GetStatus) \<Longrightarrow> same_rxc w w'"
  by (auto simp: ag08a_dispatch_msg_def rx_to_file_rxc Let_def split: bind_splits if_splits)
    (simp_all add: same_rxc_def emit_def)

lemma cf02a_rxc:
  "cf02a_dispatch_msg w f m = Some (r, w') \<Longrightarrow>
     cf02a_request_of_response (msg_id m) \<noteq> Some (rxc_id w) \<Longrightarrow> same_rxc w w'"
  by (auto simp: cf02a_dispatch_msg_def cf02a_dispatch_msg_common_response_def rx_to_file_rxc cf02a_rx_rxc
      Let_def split: bind_splits if_splits option.splits)
    (simp_all add: same_rxc_def emit_def)

lemma rx_completion_of: "rx_completion (dispatch_of p) (frame_ok_of p) (answers_of p)"
proof
  fix w :: world and f m
  assume "\<not> is_core_id (msg_id m)" "answers_of p (rxc_id w) m"
  then show "dispatch_of p w f m = map_option (Pair RESULT_Success) (complete_rx w f m)"
    by (cases p; cases "complete_rx w f m")
      (auto simp: dispatch_of_def answers_of_def unique_can_dispatch_msg_def ch02a_dispatch_msg_def
        ag08a_dispatch_msg_def cf02a_dispatch_msg_def cf02a_dispatch_msg_common_response_def
        cf02a_request_of_response_def split: if_splits)
next
  fix w w' :: world and f m r
  assume "\<not> answers_of p (rxc_id w) m" "dispatch_of p w f m = Some (r, w')"
  then show "same_rxc w w'"
    using unique_can_rxc [of w f m r w'] ag08a_rxc [of w f m r w'] cf02a_rxc [of w f m r w']
    by (cases p) (auto simp: dispatch_of_def answers_of_def ch02a_dispatch_msg_def split: if_splits)
qed

interpretation awaited: rx_completion "dispatch_of p" "frame_ok_of p" "answers_of p" for p
  by (rule rx_completion_of)

end
