(* ===== verification/Transaction.thy ===== *)
theory Transaction
  imports Rx_Completion
begin

text \<open>
  Requests and responses: \<open>send_msg_sync\<close>, \<open>send_msg_async\<close> and \<open>wait_msg\<close> of
  \<open>module/apt_usbtrx_core.c\<close>.

  A caller takes the semaphore, names the identifier it waits for, sends its message, and waits for
  the completion that the receive path signals; the completions of receive URBs that arrive while
  it waits are \<open>incoming\<close>, and are handled one by one by the completion handler. Before the
  receive URBs are set up it reads the device itself with \<open>usb_bulk_msg\<close>. A wait that
  has consumed all that arrives ends with the timeout.

  The lemmas: a wait finds the one answer in the stream however it is cut into transfers and
  whatever other messages surround it, and the semaphore is given back on every path.
\<close>

abbreviation (input) CMD_Unknown :: u8 where "CMD_Unknown \<equiv> 0xFF"  \<comment> \<open>-1, passed as \<open>u8\<close>\<close>

definition rx_callback :: "world \<Rightarrow> int \<times> u8 list \<Rightarrow> world option" where
  "rx_callback w urb = read_bulk_callback (dispatch_of (product w)) w urb"

text \<open>\<open>usb_bulk_msg\<close> to the device.\<close>

definition send_msg_internal :: "world \<Rightarrow> u8 list \<Rightarrow> RESULT \<times> world" where
  "send_msg_internal w data =
     (let (ok, w) = may_fail w in
      if \<not> ok then (RESULT_Failure, w)
      else let w = w\<lparr>sent := sent w @ [data]\<rparr> in
        (RESULT_Success, w\<lparr>incoming := incoming w @ device_fw w (sent w)\<rparr>))"

text \<open>The caller that finds the semaphore taken waits until a signal interrupts it: no other caller
  runs in the model.\<close>

definition down_send_msg_sem :: "world \<Rightarrow> bool \<times> world" where
  "down_send_msg_sem w =
     (let (ok, w) = may_fail w in
      if ok \<and> 0 < send_msg_sem w then (True, w\<lparr>send_msg_sem := send_msg_sem w - 1\<rparr>) else (False, w))"

definition up_send_msg_sem :: "world \<Rightarrow> world" where
  "up_send_msg_sem w = w\<lparr>send_msg_sem := send_msg_sem w + 1\<rparr>"

definition send_msg_sync :: "world \<Rightarrow> u8 list \<Rightarrow> (RESULT \<times> world) option" where
  "send_msg_sync w data =
     (let (ok, w) = down_send_msg_sem w in
      if \<not> ok then Some (RESULT_Failure, w)
      else do {
        i \<leftarrow> load1 data 2;
        let (result, w) = send_msg_internal (w\<lparr>rxc_id := i, rxc_done := 0\<rparr>) data;
        if result \<noteq> RESULT_Success then Some (result, up_send_msg_sem w)
        else Some (RESULT_Success, w)
      })"

definition send_msg_async :: "world \<Rightarrow> u8 list \<Rightarrow> RESULT \<times> world" where
  "send_msg_async w data = send_msg_internal w data"

text \<open>\<open>wait_for_completion_timeout\<close>: \<open>False\<close> is the timeout. A transfer completes only if a URB
  waits for it.\<close>

fun wait_for_completion :: "world \<Rightarrow> (int \<times> u8 list) list \<Rightarrow> (bool \<times> world) option" where
  "wait_for_completion w us =
     (if 0 < rxc_done w then Some (True, w\<lparr>rxc_done := rxc_done w - 1, incoming := us\<rparr>)
      else case us of
        [] \<Rightarrow> Some (False, w\<lparr>incoming := []\<rparr>)
      | u # us \<Rightarrow>
          if rx_urbs w = 0 then Some (False, w\<lparr>incoming := u # us\<rparr>)
          else do { w \<leftarrow> rx_callback w u; wait_for_completion w us })"

declare wait_for_completion.simps [simp del]

text \<open>\<open>usb_bulk_msg\<close> from the device into a buffer of which \<open>data_size\<close> bytes may be used: the next
  transfer, unless it reports an error, is larger, or nothing arrives in time.\<close>

definition usb_bulk_read :: "world \<Rightarrow> nat \<Rightarrow> (u8 list option) \<times> world" where
  "usb_bulk_read w data_size = (case incoming w of
     [] \<Rightarrow> (None, w)
   | (status, xs) # us \<Rightarrow>
       (if status = 0 \<and> length xs \<le> data_size then Some xs else None, w\<lparr>incoming := us\<rparr>))"

text \<open>The search for the acknowledgement from position \<open>pos\<close>; the two branches of the code, for
  \<open>ack_id\<close> and \<open>nack_id\<close>, are the same.\<close>

function wait_scan :: "msg \<Rightarrow> u8 list \<Rightarrow> nat \<Rightarrow> nat \<Rightarrow> u8 \<Rightarrow> u8 \<Rightarrow> msg option option" where
  "wait_scan stk buf recv_size pos ack_id nack_id =
     (if recv_size \<le> pos then Some None
      else case msg_parse (drop pos buf) (recv_size - pos) stk of
        None \<Rightarrow> None
      | Some (result, m) \<Rightarrow>
          if result \<noteq> RESULT_Success then wait_scan stk buf recv_size (pos + 1) ack_id nack_id
          else if msg_id m = ack_id \<or> msg_id m = nack_id then Some (Some m)
          else wait_scan stk buf recv_size (pos + (unat (payload_size m) + 4)) ack_id nack_id)"
  by pat_completeness auto
termination
  by (relation "measure (\<lambda>(_, _, n, p, _, _). n - p)") auto

declare wait_scan.simps [simp del]

text \<open>The loop; the first argument counts how often \<open>time_before\<close> still holds.\<close>

fun wait_loop ::
  "nat \<Rightarrow> world \<Rightarrow> u8 list \<Rightarrow> u8 \<Rightarrow> u8 \<Rightarrow> u8 list \<Rightarrow> nat \<Rightarrow> (RESULT \<times> u8 list \<times> world) option"
where
  "wait_loop n w buf ack_id nack_id data data_size = do {
     (result, recv_size, buf, w) \<leftarrow>
       (if rx_ongoing w then do {
          (ok, w) \<leftarrow> wait_for_completion w (incoming w);
          if \<not> ok then Some (RESULT_Timeout, 0, buf, w)
          else do {
            buf \<leftarrow> store buf 0 (rxc_buffer w);
            Some (RESULT_Success, length (rxc_buffer w), buf, w)
          }
        }
        else (case usb_bulk_read w data_size of
          (None, w) \<Rightarrow> Some (RESULT_Failure, 0, buf, w)
        | (Some xs, w) \<Rightarrow> do {
            buf \<leftarrow> store buf 0 xs;
            Some (RESULT_Success, length xs, buf, w)
          }));
     if result \<noteq> RESULT_Success then Some (result, data, up_send_msg_sem w)
     else do {
       found \<leftarrow> wait_scan (stack_msg w) buf recv_size 0 ack_id nack_id;
       case found of
         Some m \<Rightarrow> do {
           bs \<leftarrow> load buf 0 (unat (payload_size m) + 4);
           data \<leftarrow> store data 0 bs;
           Some (RESULT_Success, data, up_send_msg_sem w)
         }
       | None \<Rightarrow>
           (case n of 0 \<Rightarrow> Some (RESULT_Failure, data, up_send_msg_sem w)
            | Suc n \<Rightarrow> wait_loop n w buf ack_id nack_id data data_size)
     }
   }"

declare wait_loop.simps [simp del]

definition wait_msg_timeout ::
  "world \<Rightarrow> u8 \<Rightarrow> u8 \<Rightarrow> u8 list \<Rightarrow> nat \<Rightarrow> (RESULT \<times> u8 list \<times> world) option" where
  "wait_msg_timeout w ack_id nack_id data data_size =
     (let (ok, w) = may_fail w in
      if \<not> ok then Some (RESULT_Failure, data, up_send_msg_sem w)
      else wait_loop (deadline w) w (replicate RX_BUFFER_SIZE 0) ack_id nack_id data data_size)"

definition wait_msg ::
  "world \<Rightarrow> u8 \<Rightarrow> u8 \<Rightarrow> u8 list \<Rightarrow> nat \<Rightarrow> (RESULT \<times> u8 list \<times> world) option" where
  "wait_msg w ack_id nack_id data data_size = wait_msg_timeout w ack_id nack_id data data_size"

text \<open>What every command does between its allocations and the parsing of the answer's payload: pack,
  send, wait, parse. \<open>Inl\<close> is the result of the function that failed.\<close>

definition exchange ::
  "world \<Rightarrow> msg \<Rightarrow> nat \<Rightarrow> nat \<Rightarrow> u8 \<Rightarrow> u8 \<Rightarrow> ((RESULT + msg) \<times> world) option" where
  "exchange w req_msg req_size resp_size ack_id nack_id = do {
     (result, req_data) \<leftarrow> msg_pack req_msg (replicate req_size 0) req_size;
     if result \<noteq> RESULT_Success then Some (Inl RESULT_Failure, w)
     else do {
       (result, w) \<leftarrow> send_msg_sync w req_data;
       if result \<noteq> RESULT_Success then Some (Inl RESULT_Failure, w)
       else do {
         (result, resp_data, w) \<leftarrow> wait_msg w ack_id nack_id (replicate resp_size 0) resp_size;
         if result \<noteq> RESULT_Success then Some (Inl result, w)
         else do {
           (result, resp_msg) \<leftarrow> msg_parse resp_data resp_size (stack_msg w);
           if result \<noteq> RESULT_Success then Some (Inl RESULT_Failure, w)
           else Some (Inr resp_msg, w)
         }
       }
     }
   }"

text \<open>The allocation of the request's and the response's buffers.\<close>

definition alloc2 :: "world \<Rightarrow> bool \<times> world" where
  "alloc2 w =
     (let (ok, w) = may_fail w in
      if \<not> ok then (False, w) else may_fail w)"

subsection \<open>A wait finds the answer\<close>

definition wait_ready :: "world \<Rightarrow> bool" where
  "wait_ready w \<longleftrightarrow> rx_inv w \<and> \<not> onclosing w \<and> choices w = [] \<and> 0 < rx_urbs w \<and> rx_ongoing w
     \<and> scan (leftover w) = ([], leftover w)"

text \<open>What the completion handler leaves alone.\<close>

definition keeps :: "world \<Rightarrow> world \<Rightarrow> bool" where
  "keeps w w' \<longleftrightarrow> stack_msg w' = stack_msg w \<and> sent w' = sent w \<and> tx_data w' = tx_data w
     \<and> rxc_id w' = rxc_id w \<and> send_msg_sem w' = send_msg_sem w \<and> device_fw w' = device_fw w
     \<and> deadline w' = deadline w \<and> product w' = product w \<and> resettime w' = resettime w"

lemma keeps_trans: "keeps a b \<Longrightarrow> keeps b c \<Longrightarrow> keeps a c"
  by (simp add: keeps_def)

lemma keeps_answering: "keeps w w' \<Longrightarrow> answering own w' = answering own w"
  by (simp add: keeps_def answering_def fun_eq_iff)

lemma rx_callback_step:
  assumes ready: "wait_ready w" and xs: "length xs \<le> RX_BUFFER_SIZE"
    and ok: "\<forall>f \<in> set (fst (scan (leftover w @ xs))). frame_ok_of (product w) f"
  defines "fs \<equiv> filter (answering (answers_of (product w)) w) (fst (scan (leftover w @ xs)))"
  shows "\<exists>w'. rx_callback w (0, xs) = Some w' \<and> wait_ready w' \<and> keeps w w'
    \<and> leftover w' = snd (scan (leftover w @ xs)) \<and> rxc_done w' = rxc_done w + length fs
    \<and> (fs = [] \<longrightarrow> rxc_buffer w' = rxc_buffer w)
    \<and> (\<forall>f. fs = [f] \<longrightarrow> store (rxc_buffer w) 0 f = Some (rxc_buffer w'))"
proof -
  let ?l = "snd (scan (leftover w @ xs))"
  have inv: "rx_inv w" and run: "\<not> onclosing w" using ready by (simp_all add: wait_ready_def)
  obtain w2 b where w2: "dispatch_all (dispatch_of (product w)) w (fst (scan (leftover w @ xs))) = Some w2"
    "rx_callback w (0, xs) = Some (resubmit_rx_urb (set_rxt b (length ?l) (rx_urbs w - 1) w2))"
    "take (length ?l) b = ?l" "length b = 2048" "length ?l < 82" "rx_inv w2" "rx_frame w w2"
    using any.callback_scan [OF inv run xs ok] by (auto simp: rx_callback_def)
  have fr: "\<forall>f \<in> set (fst (scan (leftover w @ xs))). is_frame f \<and> frame_ok_of (product w) f"
    using ok scan_frames by (auto simp: is_frame_def)
  have on: "rx_ongoing w" using ready by (simp add: wait_ready_def)
  define w' where "w' = set_rxt b (length ?l) (rx_urbs w) w2"
  have "resubmit_rx_urb (set_rxt b (length ?l) (rx_urbs w - 1) w2) = w'"
    using w2(7) ready
    by (simp add: w'_def resubmit_rx_urb_def may_fail_def set_rxt_def rx_frame_def wait_ready_def)
  moreover have left: "leftover w' = ?l" using w2(3) by (simp add: w'_def set_rxt_def leftover_def)
  moreover have "wait_ready w'"
    unfolding wait_ready_def left using w2(4-7) ready scan_settled [of "leftover w @ xs"]
    by (simp add: w'_def set_rxt_def rx_inv_def rx_frame_def wait_ready_def)
  moreover have "keeps w w'" using w2(7) by (simp add: w'_def set_rxt_def rx_frame_def keeps_def)
  moreover have "rxc_done w' = rxc_done w2" "rxc_buffer w' = rxc_buffer w2"
    by (simp_all add: w'_def set_rxt_def)
  moreover have "rxc_done w2 = rxc_done w + length fs" "fs = [] \<longrightarrow> rxc_buffer w2 = rxc_buffer w"
    "\<forall>f. fs = [f] \<longrightarrow> store (rxc_buffer w) 0 f = Some (rxc_buffer w2)"
    using awaited.dispatch_all_rxc [OF inv on fr w2(1)] unfolding fs_def by blast+
  ultimately show ?thesis using w2(2) by (intro exI [of _ w'] conjI) simp_all
qed

lemma wait_for_completion_done:
  "0 < rxc_done w \<Longrightarrow> wait_for_completion w us = Some (True, w\<lparr>rxc_done := rxc_done w - 1, incoming := us\<rparr>)"
  by (simp add: wait_for_completion.simps)

lemma wait_finds:
  assumes "wait_ready w" and "rxc_done w = 0"
    and "\<forall>xs \<in> set xss. length xs \<le> RX_BUFFER_SIZE"
    and "\<forall>f \<in> set (fst (scan (leftover w @ concat xss))). frame_ok_of (product w) f"
    and "filter (answering (answers_of (product w)) w) (fst (scan (leftover w @ concat xss))) = [f]"
  shows "\<exists>w'. wait_for_completion w (map (Pair 0) xss) = Some (True, w') \<and> wait_ready w' \<and> keeps w w'
    \<and> store (rxc_buffer w) 0 f = Some (rxc_buffer w')"
  using assms
proof (induction xss arbitrary: w)
  case Nil
  then show ?case by (simp add: wait_ready_def)
next
  case (Cons xs xss)
  let ?d = "leftover w @ xs" and ?ans = "answering (answers_of (product w)) w"
  let ?l = "snd (scan ?d)"
  have app: "fst (scan (leftover w @ concat (xs # xss))) = fst (scan ?d) @ fst (scan (?l @ concat xss))"
    using scan_append [of ?d "concat xss"] by simp
  have urbs: "rx_urbs w \<noteq> 0" using Cons.prems(1) by (simp add: wait_ready_def)
  obtain w1 where w1: "rx_callback w (0, xs) = Some w1" "wait_ready w1" "keeps w w1" "leftover w1 = ?l"
    "rxc_done w1 = rxc_done w + length (filter ?ans (fst (scan ?d)))"
    "filter ?ans (fst (scan ?d)) = [] \<Longrightarrow> rxc_buffer w1 = rxc_buffer w"
    "\<And>f. filter ?ans (fst (scan ?d)) = [f] \<Longrightarrow> store (rxc_buffer w) 0 f = Some (rxc_buffer w1)"
    using rx_callback_step [OF Cons.prems(1), of xs] Cons.prems(3,4) app by auto
  have step: "wait_for_completion w (map (Pair 0) (xs # xss)) = wait_for_completion w1 (map (Pair 0) xss)"
    using Cons.prems(2) urbs w1(1) by (subst wait_for_completion.simps) simp
  have p: "product w1 = product w" "answering (answers_of (product w)) w1 = ?ans"
    using w1(3) keeps_answering [OF w1(3)] by (simp_all add: keeps_def)
  have split: "filter ?ans (fst (scan ?d)) @ filter ?ans (fst (scan (?l @ concat xss))) = [f]"
    using Cons.prems(5) app by (simp del: concat.simps)
  show ?case
  proof (cases "filter ?ans (fst (scan ?d))")
    case Nil
    then show ?thesis
      using Cons.IH [OF w1(2)] Cons.prems(2-4) w1(3-6) split step p app keeps_trans [OF w1(3)] by auto
  next
    case (Cons g gs)
    then have f: "filter ?ans (fst (scan ?d)) = [f]" using split by auto
    have "0 < rxc_done w1" using w1(5) f by simp
    then have "wait_for_completion w1 (map (Pair 0) xss)
        = Some (True, w1\<lparr>rxc_done := rxc_done w1 - 1, incoming := map (Pair 0) xss\<rparr>)"
      by (rule wait_for_completion_done)
    moreover have "wait_ready (w1\<lparr>rxc_done := x, incoming := y\<rparr>)" "keeps w (w1\<lparr>rxc_done := x, incoming := y\<rparr>)" for x y
      using w1(2,3) by (simp_all add: wait_ready_def keeps_def rx_inv_def leftover_def)
    ultimately show ?thesis using step w1(7) [OF f] by simp
  qed
qed

subsection \<open>The exchange of a request and its response\<close>

lemma store_head:
  "store m 0 xs = Some m' \<Longrightarrow> m' = xs @ drop (length xs) m \<and> length xs \<le> length m"
  by (auto simp: store_def split: if_splits)

lemma parse_frame_head:
  assumes "is_frame f" and "msg_wf m" and "length f \<le> n" and "n \<le> length (f @ rest)"
  shows "msg_parse (f @ rest) n m = Some (RESULT_Success, frame_msg f m)"
proof -
  have c: "classify f = RESULT_Success" "length f = unat (f ! 1)"
    using assms(1) by (simp_all add: is_frame_def)
  then have l: "4 \<le> length f" using classify_success(2) by simp
  have "take n (f @ rest) = f @ take (n - length f) rest" using assms(3) by simp
  then have "classify (take n (f @ rest)) = RESULT_Success"
    using c l classify_append [of f "take (n - length f) rest"] by simp
  moreover have "frame_msg (f @ rest) m = frame_msg f m"
    using c l by (simp add: frame_msg_def nth_append seg_def)
  ultimately show ?thesis
    using msg_parse_eq [of n "f @ rest" m] assms l by simp
qed

lemma wait_scan_head:
  assumes "is_frame f" and "msg_wf m" and "n = length (f @ rest)" and "f ! 2 = ack_id \<or> f ! 2 = nack_id"
  shows "wait_scan m (f @ rest) n 0 ack_id nack_id = Some (Some (frame_msg f m))"
proof -
  have "0 < n" using assms(1,3) classify_success(2) [of f] by (auto simp: is_frame_def)
  moreover have "msg_parse (f @ rest) n m = Some (RESULT_Success, frame_msg f m)"
    using parse_frame_head [OF assms(1,2)] assms(3) by simp
  moreover have "msg_id (frame_msg f m) = f ! 2" by (simp add: frame_msg_def)
  ultimately show ?thesis using assms(4) by (subst wait_scan.simps) auto
qed

text \<open>The precondition on what arrives: transfers with exactly one answer to \<open>i\<close>, the frame \<open>f\<close>.\<close>

definition answered_by :: "world \<Rightarrow> u8 \<Rightarrow> u8 list list \<Rightarrow> u8 list \<Rightarrow> bool" where
  "answered_by w i xss f \<longleftrightarrow>
     (\<forall>xs \<in> set xss. length xs \<le> RX_BUFFER_SIZE)
     \<and> (\<forall>g \<in> set (fst (scan (leftover w @ concat xss))). frame_ok_of (product w) g)
     \<and> filter (answering (answers_of (product w)) (w\<lparr>rxc_id := i\<rparr>))
         (fst (scan (leftover w @ concat xss))) = [f]"

lemma answered_by_frame: "answered_by w i xss f \<Longrightarrow> is_frame f"
proof -
  assume "answered_by w i xss f"
  then have "f \<in> set (filter (answering (answers_of (product w)) (w\<lparr>rxc_id := i\<rparr>))
         (fst (scan (leftover w @ concat xss))))" by (simp add: answered_by_def)
  then show ?thesis using scan_frames by (auto simp: is_frame_def)
qed

lemma wait_msg_answered:
  assumes ready: "wait_ready w" and done0: "rxc_done w = 0" and inc: "incoming w = map (Pair 0) xss"
    and ans: "answered_by w (rxc_id w) xss f" and ids: "f ! 2 = ack_id \<or> f ! 2 = nack_id"
  shows "\<exists>w'. wait_msg w ack_id nack_id data n
      = map_option (\<lambda>d. (RESULT_Success, d, up_send_msg_sem w')) (store data 0 f)
    \<and> wait_ready w' \<and> keeps w w'"
proof -
  have f: "is_frame f" using answered_by_frame [OF ans] .
  have id: "w\<lparr>rxc_id := rxc_id w\<rparr> = w" by simp
  obtain w' where w': "wait_for_completion w (map (Pair 0) xss) = Some (True, w')" "wait_ready w'"
    "keeps w w'" "store (rxc_buffer w) 0 f = Some (rxc_buffer w')"
    using wait_finds [OF ready done0, of xss f] ans by (auto simp: answered_by_def id)
  obtain rest where b: "rxc_buffer w' = f @ rest" using store_head [OF w'(4)] by blast
  have l: "length (f @ rest) = 1024" using w'(2) b by (simp add: wait_ready_def rx_inv_def)
  have wf: "msg_wf (stack_msg w')" using w'(2) by (simp add: wait_ready_def rx_inv_def)
  have on: "rx_ongoing w" "choices w = []" using ready by (simp_all add: wait_ready_def)
  have s: "store (replicate 1024 0) 0 (f @ rest) = Some (f @ rest)" using l by (simp add: store_def)
  have psz: "unat (payload_size (frame_msg f (stack_msg w'))) + 4 = length f"
    using frame_length [OF f] by simp
  have ld: "load (f @ rest) 0 (length f) = Some f" by (simp add: load_def)
  have "wait_loop k w (replicate 1024 0) ack_id nack_id data n
      = map_option (\<lambda>d. (RESULT_Success, d, up_send_msg_sem w')) (store data 0 f)" for k
    using w'(1) wait_scan_head [OF f wf refl ids, of rest] s ld
    by (subst wait_loop.simps)
      (cases "store data 0 f"; simp add: on inc b psz del: append.simps)
  then show ?thesis using w'(2,3) on by (auto simp: wait_msg_def wait_msg_timeout_def may_fail_def)
qed

text \<open>What the exchange comes to: the response, or, where it is longer than the caller's buffer, a
  write behind the buffer.\<close>

lemma exchange_answer:
  assumes ready: "wait_ready w" and sem: "0 < send_msg_sem w"
    and req: "msg_wf req" "unat (payload_size req) \<le> 78" "req_size = unat (payload_size req) + 4"
    and dev: "incoming w @ device_fw w (sent w @ [msg_bytes req]) = map (Pair 0) xss"
    and ans: "answered_by w (msg_id req) xss f" and ids: "f ! 2 = ack_id \<or> f ! 2 = nack_id"
  shows "\<exists>w'. exchange w req req_size resp_size ack_id nack_id
      = (if length f \<le> resp_size then Some (Inr (frame_msg f (stack_msg w)), w') else None)
    \<and> wait_ready w' \<and> send_msg_sem w' = send_msg_sem w \<and> sent w' = sent w @ [msg_bytes req]
    \<and> stack_msg w' = stack_msg w \<and> product w' = product w \<and> device_fw w' = device_fw w"
proof -
  have ch: "choices w = []" using ready by (simp add: wait_ready_def)
  have pack: "msg_pack req (replicate req_size 0) req_size = Some (RESULT_Success, msg_bytes req)"
    using msg_pack_eq [OF req(1,2), of req_size "replicate req_size 0"] req(3) by simp
  have i: "load1 (msg_bytes req) 2 = Some (msg_id req)"
    using msg_bytes_nth(3) [OF req(1,2), of "[]"] length_msg_bytes [OF req(1,2)]
    by (simp add: load1_def)
  define w1 where "w1 = w\<lparr>send_msg_sem := send_msg_sem w - 1, rxc_id := msg_id req, rxc_done := 0,
    sent := sent w @ [msg_bytes req], incoming := map (Pair 0) xss\<rparr>"
  have sync: "send_msg_sync w (msg_bytes req) = Some (RESULT_Success, w1)"
    using i sem dev ch
    by (simp add: send_msg_sync_def down_send_msg_sem_def send_msg_internal_def may_fail_def w1_def Let_def)
  have ready1: "wait_ready w1" "rxc_done w1 = 0" "incoming w1 = map (Pair 0) xss" "rxc_id w1 = msg_id req"
    using ready by (simp_all add: w1_def wait_ready_def rx_inv_def leftover_def)
  have same: "leftover w1 = leftover w" "product w1 = product w"
    "answering own (w1\<lparr>rxc_id := rxc_id w1\<rparr>) = answering own (w\<lparr>rxc_id := msg_id req\<rparr>)" for own
    by (simp_all add: w1_def leftover_def answering_def fun_eq_iff)
  have ans1: "answered_by w1 (rxc_id w1) xss f"
    using ans unfolding answered_by_def same by simp
  obtain w' where w': "wait_msg w1 ack_id nack_id (replicate resp_size 0) resp_size
      = map_option (\<lambda>d. (RESULT_Success, d, up_send_msg_sem w')) (store (replicate resp_size 0) 0 f)"
    "wait_ready w'" "keeps w1 w'"
    using wait_msg_answered [OF ready1(1-3) ans1 ids, of "replicate resp_size 0" resp_size] by auto
  let ?w = "up_send_msg_sem w'"
  have k: "stack_msg ?w = stack_msg w" "send_msg_sem ?w = send_msg_sem w"
    "sent ?w = sent w @ [msg_bytes req]" "product ?w = product w" "device_fw ?w = device_fw w"
    "wait_ready ?w"
    using w'(2,3) sem
    by (simp_all add: keeps_def w1_def up_send_msg_sem_def wait_ready_def rx_inv_def leftover_def)
  have wf: "msg_wf (stack_msg w)" using ready by (simp add: wait_ready_def rx_inv_def)
  have parse: "msg_parse (f @ replicate (resp_size - length f) 0) resp_size (stack_msg w)
      = Some (RESULT_Success, frame_msg f (stack_msg w))" if "length f \<le> resp_size"
    using parse_frame_head [OF answered_by_frame [OF ans] wf, of resp_size] that by simp
  have "exchange w req req_size resp_size ack_id nack_id
      = (if length f \<le> resp_size then Some (Inr (frame_msg f (stack_msg w)), ?w) else None)"
    using k parse by (simp add: exchange_def pack sync w'(1) store_def)
  then show ?thesis using k by blast
qed

subsection \<open>What no path changes\<close>

text \<open>The settings: what only the file operations, the network device, probing and disconnecting
  change, never the reception of messages or the exchange of a command.\<close>

definition settings :: "world \<Rightarrow> if_type \<times> int \<times> int \<times> bool \<times> bool \<times> int \<times> u64 \<times> can_state" where
  "settings w = (if_type w, timestamp_mode w, tx_transfer_max_token w, onopening w, onclosing w,
     file_open_count w, frames_per_request w, candev_state w)"

lemma settings_update [simp]:
  "settings (choices_update f1 w) = settings w" "settings (events_update f2 w) = settings w"
  "settings (incoming_update f3 w) = settings w" "settings (sent_update f4 w) = settings w"
  "settings (rx_data_update f5 w) = settings w" "settings (rxt_buffer_update f6 w) = settings w"
  "settings (rxt_data_size_update f7 w) = settings w" "settings (rxc_id_update f8 w) = settings w"
  "settings (rxc_buffer_update f9 w) = settings w" "settings (rxc_data_size_update g1 w) = settings w"
  "settings (rxc_done_update g2 w) = settings w" "settings (rx_urbs_update g3 w) = settings w"
  "settings (basetime_update g4 w) = settings w" "settings (resettime_update g5 w) = settings w"
  "settings (send_msg_sem_update g6 w) = settings w" "settings (tx_buffer_rate_update g7 w) = settings w"
  "settings (summary_update g8 w) = settings w" "settings (rx_packets_update g9 w) = settings w"
  "settings (rx_bytes_update h1 w) = settings w" "settings (iio_buffer_update h2 w) = settings w"
  "settings (rx_store_data_update h3 w) = settings w"
  "settings (received_store_data_size_update h4 w) = settings w"
  "settings (store_data_complete_update h5 w) = settings w" "settings (deadline_update h6 w) = settings w"
  "settings (tx_data_update h7 w) = settings w"
  by (simp_all add: settings_def)

lemma settings_if_type: "settings w' = settings w \<Longrightarrow> if_type w' = if_type w"
  by (simp add: settings_def)

abbreviation (input) same :: "world \<Rightarrow> world \<Rightarrow> bool" where
  "same w w' \<equiv> send_msg_sem w' = send_msg_sem w \<and> product w' = product w \<and> settings w' = settings w
     \<and> sent w' = sent w"

text \<open>A command: the semaphore is as it was, and at most one message was sent.\<close>

abbreviation (input) one_sent :: "world \<Rightarrow> world \<Rightarrow> bool" where
  "one_sent w w' \<equiv> product w' = product w \<and> settings w' = settings w
     \<and> (\<exists>ms. sent w' = sent w @ ms \<and> length ms \<le> 1)"

lemma may_fail_sem: "may_fail w = (ok, w') \<Longrightarrow> same w w'"
  by (auto simp: may_fail_def split: list.splits)

lemma complete_rx_sem:
  "complete_rx w f m = Some w' \<Longrightarrow> same w w'"
  by (auto simp: complete_rx_def Let_def split: bind_splits)

lemma rx_to_file_sem:
  "rx_to_file w m = Some w' \<Longrightarrow> same w w'"
  by (auto simp: rx_to_file_def emit_def split: bind_splits)

lemma can_rx_sem:
  "can_rx_can_msg w p = Some w' \<Longrightarrow> same w w'"
  using may_fail_sem [of w]
  by (cases "may_fail w") (auto simp: can_rx_can_msg_def emit_def Let_def split: bind_splits if_splits)

lemma cf02a_rx_sem:
  "cf02a_rx_can_msg w p = Some w' \<Longrightarrow> same w w'"
  using may_fail_sem [of w]
  by (cases "may_fail w") (auto simp: cf02a_rx_can_msg_def emit_def Let_def split: bind_splits if_splits)

lemma unique_can_sem:
  "unique_can_dispatch_msg w f m = Some (r, w') \<Longrightarrow> same w w'"
  by (auto simp: unique_can_dispatch_msg_def Let_def split: bind_splits if_splits
      dest!: rx_to_file_sem can_rx_sem complete_rx_sem)

lemma dispatch_of_sem:
  "dispatch_of p w f m = Some (r, w') \<Longrightarrow> same w w'"
  using unique_can_sem [of w f m r w']
  by (cases p) (auto simp: dispatch_of_def ch02a_dispatch_msg_def ag08a_dispatch_msg_def cf02a_dispatch_msg_def
      cf02a_dispatch_msg_common_response_def emit_def Let_def split: bind_splits if_splits option.splits
      dest!: rx_to_file_sem cf02a_rx_sem complete_rx_sem)

lemma dispatch_msg_sem:
  "dispatch_msg (dispatch_of p) w f m = Some (r, w') \<Longrightarrow>
     same w w'"
  by (auto simp: dispatch_msg_def Let_def split: bind_splits if_splits dest!: dispatch_of_sem complete_rx_sem)

lemma rx_loop_sem:
  "rx_loop (dispatch_of p) w i n = Some (w', i', n') \<Longrightarrow>
     same w w'"
proof (induction n arbitrary: w i rule: less_induct)
  case (less n)
  show ?case
    using less.prems less.IH [of "n - 1"]
    by (subst (asm) rx_loop.simps)
      (auto split: if_splits option.splits dest!: dispatch_msg_sem less.IH [rotated])
qed

lemma rx_callback_sem:
  "rx_callback w u = Some w' \<Longrightarrow> same w w'"
  by (auto simp: rx_callback_def read_bulk_callback_def resubmit_rx_urb_def may_fail_def Let_def
      split: bind_splits if_splits list.splits prod.splits dest!: rx_loop_sem)

lemma wait_for_completion_sem:
  "wait_for_completion w us = Some (b, w') \<Longrightarrow> same w w'"
proof (induction us arbitrary: w)
  case Nil
  then show ?case by (subst (asm) wait_for_completion.simps) (auto split: if_splits)
next
  case (Cons u us)
  then show ?case
    by (subst (asm) wait_for_completion.simps) (auto split: if_splits bind_splits dest!: rx_callback_sem)
qed

lemma wait_loop_sem:
  "wait_loop n w buf a b data k = Some (r, data', w') \<Longrightarrow> send_msg_sem w' = send_msg_sem w + 1
     \<and> product w' = product w \<and> settings w' = settings w \<and> sent w' = sent w"
proof (induction n arbitrary: w buf)
  case 0
  then show ?case
    by (subst (asm) wait_loop.simps)
      (auto simp: up_send_msg_sem_def usb_bulk_read_def split: if_splits bind_splits option.splits list.splits
        prod.splits dest!: wait_for_completion_sem)
next
  case (Suc n)
  from Suc.prems show ?case
    by (subst (asm) wait_loop.simps)
      (auto simp: up_send_msg_sem_def usb_bulk_read_def split: if_splits bind_splits option.splits list.splits
        prod.splits dest!: wait_for_completion_sem Suc.IH)
qed

lemma exchange_same:
  assumes "exchange w req n k a b = Some (r, w')"
  shows "send_msg_sem w' = send_msg_sem w \<and> one_sent w w'"
proof -
  have wait: "send_msg_sem w2 = send_msg_sem w1 + 1 \<and> product w2 = product w1 \<and> settings w2 = settings w1
      \<and> sent w2 = sent w1" if "wait_msg w1 a b d k = Some (x, d', w2)" for w1 w2 d d' x
    using that by (auto simp: wait_msg_def wait_msg_timeout_def up_send_msg_sem_def split: prod.splits if_splits
        dest!: may_fail_sem wait_loop_sem)
  have sync: "send_msg_sem w1 = (if x = RESULT_Success then send_msg_sem w - 1 else send_msg_sem w)
      \<and> (x = RESULT_Success \<longrightarrow> 0 < send_msg_sem w) \<and> one_sent w w1"
    if "send_msg_sync w d = Some (x, w1)" for d x w1
    using that by (auto simp: send_msg_sync_def down_send_msg_sem_def send_msg_internal_def up_send_msg_sem_def
        Let_def split: prod.splits if_splits bind_splits dest!: may_fail_sem)
  from assms show ?thesis
    by (auto simp: exchange_def split: bind_splits if_splits dest!: wait sync)
qed

lemma exchange_sem: "exchange w req n k a b = Some (r, w') \<Longrightarrow> send_msg_sem w' = send_msg_sem w"
  by (drule exchange_same) simp

end
