(* ===== verification/Cmd.thy ===== *)
theory Cmd
  imports Transaction
begin

text \<open>
  The commands common to all devices: \<open>module/apt_usbtrx_cmd.c\<close>.

  Every command of the driver, here and in the products' \<open>_cmd.c\<close>, has one of two shapes, which
  are definitions of their own: a \<open>query\<close> sends a request and parses the payload of the
  response it waits for; a \<open>control\<close> waits for \<open>ACK\<close> or \<open>NACK\<close> and reports which one came. The
  request's payload starts as the caller's uninitialised structure and is filled by \<open>pack\<close>. The
  output parameters are \<open>None\<close> where the code does not write them. Time-outs differ only in length
  and are not distinguished.

  The lemmas state what a command gives when the device answers, and that it returns the semaphore.
\<close>

abbreviation (input) CMD_LENGTH_ACK :: nat where "CMD_LENGTH_ACK \<equiv> 5"

subsection \<open>The two shapes\<close>

definition no_pack :: "u8 list \<Rightarrow> (RESULT \<times> u8 list) option" where
  "no_pack pl = Some (RESULT_Success, pl)"

text \<open>From the packing of the request's payload to the response.\<close>

definition transact ::
  "world \<Rightarrow> u8 \<Rightarrow> (u8 list \<Rightarrow> (RESULT \<times> u8 list) option) \<Rightarrow> nat \<Rightarrow> nat \<Rightarrow> u8 \<Rightarrow> u8 \<Rightarrow>
     ((RESULT + msg) \<times> world) option" where
  "transact w req_id pack req_size resp_size ack_id nack_id = do {
     (result, pl) \<leftarrow> pack (payload (stack_msg w));
     if result \<noteq> RESULT_Success then Some (Inl RESULT_Failure, w)
     else exchange w \<lparr>msg_id = req_id, payload = pl, payload_size = of_nat (req_size - 4)\<rparr>
            req_size resp_size ack_id nack_id
   }"

definition query ::
  "world \<Rightarrow> u8 \<Rightarrow> (u8 list \<Rightarrow> (RESULT \<times> u8 list) option) \<Rightarrow> nat \<Rightarrow> nat \<Rightarrow> u8 \<Rightarrow>
     (msg \<Rightarrow> (RESULT \<times> 'a) option) \<Rightarrow> (RESULT \<times> 'a option \<times> world) option" where
  "query w req_id pack req_size resp_size ack_id parse_resp =
     (let (ok, w) = alloc2 w in
      if \<not> ok then Some (RESULT_Failure, None, w)
      else do {
        (r, w) \<leftarrow> transact w req_id pack req_size resp_size ack_id CMD_Unknown;
        case r of
          Inl _ \<Rightarrow> Some (RESULT_Failure, None, w)
        | Inr m \<Rightarrow> do {
            (result, x) \<leftarrow> parse_resp m;
            if result \<noteq> RESULT_Success then Some (RESULT_Failure, None, w)
            else Some (RESULT_Success, Some x, w)
          }
      })"

text \<open>The verdict on an acknowledgement for \<open>req_id\<close>.\<close>

definition ack_verdict :: "u8 \<Rightarrow> msg \<Rightarrow> world \<Rightarrow> (RESULT \<times> bool option \<times> world) option" where
  "ack_verdict req_id m w = do {
     (result, i) \<leftarrow> msg_parse_ack (payload m);
     if result \<noteq> RESULT_Success then Some (RESULT_Failure, None, w)
     else if i \<noteq> req_id then Some (RESULT_Failure, None, w)
     else Some (RESULT_Success,
       if msg_id m = CMD_ACK then Some True else if msg_id m = CMD_NACK then Some False else None, w)
   }"

definition control ::
  "world \<Rightarrow> u8 \<Rightarrow> (u8 list \<Rightarrow> (RESULT \<times> u8 list) option) \<Rightarrow> nat \<Rightarrow>
     (RESULT \<times> bool option \<times> world) option" where
  "control w req_id pack req_size =
     (let (ok, w) = alloc2 w in
      if \<not> ok then Some (RESULT_Failure, None, w)
      else do {
        (r, w) \<leftarrow> transact w req_id pack req_size CMD_LENGTH_ACK CMD_ACK CMD_NACK;
        case r of Inl _ \<Rightarrow> Some (RESULT_Failure, None, w) | Inr m \<Rightarrow> ack_verdict req_id m w
      })"

text \<open>A request that waits for nothing.\<close>

definition notify_device :: "world \<Rightarrow> u8 \<Rightarrow> nat \<Rightarrow> (RESULT \<times> bool option \<times> world) option" where
  "notify_device w req_id req_size =
     (let (ok, w) = may_fail w in
      if \<not> ok then Some (RESULT_Failure, None, w)
      else do {
        (result, req_data) \<leftarrow> msg_pack
          \<lparr>msg_id = req_id, payload = payload (stack_msg w), payload_size = of_nat (req_size - 4)\<rparr>
          (replicate req_size 0) req_size;
        if result \<noteq> RESULT_Success then Some (RESULT_Failure, None, w)
        else let (result, w) = send_msg_async w req_data in
          if result \<noteq> RESULT_Success then Some (RESULT_Failure, None, w)
          else Some (RESULT_Success, Some True, w)
      })"

subsection \<open>The commands\<close>

text \<open>\<open>device_id\<close> and \<open>serial_no\<close> are the callers' buffers, \<open>None\<close> for \<open>NULL\<close>; the other pointers are
  flagged by whether they are not \<open>NULL\<close>.\<close>

definition get_device_id ::
  "world \<Rightarrow> u8 list option \<Rightarrow> int \<Rightarrow> bool \<Rightarrow> (RESULT \<times> (u8 list \<times> int) option \<times> world) option" where
  "get_device_id w device_id device_id_size channel =
     (case device_id of
       None \<Rightarrow> Some (RESULT_Failure, None, w)
     | Some buf \<Rightarrow>
         if device_id_size < 4 then Some (RESULT_Failure, None, w)
         else if \<not> channel then Some (RESULT_Failure, None, w)
         else query w CMD_GetDeviceId no_pack 4 9 CMD_ResponseGetDeviceId (\<lambda>m. do {
           (result, i, c) \<leftarrow> msg_parse_response_get_device_id (payload m);
           buf \<leftarrow> store buf 0 i;
           Some (result, buf, c)
         }))"

definition get_fw_version :: "world \<Rightarrow> (RESULT \<times> (int \<times> int) option \<times> world) option" where
  "get_fw_version w =
     query w CMD_GetFWVersion no_pack 4 6 CMD_ResponseGetFWVersion
       (msg_parse_response_get_fw_version \<circ> payload)"

definition get_fw_version_revision ::
  "world \<Rightarrow> (RESULT \<times> (int \<times> int \<times> int) option \<times> world) option" where
  "get_fw_version_revision w =
     query w CMD_GetFWVersionRevision no_pack 4 7 CMD_ResponseGetFWVersionRevision
       (msg_parse_response_get_fw_version_revision \<circ> payload)"

definition enable_reset_ts :: "world \<Rightarrow> (RESULT \<times> bool option \<times> world) option" where
  "enable_reset_ts w = control w CMD_EnableResetTS no_pack 4"

text \<open>The reset time is taken before the request is sent; a device whose clock is slaved to another by
  the sync cable does not answer, and the time-out counts as success.\<close>

definition reset_ts_cmd :: "world \<Rightarrow> (RESULT \<times> bool option \<times> world) option" where
  "reset_ts_cmd w =
     (let (ok, w) = alloc2 w in
      if \<not> ok then Some (RESULT_Failure, None, w)
      else do {
        let w = w\<lparr>resettime := get_ts64 w\<rparr>;
        (r, w) \<leftarrow> transact w CMD_ResetTS no_pack 4 CMD_LENGTH_ACK CMD_ACK CMD_NACK;
        case r of
          Inl result \<Rightarrow>
            if result = RESULT_Timeout then Some (RESULT_Timeout, Some True, w)
            else Some (RESULT_Failure, None, w)
        | Inr m \<Rightarrow> ack_verdict CMD_ResetTS m w
      })"

definition reset_device :: "world \<Rightarrow> (RESULT \<times> bool option \<times> world) option" where
  "reset_device w = notify_device w CMD_ResetDevice 4"

definition get_serial_no ::
  "world \<Rightarrow> u8 list option \<Rightarrow> int \<Rightarrow> bool \<Rightarrow> bool \<Rightarrow>
     (RESULT \<times> (u8 list \<times> int \<times> int) option \<times> world) option" where
  "get_serial_no w serial serial_no_size channel sync =
     (case serial of
       None \<Rightarrow> Some (RESULT_Failure, None, w)
     | Some buf \<Rightarrow>
         if serial_no_size < 14 then Some (RESULT_Failure, None, w)
         else if \<not> channel then Some (RESULT_Failure, None, w)
         else if \<not> sync then Some (RESULT_Failure, None, w)
         else query w CMD_GetSerialNo no_pack 4 19 CMD_ResponseGetSerialNo (\<lambda>m. do {
           (result, i, c, p) \<leftarrow> msg_parse_response_get_serial_no (payload m);
           buf \<leftarrow> store buf 0 i;
           Some (result, buf, c, p)
         }))"

definition move_dfu :: "world \<Rightarrow> (RESULT \<times> bool option \<times> world) option" where
  "move_dfu w = notify_device w CMD_MoveDFU 4"

subsection \<open>Lemmas\<close>

abbreviation (input) request :: "u8 \<Rightarrow> u8 list \<Rightarrow> nat \<Rightarrow> msg" where
  "request i pl n \<equiv> \<lparr>msg_id = i, payload = pl, payload_size = of_nat (n - 4)\<rparr>"

text \<open>The device answers the request: the transfers that arrive hold exactly one answer \<open>f\<close>.\<close>

definition device_answers :: "world \<Rightarrow> u8 \<Rightarrow> u8 list \<Rightarrow> nat \<Rightarrow> u8 list list \<Rightarrow> u8 list \<Rightarrow> bool" where
  "device_answers w i pl n xss f \<longleftrightarrow> wait_ready w \<and> 0 < send_msg_sem w
     \<and> incoming w @ device_fw w (sent w @ [msg_bytes (request i pl n)]) = map (Pair 0) xss
     \<and> answered_by w i xss f"

text \<open>What every command preserves.\<close>

definition idle_again :: "world \<Rightarrow> world \<Rightarrow> bool" where
  "idle_again w w' \<longleftrightarrow> wait_ready w' \<and> send_msg_sem w' = send_msg_sem w \<and> stack_msg w' = stack_msg w
     \<and> product w' = product w \<and> device_fw w' = device_fw w"

lemma transact_answer:
  assumes dev: "device_answers w i pl n xss f" and ids: "f ! 2 = ack_id \<or> f ! 2 = nack_id"
    and pl: "pack (payload (stack_msg w)) = Some (RESULT_Success, pl)" "length pl = 78"
    and n: "4 \<le> n" "n \<le> 82"
  shows "\<exists>w'. transact w i pack n resp_size ack_id nack_id
      = (if length f \<le> resp_size then Some (Inr (frame_msg f (stack_msg w)), w') else None)
    \<and> idle_again w w' \<and> sent w' = sent w @ [msg_bytes (request i pl n)]"
proof -
  have sz: "unat (payload_size (request i pl n)) = n - 4"
    using n by (simp add: unat_of_nat del: of_nat_diff)
  have "msg_wf (request i pl n)" using pl by (simp add: msg_wf_def)
  then show ?thesis
    using exchange_answer [of w "request i pl n" n xss f ack_id nack_id resp_size] dev ids sz n
    by (auto simp: device_answers_def transact_def pl(1) idle_again_def)
qed

lemma wait_ready_alloc2: "wait_ready w \<Longrightarrow> alloc2 w = (True, w)"
  by (simp add: wait_ready_def alloc2_def may_fail_def)

lemma query_answer:
  assumes dev: "device_answers w i pl n xss f" and id: "f ! 2 = ack_id"
    and pl: "pack (payload (stack_msg w)) = Some (RESULT_Success, pl)" "length pl = 78"
    and n: "4 \<le> n" "n \<le> 82"
    and x: "parse_resp (frame_msg f (stack_msg w)) = Some (RESULT_Success, x)"
  shows "\<exists>w'. query w i pack n resp_size ack_id parse_resp
      = (if length f \<le> resp_size then Some (RESULT_Success, Some x, w') else None)
    \<and> idle_again w w' \<and> sent w' = sent w @ [msg_bytes (request i pl n)]"
proof -
  have "wait_ready w" using dev by (simp add: device_answers_def)
  then show ?thesis
    using transact_answer [where pack = pack, OF dev _ pl n, of ack_id CMD_Unknown resp_size] id x
    by (auto simp: query_def wait_ready_alloc2)
qed

lemma control_answer:
  assumes dev: "device_answers w i pl n xss f"
    and f: "f = [MSG_SOB, 5, if ok then CMD_ACK else CMD_NACK, i, MSG_EOB]"
    and pl: "pack (payload (stack_msg w)) = Some (RESULT_Success, pl)" "length pl = 78"
    and n: "4 \<le> n" "n \<le> 82"
  shows "\<exists>w'. control w i pack n = Some (RESULT_Success, Some ok, w')
    \<and> idle_again w w' \<and> sent w' = sent w @ [msg_bytes (request i pl n)]"
proof -
  have ready: "wait_ready w" using dev by (simp add: device_answers_def)
  have ids: "f ! 2 = CMD_ACK \<or> f ! 2 = CMD_NACK" "length f \<le> CMD_LENGTH_ACK" using f by simp_all
  have "ack_verdict i (frame_msg f (stack_msg w)) w' = Some (RESULT_Success, Some ok, w')" for w'
    using f by (simp add: ack_verdict_def msg_parse_ack_def frame_msg_def load1_def seg_def)
  then show ?thesis
    using transact_answer [where pack = pack, OF dev ids(1) pl n, of CMD_LENGTH_ACK] ids(2)
    by (auto simp: control_def wait_ready_alloc2 [OF ready])
qed

subsection \<open>The semaphore\<close>

text \<open>\<open>sem_kept w r\<close>: if the command returned \<open>r\<close>, the semaphore is as it was.\<close>

definition sem_kept :: "world \<Rightarrow> ('a \<times> 'b \<times> world) option \<Rightarrow> bool" where
  "sem_kept w r = (case r of None \<Rightarrow> True | Some (_, _, w') \<Rightarrow> send_msg_sem w' = send_msg_sem w)"

lemma alloc2_same: "alloc2 w = (ok, w') \<Longrightarrow> same w w'"
  by (auto simp: alloc2_def split: prod.splits if_splits dest!: may_fail_sem)

lemma transact_same:
  "transact w i pack n k a b = Some (r, w') \<Longrightarrow> send_msg_sem w' = send_msg_sem w \<and> one_sent w w'"
  by (auto simp: transact_def split: bind_splits if_splits dest!: exchange_same)

lemma query_same:
  "query w i pack n k a parse_resp = Some (r, x, w') \<Longrightarrow> send_msg_sem w' = send_msg_sem w \<and> one_sent w w'"
  by (auto simp: query_def split: option.splits prod.splits bind_splits if_splits sum.splits
      dest!: alloc2_same transact_same)

lemma ack_verdict_same: "ack_verdict i m w = Some (r, x, w') \<Longrightarrow> w' = w"
  by (auto simp: ack_verdict_def split: bind_splits if_splits)

lemma control_same:
  "control w i pack n = Some (r, x, w') \<Longrightarrow> send_msg_sem w' = send_msg_sem w \<and> one_sent w w'"
  by (auto simp: control_def split: option.splits prod.splits bind_splits if_splits sum.splits
      dest!: alloc2_same transact_same ack_verdict_same)

lemma notify_device_same:
  "notify_device w i n = Some (r, x, w') \<Longrightarrow> send_msg_sem w' = send_msg_sem w \<and> one_sent w w'"
  by (auto simp: notify_device_def send_msg_async_def send_msg_internal_def Let_def
      split: option.splits prod.splits bind_splits if_splits dest!: may_fail_sem)

lemma reset_ts_same:
  "reset_ts_cmd w = Some (r, x, w') \<Longrightarrow> send_msg_sem w' = send_msg_sem w \<and> one_sent w w'"
  by (auto simp: reset_ts_cmd_def Let_def split: option.splits prod.splits bind_splits if_splits
      sum.splits dest!: alloc2_same transact_same ack_verdict_same)

lemma query_sem: "sem_kept w (query w i pack n k a parse_resp)"
  using query_same by (fastforce simp: sem_kept_def split: option.split prod.split)

lemma control_sem: "sem_kept w (control w i pack n)"
  using control_same by (fastforce simp: sem_kept_def split: option.split prod.split)

lemma notify_device_sem: "sem_kept w (notify_device w i n)"
  using notify_device_same by (fastforce simp: sem_kept_def split: option.split prod.split)

lemma reset_ts_sem: "sem_kept w (reset_ts_cmd w)"
  using reset_ts_same by (fastforce simp: sem_kept_def split: option.split prod.split)

subsection \<open>Properties\<close>

lemma msg_wf_payload: "wait_ready w \<Longrightarrow> length (payload (stack_msg w)) = 78"
  by (simp add: wait_ready_def rx_inv_def msg_wf_def)

lemma msg_bytes_empty: "msg_bytes \<lparr>msg_id = i, payload = pl, payload_size = 0\<rparr> = [MSG_SOB, 4, i, MSG_EOB]"
  by (simp add: msg_bytes_def)

text \<open>The firmware version is what the device says. When the transfers that arrive after the request,
  however they are cut and whatever notifications surround the response, hold one response, then
  the request was sent as four bytes, the version is the response's two payload bytes, and the
  device is left idle: the semaphore is free and the receive path between two messages.\<close>

theorem get_fw_version_answered:
  assumes "device_answers w CMD_GetFWVersion (payload (stack_msg w)) 4 xss
    [MSG_SOB, 6, CMD_ResponseGetFWVersion, major, minor, MSG_EOB]"
  shows "\<exists>w'. get_fw_version w = Some (RESULT_Success, Some (uint major, uint minor), w')
    \<and> idle_again w w' \<and> sent w' = sent w @ [[MSG_SOB, 4, CMD_GetFWVersion, MSG_EOB]]"
proof -
  let ?f = "[MSG_SOB, 6, CMD_ResponseGetFWVersion, major, minor, MSG_EOB]"
  have pl: "length (payload (stack_msg w)) = 78"
    using assms msg_wf_payload by (simp add: device_answers_def)
  have "msg_parse_response_get_fw_version (payload (frame_msg ?f (stack_msg w)))
      = Some (RESULT_Success, uint major, uint minor)"
    by (simp add: msg_parse_response_get_fw_version_def frame_msg_def load1_def seg_def)
  then show ?thesis
    using query_answer [where pack = no_pack, OF assms _ _ pl, of CMD_ResponseGetFWVersion
        "msg_parse_response_get_fw_version \<circ> payload" "(uint major, uint minor)" 6]
    by (auto simp: get_fw_version_def no_pack_def msg_bytes_empty)
qed

text \<open>A device for the witnesses: it answers every message with the same transfers.\<close>

definition answering_world :: "product \<Rightarrow> u8 list list \<Rightarrow> world" where
  "answering_world p xss = (world0 p)\<lparr>device_fw := \<lambda>_. map (Pair 0) xss\<rparr>"

lemma answering_world_ready: "wait_ready (answering_world p xss)"
proof -
  have "rx_inv (answering_world p xss)" using world0_inv [of p] by (simp add: answering_world_def rx_inv_def)
  then show ?thesis by (simp add: wait_ready_def answering_world_def world0_def leftover_def)
qed

lemma answering_world_answers:
  assumes "\<forall>xs \<in> set xss. length xs \<le> 1024" and "scan (concat xss) = (fs, l)"
    and "\<forall>g \<in> set fs. frame_ok_of p g"
    and "filter (answering (answers_of p) ((answering_world p xss)\<lparr>rxc_id := i\<rparr>)) fs = [f]"
  shows "device_answers (answering_world p xss) i pl n xss f"
  using assms answering_world_ready [of p xss]
  by (simp add: device_answers_def answered_by_def answering_world_def world0_def leftover_def)

lemma get_fw_version_answered_witness:
  "\<exists>w'. get_fw_version (answering_world AG08A [[0, 0xF7, 6, 0x21], [2, 7, 0xFA, 0xF7, 5, 0x28, 9, 0xFA]])
      = Some (RESULT_Success, Some (uint (2 :: u8), uint (7 :: u8)), w')
    \<and> idle_again (answering_world AG08A [[0, 0xF7, 6, 0x21], [2, 7, 0xFA, 0xF7, 5, 0x28, 9, 0xFA]]) w'
    \<and> sent w' = sent (answering_world AG08A [[0, 0xF7, 6, 0x21], [2, 7, 0xFA, 0xF7, 5, 0x28, 9, 0xFA]])
        @ [[0xF7, 4, 0x01, 0xFA]]"
proof (rule get_fw_version_answered, rule answering_world_answers)
  show "scan (concat [[0, 0xF7, 6, 0x21], [2, 7, 0xFA, 0xF7, 5, 0x28, 9, 0xFA]])
      = ([[0xF7, 6, 0x21, 2, 7, 0xFA], [0xF7, 5, 0x28, 9, 0xFA]], [])"
    by (simp add: scan.simps classify_def)
qed (simp_all add: frame_ok_of_def answering_def answers_def frame_msg_def is_core_id_def core_answers_def
    get_request_command_from_response_command_def)

text \<open>C16: a response longer than the buffer its caller allotted is written behind the buffer. The firmware
  version is read into six bytes; any device that answers with a longer
  \<open>ResponseGetFWVersion\<close> makes the driver write out of bounds, although the message is well-formed and was received in
  bounds.\<close>

theorem oversized_response_overflows:
  assumes "device_answers w CMD_GetFWVersion (payload (stack_msg w)) 4 xss f"
    and "f ! 2 = CMD_ResponseGetFWVersion" and "6 < length f"
  shows "get_fw_version w = None"
proof -
  have pl: "length (payload (stack_msg w)) = 78"
    using assms(1) msg_wf_payload by (simp add: device_answers_def)
  show ?thesis
    using transact_answer [where pack = no_pack, OF assms(1) _ _ pl, of CMD_ResponseGetFWVersion CMD_Unknown 6]
      assms wait_ready_alloc2 [of w]
    by (auto simp: get_fw_version_def query_def no_pack_def device_answers_def)
qed

lemma oversized_response_overflows_witness:
  "get_fw_version (answering_world AG08A [[0xF7, 7, 0x21, 2, 7, 1, 0xFA]]) = None"
proof (rule oversized_response_overflows)
  show "device_answers (answering_world AG08A [[0xF7, 7, 0x21, 2, 7, 1, 0xFA]]) 1
      (payload (stack_msg (answering_world AG08A [[0xF7, 7, 0x21, 2, 7, 1, 0xFA]]))) 4
      [[0xF7, 7, 0x21, 2, 7, 1, 0xFA]] [0xF7, 7, 0x21, 2, 7, 1, 0xFA]"
  proof (rule answering_world_answers)
    show "scan (concat [[0xF7, 7, 0x21, 2, 7, 1, 0xFA]]) = ([[0xF7, 7, 0x21, 2, 7, 1, 0xFA]], [])"
      by (simp add: scan.simps classify_def)
  qed (simp_all add: frame_ok_of_def answering_def answers_def frame_msg_def is_core_id_def core_answers_def
    get_request_command_from_response_command_def)
qed simp_all

text \<open>A command that is acknowledged or refused reports which: \<open>EnableResetTS\<close> returns success with
  \<open>true\<close> for an \<open>ACK\<close> and \<open>false\<close> for a \<open>NACK\<close> that names it, and leaves the device idle.\<close>

theorem enable_reset_ts_answered:
  assumes "device_answers w CMD_EnableResetTS (payload (stack_msg w)) 4 xss
    [MSG_SOB, 5, if ok then CMD_ACK else CMD_NACK, CMD_EnableResetTS, MSG_EOB]"
  shows "\<exists>w'. enable_reset_ts w = Some (RESULT_Success, Some ok, w')
    \<and> idle_again w w' \<and> sent w' = sent w @ [[MSG_SOB, 4, CMD_EnableResetTS, MSG_EOB]]"
proof -
  have pl: "length (payload (stack_msg w)) = 78"
    using assms msg_wf_payload by (simp add: device_answers_def)
  show ?thesis
    using control_answer [where pack = no_pack, OF assms refl _ pl]
    by (simp add: enable_reset_ts_def no_pack_def msg_bytes_empty)
qed

lemma enable_reset_ts_answered_witness:
  "\<exists>w'. enable_reset_ts (answering_world CT2A [[0xF7, 5, 0x26, 2, 0xFA]]) = Some (RESULT_Success, Some False, w')
    \<and> idle_again (answering_world CT2A [[0xF7, 5, 0x26, 2, 0xFA]]) w'
    \<and> sent w' = sent (answering_world CT2A [[0xF7, 5, 0x26, 2, 0xFA]]) @ [[0xF7, 4, 0x02, 0xFA]]"
proof (rule enable_reset_ts_answered, rule answering_world_answers)
  show "scan (concat [[0xF7, 5, 0x26, 2, 0xFA]]) = ([[0xF7, 5, 0x26, 2, 0xFA]], [])"
    by (simp add: scan.simps classify_def)
qed (simp_all add: frame_ok_of_def can_frame_ok_def answering_def answers_def frame_msg_def is_core_id_def
    core_answers_def seg_def)

text \<open>C9: no command keeps the semaphore of the message exchange. Whatever the kernel functions answer,
  whatever the device sends, and on whichever path a common command returns, the semaphore has the
  count it had before.\<close>

theorem commands_return_semaphore:
  "sem_kept w (get_device_id w i_buf i_size channel) \<and> sem_kept w (get_fw_version w)
    \<and> sem_kept w (get_fw_version_revision w) \<and> sem_kept w (enable_reset_ts w)
    \<and> sem_kept w (reset_ts_cmd w) \<and> sem_kept w (reset_device w)
    \<and> sem_kept w (get_serial_no w s_buf s_size channel sync) \<and> sem_kept w (move_dfu w)"
proof -
  have "sem_kept w (Some (r, x, w))" for r :: RESULT and x :: "'x option" by (simp add: sem_kept_def)
  then show ?thesis
    by (simp add: get_device_id_def get_fw_version_def get_fw_version_revision_def enable_reset_ts_def
      reset_device_def get_serial_no_def move_dfu_def query_sem control_sem notify_device_sem reset_ts_sem
      split: option.split) (simp add: sem_kept_def)
qed

end
