(* ===== verification/Ct2a_Cmd.thy ===== *)
theory Ct2a_Cmd
  imports Cmd
begin

text \<open>
  The commands of the CAN interfaces: \<open>module/ap_ct2a/ap_ct2a_cmd.c\<close> and
  \<open>module/ep1_ch02a/ep1_ch02a_cmd.c\<close>. The structure a status is parsed into is the caller's, and
  keeps what the response does not determine.
\<close>

subsection \<open>AP-CT2A\<close>

definition set_mode :: "world \<Rightarrow> msg_set_mode \<Rightarrow> (RESULT \<times> bool option \<times> world) option" where
  "set_mode w param = control w CMD_SetMode (msg_pack_set_mode param) 5"

definition get_status ::
  "world \<Rightarrow> msg_resp_get_status \<Rightarrow> (RESULT \<times> msg_resp_get_status option \<times> world) option" where
  "get_status w status =
     query w CMD_GetStatus no_pack 4 13 CMD_ResponseGetStatus
       (\<lambda>m. msg_parse_response_get_status (payload m) status)"

definition reset_can_summary :: "world \<Rightarrow> (RESULT \<times> bool option \<times> world) option" where
  "reset_can_summary w = control w CMD_ResetCANSummary no_pack 4"

definition start_stop_can :: "world \<Rightarrow> bool \<Rightarrow> (RESULT \<times> bool option \<times> world) option" where
  "start_stop_can w st = control w CMD_StartStopCAN (msg_pack_start_stop_can st) 5"

definition set_trigger :: "world \<Rightarrow> msg_set_trigger \<Rightarrow> (RESULT \<times> bool option \<times> world) option" where
  "set_trigger w param = control w CMD_SetTrigger (msg_pack_set_trigger param) 12"

subsection \<open>EP1-CH02A\<close>

definition ch02a_get_status ::
  "world \<Rightarrow> ch02a_msg_resp_get_status \<Rightarrow> (RESULT \<times> ch02a_msg_resp_get_status option \<times> world) option"
where
  "ch02a_get_status w status =
     query w CMD_GetStatus no_pack 4 5 CMD_ResponseGetStatus
       (\<lambda>m. ch02a_msg_parse_response_get_status (payload m) status)"

definition ch02a_set_bit_timing ::
  "world \<Rightarrow> ch02a_msg_set_bit_timing \<Rightarrow> (RESULT \<times> bool option \<times> world) option" where
  "ch02a_set_bit_timing w param =
     control w CH02A_CMD_SetBitTiming (ch02a_msg_pack_set_bit_timing param) 10"

definition ch02a_get_bit_timing ::
  "world \<Rightarrow> (RESULT \<times> ch02a_msg_resp_get_bit_timing option \<times> world) option" where
  "ch02a_get_bit_timing w =
     query w CH02A_CMD_GetBitTiming no_pack 4 14 CH02A_CMD_ResponseGetBitTiming
       (ch02a_msg_parse_response_get_bit_timing \<circ> payload)"

end
