(* ===== verification/Can_Fops.thy ===== *)
theory Can_Fops
  imports Tx Ct2a_Cmd "HOL-Library.Signed_Division"
begin

text \<open>
  The operations of the CAN interfaces behind a file or a network device:
  \<open>module/ap_ct2a/ap_ct2a_fops.c\<close> and \<open>module/ep1_ch02a/ep1_ch02a_fops.c\<close>.

  \<^item> \<open>copy_to_user\<close> and \<open>copy_from_user\<close> may fail; the parameter of a request is what the user's memory
    holds, and the second component of a result is what was copied back.
  \<^item> A socket buffer is its frame, whether the kernel drops it as invalid, and \<open>skb_fate\<close> says what
    has been done with it. The kernel's \<open>open_candev\<close> is a parameter, the error it returns.

  The properties: a CAN interface is used by one of file and network at a time; a mode that the device
  accepts keeps the transmit thread going; stopping sends a bounded number of requests; a frame from the
  network is packed as the device expects it; and which calls break the network stack's ownership rule.
\<close>

unbundle bit_operations_syntax

abbreviation (input) TX_TOKEN_CAN_SIZE :: int where "TX_TOKEN_CAN_SIZE \<equiv> 16"
abbreviation (input) CAN_CTRLMODE_LISTENONLY :: u32 where "CAN_CTRLMODE_LISTENONLY \<equiv> 2"

subsection \<open>User memory\<close>

text \<open>Deliver \<open>x\<close> to the user, and take the parameter of a request.\<close>

definition give_user :: "'a \<Rightarrow> world \<Rightarrow> (int \<times> 'a option \<times> world) option" where
  "give_user x w = (let (ok, w) = may_fail w in
     if \<not> ok then Some (-EFAULT, None, w) else Some (0, Some x, w))"

definition take_user ::
  "'a \<Rightarrow> world \<Rightarrow> ('a \<Rightarrow> world \<Rightarrow> (int \<times> 'b option \<times> world) option) \<Rightarrow>
     (int \<times> 'b option \<times> world) option" where
  "take_user x w f = (let (ok, w) = may_fail w in
     if \<not> ok then Some (-EFAULT, None, w) else f x w)"

text \<open>The result of a control command as an error number.\<close>

definition done_or_EIO ::
  "(RESULT \<times> bool option \<times> world) option \<Rightarrow> (int \<times> 'b option \<times> world) option" where
  "done_or_EIO r = do {
     (result, success, w) \<leftarrow> r;
     if result \<noteq> RESULT_Success then Some (-EIO, None, w)
     else if success \<noteq> Some True then Some (-EIO, None, w)
     else Some (0, None, w)
   }"

subsection \<open>Starting and stopping\<close>

definition unique_can_start_can :: "world \<Rightarrow> (RESULT \<times> world) option" where
  "unique_can_start_can w =
     (let (result, r) = ringbuffer_clear (rx_data w); w = w\<lparr>rx_data := r\<rparr> in
      if result \<noteq> RESULT_Success then Some (RESULT_Failure, w)
      else do {
        (result, success, w) \<leftarrow> start_stop_can w True;
        if result \<noteq> RESULT_Success then Some (RESULT_Failure, w)
        else if success \<noteq> Some True then Some (RESULT_Failure, w)
        else Some (RESULT_Success, w)
      })"

text \<open>The loop of \<open>stop_can\<close> with \<open>retry\<close> attempts left; \<open>status\<close> is the local structure, which keeps its
  contents over the attempts.\<close>

fun stop_can_loop :: "nat \<Rightarrow> world \<Rightarrow> msg_resp_get_status \<Rightarrow> (RESULT \<times> world) option" where
  "stop_can_loop 0 w status = Some (RESULT_Success, w)"
| "stop_can_loop (Suc retry) w status = do {
     (result, success, w) \<leftarrow> start_stop_can w False;
     if result \<noteq> RESULT_Success then Some (RESULT_Failure, w)
     else if success \<noteq> Some True then Some (RESULT_Failure, w)
     else do {
       (result, st, w) \<leftarrow> get_status w status;
       if result \<noteq> RESULT_Success then Some (RESULT_Failure, w)
       else let status = (case st of Some s \<Rightarrow> s | None \<Rightarrow> status) in
         if start (st_mode status) = False then Some (RESULT_Success, w)
         else stop_can_loop retry w status
     }
   }"

definition unique_can_stop_can :: "world \<Rightarrow> msg_resp_get_status \<Rightarrow> (RESULT \<times> world) option" where
  "unique_can_stop_can w status = stop_can_loop 3 w status"

text \<open>The products are those of \<open>int\<close>, which the kernel compiles to wrap around.\<close>

definition unique_can_set_mode :: "world \<Rightarrow> int \<Rightarrow> bool \<Rightarrow> (int \<times> world) option" where
  "unique_can_set_mode w baud silnt =
     (let mode = \<lparr>silent = silnt, start = False, baudrate = baud\<rparr>;
          max_token = ((i32_of (baud * 1024) sdiv 8) sdiv TX_TOKEN_CAN_SIZE) sdiv 1000;
          w = w\<lparr>tx_transfer_max_token := if max_token > 0 then max_token else 1\<rparr> in
      do {
        (result, success, w) \<leftarrow> set_mode w mode;
        if result \<noteq> RESULT_Success then Some (-EIO, w)
        else if success \<noteq> Some True then Some (-EIO, w)
        else Some (0, w)
      })"

definition unique_can_is_device_input_start ::
  "world \<Rightarrow> msg_resp_get_status \<Rightarrow> (RESULT \<times> bool option \<times> world) option" where
  "unique_can_is_device_input_start w status = do {
     (result, st, w) \<leftarrow> get_status w status;
     if result \<noteq> RESULT_Success then Some (RESULT_Failure, None, w)
     else Some (RESULT_Success, map_option (start \<circ> st_mode) st, w)
   }"

subsection \<open>Opening and closing the file\<close>

definition unique_can_open :: "world \<Rightarrow> int \<times> world" where
  "unique_can_open w = (if if_type w \<noteq> IF_NONE then (-EBUSY, w) else (0, w\<lparr>if_type := IF_FILE\<rparr>))"

definition unique_can_close :: "world \<Rightarrow> int \<times> world" where
  "unique_can_close w = (0, w\<lparr>if_type := IF_NONE\<rparr>)"

subsection \<open>The requests of the file\<close>

text \<open>The structures of \<open>apt_usbtrx_ioctl.h\<close> have the members of the messages' structures. A command the
  switch does not have is \<open>Can_other\<close>.\<close>

datatype can_ioctl =
  IOCTL_SET_MODE bool int
| IOCTL_GET_STATUS
| IOCTL_RESET_CAN_SUMMARY
| IOCTL_START_CAN
| IOCTL_STOP_CAN
| IOCTL_SET_TRIGGER msg_set_trigger
| CH02A_IOCTL_GET_STATUS
| CH02A_IOCTL_SET_BIT_TIMING ch02a_msg_set_bit_timing
| CH02A_IOCTL_GET_BIT_TIMING
| Can_other

datatype can_out =
  Can_status msg_resp_get_status
| Ch02a_status ch02a_msg_resp_get_status
| Ch02a_bit_timing ch02a_msg_resp_get_bit_timing

definition normal_logic :: "trigger \<Rightarrow> trigger" where
  "normal_logic t = t\<lparr>tr_logic :=
     if tr_logic t = 1 then TRIGGER_LOGIC_Negative else TRIGGER_LOGIC_Positive\<rparr>"

definition result_or_EIO :: "(RESULT \<times> world) option \<Rightarrow> (int \<times> 'b option \<times> world) option" where
  "result_or_EIO r = do {
     (result, w) \<leftarrow> r;
     if result \<noteq> RESULT_Success then Some (-EIO, None, w) else Some (0, None, w)
   }"

definition unique_can_ioctl ::
  "world \<Rightarrow> msg_resp_get_status \<Rightarrow> can_ioctl \<Rightarrow> (int \<times> can_out option \<times> world) option" where
  "unique_can_ioctl w status cmd = (case cmd of
     IOCTL_SET_MODE slnt baud \<Rightarrow> take_user (slnt, baud) w (\<lambda>(slnt, baud) w. do {
       (result, w) \<leftarrow> unique_can_set_mode w baud slnt;
       if result \<noteq> 0 then Some (-EIO, None, w) else Some (0, None, w)
     })
   | IOCTL_GET_STATUS \<Rightarrow> do {
       (result, st, w) \<leftarrow> get_status w status;
       if result \<noteq> RESULT_Success then Some (-EIO, None, w)
       else give_user (Can_status (case st of Some s \<Rightarrow> s | None \<Rightarrow> status)) w
     }
   | IOCTL_RESET_CAN_SUMMARY \<Rightarrow> done_or_EIO (reset_can_summary w)
   | IOCTL_START_CAN \<Rightarrow> result_or_EIO (unique_can_start_can w)
   | IOCTL_STOP_CAN \<Rightarrow> result_or_EIO (unique_can_stop_can w status)
   | IOCTL_SET_TRIGGER param \<Rightarrow> take_user param w (\<lambda>param w.
       done_or_EIO (set_trigger w
         (param\<lparr>tr_input := normal_logic (tr_input param), tr_output := normal_logic (tr_output param)\<rparr>)))
   | _ \<Rightarrow> Some (-EFAULT, None, w))"

definition ch02a_ioctl_set_bit_timing ::
  "world \<Rightarrow> ch02a_msg_set_bit_timing \<Rightarrow> (RESULT \<times> world) option" where
  "ch02a_ioctl_set_bit_timing w param = do {
     (result, success, w) \<leftarrow> ch02a_set_bit_timing w param;
     if result \<noteq> RESULT_Success then Some (RESULT_Failure, w)
     else if success \<noteq> Some True then Some (RESULT_Failure, w)
     else Some (RESULT_Success, w)
   }"

definition ch02a_ioctl ::
  "world \<Rightarrow> msg_resp_get_status \<Rightarrow> ch02a_msg_resp_get_status \<Rightarrow> can_ioctl \<Rightarrow>
     (int \<times> can_out option \<times> world) option" where
  "ch02a_ioctl w status ch_status cmd = (case cmd of
     IOCTL_GET_STATUS \<Rightarrow> Some (-EFAULT, None, w)
   | IOCTL_SET_TRIGGER _ \<Rightarrow> Some (-EFAULT, None, w)
   | CH02A_IOCTL_GET_STATUS \<Rightarrow> do {
       (result, st, w) \<leftarrow> ch02a_get_status w ch_status;
       if result \<noteq> RESULT_Success then Some (-EIO, None, w)
       else give_user (Ch02a_status (case st of Some s \<Rightarrow> s | None \<Rightarrow> ch_status)) w
     }
   | CH02A_IOCTL_SET_BIT_TIMING param \<Rightarrow> take_user param w (\<lambda>param w. do {
       (result, w) \<leftarrow> ch02a_ioctl_set_bit_timing w param;
       if result \<noteq> RESULT_Success then Some (-EIO, None, w) else Some (0, None, w)
     })
   | CH02A_IOCTL_GET_BIT_TIMING \<Rightarrow> do {
       (result, t, w) \<leftarrow> ch02a_get_bit_timing w;
       if result \<noteq> RESULT_Success then Some (-EIO, None, w)
       else case t of None \<Rightarrow> Some (-EIO, None, w) | Some t \<Rightarrow> give_user (Ch02a_bit_timing t) w
     }
   | _ \<Rightarrow> unique_can_ioctl w status cmd)"

subsection \<open>The network device\<close>

definition is_silent :: "world \<Rightarrow> bool" where
  "is_silent w = (ctrlmode w AND CAN_CTRLMODE_LISTENONLY \<noteq> 0)"

definition unique_can_netdev_set_bittiming :: "world \<Rightarrow> (int \<times> world) option" where
  "unique_can_netdev_set_bittiming w = do {
     let baudrate = uint (cb_bitrate (can_bt w) div 1000);
     (result, w) \<leftarrow> unique_can_set_mode w baudrate (is_silent w);
     if result \<noteq> 0 then Some (-EIO, w) else Some (0, w)
   }"

definition ch02a_is_support_bittiming_command :: "world \<Rightarrow> bool" where
  "ch02a_is_support_bittiming_command w =
     (if fw_major w > 2 then True else if fw_major w = 2 \<and> fw_minor w \<ge> 3 then True else False)"

definition ch02a_netdev_set_bittiming :: "world \<Rightarrow> (int \<times> world) option" where
  "ch02a_netdev_set_bittiming w = do {
     let baudrate = uint (cb_bitrate (can_bt w) div 1000);
     (result, w) \<leftarrow> unique_can_set_mode w baudrate (is_silent w);
     if result \<noteq> 0 then Some (-EIO, w)
     else if ch02a_is_support_bittiming_command w then do {
       let bt = can_bt w;
       (result, w) \<leftarrow> ch02a_ioctl_set_bit_timing w
         \<lparr>ch_prop_seg = sint (cb_prop_seg bt), ch_phase_seg1 = sint (cb_phase_seg1 bt),
          ch_phase_seg2 = sint (cb_phase_seg2 bt), ch_sjw = sint (cb_sjw bt), ch_brp = sint (cb_brp bt)\<rparr>;
       if result \<noteq> RESULT_Success then Some (-EIO, w) else Some (0, w)
     }
     else Some (0, w)
   }"

text \<open>\<open>can.do_set_bittiming\<close>, which the products set.\<close>

definition do_set_bittiming :: "world \<Rightarrow> (int \<times> world) option" where
  "do_set_bittiming w = (case product w of CH02A \<Rightarrow> ch02a_netdev_set_bittiming w
     | _ \<Rightarrow> unique_can_netdev_set_bittiming w)"

definition unique_can_netdev_start :: "world \<Rightarrow> (int \<times> world) option" where
  "unique_can_netdev_start w = do {
     (result, w) \<leftarrow> do_set_bittiming w;
     if result \<noteq> 0 then Some (-EIO, w)
     else do {
       (result, w) \<leftarrow> unique_can_start_can w;
       if result \<noteq> RESULT_Success then Some (-EIO, w)
       else Some (0, w\<lparr>candev_state := CAN_STATE_ERROR_ACTIVE, if_type := IF_NET\<rparr>)
     }
   }"

definition unique_can_netdev_open :: "(world \<Rightarrow> int) \<Rightarrow> world \<Rightarrow> (int \<times> world) option" where
  "unique_can_netdev_open open_candev w =
     (if if_type w \<noteq> IF_NONE then Some (-EBUSY, w)
      else let err = open_candev w in
        if err \<noteq> 0 then Some (err, w)
        else do {
          let w = emit Open_candev w;
          (err, w) \<leftarrow> unique_can_netdev_start w;
          if err \<noteq> 0 then Some (err, emit Close_candev w)
          else Some (0, emit Net_start_queue w)
        })"

definition unique_can_netdev_close :: "world \<Rightarrow> msg_resp_get_status \<Rightarrow> (int \<times> world) option" where
  "unique_can_netdev_close w status = do {
     (result, w) \<leftarrow> unique_can_stop_can w status;
     if result \<noteq> RESULT_Success then Some (-EIO, w)
     else Some (0, (emit Close_candev (emit Net_stop_queue w))
            \<lparr>candev_state := CAN_STATE_STOPPED, if_type := IF_NONE\<rparr>)
   }"

datatype can_mode = CAN_MODE_START | CAN_MODE_other

definition unique_can_netdev_set_mode ::
  "world \<Rightarrow> msg_resp_get_status \<Rightarrow> can_mode \<Rightarrow> (int \<times> world) option" where
  "unique_can_netdev_set_mode w status mode = (case mode of
     CAN_MODE_START \<Rightarrow> do {
       (result, w) \<leftarrow> unique_can_stop_can w status;
       if result \<noteq> RESULT_Success then Some (-EIO, w)
       else do {
         (result, w) \<leftarrow> unique_can_netdev_start w;
         if result \<noteq> 0 then Some (result, w) else Some (0, w)
       }
     }
   | CAN_MODE_other \<Rightarrow> Some (-EOPNOTSUPP, w))"

subsection \<open>Transmission from the network\<close>

datatype netdev_tx = NETDEV_TX_OK | NETDEV_TX_BUSY

text \<open>\<open>Skb_echoed\<close>: the kernel keeps it to loop it back on completion.\<close>

datatype skb_fate = Skb_kept | Skb_dropped | Skb_echoed

text \<open>\<open>send_cf\<close> of a frame: identifier, length code, data.\<close>

definition can_send_payload :: "can_frame \<Rightarrow> u8 list option" where
  "can_send_payload cf = do {
     data \<leftarrow> load (can_data cf) 0 (unat (can_dlc cf));
     data \<leftarrow> store (replicate 8 0) 0 data;
     Some ([ucast (can_id cf AND 0xFF), ucast (drop_bit 8 (can_id cf AND 0xFF00)),
            ucast (drop_bit 16 (can_id cf AND 0xFF0000)), ucast (drop_bit 24 (can_id cf AND 0xFF000000)),
            can_dlc cf] @ data)
   }"

definition unique_can_netdev_start_xmit ::
  "world \<Rightarrow> bool \<Rightarrow> can_frame \<Rightarrow> (netdev_tx \<times> skb_fate \<times> world) option" where
  "unique_can_netdev_start_xmit w invalid cf =
     (if is_silent w then Some (NETDEV_TX_OK, Skb_kept, w)
      else if invalid then Some (NETDEV_TX_OK, Skb_dropped, w)
      else if 8 < unat (can_dlc cf) then Some (NETDEV_TX_BUSY, Skb_kept, w)
      else do {
        send_cf \<leftarrow> can_send_payload cf;
        let w = emit Put_echo (emit Net_stop_queue (w\<lparr>tx_data_size := 8\<rparr>));
        (result, w) \<leftarrow> write_tx_rb w send_cf 13;
        if result < 0 then Some (NETDEV_TX_BUSY, Skb_echoed, w)
        else Some (NETDEV_TX_OK, Skb_echoed, w)
      })"

subsection \<open>What the operations leave alone\<close>

lemma sent_append:
  assumes "\<exists>ms. b = c @ ms \<and> length ms \<le> n" and "\<exists>ms. a = b @ ms \<and> length ms \<le> m"
  shows "\<exists>ms. a = c @ ms \<and> length ms \<le> n + m"
proof -
  obtain x y where "b = c @ x" "length x \<le> n" "a = b @ y" "length y \<le> m" using assms by blast
  then have "a = c @ (x @ y) \<and> length (x @ y) \<le> n + m" by simp
  then show ?thesis by blast
qed

lemma sent_mono: "\<exists>ms. a = c @ ms \<and> length ms \<le> m \<Longrightarrow> m \<le> n \<Longrightarrow> \<exists>ms. a = c @ ms \<and> length ms \<le> n"
  using order_trans by blast

lemma start_stop_can_same:
  "start_stop_can w b = Some (r, x, w') \<Longrightarrow> send_msg_sem w' = send_msg_sem w \<and> one_sent w w'"
  unfolding start_stop_can_def by (rule control_same)

lemma get_status_same:
  "get_status w st = Some (r, x, w') \<Longrightarrow> send_msg_sem w' = send_msg_sem w \<and> one_sent w w'"
  unfolding get_status_def by (rule query_same)

lemma stop_can_loop_same:
  "stop_can_loop n w st = Some (r, w') \<Longrightarrow> send_msg_sem w' = send_msg_sem w \<and> product w' = product w
     \<and> settings w' = settings w \<and> (\<exists>ms. sent w' = sent w @ ms \<and> length ms \<le> 2 * n)"
proof (induction n arbitrary: w st)
  case (Suc n)
  from Suc.prems obtain res suc w1 where 1: "start_stop_can w False = Some (res, suc, w1)"
    by (auto split: bind_splits)
  note s1 = start_stop_can_same [OF 1]
  show ?case
  proof (cases "res = RESULT_Success \<and> suc = Some True")
    case False
    then have "w' = w1" using Suc.prems 1 by (auto split: if_splits)
    moreover have "\<exists>ms. sent w1 = sent w @ ms \<and> length ms \<le> 2 * Suc n"
      using s1 sent_mono [of "sent w1" "sent w" 1 "2 * Suc n"] by simp
    ultimately show ?thesis using s1 by simp
  next
    case True
    then obtain res' st' w2 where 2: "get_status w1 st = Some (res', st', w2)"
      using Suc.prems 1 by (auto split: bind_splits)
    note s2 = get_status_same [OF 2]
    have s12: "\<exists>ms. sent w2 = sent w @ ms \<and> length ms \<le> 1 + 1"
      using s1 s2 sent_append [of "sent w1" "sent w" 1 "sent w2" 1] by simp
    have "w' = w2 \<or> (\<exists>st''. stop_can_loop n w2 st'' = Some (r, w'))"
      using Suc.prems 1 2 True by (auto simp: Let_def split: if_splits)
    then show ?thesis
    proof
      assume "w' = w2"
      moreover have "\<exists>ms. sent w2 = sent w @ ms \<and> length ms \<le> 2 * Suc n"
        using s12 by (rule sent_mono) simp
      ultimately show ?thesis using s1 s2 by simp
    next
      assume "\<exists>st''. stop_can_loop n w2 st'' = Some (r, w')"
      then obtain st'' where "stop_can_loop n w2 st'' = Some (r, w')" by blast
      note s3 = Suc.IH [OF this]
      have "\<exists>ms. sent w' = sent w @ ms \<and> length ms \<le> (1 + 1) + 2 * n"
        using s12 s3 sent_append [of "sent w2" "sent w" "1 + 1" "sent w'" "2 * n"] by simp
      then show ?thesis using s1 s2 s3 by simp
    qed
  qed
qed simp

text \<open>The user of the interface.\<close>

abbreviation (input) ift :: "world \<Rightarrow> world \<Rightarrow> bool" where
  "ift w w' \<equiv> if_type w' = if_type w \<and> product w' = product w"

lemma control_ift: "control w i p n = Some (r, x, w') \<Longrightarrow> ift w w'"
  by (auto dest: control_same settings_if_type)

lemma query_ift: "query w i p n k a q = Some (r, x, w') \<Longrightarrow> ift w w'"
  by (auto dest: query_same settings_if_type)

lemma may_fail_ift: "may_fail w = (ok, w') \<Longrightarrow> ift w w'"
  by (auto dest: may_fail_sem settings_if_type)

lemma start_can_ift: "unique_can_start_can w = Some (r, w') \<Longrightarrow> ift w w'"
  by (auto simp: unique_can_start_can_def ringbuffer_clear_def start_stop_can_def
      split: bind_splits if_splits dest!: control_ift)

lemma stop_can_ift: "unique_can_stop_can w st = Some (r, w') \<Longrightarrow> ift w w'"
  unfolding unique_can_stop_can_def by (auto dest: stop_can_loop_same settings_if_type)

lemma set_mode_ift:
  "unique_can_set_mode w b s = Some (r, w') \<Longrightarrow> ift w w' \<and> 0 < tx_transfer_max_token w'"
proof -
  have tok: "tx_transfer_max_token w2 = tx_transfer_max_token w1 \<and> ift w1 w2"
    if "control w1 i p n = Some (e, x, w2)" for w1 i p n e x w2
    using control_same [OF that] by (simp add: settings_def)
  show "unique_can_set_mode w b s = Some (r, w') \<Longrightarrow> ?thesis"
    by (auto simp: unique_can_set_mode_def set_mode_def Let_def split: bind_splits if_splits dest!: tok)
qed

lemma ch02a_set_bit_timing_ift: "ch02a_ioctl_set_bit_timing w t = Some (r, w') \<Longrightarrow> ift w w'"
  by (auto simp: ch02a_ioctl_set_bit_timing_def ch02a_set_bit_timing_def split: bind_splits if_splits
      dest!: control_ift)

lemma do_set_bittiming_ift: "do_set_bittiming w = Some (r, w') \<Longrightarrow> ift w w'"
  by (cases "product w")
    (auto simp: do_set_bittiming_def ch02a_netdev_set_bittiming_def unique_can_netdev_set_bittiming_def Let_def
      split: bind_splits if_splits dest!: set_mode_ift ch02a_set_bit_timing_ift)

lemma netdev_start_if_type:
  "unique_can_netdev_start w = Some (r, w') \<Longrightarrow> if_type w' = (if r = 0 then IF_NET else if_type w)"
  by (auto simp: unique_can_netdev_start_def split: bind_splits if_splits
      dest!: do_set_bittiming_ift start_can_ift)

lemma give_user_ift: "give_user y w = Some (e, z, w') \<Longrightarrow> ift w w'"
  by (auto simp: give_user_def dest!: may_fail_ift split: prod.splits if_splits)

lemma ioctl_ift: "unique_can_ioctl w st cmd = Some (r, x, w') \<Longrightarrow> ift w w'"
  by (cases cmd)
    (auto simp: unique_can_ioctl_def take_user_def done_or_EIO_def result_or_EIO_def reset_can_summary_def
      set_trigger_def get_status_def split: prod.splits bind_splits if_splits
      dest!: may_fail_ift set_mode_ift give_user_ift query_ift control_ift start_can_ift stop_can_ift)

subsection \<open>Who uses the interface\<close>

text \<open>The histories of the interface: how many files are open, whether the network device is up, and
  the state. The virtual file system releases a file that was opened, and no other; the network stack
  closes a device that is up, which is down afterwards whatever the driver answers. Everything else the
  driver does (reception, transmission, commands) leaves the settings alone.\<close>

inductive can_use :: "nat \<Rightarrow> bool \<Rightarrow> world \<Rightarrow> bool" where
  use_start: "if_type w = IF_NONE \<Longrightarrow> can_use 0 False w"
| use_other: "can_use f n w \<Longrightarrow> settings w' = settings w \<Longrightarrow> can_use f n w'"
| use_open: "can_use f n w \<Longrightarrow> unique_can_open w = (r, w') \<Longrightarrow>
    can_use (if r = 0 then Suc f else f) n w'"
| use_ioctl: "can_use (Suc f) n w \<Longrightarrow> unique_can_ioctl w st cmd = Some (r, x, w') \<Longrightarrow>
    can_use (Suc f) n w'"
| use_release: "can_use (Suc f) n w \<Longrightarrow> unique_can_close w = (r, w') \<Longrightarrow> can_use f n w'"
| use_up: "can_use f False w \<Longrightarrow> unique_can_netdev_open open_candev w = Some (r, w') \<Longrightarrow>
    can_use f (r = 0) w'"
| use_restart: "can_use f True w \<Longrightarrow> unique_can_netdev_set_mode w st mode = Some (r, w') \<Longrightarrow>
    can_use f True w'"
| use_down: "can_use f True w \<Longrightarrow> unique_can_netdev_close w st = Some (r, w') \<Longrightarrow> can_use f False w'"

lemma netdev_open_if_type:
  "unique_can_netdev_open oc w = Some (r, w') \<Longrightarrow>
     (if r = 0 then if_type w = IF_NONE \<and> if_type w' = IF_NET else if_type w' = if_type w)"
  by (auto simp: unique_can_netdev_open_def Let_def emit_def split: bind_splits if_splits
      dest!: netdev_start_if_type)

lemma netdev_set_mode_if_type:
  "unique_can_netdev_set_mode w st m = Some (r, w') \<Longrightarrow> if_type w' = if_type w \<or> if_type w' = IF_NET"
  by (cases m) (auto simp: unique_can_netdev_set_mode_def split: bind_splits if_splits
      dest!: netdev_start_if_type stop_can_ift)

lemma netdev_close_if_type:
  "unique_can_netdev_close w st = Some (r, w') \<Longrightarrow> if_type w' = (if r = 0 then IF_NONE else if_type w)"
  by (auto simp: unique_can_netdev_close_def emit_def split: bind_splits if_splits dest!: stop_can_ift)

lemma can_use_inv:
  "can_use f n w \<Longrightarrow> f + (if n then 1 else 0) \<le> 1 \<and> (f = 1 \<longrightarrow> if_type w = IF_FILE)
     \<and> (n \<longrightarrow> if_type w = IF_NET)"
proof (induction rule: can_use.induct)
  case (use_other f n w w')
  then show ?case using settings_if_type [OF use_other.hyps(2)] by auto
next
  case (use_open f n w r w')
  then show ?case by (auto simp: unique_can_open_def split: if_splits)
next
  case (use_ioctl f n w st cmd r x w')
  then show ?case using ioctl_ift [OF use_ioctl.hyps(2)] by auto
next
  case (use_release f n w r w')
  then show ?case by (auto simp: unique_can_close_def split: if_splits)
next
  case (use_up f w oc r w')
  then show ?case using netdev_open_if_type [OF use_up.hyps(2)] by (auto split: if_splits)
next
  case (use_restart f w st m r w')
  then show ?case using netdev_set_mode_if_type [OF use_restart.hyps(2)] by auto
next
  case (use_down f w st r w')
  then show ?case by auto
qed auto

subsection \<open>The payload of a frame\<close>

lemma mask_byte:
  "(ucast (x AND 0xFF) :: u8) = ucast (x :: u32)"
  "(ucast (drop_bit 8 (x AND 0xFF00)) :: u8) = ucast (drop_bit 8 x)"
  "(ucast (drop_bit 16 (x AND 0xFF0000)) :: u8) = ucast (drop_bit 16 x)"
  "(ucast (drop_bit 24 (x AND 0xFF000000)) :: u8) = ucast (drop_bit 24 x)"
  by (rule bit_word_eqI, auto simp: bit_simps less_Suc_eq eval_nat_numeral)+

lemma ucast_drop_bit: "(ucast (drop_bit n (x :: u32)) :: u8) = word_of_int (drop_bit n (uint x))"
  by (rule bit_word_eqI) (simp add: bit_simps)

lemma le_bytes_u32:
  "le_bytes 4 (uint (x :: u32)) = [ucast x, ucast (drop_bit 8 x), ucast (drop_bit 16 x), ucast (drop_bit 24 x)]"
  using ucast_drop_bit [of 0 x] by (simp add: eval_nat_numeral ucast_drop_bit [simplified eval_nat_numeral])

lemma can_send_payload_eq:
  assumes "unat (can_dlc cf) \<le> 8" and "length (can_data cf) = 8"
  shows "can_send_payload cf = Some (le_bytes 4 (uint (can_id cf)) @ [can_dlc cf]
        @ take (unat (can_dlc cf)) (can_data cf) @ replicate (8 - unat (can_dlc cf)) 0)"
  using assms by (simp add: can_send_payload_def load_eq store_eq mask_byte le_bytes_u32)

subsection \<open>Properties\<close>



text \<open>A network device whose closing fails is lost. When the device does not acknowledge the request to
  stop, closing returns -EIO and leaves the user of the interface as it is, though the network stack
  takes the device down; from then on the file and the network device answer -EBUSY to every attempt
  to open them, whatever happens in between that does not close it.\<close>

theorem can_failed_close_locks:
  assumes "if_type w = IF_NET" and "unique_can_netdev_close w st = Some (r, w1)" and "r \<noteq> 0"
    and "settings w2 = settings w1"
  shows "r = -EIO \<and> fst (unique_can_open w2) = -EBUSY
    \<and> unique_can_netdev_open open_candev w2 = Some (-EBUSY, w2)"
proof -
  have "if_type w2 = IF_NET"
    using netdev_close_if_type [OF assms(2)] assms(1,3) settings_if_type [OF assms(4)] by simp
  moreover have "r = -EIO"
    using assms(2,3) by (auto simp: unique_can_netdev_close_def split: bind_splits if_splits)
  ultimately show ?thesis by (simp add: unique_can_open_def unique_can_netdev_open_def)
qed

text \<open>A state in which the first allocation fails.\<close>

lemma can_failed_close_locks_witness:
  "fst (unique_can_open ((world0 CT2A)\<lparr>if_type := IF_NET\<rparr>)) = -EBUSY"
proof -
  let ?w = "(world0 CT2A)\<lparr>if_type := IF_NET\<rparr>"
  let ?v = "?w\<lparr>choices := [False]\<rparr>"
  have "alloc2 ?v = (False, ?w)" by (simp add: alloc2_def may_fail_def world0_def)
  then have "unique_can_netdev_close ?v st = Some (-EIO, ?w)" for st
    by (simp add: unique_can_netdev_close_def unique_can_stop_can_def numeral_3_eq_3 start_stop_can_def
        control_def)
  then show ?thesis
    using can_failed_close_locks [of ?v _ "-EIO" ?w ?w] by simp
qed


text \<open>C24: setting a mode keeps transmission alive. Whatever baud rate is asked for, and whatever the device
  answers, a call of \<open>set_mode\<close> leaves at least one token per period, so that with a free URB, a fill
  level below the limit and an expired period the thread's next iteration sends the oldest pending
  message.\<close>

theorem set_mode_then_transmit:
  assumes "unique_can_set_mode w baud slnt = Some (r, w1)" and "tx_pending w1 (f # ps)"
    and "\<not> tx_data_clear_requested w1" and "choices w1 = []" and "0 < tx_usb_transfer_sem w1"
    and "tx_transfer_expired w1 < jiffies w1" and "unat (tx_buffer_rate w1) \<le> TX_TRANSFER_LIMIT_RATE"
  shows "\<exists>w2. tx_thread_iteration w1 = Some (Tx_continue, w2) \<and> sent w2 = sent w1 @ [f] \<and> tx_pending w2 ps"
  using tx_progress [OF assms(2-5)] assms(6,7) set_mode_ift [OF assms(1)] by auto

lemma set_mode_then_transmit_witness:
  "\<exists>w2. tx_thread_iteration (tx_world\<lparr>jiffies := 1, tx_transfer_max_token := 4\<rparr>) = Some (Tx_continue, w2)
    \<and> sent w2 = [[0xF7, 5, 0x24, 9, 0xFA]] \<and> tx_pending w2 []"
proof -
  let ?v = "tx_world\<lparr>jiffies := 1, choices := [False]\<rparr>" and ?w = "tx_world\<lparr>jiffies := 1, tx_transfer_max_token := 4\<rparr>"
  have "alloc2 (?v\<lparr>tx_transfer_max_token := 4\<rparr>) = (False, ?w)"
    by (simp add: alloc2_def may_fail_def tx_world_def world0_def)
  moreover have "i32_of (500 * 1024) = 512000" by (rule trans [OF i32_of_id]) simp_all
  ultimately have "unique_can_set_mode ?v 500 False = Some (-EIO, ?w)"
    by (simp add: unique_can_set_mode_def set_mode_def control_def signed_divide_int_def)
  moreover have "tx_pending ?w [[0xF7, 5, 0x24, 9, 0xFA]]"
    by (simp add: tx_pending_def tx_world_def rb_empty_def rb_inv_def rb_bytes_def seg_def frame_def
        classify_def world0_def msg_wf_def)
  ultimately have "\<exists>w2. tx_thread_iteration ?w = Some (Tx_continue, w2)
      \<and> sent w2 = sent ?w @ [[0xF7, 5, 0x24, 9, 0xFA]] \<and> tx_pending w2 []"
    by (rule set_mode_then_transmit) (simp_all add: tx_world_def world0_def)
  then show ?thesis by (simp add: tx_world_def world0_def)
qed

text \<open>C25: a frame from the network reaches the ring buffer as one message: the identifier little endian,
  the length code, the data padded with zeros to eight bytes. The queue is stopped and the frame kept for
  the echo; the completion will count eight bytes, whatever the frame's length.\<close>

theorem start_xmit_correct:
  assumes "\<not> is_silent w" and "unat (can_dlc cf) \<le> 8" and "length (can_data cf) = 8"
    and "rb_inv (tx_data w)" and "msg_wf (stack_msg w)" and "\<not> onopening w" and "\<not> onclosing w"
    and "17 < ringbuffer_get_free_size (tx_data w)" and "product w \<in> {CT2A, CH02A}"
  shows "\<exists>w'. unique_can_netdev_start_xmit w False cf = Some (NETDEV_TX_OK, Skb_echoed, w')
    \<and> rb_bytes (tx_data w') = rb_bytes (tx_data w) @ [MSG_SOB, 17, CMD_SendCANFrame]
        @ le_bytes 4 (uint (can_id cf)) @ [can_dlc cf]
        @ take (unat (can_dlc cf)) (can_data cf) @ replicate (8 - unat (can_dlc cf)) 0 @ [MSG_EOB]
    \<and> events w' = events w @ [Net_stop_queue, Put_echo] \<and> tx_data_size w' = 8"
proof -
  define pl where "pl = le_bytes 4 (uint (can_id cf)) @ [can_dlc cf]
        @ take (unat (can_dlc cf)) (can_data cf) @ replicate (8 - unat (can_dlc cf)) 0"
  define w1 where "w1 = emit Put_echo (emit Net_stop_queue (w\<lparr>tx_data_size := 8\<rparr>))"
  have pay: "can_send_payload cf = Some pl"
    unfolding pl_def by (rule can_send_payload_eq [OF assms(2,3)])
  have len: "length pl = 13" using assms(2,3) by (simp add: pl_def)
  have w1: "tx_data w1 = tx_data w" "stack_msg w1 = stack_msg w" "onopening w1 = onopening w"
    "onclosing w1 = onclosing w" "product w1 = product w" "events w1 = events w @ [Net_stop_queue, Put_echo]"
    "tx_data_size w1 = 8"
    by (simp_all add: w1_def emit_def)
  have res: "write_tx_rb_result w1 13 = 13"
    using assms(6-8) by (simp add: write_tx_rb_result_def w1 rb_fits_def)
  obtain tx where tx: "write_tx_rb w1 pl 13 = Some (13, w1\<lparr>tx_data := tx\<rparr>)"
    "rb_bytes tx = rb_bytes (tx_data w) @ tx_frame w1 pl 13"
    using write_tx_rb_exact [of w1 13 pl] assms(4,5) len by (auto simp: w1 res)
  have "tx_frame w1 pl 13 = [MSG_SOB, 17, CMD_SendCANFrame] @ pl @ [MSG_EOB]"
    using assms(9) len by (auto simp: tx_frame_def get_write_cmd_id_def w1)
  moreover have "unique_can_netdev_start_xmit w False cf = Some (NETDEV_TX_OK, Skb_echoed, w1\<lparr>tx_data := tx\<rparr>)"
    using assms(1,2) pay tx(1) by (simp add: unique_can_netdev_start_xmit_def Let_def flip: w1_def)
  ultimately show ?thesis using tx(2) w1 by (simp add: pl_def)
qed

lemma start_xmit_correct_witness:
  "\<exists>w'. unique_can_netdev_start_xmit (world0 CT2A) False
      \<lparr>can_id = 0x123, can_dlc = 2, can_data = [1, 2, 3, 4, 5, 6, 7, 8]\<rparr> = Some (NETDEV_TX_OK, Skb_echoed, w')
    \<and> rb_bytes (tx_data w') = [MSG_SOB, 17, CMD_SendCANFrame, 0x23, 1, 0, 0, 2, 1, 2] @ replicate 6 0 @ [MSG_EOB]"
proof -
  have "\<exists>w'. unique_can_netdev_start_xmit (world0 CT2A) False
      \<lparr>can_id = 0x123, can_dlc = 2, can_data = [1, 2, 3, 4, 5, 6, 7, 8]\<rparr> = Some (NETDEV_TX_OK, Skb_echoed, w')
    \<and> rb_bytes (tx_data w') = rb_bytes (tx_data (world0 CT2A)) @ [MSG_SOB, 17, CMD_SendCANFrame]
      @ le_bytes 4 (uint (can_id \<lparr>can_id = 0x123, can_dlc = 2, can_data = [1, 2, 3, 4, 5, 6, 7, 8]\<rparr>))
      @ [can_dlc \<lparr>can_id = 0x123, can_dlc = 2, can_data = [1, 2, 3, 4, 5, 6, 7, 8]\<rparr>]
      @ take (unat (can_dlc \<lparr>can_id = 0x123, can_dlc = 2, can_data = [1, 2, 3, 4, 5, 6, 7, 8]\<rparr>))
          (can_data \<lparr>can_id = 0x123, can_dlc = 2, can_data = [1, 2, 3, 4, 5, 6, 7, 8]\<rparr>)
      @ replicate (8 - unat (can_dlc \<lparr>can_id = 0x123, can_dlc = 2, can_data = [1, 2, 3, 4, 5, 6, 7, 8]\<rparr>)) 0
      @ [MSG_EOB]
    \<and> events w' = events (world0 CT2A) @ [Net_stop_queue, Put_echo] \<and> tx_data_size w' = 8"
    by (rule start_xmit_correct) (simp_all add: world0_tx_sel rb_empty_inv is_silent_def, simp add: world0_def)
  then show ?thesis
    using le_bytes_u32 [of "0x123"] by (auto simp: world0_tx_sel rb_empty_inv)
qed

text \<open>The network stack's rule of ownership.\<close>

definition ownership_ok :: "netdev_tx \<Rightarrow> skb_fate \<Rightarrow> bool" where
  "ownership_ok r fate \<longleftrightarrow> (r = NETDEV_TX_OK \<longleftrightarrow> fate \<noteq> Skb_kept)"

text \<open>Which transmissions break the network stack's ownership rule, that a frame answered with
  \<open>NETDEV_TX_OK\<close> has been taken and one answered with \<open>NETDEV_TX_BUSY\<close> is still the caller's: exactly those
  in listen-only mode, where the frame is answered OK but never freed, and those the ring buffer refuses
  after the frame was given to the echo, where it will be sent again though it is already taken.\<close>

theorem start_xmit_ownership:
  assumes "rb_inv (tx_data w)" and "msg_wf (stack_msg w)" and "length (can_data cf) = 8"
  shows "\<exists>r fate w'. unique_can_netdev_start_xmit w invalid cf = Some (r, fate, w')
    \<and> (ownership_ok r fate \<longleftrightarrow>
        \<not> is_silent w \<and> (invalid \<or> 8 < unat (can_dlc cf)
          \<or> \<not> onopening w \<and> \<not> onclosing w \<and> 17 \<le> ringbuffer_get_free_size (tx_data w)
            \<and> (17 < ringbuffer_get_free_size (tx_data w)
               \<or> read_p (tx_data w) \<le> write_p (tx_data w) \<and> write_p (tx_data w) + 17 \<le> end_p (tx_data w))))"
proof (cases "is_silent w \<or> invalid \<or> 8 < unat (can_dlc cf)")
  case True
  then show ?thesis by (auto simp: unique_can_netdev_start_xmit_def ownership_ok_def)
next
  case False
  define w1 where "w1 = emit Put_echo (emit Net_stop_queue (w\<lparr>tx_data_size := 8\<rparr>))"
  obtain pl where pay: "can_send_payload cf = Some pl" and len: "length pl = 13"
    using can_send_payload_eq [of cf] False assms(3) by auto
  have w1: "tx_data w1 = tx_data w" "stack_msg w1 = stack_msg w" "onopening w1 = onopening w"
    "onclosing w1 = onclosing w"
    by (simp_all add: w1_def emit_def)
  obtain tx where "write_tx_rb w1 pl 13 = Some (write_tx_rb_result w1 13, w1\<lparr>tx_data := tx\<rparr>)"
    using write_tx_rb_exact [of w1 13 pl] assms(1,2) len by (auto simp: w1)
  then have "unique_can_netdev_start_xmit w invalid cf
      = Some (if write_tx_rb_result w1 13 < 0 then NETDEV_TX_BUSY else NETDEV_TX_OK, Skb_echoed, w1\<lparr>tx_data := tx\<rparr>)"
    using False pay by (simp add: unique_can_netdev_start_xmit_def Let_def flip: w1_def)
  then show ?thesis using False
    by (auto simp: ownership_ok_def write_tx_rb_result_def rb_fits_def w1)
qed

lemma start_xmit_ownership_witness:
  "\<exists>fate w'. unique_can_netdev_start_xmit ((world0 CT2A)\<lparr>ctrlmode := 2\<rparr>) False
      \<lparr>can_id = 1, can_dlc = 0, can_data = replicate 8 0\<rparr> = Some (NETDEV_TX_OK, fate, w')
    \<and> \<not> ownership_ok NETDEV_TX_OK fate"
proof -
  let ?w = "(world0 CT2A)\<lparr>ctrlmode := 2\<rparr>"
  have s: "is_silent ?w" by (simp add: is_silent_def)
  have "rb_inv (tx_data ?w)" "msg_wf (stack_msg ?w)" by (simp_all add: world0_tx_sel rb_empty_inv)
  from start_xmit_ownership [OF this, of "\<lparr>can_id = 1, can_dlc = 0, can_data = replicate 8 0\<rparr>" False] s
  show ?thesis by (auto simp: unique_can_netdev_start_xmit_def)
qed

end
