(* ===== verification/Cf02a_Cmd.thy ===== *)
theory Cf02a_Cmd
  imports Cmd
begin

text \<open>
  The commands of the EP1-CF02A: \<open>module/ep1_cf02a/ep1_cf02a_cmd.c\<close>. All of them are instances of
  \<open>cmd_common\<close>, which is either a query (it has a parser for the response) or a control. The
  record \<open>cf02a_unique\<close> is the part of the device's unique data that the commands keep up to date.
  The command numbers are those of \<open>ep1_cf02a_cmd_def.h\<close>, written out.

  The lemmas reduce \<open>cmd_common\<close> to the two shapes of \<open>Cmd\<close>; the properties are that every query
  waits for a response that the receive path forwards to it, and that a bit timing that passes the check
  reaches the device unchanged.
\<close>

record bittiming_const =
  tseg1_min :: u32
  tseg1_max :: u32
  tseg2_min :: u32
  tseg2_max :: u32
  sjw_max :: u32
  brp_min :: u32
  brp_max :: u32
  brp_inc :: u32

record cf02a_unique =
  u_can_clock :: u32
  u_bittiming_const :: bittiming_const
  u_data_bittiming_const :: bittiming_const
  u_bittiming :: cf02a_bit_timing
  u_data_bittiming :: cf02a_bit_timing

definition cf02a_bittiming_const :: bittiming_const where
  "cf02a_bittiming_const = \<lparr>tseg1_min = 1, tseg1_max = 256, tseg2_min = 1, tseg2_max = 128,
     sjw_max = 128, brp_min = 1, brp_max = 512, brp_inc = 1\<rparr>"

definition cf02a_data_bittiming_const :: bittiming_const where
  "cf02a_data_bittiming_const = \<lparr>tseg1_min = 1, tseg1_max = 32, tseg2_min = 1, tseg2_max = 16,
     sjw_max = 16, brp_min = 1, brp_max = 32, brp_inc = 1\<rparr>"

subsection \<open>The common command\<close>

definition cf02a_cmd_common ::
  "world \<Rightarrow> nat \<Rightarrow> nat \<Rightarrow> u8 \<Rightarrow> u8 \<Rightarrow> u8 \<Rightarrow> (u8 list \<Rightarrow> (RESULT \<times> u8 list) option) option \<Rightarrow>
     (u8 list \<Rightarrow> (RESULT \<times> 'a) option) option \<Rightarrow>
     (RESULT \<times> 'a option \<times> bool option \<times> world) option" where
  "cf02a_cmd_common w req_size resp_size req_id ack_id nack_id pack_req parse_resp =
     (let (ok, w) = alloc2 w in
      if \<not> ok then Some (RESULT_Failure, None, None, w)
      else do {
        (r, w) \<leftarrow> transact w req_id (case pack_req of None \<Rightarrow> no_pack | Some pack \<Rightarrow> pack)
                    req_size resp_size ack_id nack_id;
        case r of
          Inl _ \<Rightarrow> Some (RESULT_Failure, None, None, w)
        | Inr m \<Rightarrow>
            (case parse_resp of
               Some parse \<Rightarrow> do {
                 (result, x) \<leftarrow> parse (payload m);
                 if result \<noteq> RESULT_Success then Some (RESULT_Failure, None, None, w)
                 else Some (RESULT_Success, Some x, None, w)
               }
             | None \<Rightarrow> do {
                 (result, success, w) \<leftarrow> ack_verdict req_id m w;
                 Some (result, None, success, w)
               })
      })"

definition cf02a_get_common ::
  "world \<Rightarrow> nat \<Rightarrow> nat \<Rightarrow> u8 \<Rightarrow> u8 \<Rightarrow> (u8 list \<Rightarrow> (RESULT \<times> 'a) option) \<Rightarrow>
     (RESULT \<times> 'a option \<times> world) option" where
  "cf02a_get_common w req_size resp_size req_id ack_id parse =
     map_option (\<lambda>(result, x, _, w). (result, x, w))
       (cf02a_cmd_common w req_size resp_size req_id ack_id CMD_Unknown None (Some parse))"

definition cf02a_set_common ::
  "world \<Rightarrow> nat \<Rightarrow> u8 \<Rightarrow> (u8 list \<Rightarrow> (RESULT \<times> u8 list) option) option \<Rightarrow>
     (RESULT \<times> bool option \<times> world) option" where
  "cf02a_set_common w req_size req_id pack_req =
     map_option (\<lambda>(result, _ :: unit option, success, w). (result, success, w))
       (cf02a_cmd_common w req_size CMD_LENGTH_ACK req_id CMD_ACK CMD_NACK pack_req None)"

subsection \<open>The commands\<close>

definition cf02a_get_silent_mode :: "world \<Rightarrow> (RESULT \<times> bool option \<times> world) option" where
  "cf02a_get_silent_mode w =
     cf02a_get_common w 4 5 0x31 0x61
       cf02a_msg_parse_response_get_silent_mode"

definition cf02a_set_silent_mode ::
  "world \<Rightarrow> bool \<Rightarrow> (RESULT \<times> bool option \<times> world) option" where
  "cf02a_set_silent_mode w x = cf02a_set_common w 5 0x30 (Some (cf02a_msg_pack_set_silent_mode x))"

definition cf02a_get_fd_mode :: "world \<Rightarrow> (RESULT \<times> bool option \<times> world) option" where
  "cf02a_get_fd_mode w =
     cf02a_get_common w 4 5 0x4D 0x7D
       cf02a_msg_parse_response_get_fd_mode"

definition cf02a_set_fd_mode ::
  "world \<Rightarrow> bool \<Rightarrow> (RESULT \<times> bool option \<times> world) option" where
  "cf02a_set_fd_mode w x = cf02a_set_common w 5 0x4C (Some (cf02a_msg_pack_set_fd_mode x))"

definition cf02a_get_iso_mode :: "world \<Rightarrow> (RESULT \<times> bool option \<times> world) option" where
  "cf02a_get_iso_mode w =
     cf02a_get_common w 4 5 0x33 0x63
       cf02a_msg_parse_response_get_iso_mode"

definition cf02a_set_iso_mode ::
  "world \<Rightarrow> bool \<Rightarrow> (RESULT \<times> bool option \<times> world) option" where
  "cf02a_set_iso_mode w x = cf02a_set_common w 5 0x32 (Some (cf02a_msg_pack_set_iso_mode x))"

text \<open>The comparisons are between unsigned 32-bit values.\<close>

definition cf02a_check_bit_timing :: "bittiming_const \<Rightarrow> cf02a_bit_timing \<Rightarrow> bool" where
  "cf02a_check_bit_timing btc t =
     (let timing_tseg1 = (word_of_int (bt_prop_seg t + bt_phase_seg1 t) :: u32);
          timing_tseg2 = (word_of_int (bt_phase_seg2 t) :: u32) in
      if timing_tseg1 < tseg1_min btc \<or> timing_tseg1 > tseg1_max btc then False
      else if timing_tseg2 < tseg2_min btc \<or> timing_tseg2 > tseg2_max btc then False
      else if word_of_int (bt_sjw t) > sjw_max btc then False
      else if word_of_int (bt_brp t) < brp_min btc \<or> word_of_int (bt_brp t) > brp_max btc then False
      else True)"

definition cf02a_get_bit_timing ::
  "world \<Rightarrow> cf02a_unique \<Rightarrow> (RESULT \<times> cf02a_bit_timing option \<times> world \<times> cf02a_unique) option" where
  "cf02a_get_bit_timing w uq = do {
     (result, timing, w) \<leftarrow> cf02a_get_common w 4 14 0x35 0x65 cf02a_msg_parse_response_get_bit_timing;
     if result \<noteq> RESULT_Success then Some (result, timing, w, uq)
     else Some (result, timing, w, case timing of None \<Rightarrow> uq | Some t \<Rightarrow> uq\<lparr>u_bittiming := t\<rparr>)
   }"

definition cf02a_set_bit_timing ::
  "world \<Rightarrow> cf02a_unique \<Rightarrow> cf02a_bit_timing \<Rightarrow>
     (RESULT \<times> bool option \<times> world \<times> cf02a_unique) option" where
  "cf02a_set_bit_timing w uq timing =
     (if \<not> cf02a_check_bit_timing (u_bittiming_const uq) timing then Some (RESULT_Failure, None, w, uq)
      else do {
        (result, success, w) \<leftarrow> cf02a_set_common w 14 0x34 (Some (cf02a_msg_pack_set_bit_timing timing));
        if result \<noteq> RESULT_Success then Some (result, success, w, uq)
        else Some (result, success, w, if success = Some True then uq\<lparr>u_bittiming := timing\<rparr> else uq)
      })"

definition cf02a_get_data_bit_timing ::
  "world \<Rightarrow> cf02a_unique \<Rightarrow> (RESULT \<times> cf02a_bit_timing option \<times> world \<times> cf02a_unique) option" where
  "cf02a_get_data_bit_timing w uq = do {
     (result, timing, w) \<leftarrow> cf02a_get_common w 4 14 0x37 0x67 cf02a_msg_parse_response_get_data_bit_timing;
     if result \<noteq> RESULT_Success then Some (result, timing, w, uq)
     else Some (result, timing, w, case timing of None \<Rightarrow> uq | Some t \<Rightarrow> uq\<lparr>u_data_bittiming := t\<rparr>)
   }"

definition cf02a_set_data_bit_timing ::
  "world \<Rightarrow> cf02a_unique \<Rightarrow> cf02a_bit_timing \<Rightarrow>
     (RESULT \<times> bool option \<times> world \<times> cf02a_unique) option" where
  "cf02a_set_data_bit_timing w uq timing =
     (if \<not> cf02a_check_bit_timing (u_data_bittiming_const uq) timing then Some (RESULT_Failure, None, w, uq)
      else do {
        (result, success, w) \<leftarrow> cf02a_set_common w 14 0x36 (Some (cf02a_msg_pack_set_data_bit_timing timing));
        if result \<noteq> RESULT_Success then Some (result, success, w, uq)
        else Some (result, success, w, if success = Some True then uq\<lparr>u_data_bittiming := timing\<rparr> else uq)
      })"

definition cf02a_get_tx_rx_control :: "world \<Rightarrow> (RESULT \<times> bool option \<times> world) option" where
  "cf02a_get_tx_rx_control w =
     cf02a_get_common w 4 5 0x39 0x69
       cf02a_msg_parse_response_get_tx_rx_control"

definition cf02a_set_tx_rx_control ::
  "world \<Rightarrow> bool \<Rightarrow> (RESULT \<times> bool option \<times> world) option" where
  "cf02a_set_tx_rx_control w x = cf02a_set_common w 5 0x38 (Some (cf02a_msg_pack_set_tx_rx_control x))"

definition cf02a_get_can_clock ::
  "world \<Rightarrow> cf02a_unique \<Rightarrow> (RESULT \<times> int option \<times> world \<times> cf02a_unique) option" where
  "cf02a_get_can_clock w uq = do {
     (result, clock, w) \<leftarrow> cf02a_get_common w 4 8 0x3D 0x6D cf02a_msg_parse_response_get_can_clock;
     if result \<noteq> RESULT_Success then Some (result, clock, w, uq)
     else Some (result, clock, w,
       case clock of None \<Rightarrow> uq | Some c \<Rightarrow> uq\<lparr>u_can_clock := word_of_int c\<rparr>)
   }"

definition cf02a_get_device_timestamp_reset_time :: "world \<Rightarrow> (RESULT \<times> timestamp option \<times> world) option" where
  "cf02a_get_device_timestamp_reset_time w =
     cf02a_get_common w 4 12 0x3E 0x6E
       cf02a_msg_parse_response_get_device_timestamp_reset_time"

definition cf02a_set_host_timestamp_reset_time ::
  "world \<Rightarrow> timespec \<Rightarrow> (RESULT \<times> bool option \<times> world) option" where
  "cf02a_set_host_timestamp_reset_time w x = cf02a_set_common w 12 0x40 (Some (cf02a_msg_pack_set_host_timestamp_reset_time x))"

definition cf02a_get_rtc_time :: "world \<Rightarrow> (RESULT \<times> cf02a_rtc_time option \<times> world) option" where
  "cf02a_get_rtc_time w =
     cf02a_get_common w 4 15 0x42 0x72
       cf02a_msg_parse_response_get_rtc_time"

definition cf02a_set_rtc_time ::
  "world \<Rightarrow> cf02a_rtc_time \<Rightarrow> (RESULT \<times> bool option \<times> world) option" where
  "cf02a_set_rtc_time w x = cf02a_set_common w 15 0x41 (Some (cf02a_msg_pack_set_rtc_time x))"

definition cf02a_get_current_store_data_state :: "world \<Rightarrow> (RESULT \<times> cf02a_store_data_state option \<times> world) option" where
  "cf02a_get_current_store_data_state w =
     cf02a_get_common w 4 37 0x43 0x73
       cf02a_msg_parse_response_get_current_store_data_state"

definition cf02a_get_store_data_id_list_count :: "world \<Rightarrow> (RESULT \<times> u32 option \<times> world) option" where
  "cf02a_get_store_data_id_list_count w =
     cf02a_get_common w 4 8 0x44 0x74
       cf02a_msg_parse_response_get_store_data_id_list_count"

definition cf02a_get_store_data_id ::
  "world \<Rightarrow> int \<Rightarrow> (RESULT \<times> u8 list option \<times> bool option \<times> world) option" where
  "cf02a_get_store_data_id w x =
     cf02a_cmd_common w 8 36 0x45 0x75 CMD_Unknown (Some (cf02a_msg_pack_get_store_data_id x))
       (Some cf02a_msg_parse_response_get_store_data_id)"

definition cf02a_get_store_data_meta ::
  "world \<Rightarrow> u8 list \<Rightarrow> (RESULT \<times> cf02a_store_data_meta option \<times> bool option \<times> world) option" where
  "cf02a_get_store_data_meta w x =
     cf02a_cmd_common w 36 47 0x46 0x76 CMD_Unknown (Some (cf02a_msg_pack_get_store_data_meta x))
       (Some cf02a_msg_parse_response_get_store_data_meta)"

definition cf02a_get_store_data_rx_control :: "world \<Rightarrow> (RESULT \<times> cf02a_store_data_rx_control option \<times> world) option" where
  "cf02a_get_store_data_rx_control w =
     cf02a_get_common w 4 45 0x48 0x78
       cf02a_msg_parse_response_get_store_data_rx_control"

definition cf02a_set_store_data_rx_control ::
  "world \<Rightarrow> cf02a_store_data_rx_control \<Rightarrow> (RESULT \<times> bool option \<times> world) option" where
  "cf02a_set_store_data_rx_control w x = cf02a_set_common w 45 0x47 (Some (cf02a_msg_pack_set_store_data_rx_control x))"

definition cf02a_request_notify_recv_can_frame :: "world \<Rightarrow> (RESULT \<times> bool option \<times> world) option" where
  "cf02a_request_notify_recv_can_frame w = cf02a_set_common w 4 0x80 None"

definition cf02a_delete_store_data ::
  "world \<Rightarrow> u8 list \<Rightarrow> (RESULT \<times> bool option \<times> world) option" where
  "cf02a_delete_store_data w x = cf02a_set_common w 36 0x4A (Some (cf02a_msg_pack_delete_store_data x))"

definition cf02a_init_store_data_media :: "world \<Rightarrow> (RESULT \<times> bool option \<times> world) option" where
  "cf02a_init_store_data_media w = cf02a_set_common w 4 0x4B None"

definition cf02a_get_store_enable :: "world \<Rightarrow> (RESULT \<times> bool option \<times> world) option" where
  "cf02a_get_store_enable w =
     cf02a_get_common w 4 5 0x4F 0x7E
       cf02a_msg_parse_response_get_store_enable"

definition cf02a_set_store_enable ::
  "world \<Rightarrow> bool \<Rightarrow> (RESULT \<times> bool option \<times> world) option" where
  "cf02a_set_store_enable w x = cf02a_set_common w 5 0x4E (Some (cf02a_msg_pack_set_store_enable x))"

definition cf02a_get_store_max_duration :: "world \<Rightarrow> (RESULT \<times> u32 option \<times> world) option" where
  "cf02a_get_store_max_duration w =
     cf02a_get_common w 4 8 0x85 0x95
       cf02a_msg_parse_response_get_store_max_duration"

definition cf02a_set_store_max_duration ::
  "world \<Rightarrow> u32 \<Rightarrow> (RESULT \<times> bool option \<times> world) option" where
  "cf02a_set_store_max_duration w x = cf02a_set_common w 8 0x84 (Some (cf02a_msg_pack_set_store_max_duration x))"

definition cf02a_get_capabilities :: "world \<Rightarrow> (RESULT \<times> u64 option \<times> world) option" where
  "cf02a_get_capabilities w =
     cf02a_get_common w 4 12 0xE0 0xF0
       cf02a_msg_parse_response_get_capabilities"

definition cf02a_get_can_statistics :: "world \<Rightarrow> (RESULT \<times> cf02a_can_statistics option \<times> world) option" where
  "cf02a_get_can_statistics w =
     cf02a_get_common w 4 76 0x82 0x92
       cf02a_msg_parse_response_get_can_statistics"

definition cf02a_reset_can_statistics :: "world \<Rightarrow> (RESULT \<times> bool option \<times> world) option" where
  "cf02a_reset_can_statistics w = cf02a_set_common w 4 0x83 None"

subsection \<open>Lemmas\<close>

lemma get_common_query:
  "cf02a_get_common w n k i a parse = query w i no_pack n k a (parse \<circ> payload)"
  unfolding cf02a_get_common_def cf02a_cmd_common_def query_def
  by (simp add: Let_def map_option_bind o_def split: prod.split sum.split option.split if_split)
    (auto intro!: Option.bind_cong simp: map_option_bind split: sum.split option.split)

lemma verdict_triple:
  "v \<bind> map_option (\<lambda>(r, _, y). (r, y)) \<circ> (\<lambda>(r, s, w). Some (r, None, s, w)) = v"
  by (cases v) auto

lemma set_common_control:
  "cf02a_set_common w n i pack = control w i (case pack of None \<Rightarrow> no_pack | Some p \<Rightarrow> p) n"
  unfolding cf02a_set_common_def cf02a_cmd_common_def control_def
  by (simp add: Let_def map_option_bind o_def split: prod.split sum.split option.split if_split)
    (auto intro!: Option.bind_cong simp: map_option_bind verdict_triple split: sum.split option.split)

text \<open>The routing of the device's responses: each belongs to one request, and is none of the common
  messages.\<close>

lemma request_of_response_inv:
  "cf02a_request_of_response x = Some i \<Longrightarrow> map_of
     [(0x31, 0x61), (0x4D, 0x7D), (0x33, 0x63), (0x35, 0x65), (0x37, 0x67), (0x39, 0x69),
      (0x3D, 0x6D), (0x3E, 0x6E), (0x42, 0x72), (0x43, 0x73), (0x44, 0x74), (0x45, 0x75),
      (0x46, 0x76), (0x48, 0x78), (0x4F, 0x7E), (0x85, 0x95), (0xE0, 0xF0), (0x82, 0x92)] i = Some x"
  by (auto simp: cf02a_request_of_response_def split: if_splits)

lemma request_of_response_inj:
  "cf02a_request_of_response x = Some i \<Longrightarrow> cf02a_request_of_response y = Some i \<Longrightarrow> x = y"
  by (metis request_of_response_inv option.inject)

lemma request_of_response_own:
  "cf02a_request_of_response r = Some i \<Longrightarrow> \<not> is_core_id r \<and> i \<notin> {0x00, 0x01, 0x0C, 0x0D}"
  by (auto simp: cf02a_request_of_response_def is_core_id_def split: if_splits)

lemma cf02a_answering:
  assumes "product w = CF02A" and "g ! 2 \<notin> {CMD_ACK, CMD_NACK}"
    and r: "cf02a_request_of_response r = Some i"
  shows "answering (answers_of (product w)) (w\<lparr>rxc_id := i\<rparr>) g \<longleftrightarrow> g ! 2 = r"
proof -
  have u: "uint i \<noteq> 0" "uint i \<noteq> 1" "uint i \<noteq> 12" "uint i \<noteq> 13"
    using request_of_response_own [OF r] by (auto simp: uint_word_ariths word_uint_eq_iff)
  have "msg_id (frame_msg g m) = g ! 2" for m by (simp add: frame_msg_def)
  then show ?thesis
    using assms request_of_response_own [OF r] request_of_response_inj [OF r, of "g ! 2"] u
    by (auto simp: answering_def answers_def answers_of_def core_answers_def is_core_id_def
        get_request_command_from_response_command_def)
qed

subsection \<open>Properties\<close>

text \<open>The boolean settings: the request, the response to it, the function that asks, and what the byte of
  the response means.\<close>

definition cf02a_mode_queries ::
  "(u8 \<times> u8 \<times> (world \<Rightarrow> (RESULT \<times> bool option \<times> world) option) \<times> (u8 \<Rightarrow> bool)) list" where
  "cf02a_mode_queries =
     [(0x31, 0x61, cf02a_get_silent_mode, \<lambda>b. b AND 1 = 0),
      (0x4D, 0x7D, cf02a_get_fd_mode, \<lambda>b. b AND 1 = 1),
      (0x33, 0x63, cf02a_get_iso_mode, \<lambda>b. b AND 1 = 1),
      (0x39, 0x69, cf02a_get_tx_rx_control, \<lambda>b. b = 1),
      (0x4F, 0x7E, cf02a_get_store_enable, \<lambda>b. b = 1)]"



lemma small_of_u32:
  assumes "(word_of_int z :: u32) \<le> b" "b \<le> 512" "- (2 ^ 31) \<le> z" "z < 2 ^ 31"
  shows "0 \<le> z \<and> z \<le> 512"
proof -
  have "(word_of_int z :: u32) \<le> 512" using assms(1,2) by (rule order_trans)
  then have m: "z mod 2 ^ 32 \<le> 512" by (simp add: word_le_def uint_word_of_int take_bit_eq_mod)
  show ?thesis
  proof (cases "0 \<le> z")
    case True
    then have "z mod 2 ^ 32 = z" using assms(4) by (intro mod_pos_pos_trivial) auto
    then show ?thesis using True m by simp
  next
    case False
    have "z mod 2 ^ 32 = (z + 2 ^ 32) mod 2 ^ 32" by simp
    also have "\<dots> = z + 2 ^ 32" using False assms(3) by (intro mod_pos_pos_trivial) auto
    finally show ?thesis using m assms(3) by simp
  qed
qed
lemma small_sum_of_u32:
  assumes "(word_of_int z :: u32) \<le> b" "b \<le> 512" "0 \<le> z" "z < 2 ^ 32"
  shows "z \<le> 512"
proof -
  have "(word_of_int z :: u32) \<le> 512" using assms(1,2) by (rule order_trans)
  then have "z mod 2 ^ 32 \<le> 512" by (simp add: word_le_def uint_word_of_int take_bit_eq_mod)
  moreover have "z mod 2 ^ 32 = z" using assms(3,4) by (intro mod_pos_pos_trivial) auto
  ultimately show ?thesis by simp
qed

lemma check_bit_timing_range:
  assumes "cf02a_check_bit_timing btc t"
    and "btc \<in> {cf02a_bittiming_const, cf02a_data_bittiming_const}"
    and "0 \<le> bt_prop_seg t" "0 \<le> bt_phase_seg1 t" "i32_range (bt_prop_seg t)" "i32_range (bt_phase_seg1 t)"
    and "i32_range (bt_phase_seg2 t)" "i32_range (bt_sjw t)" "i32_range (bt_brp t)"
  shows "bt_prop_seg t \<in> {0..<65536}" "bt_phase_seg1 t \<in> {0..<65536}"
    "bt_phase_seg2 t \<in> {0..<65536}" "bt_sjw t \<in> {0..<65536}" "bt_brp t \<in> {0..<65536}"
proof -
  have le: "word_of_int (bt_prop_seg t + bt_phase_seg1 t) \<le> tseg1_max btc"
    "word_of_int (bt_phase_seg2 t) \<le> tseg2_max btc" "word_of_int (bt_sjw t) \<le> sjw_max btc"
    "word_of_int (bt_brp t) \<le> brp_max btc"
    using assms(1) by (auto simp: cf02a_check_bit_timing_def Let_def not_less split: if_splits)
  have mx: "tseg1_max btc \<le> 512" "tseg2_max btc \<le> 512" "sjw_max btc \<le> 512" "brp_max btc \<le> 512"
    using assms(2) by (auto simp: cf02a_bittiming_const_def cf02a_data_bittiming_const_def)
  have "bt_prop_seg t + bt_phase_seg1 t \<le> 512"
    using small_sum_of_u32 [OF le(1) mx(1)] assms(3-6) by (simp add: i32_range_def)
  then show "bt_prop_seg t \<in> {0..<65536}" "bt_phase_seg1 t \<in> {0..<65536}"
    using assms(3,4) by auto
  show "bt_phase_seg2 t \<in> {0..<65536}" "bt_sjw t \<in> {0..<65536}" "bt_brp t \<in> {0..<65536}"
    using small_of_u32 [OF le(2) mx(2)] small_of_u32 [OF le(3) mx(3)] small_of_u32 [OF le(4) mx(4)] assms(7-9)
    by (auto simp: i32_range_def)
qed

text \<open>C2: setting a bit timing of the EP1-CF02A. A timing outside the device's limits is refused before
  anything is sent or changed. A timing that passes the check, with segments that are not negative,
  is packed into a request from which the parser of the device's own report gives back exactly that
  timing; the command then reports what the device answered, and the driver's copy of the timing
  becomes the new one exactly when the device accepted it.\<close>

theorem cf02a_set_bit_timing_correct:
  assumes "wait_ready w" and "u_bittiming_const uq = cf02a_bittiming_const"
    and "0 \<le> bt_prop_seg t" "0 \<le> bt_phase_seg1 t" "i32_range (bt_prop_seg t)" "i32_range (bt_phase_seg1 t)"
    and "i32_range (bt_phase_seg2 t)" "i32_range (bt_sjw t)" "i32_range (bt_brp t)"
  shows "(\<not> cf02a_check_bit_timing cf02a_bittiming_const t \<longrightarrow>
      cf02a_set_bit_timing w uq t = Some (RESULT_Failure, None, w, uq))
    \<and> (cf02a_check_bit_timing cf02a_bittiming_const t \<longrightarrow>
      (\<exists>pl. cf02a_msg_pack_set_bit_timing t (payload (stack_msg w)) = Some (RESULT_Success, pl)
        \<and> cf02a_msg_parse_response_get_bit_timing pl = Some (RESULT_Success, t)
        \<and> (\<forall>xss ok. device_answers w 0x34 pl 14 xss
              [MSG_SOB, 5, if ok then CMD_ACK else CMD_NACK, 0x34, MSG_EOB] \<longrightarrow>
            (\<exists>w'. cf02a_set_bit_timing w uq t
                = Some (RESULT_Success, Some ok, w', if ok then uq\<lparr>u_bittiming := t\<rparr> else uq)
              \<and> idle_again w w'
              \<and> sent w' = sent w @ [[MSG_SOB, 14, 0x34] @ take 10 pl @ [MSG_EOB]]))))"
proof (cases "cf02a_check_bit_timing cf02a_bittiming_const t")
  case True
  have pl: "length (payload (stack_msg w)) = 78" using msg_wf_payload [OF assms(1)] .
  have pl': "10 \<le> length (payload (stack_msg w))" using pl by simp
  obtain out where out: "cf02a_msg_pack_set_bit_timing t (payload (stack_msg w)) = Some (RESULT_Success, out)"
    "length out = 78" "cf02a_msg_parse_response_get_bit_timing out = Some (RESULT_Success, t)"
    using cf02a_bit_timing_bytes [OF pl' check_bit_timing_range [OF True _ assms(3-9)]] pl by auto
  have b: "msg_bytes (request 0x34 out 14) = [MSG_SOB, 14, 0x34] @ take 10 out @ [MSG_EOB]"
    by (simp add: msg_bytes_def)
  have "\<exists>w'. cf02a_set_bit_timing w uq t
        = Some (RESULT_Success, Some ok, w', if ok then uq\<lparr>u_bittiming := t\<rparr> else uq)
      \<and> idle_again w w' \<and> sent w' = sent w @ [[MSG_SOB, 14, 0x34] @ take 10 out @ [MSG_EOB]]"
    if dev: "device_answers w 0x34 out 14 xss [MSG_SOB, 5, if ok then CMD_ACK else CMD_NACK, 0x34, MSG_EOB]"
    for xss ok
  proof -
    obtain w' where "control w 0x34 (cf02a_msg_pack_set_bit_timing t) 14 = Some (RESULT_Success, Some ok, w')"
      "idle_again w w'" "sent w' = sent w @ [msg_bytes (request 0x34 out 14)]"
      using control_answer [where pack = "cf02a_msg_pack_set_bit_timing t", OF dev refl out(1,2)] by auto
    then show ?thesis using True b assms(2) by (simp add: cf02a_set_bit_timing_def set_common_control)
  qed
  then show ?thesis using True out(1,3) by blast
qed (simp add: cf02a_set_bit_timing_def assms(2))

text \<open>The timing for 500 kbit/s from the 80 MHz clock.\<close>

definition example_timing :: cf02a_bit_timing where
  "example_timing = \<lparr>bt_prop_seg = 29, bt_phase_seg1 = 30, bt_phase_seg2 = 20, bt_sjw = 1, bt_brp = 2\<rparr>"

lemma cf02a_set_bit_timing_correct_witness:
  "\<exists>pl. cf02a_msg_pack_set_bit_timing example_timing (replicate 78 0) = Some (RESULT_Success, pl)
     \<and> cf02a_msg_parse_response_get_bit_timing pl = Some (RESULT_Success, example_timing)
     \<and> (\<exists>w'. cf02a_set_bit_timing (answering_world CF02A [[0xF7, 5, 0x25], [0x34, 0xFA]])
           \<lparr>u_can_clock = 0, u_bittiming_const = cf02a_bittiming_const,
            u_data_bittiming_const = cf02a_data_bittiming_const,
            u_bittiming = example_timing, u_data_bittiming = example_timing\<rparr> example_timing
         = Some (RESULT_Success, Some True, w', \<lparr>u_can_clock = 0, u_bittiming_const = cf02a_bittiming_const,
            u_data_bittiming_const = cf02a_data_bittiming_const,
            u_bittiming = example_timing, u_data_bittiming = example_timing\<rparr>)
       \<and> sent w' = [[0xF7, 14, 0x34] @ take 10 pl @ [0xFA]])"
proof -
  let ?w = "answering_world CF02A [[0xF7, 5, 0x25], [0x34, 0xFA]]"
  let ?uq = "\<lparr>u_can_clock = 0, u_bittiming_const = cf02a_bittiming_const,
    u_data_bittiming_const = cf02a_data_bittiming_const,
    u_bittiming = example_timing, u_data_bittiming = example_timing\<rparr>"
  have check: "cf02a_check_bit_timing cf02a_bittiming_const example_timing"
    by (simp add: cf02a_check_bit_timing_def example_timing_def cf02a_bittiming_const_def)
  have dev: "device_answers ?w 0x34 pl 14 [[0xF7, 5, 0x25], [0x34, 0xFA]] [0xF7, 5, 0x25, 0x34, 0xFA]" for pl
  proof (rule answering_world_answers)
    show "scan (concat [[0xF7, 5, 0x25], [0x34, 0xFA]]) = ([[0xF7, 5, 0x25, 0x34, 0xFA]], [])"
      by (simp add: scan.simps classify_def)
  qed (simp_all add: frame_ok_of_def canfd_frame_ok_def answering_def answers_def frame_msg_def is_core_id_def
      core_answers_def seg_def)
  have stk: "payload (stack_msg ?w) = replicate 78 0" "sent ?w = []"
    by (simp_all add: answering_world_def world0_def)
  have "\<exists>pl. cf02a_msg_pack_set_bit_timing example_timing (payload (stack_msg ?w)) = Some (RESULT_Success, pl)
        \<and> cf02a_msg_parse_response_get_bit_timing pl = Some (RESULT_Success, example_timing)
        \<and> (\<forall>xss ok. device_answers ?w 0x34 pl 14 xss
              [MSG_SOB, 5, if ok then CMD_ACK else CMD_NACK, 0x34, MSG_EOB] \<longrightarrow>
            (\<exists>w'. cf02a_set_bit_timing ?w ?uq example_timing
                = Some (RESULT_Success, Some ok, w', if ok then ?uq\<lparr>u_bittiming := example_timing\<rparr> else ?uq)
              \<and> idle_again ?w w'
              \<and> sent w' = sent ?w @ [[MSG_SOB, 14, 0x34] @ take 10 pl @ [MSG_EOB]]))"
    using cf02a_set_bit_timing_correct [OF answering_world_ready, of ?uq example_timing CF02A] check
    by (simp add: example_timing_def i32_range_def)
  then obtain pl where pl: "cf02a_msg_pack_set_bit_timing example_timing (replicate 78 0) = Some (RESULT_Success, pl)"
    "cf02a_msg_parse_response_get_bit_timing pl = Some (RESULT_Success, example_timing)"
    "\<forall>xss ok. device_answers ?w 0x34 pl 14 xss
              [MSG_SOB, 5, if ok then CMD_ACK else CMD_NACK, 0x34, MSG_EOB] \<longrightarrow>
            (\<exists>w'. cf02a_set_bit_timing ?w ?uq example_timing
                = Some (RESULT_Success, Some ok, w', if ok then ?uq\<lparr>u_bittiming := example_timing\<rparr> else ?uq)
              \<and> idle_again ?w w'
              \<and> sent w' = sent ?w @ [[MSG_SOB, 14, 0x34] @ take 10 pl @ [MSG_EOB]])"
    unfolding stk(1) by blast
  show ?thesis
    using pl(1,2) pl(3) [rule_format, of "[[0xF7, 5, 0x25], [0x34, 0xFA]]" True] dev [of pl] stk(2) by auto
qed

end
