(* ===== verification/Cf02a_Bittiming.thy ===== *)
theory Cf02a_Bittiming
  imports Cf02a_Cmd
begin

text \<open>
  The calculation of bit timings of the EP1-CF02A: the first part of
  \<open>module/ep1_cf02a/ep1_cf02a_fops.c\<close>, derived from the Linux kernel's.

  Unsigned values are 32-bit words, with their wrap-around; a division by zero is \<open>None\<close>. The two
  output parameters of \<open>can_update_sample_point\<close> are passed and returned, since it may leave them alone.

  The lemmas: a sample point that is accepted splits the segments within their limits; the search
  returns a timing that passes the driver's own check and whose bit rate is off by at most 5 %, and no
  other choice of the segments is nearer to the bit rate.
\<close>

abbreviation (input) UINT_MAX :: u32 where "UINT_MAX \<equiv> 0xFFFFFFFF"
abbreviation (input) CAN_SYNC_SEG :: u32 where "CAN_SYNC_SEG \<equiv> 1"
abbreviation (input) CAN_CALC_MAX_ERROR :: u32 where "CAN_CALC_MAX_ERROR \<equiv> 50"

subsection \<open>Arithmetic\<close>

definition udiv :: "u32 \<Rightarrow> u32 \<Rightarrow> u32 option" where
  "udiv a b = (if b = 0 then None else Some (a div b))"

definition do_div :: "u64 \<Rightarrow> u32 \<Rightarrow> u64 option" where
  "do_div a b = (if b = 0 then None else Some (a div ucast b))"

text \<open>The division of \<open>int\<close>, which also traps when the quotient does not fit.\<close>

definition idiv :: "int \<Rightarrow> int \<Rightarrow> int option" where
  "idiv a b = (if b = 0 \<or> a = - (2 ^ 31) \<and> b = -1 then None else Some (a sdiv b))"

text \<open>The kernel's \<open>abs\<close> reads its unsigned argument as a signed one.\<close>

definition kernel_abs :: "u32 \<Rightarrow> u32" where
  "kernel_abs x = (if sint x < 0 then - x else x)"

subsection \<open>From a timing to a bit rate\<close>

definition cf02a_calc_bitrate ::
  "world \<Rightarrow> cf02a_unique \<Rightarrow> cf02a_bit_timing \<Rightarrow>
     (RESULT \<times> (int \<times> int) option \<times> world \<times> cf02a_unique) option" where
  "cf02a_calc_bitrate w uq timing = do {
     let all_tseg = i32_of (1 + bt_prop_seg timing + bt_phase_seg1 timing + bt_phase_seg2 timing);
     (result, can_clock, w, uq) \<leftarrow> cf02a_get_can_clock w uq;
     case (result, can_clock) of
       (RESULT_Success, Some clock) \<Rightarrow> do {
         bitrate \<leftarrow> idiv clock (i32_of (bt_brp timing * all_tseg));
         sample_point \<leftarrow> idiv (i32_of (1000 * (1 + bt_prop_seg timing + bt_phase_seg1 timing))) all_tseg;
         Some (RESULT_Success, Some (bitrate, sample_point), w, uq)
       }
     | _ \<Rightarrow> Some (RESULT_Failure, None, w, uq)
   }"

subsection \<open>From a bit rate to a timing\<close>

definition cf02a_can_sjw_set_default :: "can_bittiming \<Rightarrow> can_bittiming" where
  "cf02a_can_sjw_set_default bt =
     (if cb_sjw bt \<noteq> 0 then bt
      else bt\<lparr>cb_sjw := max 1 (min (cb_phase_seg1 bt) (cb_phase_seg2 bt div 2))\<rparr>)"

definition cf02a_can_sjw_check :: "can_bittiming \<Rightarrow> bittiming_const \<Rightarrow> int" where
  "cf02a_can_sjw_check bt btc =
     (if cb_sjw bt > sjw_max btc then -EINVAL
      else if cb_sjw bt > cb_phase_seg1 bt then -EINVAL
      else if cb_sjw bt > cb_phase_seg2 bt then -EINVAL
      else 0)"

definition cf02a_can_bit_time :: "can_bittiming \<Rightarrow> u32" where
  "cf02a_can_bit_time bt = CAN_SYNC_SEG + cb_prop_seg bt + cb_phase_seg1 bt + cb_phase_seg2 bt"

text \<open>What a call of \<open>can_update_sample_point\<close> carries through its loop: the best sample point, its error,
  and the two output parameters.\<close>

record sample_search =
  best_sample_point :: u32
  best_error :: u32
  out_tseg1 :: u32
  out_tseg2 :: u32

definition split_tseg :: "bittiming_const \<Rightarrow> u32 \<Rightarrow> u32 \<Rightarrow> u32 \<Rightarrow> u32 \<times> u32" where
  "split_tseg btc nominal tseg i =
     (let tseg2 = tseg + CAN_SYNC_SEG - (nominal * (tseg + CAN_SYNC_SEG)) div 1000 - i;
          tseg2 = min (max tseg2 (tseg2_min btc)) (tseg2_max btc);
          tseg1 = tseg - tseg2
      in if tseg1 > tseg1_max btc then (tseg1_max btc, tseg - tseg1_max btc) else (tseg1, tseg2))"

definition try_sample_point ::
  "bittiming_const \<Rightarrow> u32 \<Rightarrow> u32 \<Rightarrow> u32 \<Rightarrow> sample_search \<Rightarrow> sample_search option" where
  "try_sample_point btc nominal tseg i s = do {
     let (tseg1, tseg2) = split_tseg btc nominal tseg i;
     sample_point \<leftarrow> udiv (1000 * (tseg + CAN_SYNC_SEG - tseg2)) (tseg + CAN_SYNC_SEG);
     let error = kernel_abs (nominal - sample_point);
     if sample_point \<le> nominal \<and> error < best_error s
     then Some \<lparr>best_sample_point = sample_point, best_error = error, out_tseg1 = tseg1, out_tseg2 = tseg2\<rparr>
     else Some s
   }"

definition cf02a_can_update_sample_point ::
  "bittiming_const \<Rightarrow> u32 \<Rightarrow> u32 \<Rightarrow> u32 \<Rightarrow> u32 \<Rightarrow> sample_search option" where
  "cf02a_can_update_sample_point btc nominal tseg tseg1 tseg2 = do {
     let s = \<lparr>best_sample_point = 0, best_error = UINT_MAX, out_tseg1 = tseg1, out_tseg2 = tseg2\<rparr>;
     s \<leftarrow> try_sample_point btc nominal tseg 0 s;
     try_sample_point btc nominal tseg 1 s
   }"

text \<open>The variables of the search for \<open>tseg\<close> and \<open>brp\<close>.\<close>

record tseg_search =
  best_bitrate_error :: u32
  best_sample_point_error :: u32
  best_tseg :: u32
  best_brp :: u32
  cur_tseg1 :: u32
  cur_tseg2 :: u32

text \<open>One pass of the loop; the flag says that it breaks.\<close>

definition candidate_brp :: "u32 \<Rightarrow> u32 \<Rightarrow> bittiming_const \<Rightarrow> u32 \<Rightarrow> u32 option" where
  "candidate_brp clock_freq bitrate btc tseg = do {
     let tsegall = CAN_SYNC_SEG + tseg div 2;
     q \<leftarrow> udiv clock_freq (tsegall * bitrate);
     n \<leftarrow> udiv (q + tseg mod 2) (brp_inc btc);
     Some (n * brp_inc btc)
   }"

definition try_tseg ::
  "u32 \<Rightarrow> u32 \<Rightarrow> bittiming_const \<Rightarrow> u32 \<Rightarrow> u32 \<Rightarrow> tseg_search \<Rightarrow> (bool \<times> tseg_search) option" where
  "try_tseg clock_freq bitrate btc nominal tseg s = do {
     let tsegall = CAN_SYNC_SEG + tseg div 2;
     brp \<leftarrow> candidate_brp clock_freq bitrate btc tseg;
     if brp < brp_min btc \<or> brp > brp_max btc then Some (False, s)
     else do {
       rate \<leftarrow> udiv clock_freq (brp * tsegall);
       let bitrate_error = kernel_abs (bitrate - rate);
       if bitrate_error > best_bitrate_error s then Some (False, s)
       else do {
         let s = (if bitrate_error < best_bitrate_error s then s\<lparr>best_sample_point_error := UINT_MAX\<rparr> else s);
         p \<leftarrow> cf02a_can_update_sample_point btc nominal (tseg div 2) (cur_tseg1 s) (cur_tseg2 s);
         let s = s\<lparr>cur_tseg1 := out_tseg1 p, cur_tseg2 := out_tseg2 p\<rparr>;
         if best_error p \<ge> best_sample_point_error s then Some (False, s)
         else Some (bitrate_error = 0 \<and> best_error p = 0,
           s\<lparr>best_sample_point_error := best_error p, best_bitrate_error := bitrate_error,
             best_tseg := tseg div 2, best_brp := brp\<rparr>)
       }
     }
   }"

text \<open>The loop counts \<open>tseg\<close> down; it does not end when the lower bound is zero.\<close>

partial_function (option) search_tseg ::
  "u32 \<Rightarrow> u32 \<Rightarrow> bittiming_const \<Rightarrow> u32 \<Rightarrow> u32 \<Rightarrow> tseg_search \<Rightarrow> tseg_search option" where
  "search_tseg clock_freq bitrate btc nominal tseg s =
     (if tseg \<ge> (tseg1_min btc + tseg2_min btc) * 2 then
        try_tseg clock_freq bitrate btc nominal tseg s \<bind> (\<lambda>(stop, s).
          if stop then Some s else search_tseg clock_freq bitrate btc nominal (tseg - 1) s)
      else Some s)"

declare search_tseg.simps [code]

definition nominal_sample_point :: "can_bittiming \<Rightarrow> u32" where
  "nominal_sample_point bt =
     (if cb_sample_point bt \<noteq> 0 then cb_sample_point bt
      else if cb_bitrate bt > 800000 then 750
      else if cb_bitrate bt > 500000 then 800
      else 875)"

text \<open>The bit rate error in one-tenth of a percent is too high.\<close>

definition bitrate_error_too_high :: "u32 \<Rightarrow> u32 \<Rightarrow> bool option" where
  "bitrate_error_too_high found_error bitrate =
     (if found_error = 0 then Some False
      else do {
        v64 \<leftarrow> do_div (ucast found_error * 1000) bitrate;
        Some (ucast v64 > CAN_CALC_MAX_ERROR)
      })"

definition cf02a_can_calc_bittiming ::
  "u32 \<Rightarrow> can_bittiming \<Rightarrow> bittiming_const \<Rightarrow> (int \<times> can_bittiming) option" where
  "cf02a_can_calc_bittiming clock_freq bt btc = do {
     let nominal = nominal_sample_point bt;
     s \<leftarrow> search_tseg clock_freq (cb_bitrate bt) btc nominal ((tseg1_max btc + tseg2_max btc) * 2 + 1)
            \<lparr>best_bitrate_error = UINT_MAX, best_sample_point_error = UINT_MAX, best_tseg = 0, best_brp = 0,
             cur_tseg1 = 0, cur_tseg2 = 0\<rparr>;
     bad \<leftarrow> bitrate_error_too_high (best_bitrate_error s) (cb_bitrate bt);
     if bad then Some (-EINVAL, bt)
     else do {
       p \<leftarrow> cf02a_can_update_sample_point btc nominal (best_tseg s) (cur_tseg1 s) (cur_tseg2 s);
       v64 \<leftarrow> do_div (ucast (best_brp s) * 1000 * 1000 * 1000) clock_freq;
       let bt = bt\<lparr>cb_sample_point := best_sample_point p, cb_tq := ucast v64,
                   cb_prop_seg := out_tseg1 p div 2,
                   cb_phase_seg1 := out_tseg1 p - out_tseg1 p div 2, cb_phase_seg2 := out_tseg2 p\<rparr>;
       let bt = cf02a_can_sjw_set_default bt;
       let err = cf02a_can_sjw_check bt btc;
       if err \<noteq> 0 then Some (err, bt)
       else do {
         let bt = bt\<lparr>cb_brp := best_brp s\<rparr>;
         rate \<leftarrow> udiv clock_freq (cb_brp bt * cf02a_can_bit_time bt);
         Some (0, bt\<lparr>cb_bitrate := rate\<rparr>)
       }
     }
   }"

definition bit_timing_of :: "can_bittiming \<Rightarrow> cf02a_bit_timing" where
  "bit_timing_of bt =
     \<lparr>bt_prop_seg = sint (cb_prop_seg bt), bt_phase_seg1 = sint (cb_phase_seg1 bt),
      bt_phase_seg2 = sint (cb_phase_seg2 bt), bt_sjw = sint (cb_sjw bt), bt_brp = sint (cb_brp bt)\<rparr>"

definition cf02a_calc_bit_timing ::
  "world \<Rightarrow> cf02a_unique \<Rightarrow> int \<Rightarrow> int \<Rightarrow> bittiming_const \<Rightarrow>
     (RESULT \<times> cf02a_bit_timing option \<times> world \<times> cf02a_unique) option" where
  "cf02a_calc_bit_timing w uq bitrate sample_point btc = do {
     (result, can_clock, w, uq) \<leftarrow> cf02a_get_can_clock w uq;
     case (result, can_clock) of
       (RESULT_Success, Some clock) \<Rightarrow> do {
         (err, bt) \<leftarrow> cf02a_can_calc_bittiming (word_of_int clock)
           \<lparr>cb_bitrate = word_of_int bitrate, cb_sample_point = word_of_int sample_point, cb_tq = 0,
            cb_prop_seg = 0, cb_phase_seg1 = 0, cb_phase_seg2 = 0, cb_sjw = 0, cb_brp = 0\<rparr> btc;
         if err \<noteq> 0 then Some (RESULT_Failure, None, w, uq)
         else Some (RESULT_Success, Some (bit_timing_of bt), w, uq)
       }
     | _ \<Rightarrow> Some (RESULT_Failure, None, w, uq)
   }"


subsection \<open>Splitting the segments\<close>

text \<open>The limits the lemmas need, which both of the driver's constants have.\<close>

definition btc_ok :: "bittiming_const \<Rightarrow> bool" where
  "btc_ok btc \<longleftrightarrow> tseg1_min btc = 1 \<and> 1 \<le> tseg2_min btc \<and> tseg2_min btc \<le> tseg2_max btc
     \<and> tseg2_max btc \<le> tseg1_max btc \<and> tseg1_max btc \<le> 256
     \<and> brp_inc btc = 1 \<and> 1 \<le> brp_min btc \<and> brp_max btc \<le> 512"

lemma btc_ok: "btc_ok cf02a_bittiming_const" "btc_ok cf02a_data_bittiming_const"
  by (simp_all add: btc_ok_def cf02a_bittiming_const_def cf02a_data_bittiming_const_def)

lemma btc_ok_unat:
  assumes "btc_ok btc"
  shows "1 \<le> unat (tseg2_min btc)" "unat (tseg2_min btc) \<le> unat (tseg2_max btc)"
    "unat (tseg2_max btc) \<le> unat (tseg1_max btc)" "unat (tseg1_max btc) \<le> 256"
    "1 \<le> unat (brp_min btc)" "unat (brp_max btc) \<le> 512"
  using assms unfolding btc_ok_def word_le_nat_alt by simp_all

definition split_ok :: "bittiming_const \<Rightarrow> u32 \<Rightarrow> u32 \<Rightarrow> u32 \<Rightarrow> bool" where
  "split_ok btc tseg t1 t2 \<longleftrightarrow> unat t1 + unat t2 = unat tseg \<and> t1 \<le> tseg1_max btc
     \<and> tseg2_min btc \<le> t2 \<and> t2 \<le> tseg2_max btc"

lemma unat_sub_wrap: "unat (b :: u32) > unat a \<Longrightarrow> unat (a - b) = 2 ^ 32 - (unat b - unat a)"
  using unat_sub_if_size [of a b] by (simp add: word_size)

lemma unat_sub_le: "unat (b :: u32) \<le> unat a \<Longrightarrow> unat (a - b) = unat a - unat b"
  by (simp add: unat_sub word_le_nat_alt)

lemma split_tseg_ok:
  assumes btc: "btc_ok btc" and tseg: "tseg \<le> tseg1_max btc + tseg2_max btc" and nom: "nominal < 1000"
    and split: "split_tseg btc nominal tseg i = (t1, t2)"
    and sp: "(1000 * (tseg + 1 - t2)) div (tseg + 1) \<le> nominal"
  shows "split_ok btc tseg t1 t2"
proof -
  note b = btc_ok_unat [OF btc]
  define a where "a = min (max (tseg + 1 - (nominal * (tseg + 1)) div 1000 - i) (tseg2_min btc)) (tseg2_max btc)"
  have a: "tseg2_min btc \<le> a" "a \<le> tseg2_max btc"
    using btc unfolding a_def btc_ok_def by simp_all
  have A: "unat (tseg2_min btc) \<le> unat a" "unat a \<le> unat (tseg2_max btc)"
    using a by (simp_all add: word_le_nat_alt)
  have s: "(t1, t2) = (if tseg - a > tseg1_max btc then (tseg1_max btc, tseg - tseg1_max btc) else (tseg - a, a))"
    using split unfolding split_tseg_def a_def Let_def by simp
  have "unat (tseg1_max btc + tseg2_max btc) = unat (tseg1_max btc) + unat (tseg2_max btc)"
    using b by (subst unat_plus_simple [THEN iffD1]) (simp_all add: no_olen_add_nat)
  then have T: "unat tseg \<le> unat (tseg1_max btc) + unat (tseg2_max btc)"
    using tseg by (simp add: word_le_nat_alt)
  show ?thesis
  proof (cases "unat a \<le> unat tseg")
    case True
    have d: "unat (tseg - a) = unat tseg - unat a" using True by (rule unat_sub_le)
    show ?thesis
    proof (cases "tseg - a > tseg1_max btc")
      case gt: True
      then have g: "unat (tseg1_max btc) < unat tseg - unat a" using d by (simp add: word_less_nat_alt)
      then have "unat (tseg - tseg1_max btc) = unat tseg - unat (tseg1_max btc)" by (intro unat_sub_le) simp
      then show ?thesis using s gt g T A unfolding split_ok_def word_le_nat_alt by simp arith
    next
      case False
      then have "t1 = tseg - a" "t2 = a" using s by simp_all
      then show ?thesis using False d a True unfolding split_ok_def by (simp add: word_le_nat_alt not_less)
    qed
  next
    case False
    then have lt: "unat tseg < unat (tseg1_max btc)" using A b by simp
    have "unat (tseg - a) = 2 ^ 32 - (unat a - unat tseg)" using False by (intro unat_sub_wrap) simp
    then have "tseg - a > tseg1_max btc" using A b by (simp add: word_less_nat_alt)
    then have t2: "t2 = tseg - tseg1_max btc" using s by simp
    have c1: "tseg + 1 - t2 = 1 + tseg1_max btc" using t2 by simp
    have c2: "unat (1 + tseg1_max btc) = 1 + unat (tseg1_max btc)"
      using b by (subst unat_plus_simple [THEN iffD1]) (simp_all add: no_olen_add_nat)
    have c3: "unat (tseg + 1) = unat tseg + 1"
      using lt b by (subst unat_plus_simple [THEN iffD1]) (simp_all add: no_olen_add_nat)
    have c4: "unat (1000 * (1 + tseg1_max btc)) = 1000 * (1 + unat (tseg1_max btc))"
      using b c2 by (subst unat_mult_lem [THEN iffD1]) simp_all
    have "(1000 * (1 + unat (tseg1_max btc))) div (unat tseg + 1) \<le> unat nominal"
      using sp unfolding c1 word_le_nat_alt unat_div c4 c3 .
    moreover have "unat nominal < 1000" using nom by (simp add: word_less_nat_alt)
    moreover have "1000 * (unat tseg + 1) \<le> 1000 * (1 + unat (tseg1_max btc))" using lt by simp
    then have "1000 \<le> (1000 * (1 + unat (tseg1_max btc))) div (unat tseg + 1)"
      by (subst less_eq_div_iff_mult_less_eq) simp_all
    ultimately show ?thesis by simp
  qed
qed

text \<open>An accepted sample point: the split is within the limits, and the results do not depend on what the
  output parameters held before.\<close>

lemma le_UINT_MAX [simp]: "x \<le> UINT_MAX"
proof -
  have "unat x < 2 ^ LENGTH(32)" by (rule unsigned_less)
  then show ?thesis by (simp add: word_le_nat_alt)
qed

lemma kernel_abs_less: "kernel_abs x < UINT_MAX"
proof -
  have "sint x < 0 \<or> sint x \<ge> 0" by arith
  moreover have "x \<noteq> UINT_MAX" if "0 \<le> sint x" using that by auto
  moreover have "- x \<noteq> UINT_MAX" if "sint x < 0"
  proof
    assume "- x = UINT_MAX"
    then have "x = - UINT_MAX" by (metis minus_equation_iff)
    then show False using that by simp
  qed
  ultimately show ?thesis by (auto simp: kernel_abs_def less_le)
qed

lemma try_sample_point_Some:
  assumes "tseg + 1 \<noteq> 0"
  shows "try_sample_point btc nominal tseg i s =
    (let (t1, t2) = split_tseg btc nominal tseg i;
         p = (1000 * (tseg + 1 - t2)) div (tseg + 1);
         e = kernel_abs (nominal - p)
     in Some (if p \<le> nominal \<and> e < best_error s
              then \<lparr>best_sample_point = p, best_error = e, out_tseg1 = t1, out_tseg2 = t2\<rparr> else s))"
  using assms by (simp add: try_sample_point_def udiv_def Let_def split: prod.split)

lemma update_sample_point:
  assumes tseg: "tseg + 1 \<noteq> 0"
  shows "\<exists>p. cf02a_can_update_sample_point btc nominal tseg a b = Some p
    \<and> (best_error p = UINT_MAX \<longrightarrow> p = \<lparr>best_sample_point = 0, best_error = UINT_MAX, out_tseg1 = a, out_tseg2 = b\<rparr>)
    \<and> (best_error p \<noteq> UINT_MAX \<longrightarrow> (\<forall>a' b'. cf02a_can_update_sample_point btc nominal tseg a' b' = Some p))
    \<and> (best_error p \<noteq> UINT_MAX \<longrightarrow> btc_ok btc \<longrightarrow> tseg \<le> tseg1_max btc + tseg2_max btc \<longrightarrow> nominal < 1000 \<longrightarrow>
         split_ok btc tseg (out_tseg1 p) (out_tseg2 p))"
  unfolding cf02a_can_update_sample_point_def try_sample_point_Some [OF tseg] Let_def
  using kernel_abs_less [THEN less_imp_neq] kernel_abs_less
  by (auto split: prod.splits if_splits intro: split_tseg_ok)

subsection \<open>The search\<close>

abbreviation (input) tseg_low :: "bittiming_const \<Rightarrow> u32" where
  "tseg_low btc \<equiv> (tseg1_min btc + tseg2_min btc) * 2"
abbreviation (input) tseg_high :: "bittiming_const \<Rightarrow> u32" where
  "tseg_high btc \<equiv> (tseg1_max btc + tseg2_max btc) * 2 + 1"

text \<open>What a choice of \<open>tseg\<close> would give: how far its bit rate is off, when its prescaler is within the
  limits and it has a sample point that is not too late.\<close>

definition candidate_error :: "u32 \<Rightarrow> u32 \<Rightarrow> bittiming_const \<Rightarrow> u32 \<Rightarrow> u32 \<Rightarrow> u32 option" where
  "candidate_error clock_freq bitrate btc nominal tseg = do {
     brp \<leftarrow> candidate_brp clock_freq bitrate btc tseg;
     if brp < brp_min btc \<or> brp > brp_max btc then None
     else do {
       rate \<leftarrow> udiv clock_freq (brp * (CAN_SYNC_SEG + tseg div 2));
       p \<leftarrow> cf02a_can_update_sample_point btc nominal (tseg div 2) 0 0;
       if best_error p = UINT_MAX then None else Some (kernel_abs (bitrate - rate))
     }
   }"

lemma tseg_bounds:
  assumes "btc_ok btc"
  shows "unat (tseg_low btc) = 2 * (1 + unat (tseg2_min btc))"
    "unat (tseg_high btc) = 2 * (unat (tseg1_max btc) + unat (tseg2_max btc)) + 1"
    "unat (tseg1_max btc + tseg2_max btc) = unat (tseg1_max btc) + unat (tseg2_max btc)"
proof -
  note b = btc_ok_unat [OF assms]
  have m: "tseg1_min btc = 1" using assms by (simp add: btc_ok_def)
  have l: "unat (1 + tseg2_min btc) = 1 + unat (tseg2_min btc)"
    using b by (subst unat_plus_simple [THEN iffD1]) (simp_all add: no_olen_add_nat)
  then show "unat (tseg_low btc) = 2 * (1 + unat (tseg2_min btc))"
    unfolding m using b by (subst unat_mult_lem [THEN iffD1]) simp_all
  show s: "unat (tseg1_max btc + tseg2_max btc) = unat (tseg1_max btc) + unat (tseg2_max btc)"
    using b by (subst unat_plus_simple [THEN iffD1]) (simp_all add: no_olen_add_nat)
  have d: "unat ((tseg1_max btc + tseg2_max btc) * 2) = 2 * (unat (tseg1_max btc) + unat (tseg2_max btc))"
    using b s by (subst unat_mult_lem [THEN iffD1]) simp_all
  show "unat (tseg_high btc) = 2 * (unat (tseg1_max btc) + unat (tseg2_max btc)) + 1"
    using b d by (subst unat_plus_simple [THEN iffD1]) (simp_all add: no_olen_add_nat)
qed

lemma tseg_half:
  assumes "btc_ok btc" and "tseg \<le> tseg_high btc"
  shows "tseg div 2 \<le> tseg1_max btc + tseg2_max btc" "unat (1 + tseg div 2) = 1 + unat tseg div 2"
    "1 + unat tseg div 2 \<le> 513" "tseg div 2 + 1 \<noteq> 0"
proof -
  have t: "unat tseg \<le> 2 * (unat (tseg1_max btc) + unat (tseg2_max btc)) + 1"
    using assms tseg_bounds(2) [OF assms(1)] by (simp add: word_le_nat_alt)
  have h: "unat (tseg div 2) = unat tseg div 2" by (simp add: unat_div)
  show "tseg div 2 \<le> tseg1_max btc + tseg2_max btc"
    using t by (simp add: word_le_nat_alt h tseg_bounds(3) [OF assms(1)])
  show b: "1 + unat tseg div 2 \<le> 513" using t btc_ok_unat [OF assms(1)] by simp
  show u: "unat (1 + tseg div 2) = 1 + unat tseg div 2"
    using b h by (subst unat_plus_simple [THEN iffD1]) (simp_all add: no_olen_add_nat)
  show "tseg div 2 + 1 \<noteq> 0" using u by (metis add.commute nat.simps(3) plus_1_eq_Suc unat_0)
qed

lemma small_product:
  assumes "unat (a :: u32) * unat (b :: u32) < 2 ^ 32" and "a \<noteq> 0" and "b \<noteq> 0"
  shows "unat (a * b) = unat a * unat b" "a * b \<noteq> 0"
proof -
  show u: "unat (a * b) = unat a * unat b" using assms(1) by (subst unat_mult_lem [THEN iffD1]) simp_all
  show "a * b \<noteq> 0" using u assms(2,3) by (metis mult_eq_0_iff unat_0 unat_eq_zero)
qed

lemma candidate_brp_Some:
  assumes "btc_ok btc" and "tseg \<le> tseg_high btc" and "bitrate \<noteq> 0" and "unat bitrate * 513 < 2 ^ 32"
  shows "candidate_brp clock_freq bitrate btc tseg
    = Some (clock_freq div ((1 + tseg div 2) * bitrate) + tseg mod 2)"
proof -
  note h = tseg_half [OF assms(1,2)]
  have "unat (1 + tseg div 2) * unat bitrate \<le> 513 * unat bitrate" using h by (intro mult_right_mono) simp_all
  then have "unat (1 + tseg div 2) * unat bitrate < 2 ^ 32"
    by (rule le_less_trans) (use assms(4) in simp)
  then have "(1 + tseg div 2) * bitrate \<noteq> 0"
    using assms(3) h(4) by (intro small_product(2)) (simp_all add: add.commute)
  moreover have "brp_inc btc = 1" using assms(1) by (simp add: btc_ok_def)
  ultimately show ?thesis by (simp add: candidate_brp_def udiv_def)
qed

lemma candidate_rate_Some:
  assumes "btc_ok btc" and "tseg \<le> tseg_high btc" and "\<not> (brp < brp_min btc \<or> brp > brp_max btc)"
  shows "udiv clock_freq (brp * (1 + tseg div 2)) = Some (clock_freq div (brp * (1 + tseg div 2)))"
proof -
  note h = tseg_half [OF assms(1,2)] and b = btc_ok_unat [OF assms(1)]
  have u: "1 \<le> unat brp" "unat brp \<le> 512" using assms(3) b by (auto simp: word_le_nat_alt not_less)
  have "unat brp * unat (1 + tseg div 2) \<le> 512 * 513" using u h by (intro mult_mono) simp_all
  moreover have "brp \<noteq> 0" using u(1) by auto
  ultimately have "brp * (1 + tseg div 2) \<noteq> 0"
    using h(4) by (intro small_product(2)) (simp_all add: add.commute)
  then show ?thesis by (simp add: udiv_def)
qed

text \<open>The state of the search holds nothing, or a timing within the limits.\<close>

definition search_ok :: "u32 \<Rightarrow> u32 \<Rightarrow> bittiming_const \<Rightarrow> u32 \<Rightarrow> tseg_search \<Rightarrow> bool" where
  "search_ok clock_freq bitrate btc nominal s \<longleftrightarrow> best_bitrate_error s = UINT_MAX \<or>
     (best_bitrate_error s = kernel_abs (bitrate - clock_freq div (best_brp s * (1 + best_tseg s)))
      \<and> best_tseg s \<le> tseg1_max btc + tseg2_max btc \<and> best_tseg s + 1 \<noteq> 0
      \<and> brp_min btc \<le> best_brp s \<and> best_brp s \<le> brp_max btc
      \<and> (\<exists>p. (\<forall>a b. cf02a_can_update_sample_point btc nominal (best_tseg s) a b = Some p)
           \<and> split_ok btc (best_tseg s) (out_tseg1 p) (out_tseg2 p)))"

lemma try_tseg_eq:
  assumes "candidate_brp clock_freq bitrate btc tseg = Some brp" and "\<not> (brp < brp_min btc \<or> brp > brp_max btc)"
    and "udiv clock_freq (brp * (1 + tseg div 2)) = Some rate"
    and "cf02a_can_update_sample_point btc nominal (tseg div 2) (cur_tseg1 s) (cur_tseg2 s) = Some p"
  shows "try_tseg clock_freq bitrate btc nominal tseg s =
    (let e = kernel_abs (bitrate - rate);
         sp = (if e < best_bitrate_error s then UINT_MAX else best_sample_point_error s);
         s' = s\<lparr>best_sample_point_error := sp, cur_tseg1 := out_tseg1 p, cur_tseg2 := out_tseg2 p\<rparr>
     in if e > best_bitrate_error s then Some (False, s)
        else if best_error p \<ge> sp then Some (False, s')
        else Some (e = 0 \<and> best_error p = 0,
          s'\<lparr>best_sample_point_error := best_error p, best_bitrate_error := e, best_tseg := tseg div 2,
             best_brp := brp\<rparr>))"
  using assms by (simp add: try_tseg_def Let_def)

lemma try_tseg_ok:
  assumes btc: "btc_ok btc" and tseg: "tseg \<le> tseg_high btc" and nom: "nominal < 1000"
    and bit: "bitrate \<noteq> 0" "unat bitrate * 513 < 2 ^ 32" and s: "search_ok clock_freq bitrate btc nominal s"
  shows "\<exists>b s'. try_tseg clock_freq bitrate btc nominal tseg s = Some (b, s')
    \<and> search_ok clock_freq bitrate btc nominal s' \<and> best_bitrate_error s' \<le> best_bitrate_error s
    \<and> (\<forall>e. candidate_error clock_freq bitrate btc nominal tseg = Some e \<longrightarrow> best_bitrate_error s' \<le> e)
    \<and> (b \<longrightarrow> best_bitrate_error s' = 0)"
proof -
  note h = tseg_half [OF btc tseg]
  obtain brp where brp: "candidate_brp clock_freq bitrate btc tseg = Some brp"
    using candidate_brp_Some [OF btc tseg bit] by blast
  show ?thesis
  proof (cases "brp < brp_min btc \<or> brp > brp_max btc")
    case False
    let ?rate = "clock_freq div (brp * (1 + tseg div 2))"
    let ?e = "kernel_abs (bitrate - ?rate)"
    note rate = candidate_rate_Some [OF btc tseg False, of clock_freq]
    obtain p where p: "cf02a_can_update_sample_point btc nominal (tseg div 2) (cur_tseg1 s) (cur_tseg2 s) = Some p"
      "best_error p \<noteq> UINT_MAX \<Longrightarrow> cf02a_can_update_sample_point btc nominal (tseg div 2) a b = Some p"
      "best_error p \<noteq> UINT_MAX \<Longrightarrow> split_ok btc (tseg div 2) (out_tseg1 p) (out_tseg2 p)" for a b
      using update_sample_point [OF h(4), of btc nominal "cur_tseg1 s" "cur_tseg2 s"] btc h(1) nom by blast
    obtain p0 where p0: "cf02a_can_update_sample_point btc nominal (tseg div 2) 0 0 = Some p0"
      "best_error p0 \<noteq> UINT_MAX \<Longrightarrow> p0 = p"
      using update_sample_point [OF h(4), of btc nominal 0 0] p(1) by fastforce
    have cand: "candidate_error clock_freq bitrate btc nominal tseg
        = (if best_error p0 = UINT_MAX then None else Some ?e)"
      unfolding candidate_error_def brp rate p0 using False rate p0(1) by simp
    let ?sp = "if ?e < best_bitrate_error s then UINT_MAX else best_sample_point_error s"
    note eq = try_tseg_eq [OF brp False rate p(1)]
    consider (worse) "best_bitrate_error s < ?e" | (late) "?e \<le> best_bitrate_error s" "?sp \<le> best_error p"
      | (better) "?e \<le> best_bitrate_error s" "best_error p < ?sp" by fastforce
    then show ?thesis
    proof cases
      case worse
      then have "try_tseg clock_freq bitrate btc nominal tseg s = Some (False, s)"
        unfolding eq Let_def by (simp only: if_True)
      moreover have "candidate_error clock_freq bitrate btc nominal tseg = Some e \<Longrightarrow> best_bitrate_error s \<le> e" for e
        using cand worse by (simp add: less_imp_le split: if_splits)
      ultimately show ?thesis using s by (metis order_refl)
    next
      case late
      have "try_tseg clock_freq bitrate btc nominal tseg s
          = Some (False, s\<lparr>best_sample_point_error := ?sp, cur_tseg1 := out_tseg1 p, cur_tseg2 := out_tseg2 p\<rparr>)"
        unfolding eq Let_def by (simp only: if_not_P [OF leD [OF late(1)]] if_P [OF late(2)])
      moreover have "best_bitrate_error s \<le> e" if "candidate_error clock_freq bitrate btc nominal tseg = Some e" for e
      proof -
        have "best_error p \<noteq> UINT_MAX" "e = ?e" using that cand p0(2) by (auto split: if_splits)
        then have "\<not> ?e < best_bitrate_error s" using late(2) antisym [OF le_UINT_MAX [of "best_error p"]] by auto
        then show ?thesis using \<open>e = ?e\<close> by simp
      qed
      moreover have "search_ok clock_freq bitrate btc nominal
          (s\<lparr>best_sample_point_error := x, cur_tseg1 := y, cur_tseg2 := z\<rparr>)" for x y z
        using s by (simp add: search_ok_def)
      ultimately show ?thesis by fastforce
    next
      case better
      then have ne: "best_error p \<noteq> UINT_MAX" by (metis le_UINT_MAX not_less)
      let ?s = "s\<lparr>best_sample_point_error := ?sp, cur_tseg1 := out_tseg1 p, cur_tseg2 := out_tseg2 p,
              best_sample_point_error := best_error p, best_bitrate_error := ?e,
              best_tseg := tseg div 2, best_brp := brp\<rparr>"
      have "try_tseg clock_freq bitrate btc nominal tseg s = Some (?e = 0 \<and> best_error p = 0, ?s)"
        unfolding eq Let_def by (simp only: if_not_P [OF leD [OF better(1)]] if_not_P [OF less_le_not_le [THEN iffD1, THEN conjunct2, OF better(2)]])
      moreover have "search_ok clock_freq bitrate btc nominal ?s"
        using p(2,3) [OF ne] False h(1,4) unfolding search_ok_def not_less de_Morgan_disj
        by (intro disjI2 conjI exI [of _ p]) simp_all
      moreover have "best_bitrate_error ?s = ?e" by simp
      moreover have "candidate_error clock_freq bitrate btc nominal tseg = Some e \<Longrightarrow> ?e \<le> e" for e
        using cand by (simp split: if_splits)
      ultimately show ?thesis using better(1)
        by (intro exI [of _ "?e = 0 \<and> best_error p = 0"] exI [of _ ?s]) (simp only: simp_thms, blast)
    qed
  qed (use s brp in \<open>auto simp: try_tseg_def candidate_error_def\<close>)
qed

lemma search_tseg_ok:
  assumes btc: "btc_ok btc" and nom: "nominal < 1000" and bit: "bitrate \<noteq> 0" "unat bitrate * 513 < 2 ^ 32"
    and "tseg \<le> tseg_high btc" and "search_ok clock_freq bitrate btc nominal s"
    and "\<forall>t e. tseg < t \<and> t \<le> tseg_high btc \<and> candidate_error clock_freq bitrate btc nominal t = Some e
      \<longrightarrow> best_bitrate_error s \<le> e"
  shows "\<exists>s'. search_tseg clock_freq bitrate btc nominal tseg s = Some s'
    \<and> search_ok clock_freq bitrate btc nominal s'
    \<and> (\<forall>t e. tseg_low btc \<le> t \<and> t \<le> tseg_high btc \<and> candidate_error clock_freq bitrate btc nominal t = Some e
         \<longrightarrow> best_bitrate_error s' \<le> e)"
  using assms(5-7)
proof (induction "unat tseg" arbitrary: tseg s rule: less_induct)
  case less
  show ?case
  proof (cases "tseg_low btc \<le> tseg")
    case True
    obtain b s1 where 1: "try_tseg clock_freq bitrate btc nominal tseg s = Some (b, s1)"
      "search_ok clock_freq bitrate btc nominal s1" "best_bitrate_error s1 \<le> best_bitrate_error s"
      "\<forall>e. candidate_error clock_freq bitrate btc nominal tseg = Some e \<longrightarrow> best_bitrate_error s1 \<le> e"
      "b \<longrightarrow> best_bitrate_error s1 = 0"
      using try_tseg_ok [OF btc less.prems(1) nom bit less.prems(2)] by blast
    show ?thesis
    proof (cases b)
      case True
      then show ?thesis using 1 \<open>tseg_low btc \<le> tseg\<close> by (subst search_tseg.simps) simp
    next
      case False
      have pos: "0 < unat tseg" using True tseg_bounds(1) [OF btc] by (simp add: word_le_nat_alt)
      then have d: "unat (tseg - 1) = unat tseg - 1" by (simp add: unat_sub_le)
      have "tseg - 1 \<le> tseg_high btc" using less.prems(1) d by (simp add: word_le_nat_alt)
      moreover have "best_bitrate_error s1 \<le> e"
        if "tseg - 1 < t" "t \<le> tseg_high btc" "candidate_error clock_freq bitrate btc nominal t = Some e" for t e
      proof (cases "t = tseg")
        case False
        have "unat tseg \<le> unat t" using that(1) d pos by (simp add: word_less_nat_alt)
        then have "tseg < t" using False by (simp add: word_le_nat_alt less_le)
        then show ?thesis using that less.prems(3) 1(3) order_trans by blast
      qed (use that 1(4) in blast)
      ultimately show ?thesis
        using less.hyps [of "tseg - 1" s1] 1(1,2) d pos False \<open>tseg_low btc \<le> tseg\<close>
        by (subst search_tseg.simps) fastforce
    qed
  next
    case False
    then have "tseg < t" if "tseg_low btc \<le> t" for t using that by (meson less_le_trans not_le)
    then have "\<forall>t e. tseg_low btc \<le> t \<and> t \<le> tseg_high btc
        \<and> candidate_error clock_freq bitrate btc nominal t = Some e \<longrightarrow> best_bitrate_error s \<le> e"
      using less.prems(3) by blast
    then show ?thesis using False less.prems(2) by (subst search_tseg.simps) (simp only: if_False, blast)
  qed
qed

subsection \<open>The result\<close>

lemma too_high:
  assumes "1000 \<le> b"
  shows "bitrate_error_too_high e b = Some (50 < unat e * 1000 div unat b)"
proof -
  have b: "1000 \<le> unat b" using assms by (simp add: word_le_nat_alt)
  have e: "unat e < 2 ^ 32" using unsigned_less [of e] by simp
  have b32: "unat b < 2 ^ 32" using unsigned_less [of b] by simp
  have u: "unat (ucast e * 1000 :: u64) = unat e * 1000"
    using e by (subst unat_mult_lem [THEN iffD1]) (simp_all add: unsigned_ucast_eq take_bit_nat_eq_self)
  have "unat e * 1000 div unat b \<le> unat e * 1000 div 1000" using b by (intro div_le_mono2) simp_all
  then have q: "unat e * 1000 div unat b < 2 ^ 32" using e by simp
  have d: "unat (ucast e * 1000 div ucast b :: u64) = unat e * 1000 div unat b"
    using b32 by (simp only: unat_div u) (simp add: unsigned_ucast_eq take_bit_nat_eq_self)
  have "unat (ucast (ucast e * 1000 div ucast b :: u64) :: u32) = unat e * 1000 div unat b"
    using d q by (simp add: unsigned_ucast_eq take_bit_nat_eq_self_iff)
  moreover have "b \<noteq> 0" using b by auto
  ultimately show ?thesis
    by (cases "e = 0") (simp_all add: bitrate_error_too_high_def do_div_def word_less_nat_alt)
qed

lemma kernel_abs_diff:
  assumes "unat a < 2 ^ 31" and "unat b < 2 ^ 31"
  shows "int (unat (kernel_abs (a - b))) = \<bar>int (unat a) - int (unat b)\<bar>"
proof -
  have u: "0 \<le> uint x \<and> uint x < 2147483648" if "unat x < 2 ^ 31" for x :: u32
  proof -
    have "int (unat x) < int (2 ^ 31)" using that by (simp only: of_nat_less_iff)
    then show ?thesis using uint_nonnegative [of x] by simp
  qed
  have s: "sint x = int (unat x)" if "unat x < 2 ^ 31" for x :: u32
  proof -
    have "- 2147483648 \<le> uint x" "uint x < 2147483648" using u [OF that] by linarith+
    then show ?thesis unfolding sint_uint by (subst signed_take_bit_int_eq_self) simp_all
  qed
  have "- 2147483648 \<le> uint a - uint b" "uint a - uint b < 2147483648"
    using u [OF assms(1)] u [OF assms(2)] by linarith+
  then have d: "sint (a - b) = int (unat a) - int (unat b)"
    unfolding sint_word_diff s [OF assms(1)] s [OF assms(2)] by (subst signed_take_bit_int_eq_self) simp_all
  show ?thesis
  proof (cases "unat a < unat b")
    case True
    then have "int (unat (b - a)) = int (unat b) - int (unat a)" by (subst unat_sub_le) simp_all
    moreover have "int (unat a) < int (unat b)" using True by (simp only: of_nat_less_iff)
    ultimately show ?thesis using d by (simp add: kernel_abs_def)
  next
    case False
    then have "int (unat (a - b)) = int (unat a) - int (unat b)" by (subst unat_sub_le) simp_all
    moreover have "int (unat b) \<le> int (unat a)" using False by (simp only: of_nat_le_iff)
    ultimately show ?thesis using d by (simp add: kernel_abs_def)
  qed
qed

lemma small_best_product:
  assumes "btc_ok btc" and "tseg \<le> tseg1_max btc + tseg2_max btc" "tseg + 1 \<noteq> 0"
    and "brp_min btc \<le> brp" "brp \<le> brp_max btc"
  shows "brp * (1 + tseg) \<noteq> 0"
proof -
  note b = btc_ok_unat [OF assms(1)]
  have t: "unat tseg \<le> 512" using assms(2) b by (simp add: word_le_nat_alt tseg_bounds(3) [OF assms(1)])
  then have u: "unat (1 + tseg) = 1 + unat tseg"
    by (subst unat_plus_simple [THEN iffD1]) (simp_all add: no_olen_add_nat)
  have p: "1 \<le> unat brp" "unat brp \<le> 512" using assms(4,5) b by (simp_all add: word_le_nat_alt)
  have "unat brp * unat (1 + tseg) \<le> 512 * 513" using p t u by (intro mult_mono) simp_all
  moreover have "brp \<noteq> 0" using p(1) by auto
  ultimately show ?thesis using assms(3) by (intro small_product(2)) (simp_all add: add.commute)
qed

lemma checked_timing:
  assumes btc: "btc_ok btc" and split: "split_ok btc T t1 t2" and brp: "brp_min btc \<le> brp" "brp \<le> brp_max btc"
    and bt: "bt' = cf02a_can_sjw_set_default (bt\<lparr>cb_sample_point := sp, cb_tq := tq, cb_prop_seg := t1 div 2,
               cb_phase_seg1 := t1 - t1 div 2, cb_phase_seg2 := t2\<rparr>)"
    and ok: "cf02a_can_sjw_check bt' btc = 0"
  shows "cf02a_check_bit_timing btc (bit_timing_of (bt'\<lparr>cb_brp := brp, cb_bitrate := r\<rparr>))"
    "1 \<le> cb_sjw bt'" "cb_sjw bt' \<le> cb_phase_seg1 bt'" "cb_sjw bt' \<le> cb_phase_seg2 bt'"
    "cf02a_can_bit_time (bt'\<lparr>cb_brp := brp\<rparr>) = 1 + T"
proof -
  have seg: "cb_prop_seg bt' = t1 div 2" "cb_phase_seg1 bt' = t1 - t1 div 2" "cb_phase_seg2 bt' = t2"
    unfolding bt by (simp_all add: cf02a_can_sjw_set_default_def)
  have le: "cb_sjw bt' \<le> sjw_max btc" "cb_sjw bt' \<le> cb_phase_seg1 bt'" "cb_sjw bt' \<le> cb_phase_seg2 bt'"
    using ok by (simp_all add: cf02a_can_sjw_check_def not_less split: if_splits)
  show one: "1 \<le> cb_sjw bt'"
  proof (cases "cb_sjw bt = 0")
    case True
    then show ?thesis unfolding bt by (simp add: cf02a_can_sjw_set_default_def max.cobounded1 del: max_less_iff_conj le_max_iff_disj)
  next
    case False
    then show ?thesis unfolding bt
      by (simp add: cf02a_can_sjw_set_default_def word_le_nat_alt unat_gt_0 Suc_le_eq)
  qed
  show "cb_sjw bt' \<le> cb_phase_seg1 bt'" "cb_sjw bt' \<le> cb_phase_seg2 bt'" by (rule le)+
  have t0: "t1 \<noteq> 0" using one le(2) seg(2) by auto
  then have t1: "1 \<le> t1" by (simp add: word_le_nat_alt unat_gt_0 Suc_le_eq)
  have m: "tseg1_min btc = 1" using btc by (simp add: btc_ok_def)
  have "word_of_int (sint (t1 div 2) + sint (t1 - t1 div 2)) = t1 div 2 + (t1 - t1 div 2)"
    by (simp only: wi_hom_add [symmetric]) simp
  then have "word_of_int (sint (t1 div 2) + sint (t1 - t1 div 2)) = t1" by simp
  then show "cf02a_check_bit_timing btc (bit_timing_of (bt'\<lparr>cb_brp := brp, cb_bitrate := r\<rparr>))"
    using split brp le(1) t0 t1 m
    by (simp add: cf02a_check_bit_timing_def bit_timing_of_def seg split_ok_def not_less)
  have "unat (t1 + t2) = unat T"
    using split unsigned_less [of T] by (subst unat_plus_simple [THEN iffD1])
      (simp_all add: no_olen_add_nat split_ok_def)
  then have "t1 + t2 = T" by (rule word_unat_eq_iff [THEN iffD2])
  then show "cf02a_can_bit_time (bt'\<lparr>cb_brp := brp\<rparr>) = 1 + T"
    by (simp add: cf02a_can_bit_time_def seg add.assoc)
qed

text \<open>C17: the calculation of a bit timing. For the driver's own limits, a bit rate from 1 kbit/s to
  8 Mbit/s and a sample point below 100 %, the calculation ends without a division by zero. It succeeds
  or returns -EINVAL; on success the timing passes the check made before it is sent, its jump width fits
  both phase segments, the bit rate reported is the one the timing gives from the clock, it is off by
  less than 5.1 %, and no other choice of the number of segments is nearer to what was asked.\<close>

theorem cf02a_can_calc_bittiming_correct:
  assumes "btc = cf02a_bittiming_const \<or> btc = cf02a_data_bittiming_const"
    and "clock_freq \<noteq> 0" and "clock_freq < 0x80000000"
    and "1000 \<le> cb_bitrate bt" and "cb_bitrate bt \<le> 8000000" and "cb_sample_point bt < 1000"
  shows "\<exists>r bt'. cf02a_can_calc_bittiming clock_freq bt btc = Some (r, bt') \<and> (r = 0 \<or> r = -EINVAL)
    \<and> (r = 0 \<longrightarrow> cf02a_check_bit_timing btc (bit_timing_of bt')
        \<and> 1 \<le> cb_sjw bt' \<and> cb_sjw bt' \<le> cb_phase_seg1 bt' \<and> cb_sjw bt' \<le> cb_phase_seg2 bt'
        \<and> cb_bitrate bt' = clock_freq div (cb_brp bt' * cf02a_can_bit_time bt')
        \<and> 1000 * \<bar>int (unat (cb_bitrate bt)) - int (unat (cb_bitrate bt'))\<bar> < 51 * int (unat (cb_bitrate bt))
        \<and> (\<forall>t e. tseg_low btc \<le> t \<and> t \<le> tseg_high btc
              \<and> candidate_error clock_freq (cb_bitrate bt) btc (nominal_sample_point bt) t = Some e
              \<longrightarrow> kernel_abs (cb_bitrate bt - cb_bitrate bt') \<le> e))"
proof -
  let ?b = "cb_bitrate bt" and ?n = "nominal_sample_point bt"
  have btc: "btc_ok btc" using assms(1) btc_ok by blast
  have b: "1000 \<le> unat ?b" "unat ?b \<le> 8000000" using assms(4,5) by (simp_all add: word_le_nat_alt)
  have nom: "?n < 1000" using assms(6) by (simp add: nominal_sample_point_def)
  let ?s0 = "\<lparr>best_bitrate_error = UINT_MAX, best_sample_point_error = UINT_MAX, best_tseg = 0, best_brp = 0,
    cur_tseg1 = 0, cur_tseg2 = 0\<rparr>"
  have init: "?b \<noteq> 0" "unat ?b * 513 < 2 ^ 32" "search_ok clock_freq ?b btc ?n ?s0"
    using b by (auto simp: search_ok_def)
  have vac: "\<forall>t e. tseg_high btc < t \<and> t \<le> tseg_high btc \<and> candidate_error clock_freq ?b btc ?n t = Some e
      \<longrightarrow> best_bitrate_error ?s0 \<le> e" using leD by blast
  obtain s where s: "search_tseg clock_freq ?b btc ?n (tseg_high btc) ?s0 = Some s"
    "search_ok clock_freq ?b btc ?n s"
    "\<forall>t e. tseg_low btc \<le> t \<and> t \<le> tseg_high btc \<and> candidate_error clock_freq ?b btc ?n t = Some e
        \<longrightarrow> best_bitrate_error s \<le> e"
    using search_tseg_ok [OF btc nom init(1,2) order_refl init(3) vac] by blast
  let ?e = "best_bitrate_error s"
  note th = too_high [OF assms(4), of ?e]
  show ?thesis
  proof (cases "50 < unat ?e * 1000 div unat ?b")
    case True
    then show ?thesis using s(1) th by (simp add: cf02a_can_calc_bittiming_def Let_def)
  next
    case False
    have "4294967295 * 1000 div 8000000 \<le> 4294967295 * 1000 div unat ?b"
      using b by (intro div_le_mono2) simp_all
    then have "?e \<noteq> UINT_MAX" using False by auto
    then obtain p where f: "?e = kernel_abs (?b - clock_freq div (best_brp s * (1 + best_tseg s)))"
      "best_tseg s \<le> tseg1_max btc + tseg2_max btc" "best_tseg s + 1 \<noteq> 0"
      "brp_min btc \<le> best_brp s" "best_brp s \<le> brp_max btc"
      "\<forall>a b. cf02a_can_update_sample_point btc ?n (best_tseg s) a b = Some p"
      "split_ok btc (best_tseg s) (out_tseg1 p) (out_tseg2 p)"
      using s(2) by (auto simp: search_ok_def)
    let ?tq = "ucast ((ucast (best_brp s) * 1000 * 1000 * 1000 :: u64) div ucast clock_freq) :: u32"
    define bt1 where "bt1 = cf02a_can_sjw_set_default (bt\<lparr>cb_sample_point := best_sample_point p, cb_tq := ?tq,
      cb_prop_seg := out_tseg1 p div 2, cb_phase_seg1 := out_tseg1 p - out_tseg1 p div 2,
      cb_phase_seg2 := out_tseg2 p\<rparr>)"
    show ?thesis
    proof (cases "cf02a_can_sjw_check bt1 btc = 0")
      case ok: True
      note c = checked_timing [OF btc f(7,4,5) bt1_def ok]
      let ?d = "best_brp s * (1 + best_tseg s)" and ?r = "clock_freq div (best_brp s * (1 + best_tseg s))"
      have "?d \<noteq> 0"
        using small_best_product [OF btc f(2-5)] .
      then have "udiv clock_freq (cb_brp (bt1\<lparr>cb_brp := best_brp s\<rparr>)
          * cf02a_can_bit_time (bt1\<lparr>cb_brp := best_brp s\<rparr>)) = Some ?r"
        unfolding c(5) by (simp add: udiv_def)
      then have "cf02a_can_calc_bittiming clock_freq bt btc
          = Some (0, bt1\<lparr>cb_brp := best_brp s, cb_bitrate := ?r\<rparr>)"
        using s(1) th False f(6) assms(2) ok
        by (simp add: cf02a_can_calc_bittiming_def Let_def do_div_def bt1_def)
      moreover have "unat ?r < 2 ^ 31"
        using assms(3) le_less_trans [OF div_le_dividend] by (simp add: unat_div word_less_nat_alt)
      then have "int (unat ?e) = \<bar>int (unat ?b) - int (unat ?r)\<bar>"
        unfolding f(1) using b by (intro kernel_abs_diff) simp_all
      moreover have "unat ?e * 1000 < 51 * unat ?b"
        using False b by (simp add: not_less div_less_iff_less_mult [symmetric] less_Suc_eq_le)
      then have "1000 * int (unat ?e) < 51 * int (unat ?b)" by linarith
      moreover have "cb_bitrate (bt1\<lparr>cb_brp := best_brp s, cb_bitrate := ?r\<rparr>)
          = clock_freq div (cb_brp (bt1\<lparr>cb_brp := best_brp s, cb_bitrate := ?r\<rparr>)
              * cf02a_can_bit_time (bt1\<lparr>cb_brp := best_brp s, cb_bitrate := ?r\<rparr>))"
        using c(5) by (simp add: cf02a_can_bit_time_def add.assoc)
      ultimately show ?thesis using c(1-4) s(3) f(1)
        by (intro exI [of _ 0] exI [of _ "bt1\<lparr>cb_brp := best_brp s, cb_bitrate := ?r\<rparr>"]) simp
    next
      case no: False
      then have "cf02a_can_sjw_check bt1 btc = -EINVAL"
        by (auto simp: cf02a_can_sjw_check_def split: if_splits)
      then have "cf02a_can_calc_bittiming clock_freq bt btc = Some (-EINVAL, bt1)"
        using s(1) th False f(6) assms(2)
        by (simp add: cf02a_can_calc_bittiming_def Let_def do_div_def bt1_def)
      then show ?thesis by simp
    qed
  qed
qed

text \<open>A clock of 38.5 MHz, 100 kbit/s, 66.7 %.\<close>

lemma example_calc:
  "\<exists>bt'. cf02a_can_calc_bittiming 38500000
      (can_bittiming0\<lparr>cb_bitrate := 100000, cb_sample_point := 667\<rparr>) cf02a_bittiming_const = Some (0, bt')
    \<and> cb_bitrate bt' = 100000"
proof -
  let ?s0 = "\<lparr>best_bitrate_error = 4294967295, best_sample_point_error = 4294967295, best_tseg = 0,
    best_brp = 0, cur_tseg1 = 0, cur_tseg2 = 0\<rparr>"
  note defs = try_tseg_def candidate_brp_def udiv_def kernel_abs_def cf02a_can_update_sample_point_def
    try_sample_point_def split_tseg_def cf02a_bittiming_const_def
  have "\<exists>s. search_tseg 38500000 100000 cf02a_bittiming_const 667 769 ?s0 = Some s
      \<and> best_bitrate_error s = 0 \<and> best_tseg s = 384 \<and> best_brp s = 1"
    by (subst search_tseg.simps, simp add: defs, subst search_tseg.simps, simp add: defs)
  then obtain s where s: "search_tseg 38500000 100000 cf02a_bittiming_const 667 769 ?s0 = Some s"
    "best_bitrate_error s = 0" "best_tseg s = 384" "best_brp s = 1" by blast
  then show ?thesis
    by (simp add: cf02a_can_calc_bittiming_def nominal_sample_point_def can_bittiming0_def defs
        bitrate_error_too_high_def do_div_def cf02a_can_sjw_set_default_def cf02a_can_sjw_check_def
        cf02a_can_bit_time_def)
qed

lemma cf02a_can_calc_bittiming_correct_witness:
  "\<exists>bt'. cf02a_can_calc_bittiming 38500000
      (can_bittiming0\<lparr>cb_bitrate := 100000, cb_sample_point := 667\<rparr>) cf02a_bittiming_const = Some (0, bt')
    \<and> cf02a_check_bit_timing cf02a_bittiming_const (bit_timing_of bt') \<and> cb_bitrate bt' = 100000"
proof -
  obtain bt' where e: "cf02a_can_calc_bittiming 38500000
      (can_bittiming0\<lparr>cb_bitrate := 100000, cb_sample_point := 667\<rparr>) cf02a_bittiming_const = Some (0, bt')"
    "cb_bitrate bt' = 100000"
    using example_calc by blast
  then show ?thesis
    using cf02a_can_calc_bittiming_correct [of cf02a_bittiming_const 38500000
        "can_bittiming0\<lparr>cb_bitrate := 100000, cb_sample_point := 667\<rparr>"]
    by (simp add: can_bittiming0_def)
qed

end
