(* ===== verification/Cf02a_Time.thy ===== *)
theory Cf02a_Time
  imports Prelude "HOL-Library.Signed_Division"
begin

text \<open>
  The conversion of seconds into a date: \<open>time64_to_tm\<close> of \<open>module/ep1_cf02a/ep1_cf02a_fops.c\<close>, which
  the driver carries for kernels that lack it, and which later kernels have themselves.

  A \<open>long\<close> has 64 bits; the values in \<open>days\<close> and \<open>rem\<close> stay far below that. The words have the width
  the source gives them.

  The reference is a calendar that counts days one by one. The lemmas follow the algorithm: the
  multiplications are the divisions they stand for, the two divisions find the year that starts in
  March and the day in it, and one day later is one day later in the calendar.
\<close>

subsection \<open>The code\<close>

record tm =
  tm_sec :: int
  tm_min :: int
  tm_hour :: int
  tm_mday :: int
  tm_mon :: int
  tm_year :: int
  tm_wday :: int
  tm_yday :: int

abbreviation (input) SECS_PER_HOUR :: int where "SECS_PER_HOUR \<equiv> 60 * 60"
abbreviation (input) SECS_PER_DAY :: int where "SECS_PER_DAY \<equiv> 60 * 60 * 24"

text \<open>The two loops that bring \<open>rem\<close> into the range of a day.\<close>

function raise_rem :: "int \<Rightarrow> int \<Rightarrow> int \<times> int" where
  "raise_rem days rem = (if rem < 0 then raise_rem (days - 1) (rem + SECS_PER_DAY) else (days, rem))"
  by pat_completeness auto
termination by (relation "measure (\<lambda>(_, r). nat (- r))") auto

function lower_rem :: "int \<Rightarrow> int \<Rightarrow> int \<times> int" where
  "lower_rem days rem =
     (if rem \<ge> SECS_PER_DAY then lower_rem (days + 1) (rem - SECS_PER_DAY) else (days, rem))"
  by pat_completeness auto
termination by (relation "measure (\<lambda>(_, r). nat r)") auto

declare raise_rem.simps [simp del] lower_rem.simps [simp del]

text \<open>The date of a day, from \<open>udays\<close> on: year, month, day, day of the year.\<close>

definition date_of_udays :: "u64 \<Rightarrow> int \<times> int \<times> int \<times> int" where
  "date_of_udays udays =
     (let u64tmp = 4 * udays + 3;
          century = u64tmp div 146097; u64tmp = u64tmp mod 146097;
          day_of_century = (ucast (u64tmp div 4) :: u32);
          u32tmp = 4 * day_of_century + 3;
          u64tmp = 2939745 * ucast u32tmp :: u64;
          year_of_century = (ucast (drop_bit 32 u64tmp) :: u32);
          day_of_year = (ucast u64tmp :: u32) div 2939745 div 4;
          year = 100 * century + ucast year_of_century;
          is_leap_year = (if year_of_century \<noteq> 0 then year_of_century mod 4 = 0 else century mod 4 = 0);
          u32tmp = 2141 * day_of_year + 132377;
          month = drop_bit 16 u32tmp;
          day = (ucast (ucast u32tmp :: u16) :: u32) div 2141;
          is_Jan_or_Feb = (day_of_year \<ge> 306);
          year = year + (if is_Jan_or_Feb then 1 else 0) - 6313183731940000;
          month = (if is_Jan_or_Feb then month - 12 else month);
          day = day + 1;
          day_of_year = day_of_year + (if is_Jan_or_Feb then - 306 else 31 + 28 + (if is_leap_year then 1 else 0))
      in (sint (year - 1900), sint month, sint day, sint day_of_year))"

definition time64_to_tm :: "int \<Rightarrow> int \<Rightarrow> tm" where
  "time64_to_tm totalsecs offset =
     (let days = totalsecs sdiv SECS_PER_DAY;
          rem = totalsecs smod SECS_PER_DAY + offset;
          (days, rem) = raise_rem days rem;
          (days, rem) = lower_rem days rem;
          wday = (4 + days) smod 7;
          (year, mon, day, yday) = date_of_udays (word_of_int days + 2305843009213814918)
      in \<lparr>tm_sec = (rem smod SECS_PER_HOUR) smod 60, tm_min = (rem smod SECS_PER_HOUR) sdiv 60,
          tm_hour = rem sdiv SECS_PER_HOUR, tm_mday = day, tm_mon = mon, tm_year = year,
          tm_wday = (if wday < 0 then wday + 7 else wday), tm_yday = yday\<rparr>)"

subsection \<open>The reference\<close>

text \<open>A day of the Gregorian calendar; months count from 0, days of the week from Sunday.\<close>

record civil =
  c_year :: int
  c_mon :: int
  c_mday :: int
  c_wday :: int
  c_yday :: int

definition leap :: "int \<Rightarrow> bool" where
  "leap y \<longleftrightarrow> y mod 4 = 0 \<and> (y mod 100 \<noteq> 0 \<or> y mod 400 = 0)"

definition month_days :: "int \<Rightarrow> int \<Rightarrow> int" where
  "month_days y m =
     (if m = 1 then if leap y then 29 else 28 else if m \<in> {3, 5, 8, 10} then 30 else 31)"

definition next_day :: "civil \<Rightarrow> civil" where
  "next_day c =
     (let c' = c\<lparr>c_wday := (c_wday c + 1) mod 7\<rparr> in
      if c_mday c < month_days (c_year c) (c_mon c)
      then c'\<lparr>c_mday := c_mday c + 1, c_yday := c_yday c + 1\<rparr>
      else if c_mon c < 11 then c'\<lparr>c_mon := c_mon c + 1, c_mday := 1, c_yday := c_yday c + 1\<rparr>
      else c'\<lparr>c_year := c_year c + 1, c_mon := 0, c_mday := 1, c_yday := 0\<rparr>)"

text \<open>The first of January 1970 was a Thursday.\<close>

definition civil_of :: "nat \<Rightarrow> civil" where
  "civil_of n = (next_day ^^ n) \<lparr>c_year = 1970, c_mon = 0, c_mday = 1, c_wday = 4, c_yday = 0\<rparr>"

subsection \<open>The year that starts in March\<close>

text \<open>The algorithm on integers: the year and the day in it of the day \<open>n\<close>, counted from the first of
  March of the year 0.\<close>

definition march_year :: "int \<Rightarrow> int" where
  "march_year n = 100 * ((4 * n + 3) div 146097) + (4 * ((4 * n + 3) mod 146097 div 4) + 3) div 1461"

definition march_day :: "int \<Rightarrow> int" where
  "march_day n = (4 * ((4 * n + 3) mod 146097 div 4) + 3) mod 1461 div 4"

text \<open>The days before a year.\<close>

definition year_start :: "int \<Rightarrow> int" where
  "year_start y = 365 * y + y div 4 - y div 100 + y div 400"

abbreviation (input) year_len :: "int \<Rightarrow> int" where
  "year_len y \<equiv> (if leap (y + 1) then 366 else 365)"

lemma div_Suc_int: "0 < k \<Longrightarrow> (y + 1) div k = y div k + (if (y + 1) mod k = 0 then 1 else 0)" for k y :: int
proof -
  assume k: "0 < k"
  define q r where "q = y div k" and "r = y mod k"
  have y: "y = k * q + r" "0 \<le> r" "r < k" using k by (simp_all add: q_def r_def)
  show ?thesis
  proof (cases "r + 1 = k")
    case True
    then have "y + 1 = k * (q + 1)" using y(1) by (simp add: algebra_simps)
    then show ?thesis using k by (simp add: q_def)
  next
    case False
    then have r: "0 \<le> r + 1" "r + 1 < k" using y by auto
    have "y + 1 = k * q + (r + 1)" using y(1) by simp
    then have "(y + 1) div k = q" "(y + 1) mod k = r + 1"
      using r by (blast intro: int_div_pos_eq int_mod_pos_eq)+
    then show ?thesis using y(2) by (simp add: q_def)
  qed
qed

lemma year_start_Suc: "year_start (y + 1) = year_start y + year_len y"
proof -
  define A4 A100 A400 where "A4 \<longleftrightarrow> (y + 1) mod 4 = 0" and "A100 \<longleftrightarrow> (y + 1) mod 100 = 0"
    and "A400 \<longleftrightarrow> (y + 1) mod 400 = 0"
  have imp: "A400 \<Longrightarrow> A100" "A100 \<Longrightarrow> A4"
    using dvd_trans [of 100 400 "y + 1"] dvd_trans [of 4 100 "y + 1"]
    by (simp_all add: A4_def A100_def A400_def mod_eq_0_iff_dvd)
  have e: "(y + 1) div 4 = y div 4 + (if A4 then 1 else 0)" "(y + 1) div 100 = y div 100 + (if A100 then 1 else 0)"
    "(y + 1) div 400 = y div 400 + (if A400 then 1 else 0)"
    unfolding A4_def A100_def A400_def by (rule div_Suc_int, simp)+
  show ?thesis
    unfolding year_start_def leap_def e A4_def [symmetric] A100_def [symmetric] A400_def [symmetric]
    using imp by (cases A4; cases A100; cases A400) simp_all
qed

lemma year_start_mono: "y < z \<Longrightarrow> year_start (y + 1) \<le> year_start z"
proof (induction z rule: int_gr_induct [of y])
  case (step z)
  then show ?case using year_start_Suc [of z] by (auto split: if_splits)
qed simp_all

lemma year_unique:
  assumes "year_start y + d = year_start z + e" and "0 \<le> d" "d < year_len y" and "0 \<le> e" "e < year_len z"
  shows "y = z \<and> d = e"
proof (rule linorder_cases [of y z])
  assume "y < z"
  then show ?thesis using year_start_mono [of y z] year_start_Suc [of y] assms by linarith
next
  assume "z < y"
  then show ?thesis using year_start_mono [of z y] year_start_Suc [of z] assms by linarith
qed (use assms in simp)

lemma march_split:
  "n = year_start (march_year n) + march_day n \<and> 0 \<le> march_day n \<and> march_day n < year_len (march_year n)"
proof -
  define C R where "C = (4 * n + 3) div 146097" and "R = (4 * n + 3) mod 146097"
  define Y Q where "Y = (4 * (R div 4) + 3) div 1461" and "Q = (4 * (R div 4) + 3) mod 1461"
  have c: "4 * n + 3 = 146097 * C + R" "0 \<le> R" "R < 146097" by (simp_all add: C_def R_def)
  have y: "4 * (R div 4) + 3 = 1461 * Y + Q" "0 \<le> Q" "Q < 1461" by (simp_all add: Y_def Q_def)
  have yd: "march_year n = 100 * C + Y" "march_day n = Q div 4"
    by (simp_all add: march_year_def march_day_def C_def R_def Y_def Q_def)
  have "R div 4 \<le> 36524" using c(3) by simp
  then have Y: "0 \<le> Y" "Y \<le> 99" using c(2) y by (simp_all add: Y_def)
  define c4 j where "c4 = C div 4" and "j = C mod 4"
  have C: "C = 4 * c4 + j" "0 \<le> j" "j < 4" by (simp_all add: c4_def j_def)
  define y4 i where "y4 = Y div 4" and "i = Y mod 4"
  have Y4: "Y = 4 * y4 + i" "0 \<le> i" "i < 4" by (simp_all add: y4_def i_def)
  have d4: "(100 * C + Y) div 4 = 25 * C + y4" using Y4 by simp
  have d100: "(100 * C + Y) div 100 = C" using Y by simp
  have "(100 * C + Y) div 400 = (100 * C + Y) div 100 div 4" by (simp add: zdiv_zmult2_eq)
  then have d400: "(100 * C + Y) div 400 = c4" using d100 by (simp add: c4_def)
  have ys: "year_start (100 * C + Y) = 36524 * C + c4 + 365 * Y + y4"
    by (simp add: year_start_def d4 d100 d400)
  define r where "r = n - 146097 * c4 - 36524 * j"
  have R: "R = 4 * r + (3 - j)" using c(1) C(1) by (simp add: r_def)
  have Rd: "R div 4 = r" using C(2,3) by (intro int_div_pos_eq [OF R]) auto
  define q where "q = r - 1461 * y4 - 365 * i"
  have Q: "Q = 4 * q + (3 - i)" using y(1) Y4(1) by (simp add: q_def Rd)
  have Qd: "Q div 4 = q" using Y4(2,3) by (intro int_div_pos_eq [OF Q]) auto
  have n: "n = 36524 * C + c4 + r" using C(1) by (simp add: r_def)
  have r': "r = 365 * Y + y4 + q" using Y4(1) by (simp add: q_def)
  have "n = year_start (march_year n) + march_day n" using n r' ys yd by (simp add: Qd)
  moreover have "0 \<le> march_day n" using y(2) yd(2) by simp
  moreover have "march_day n < year_len (march_year n)"
  proof (cases "q < 365")
    case False
    then have q: "q = 365" "i = 3" using False Q y(3) Y4(2,3) by linarith+
    have m4: "(100 * C + Y + 1) mod 4 = 0" using Y4(1) q(2) by presburger
    have "leap (100 * C + Y + 1)"
    proof (cases "Y = 99")
      case True
      then have "r = 36524" using r' Y4 q by simp
      then have "j = 3" using R c(3) C(2,3) by simp
      then have "100 * C + Y + 1 = 400 * (c4 + 1)" using True C(1) by simp
      then show ?thesis using m4 by (simp add: leap_def)
    next
      case False
      have "100 * C + Y + 1 = 100 * C + (Y + 1)" by simp
      then have "(100 * C + Y + 1) mod 100 = Y + 1" using Y False by (intro int_mod_pos_eq) auto
      then show ?thesis using m4 Y by (simp add: leap_def)
    qed
    then show ?thesis using q yd by (simp add: Qd)
  qed (use yd in \<open>simp add: Qd\<close>)
  ultimately show ?thesis by blast
qed

lemma march_next:
  "march_year (n + 1) = (if march_day n + 1 < year_len (march_year n) then march_year n else march_year n + 1)"
  "march_day (n + 1) = (if march_day n + 1 < year_len (march_year n) then march_day n + 1 else 0)"
proof -
  let ?y = "if march_day n + 1 < year_len (march_year n) then march_year n else march_year n + 1"
  let ?d = "if march_day n + 1 < year_len (march_year n) then march_day n + 1 else 0"
  have "year_start (march_year (n + 1)) + march_day (n + 1) = year_start ?y + ?d"
    using march_split [of n] march_split [of "n + 1"] year_start_Suc [of "march_year n"]
    by (auto split: if_splits)
  then have "march_year (n + 1) = ?y \<and> march_day (n + 1) = ?d"
    using march_split [of n] march_split [of "n + 1"] by (intro year_unique) auto
  then show "march_year (n + 1) = ?y" "march_day (n + 1) = ?d" by simp_all
qed

subsection \<open>Months and days\<close>

text \<open>The date of the day \<open>d\<close> of the year \<open>y\<close> that starts in March. The arithmetic is that of the code.\<close>

definition month_of :: "int \<Rightarrow> int" where
  "month_of d = (2141 * d + 132377) div 65536"

definition mday_of :: "int \<Rightarrow> int" where
  "mday_of d = (2141 * d + 132377) mod 65536 div 2141 + 1"

definition civil_of_march :: "int \<Rightarrow> int \<Rightarrow> int \<Rightarrow> civil" where
  "civil_of_march y d wday =
     \<lparr>c_year = (if 306 \<le> d then y + 1 else y), c_mon = (if 306 \<le> d then month_of d - 12 else month_of d),
      c_mday = mday_of d, c_wday = wday,
      c_yday = (if 306 \<le> d then d - 306 else if leap y then d + 60 else d + 59)\<rparr>"

text \<open>The table of the months from March to February, February having 28 days.\<close>

lemma month_table:
  "list_all (\<lambda>d. let m = month_of d; l = (if m = 13 then 28 else if m \<in> {3, 5, 8, 10} then 30 else 31) in
     (if mday_of d < l then month_of (d + 1) = m \<and> mday_of (d + 1) = mday_of d + 1
      else month_of (d + 1) = m + 1 \<and> mday_of (d + 1) = 1 \<and> (m = 11 \<longleftrightarrow> d = 305))
     \<and> 2 \<le> m \<and> m \<le> 13 \<and> (306 \<le> d \<longleftrightarrow> 12 \<le> m)) [0..363]"
  by code_simp

lemma month_step:
  assumes "0 \<le> d" "d \<le> 363"
  defines "m \<equiv> month_of d"
  defines "l \<equiv> (if m = 13 then 28 else if m \<in> {3, 5, 8, 10} then 30 else 31)"
  shows "mday_of d < l \<Longrightarrow> month_of (d + 1) = m \<and> mday_of (d + 1) = mday_of d + 1"
    "l \<le> mday_of d \<Longrightarrow> month_of (d + 1) = m + 1 \<and> mday_of (d + 1) = 1 \<and> (m = 11 \<longleftrightarrow> d = 305)"
    "2 \<le> m" "m \<le> 13" "306 \<le> d \<longleftrightarrow> 12 \<le> m"
proof -
  have "d \<in> set [0..363]" using assms(1,2) by simp
  note t = month_table [unfolded list_all_iff, rule_format, OF this, unfolded Let_def,
      folded m_def, folded l_def]
  show "mday_of d < l \<Longrightarrow> month_of (d + 1) = m \<and> mday_of (d + 1) = mday_of d + 1" using t by (simp only: if_True)
  show "l \<le> mday_of d \<Longrightarrow> month_of (d + 1) = m + 1 \<and> mday_of (d + 1) = 1 \<and> (m = 11 \<longleftrightarrow> d = 305)"
    using t by (simp only: not_less [symmetric] if_False)
  show "2 \<le> m" "m \<le> 13" "306 \<le> d \<longleftrightarrow> 12 \<le> m" using t by blast+
qed

lemma february_end: "month_of 364 = 13" "mday_of 364 = 28" "month_of 365 = 13" "mday_of 365 = 29"
  "month_of 0 = 2" "mday_of 0 = 1" "month_of 305 = 11" "mday_of 305 = 31"
  by (simp_all add: month_of_def mday_of_def)

lemma next_day_march:
  assumes "0 \<le> d" "d < year_len y"
  shows "next_day (civil_of_march y d wday)
    = (if d + 1 < year_len y then civil_of_march y (d + 1) ((wday + 1) mod 7)
       else civil_of_march (y + 1) 0 ((wday + 1) mod 7))"
proof -
  have "d \<le> 365" using assms by (simp split: if_splits)
  then consider "d \<le> 363" | "d = 364" | "d = 365" by linarith
  then show ?thesis
  proof cases
    case 1
    then have len: "d + 1 < year_len y" by simp
    note s = month_step [OF assms(1) 1]
    define m where "m = month_of d"
    have L: "month_days (if 306 \<le> d then y + 1 else y) (if 306 \<le> d then m - 12 else m)
        = (if m = 13 then if leap (y + 1) then 29 else 28 else if m \<in> {3, 5, 8, 10} then 30 else 31)"
      using s(3-5) by (auto simp: month_days_def m_def)
    have f28: "mday_of d < 28" if "m = 13"
    proof (rule ccontr)
      assume n: "\<not> mday_of d < 28"
      then have "month_of (d + 1) = 14" using s(2) that by (simp add: m_def)
      moreover have "d \<noteq> 363" using n by (auto simp: mday_of_def)
      ultimately show False using month_step(4) [of "d + 1"] 1 assms(1) by simp
    qed
    show ?thesis
    proof (cases "mday_of d < (if m = 13 then 28 else if m \<in> {3, 5, 8, 10} then 30 else 31)")
      case True
      have "306 \<le> d + 1 \<longleftrightarrow> 306 \<le> d"
        using s(1) [OF True [unfolded m_def]] s(5) 1 assms(1) by (cases "d = 305") (auto simp: month_of_def)
      then show ?thesis
        using True s(1) [OF True [unfolded m_def]] L len
        by (auto simp: next_day_def civil_of_march_def Let_def m_def)
    next
      case False
      then have n13: "m \<noteq> 13" using f28 by auto
      note s2 = s(2) [OF False [unfolded m_def not_less]]
      show ?thesis
        using False n13 s2 s(3-5) L len
        by (auto simp: next_day_def civil_of_march_def Let_def m_def february_end)
    qed
  next
    case 2
    then show ?thesis
      by (auto simp: next_day_def civil_of_march_def Let_def month_days_def february_end)
  next
    case 3
    then show ?thesis using assms(2)
      by (auto simp: next_day_def civil_of_march_def Let_def month_days_def february_end split: if_splits)
  qed
qed

text \<open>From the first of March of the year 0 to 1970 it is 719468 days.\<close>

lemma civil_of_march_eq:
  "civil_of n = civil_of_march (march_year (int n + 719468)) (march_day (int n + 719468)) ((4 + int n) mod 7)"
proof (induction n)
  case 0
  show ?case
    by (simp add: civil_of_def civil_of_march_def march_year_def march_day_def month_of_def mday_of_def)
next
  case (Suc n)
  have m: "int (Suc n) + 719468 = (int n + 719468) + 1" by simp
  have w: "((4 + int n) mod 7 + 1) mod 7 = (4 + int (Suc n)) mod 7" by (simp add: mod_simps add.commute)
  have "civil_of (Suc n) = next_day (civil_of n)" by (simp add: civil_of_def)
  then show ?case
    using march_split [of "int n + 719468"]
    unfolding Suc.IH m march_next [of "int n + 719468"] by (simp add: next_day_march w)
qed

lemma march_shift:
  "march_year (n + 146097 * k) = march_year n + 400 * k" "march_day (n + 146097 * k) = march_day n"
proof -
  have e: "4 * (n + 146097 * k) + 3 = (4 * n + 3) + 146097 * (4 * k)" by simp
  have "((4 * n + 3) + 146097 * (4 * k)) div 146097 = (4 * n + 3) div 146097 + 4 * k"
    by (rule trans [OF div_mult_self2 add.commute]) simp
  moreover have "((4 * n + 3) + 146097 * (4 * k)) mod 146097 = (4 * n + 3) mod 146097"
    by (rule mod_mult_self2)
  ultimately have s: "(4 * (n + 146097 * k) + 3) div 146097 = (4 * n + 3) div 146097 + 4 * k"
    "(4 * (n + 146097 * k) + 3) mod 146097 = (4 * n + 3) mod 146097"
    by (simp_all only: e)
  show "march_year (n + 146097 * k) = march_year n + 400 * k" "march_day (n + 146097 * k) = march_day n"
    unfolding march_year_def march_day_def s by simp_all
qed

text \<open>The multiplication that stands for the division by 1461.\<close>

lemma div_1461:
  fixes x :: int
  assumes "0 \<le> x" "x \<le> 146099"
  shows "2939745 * x div 4294967296 = x div 1461" "2939745 * x mod 4294967296 div 2939745 = x mod 1461"
proof -
  define q r where "q = x div 1461" and "r = x mod 1461"
  have x: "x = 1461 * q + r" "0 \<le> r" "r < 1461" by (simp_all add: q_def r_def)
  have q: "0 \<le> q" "q \<le> 99 + 1" using assms by (simp_all add: q_def)
  have e: "2939745 * x = 4294967296 * q + (149 * q + 2939745 * r)" using x(1) by simp
  have b: "0 \<le> 149 * q + 2939745 * r" "149 * q + 2939745 * r < 4294967296" using q x(2,3) by simp_all
  have "2939745 * x div 4294967296 = q" by (rule int_div_pos_eq [OF e b])
  then show "2939745 * x div 4294967296 = x div 1461" by (simp add: q_def)
  have "2939745 * x mod 4294967296 = 2939745 * r + 149 * q"
    using int_mod_pos_eq [OF e b] by simp
  moreover have "(2939745 * r + 149 * q) div 2939745 = r"
    using q by (intro int_div_pos_eq [OF refl]) auto
  ultimately show "2939745 * x mod 4294967296 div 2939745 = x mod 1461" by (simp add: r_def)
qed

text \<open>The words hold what the algorithm on integers computes.\<close>

lemma sint_word_of_int:
  "- (2 ^ 31) \<le> z \<Longrightarrow> z < 2 ^ 31 \<Longrightarrow> sint (word_of_int z :: u32) = z"
  "- (2 ^ 63) \<le> z \<Longrightarrow> z < 2 ^ 63 \<Longrightarrow> sint (word_of_int z :: u64) = z"
  by (simp_all add: sint_sbintrunc' signed_take_bit_int_eq_self)

lemma date_of_udays_march:
  assumes n: "0 \<le> n" "n < 2 ^ 62" and c: "c = civil_of_march (march_year n) (march_day n) wday"
  shows "date_of_udays (word_of_int n) = (c_year c - 6313183731940000 - 1900, c_mon c, c_mday c, c_yday c)"
proof -
  define C R where "C = (4 * n + 3) div 146097" and "R = (4 * n + 3) mod 146097"
  define x where "x = 4 * (R div 4) + 3"
  define Y d where "Y = x div 1461" and "d = x mod 1461 div 4"
  have C: "0 \<le> C" "C \<le> 2 ^ 64 div 146097" using n unfolding C_def by (simp, intro zdiv_mono1) simp_all
  have R: "0 \<le> R" "R \<le> 146096" by (simp_all add: R_def)
  have x: "0 \<le> x" "x \<le> 146099" using R by (simp_all add: x_def)
  have Y: "0 \<le> Y" "Y \<le> 99" using x by (simp_all add: Y_def)
  have d: "0 \<le> d" "d \<le> 365" by (simp_all add: d_def)
  have yd: "march_year n = 100 * C + Y" "march_day n = d"
    by (simp_all add: march_year_def march_day_def C_def R_def x_def Y_def d_def)
  let ?u = "4 * word_of_int n + 3 :: u64"
  have u: "uint ?u = 4 * n + 3" using n by (simp add: uint_word_ariths uint_word_of_int)
  have century: "uint (?u div 146097) = C" "uint (?u mod 146097) = R"
    by (simp_all add: uint_div uint_mod u C_def R_def)
  define x32 where "x32 = 4 * (ucast (?u mod 146097 div 4) :: u32) + 3"
  have x32: "uint x32 = x"
    using R by (simp add: x32_def uint_word_ariths unsigned_ucast_eq take_bit_eq_mod uint_div century x_def)
  define p where "p = (2939745 * ucast x32 :: u64)"
  have p: "uint p = 2939745 * x"
    using x x32 by (simp add: p_def uint_word_ariths unsigned_ucast_eq take_bit_eq_mod)
  have yoc: "uint (ucast (drop_bit 32 p) :: u32) = Y"
    using div_1461 [OF x] Y
    by (simp add: unsigned_ucast_eq take_bit_eq_mod unsigned_drop_bit_eq drop_bit_eq_div uint_div p Y_def)
  have doy: "uint ((ucast p :: u32) div 2939745 div 4) = d"
    using div_1461 [OF x]
    by (simp add: uint_div unsigned_ucast_eq take_bit_eq_mod p d_def)
  define D where "D = (ucast p :: u32) div 2939745 div 4"
  define W where "W = (ucast (drop_bit 32 p) :: u32)"
  have uD: "uint D = d" and uW: "uint W = Y" using doy yoc by (simp_all only: D_def W_def)
  have D: "D = word_of_int d" and W: "W = word_of_int Y" unfolding uD [symmetric] uW [symmetric] by simp_all
  define T where "T = 2141 * D + 132377"
  have T: "uint T = 2141 * d + 132377" using d by (simp add: T_def uint_word_ariths uD)
  have mon: "drop_bit 16 T = word_of_int (month_of d)"
  proof -
    have "uint (drop_bit 16 T) = month_of d"
      by (simp add: unsigned_drop_bit_eq drop_bit_eq_div uint_div T month_of_def)
    then show ?thesis by (metis word_of_int_uint)
  qed
  have day: "(ucast (ucast T :: u16) :: u32) div 2141 + 1 = word_of_int (mday_of d)"
  proof -
    have "uint ((ucast (ucast T :: u16) :: u32) div 2141) = mday_of d - 1"
      by (simp add: uint_div uint_mod unsigned_ucast_eq take_bit_eq_mod T mday_of_def)
    then have "(ucast (ucast T :: u16) :: u32) div 2141 = word_of_int (mday_of d - 1)"
      by (metis word_of_int_uint)
    then show ?thesis by (simp flip: wi_hom_syms)
  qed
  have jf: "306 \<le> D \<longleftrightarrow> 306 \<le> d" by (simp add: word_le_def uD)
  have lp: "(if W \<noteq> 0 then W mod 4 = 0 else ?u div 146097 mod 4 = 0) \<longleftrightarrow> leap (100 * C + Y)"
  proof -
    have "W = 0 \<longleftrightarrow> Y = 0" "W mod 4 = 0 \<longleftrightarrow> Y mod 4 = 0" "?u div 146097 mod 4 = 0 \<longleftrightarrow> C mod 4 = 0"
      by (simp_all add: word_uint_eq_iff uint_mod uW century)
    moreover have "(100 * C + Y) mod 100 = Y" using Y by (intro int_mod_pos_eq [OF refl]) auto
    moreover have "(100 * C + Y) mod 4 = Y mod 4" by (simp add: mod_simps flip: mod_add_left_eq)
    moreover have "(100 * C) mod 400 = 0 \<longleftrightarrow> C mod 4 = 0" using mod_mult_mult1 [of 100 C 4] by simp
    ultimately show ?thesis by (auto simp: leap_def)
  qed
  have code: "date_of_udays (word_of_int n)
    = (sint (100 * (?u div 146097) + ucast W + (if 306 \<le> D then 1 else 0) - 6313183731940000 - 1900),
       sint (if 306 \<le> D then drop_bit 16 T - 12 else drop_bit 16 T),
       sint ((ucast (ucast T :: u16) :: u32) div 2141 + 1),
       sint (D + (if 306 \<le> D then - 306
         else 31 + 28 + (if if W \<noteq> 0 then W mod 4 = 0 else ?u div 146097 mod 4 = 0 then 1 else 0))))"
    unfolding date_of_udays_def Let_def D_def W_def T_def p_def x32_def by (rule refl)
  have y: "100 * (?u div 146097) + ucast W + (if 306 \<le> D then 1 else 0) - 6313183731940000 - 1900
      = word_of_int (c_year c - 6313183731940000 - 1900)"
  proof -
    have "?u div 146097 = word_of_int C" "(ucast W :: u64) = word_of_int Y"
      using uW by (simp_all add: ucast_eq flip: century(1))
    then show ?thesis by (simp add: c civil_of_march_def yd jf flip: wi_hom_syms)
  qed
  have y': "sint (100 * (?u div 146097) + ucast W + (if 306 \<le> D then 1 else 0) - 6313183731940000 - 1900)
      = c_year c - 6313183731940000 - 1900"
    unfolding y using C Y by (intro sint_word_of_int) (auto simp: c civil_of_march_def yd)
  have m: "0 \<le> month_of d" "month_of d \<le> 13" "0 \<le> mday_of d" "mday_of d \<le> 31"
    using d by (simp_all add: month_of_def mday_of_def)
  have mon': "sint (if 306 \<le> D then drop_bit 16 T - 12 else drop_bit 16 T) = c_mon c"
  proof -
    have "(if 306 \<le> D then drop_bit 16 T - 12 else drop_bit 16 T)
        = word_of_int (if 306 \<le> d then month_of d - 12 else month_of d)"
      unfolding mon jf by (simp flip: wi_hom_syms)
    then show ?thesis using m by (simp only:) (subst sint_word_of_int(1), auto simp: c civil_of_march_def yd)
  qed
  have day': "sint ((ucast (ucast T :: u16) :: u32) div 2141 + 1) = c_mday c"
    unfolding day using m by (subst sint_word_of_int(1)) (auto simp: c civil_of_march_def yd)
  have yday': "sint (D + (if 306 \<le> D then - 306
      else 31 + 28 + (if if W \<noteq> 0 then W mod 4 = 0 else ?u div 146097 mod 4 = 0 then 1 else 0))) = c_yday c"
  proof -
    have "D + (if 306 \<le> D then - 306
        else 31 + 28 + (if if W \<noteq> 0 then W mod 4 = 0 else ?u div 146097 mod 4 = 0 then 1 else 0))
      = word_of_int (if 306 \<le> d then d - 306 else d + (if leap (100 * C + Y) then 60 else 59))"
    proof -
      have "word_of_int d - 306 = (word_of_int (d - 306) :: u32)" "word_of_int d + 60 = (word_of_int (d + 60) :: u32)"
        "word_of_int d + 59 = (word_of_int (d + 59) :: u32)"
        by (simp_all flip: wi_hom_syms)
      then show ?thesis unfolding jf lp unfolding D by simp
    qed
    then show ?thesis
      using d by (simp only:) (subst sint_word_of_int(1), auto simp: c civil_of_march_def yd)
  qed
  show ?thesis unfolding code y' mon' day' yday' ..
qed

subsection \<open>The date\<close>

lemma raise_rem_in_day: "0 \<le> r \<Longrightarrow> raise_rem days r = (days, r)"
  by (simp add: raise_rem.simps)

lemma lower_rem_in_day: "r < 86400 \<Longrightarrow> lower_rem days r = (days, r)"
  by (simp add: lower_rem.simps)

lemma sdiv_nonneg: "0 \<le> a \<Longrightarrow> 0 < b \<Longrightarrow> a sdiv b = a div b" for a b :: int
  by (auto simp: signed_divide_int_def sgn_if)

lemma smod_nonneg: "0 \<le> a \<Longrightarrow> 0 < b \<Longrightarrow> a smod b = a mod b" for a b :: int
  by (cases "a = 0") (auto simp: signed_modulo_int_def sgn_if)

text \<open>The constant that \<open>udays\<close> adds is a whole number of 400 years away from the March of the year 0.\<close>

lemma date_of_days:
  assumes "0 \<le> days" "days < 2 ^ 47"
  shows "date_of_udays (word_of_int days + 2305843009213814918)
    = (c_year (civil_of (nat days)) - 1900, c_mon (civil_of (nat days)), c_mday (civil_of (nat days)),
       c_yday (civil_of (nat days)))"
proof -
  define n where "n = (days + 719468) + 146097 * 15782959329850"
  have w: "word_of_int days + 2305843009213814918 = (word_of_int n :: u64)"
    by (simp add: n_def flip: wi_hom_syms)
  have n: "0 \<le> n" "n < 2 ^ 62" using assms by (simp_all add: n_def)
  define y where "y = march_year (days + 719468)"
  define d where "d = march_day (days + 719468)"
  have s: "march_year n = y + 6313183731940000" "march_day n = d"
    unfolding n_def march_shift y_def d_def by simp_all
  have l: "leap (y + 6313183731940000) = leap y"
    by (simp add: leap_def mod_simps flip: mod_add_right_eq)
  have e: "civil_of (nat days) = civil_of_march y d ((4 + days) mod 7)"
    using assms(1) by (simp add: civil_of_march_eq y_def d_def)
  show ?thesis
    unfolding w date_of_udays_march [OF n refl, where wday = "(4 + days) mod 7"] s e
    by (simp add: civil_of_march_def l)
qed

text \<open>C21: From the epoch to the end of its type \<open>time64_to_tm\<close> gives the date of the Gregorian calendar:
  the time of the day, and year, month, day, weekday and day of the year as they are found by counting
  the days one by one from the first of January 1970. The multiplications and shifts of the algorithm
  do not overflow where they must not.\<close>

theorem time64_to_tm_correct:
  fixes s :: int
  defines "c \<equiv> civil_of (nat (s div 86400))"
  assumes "0 \<le> s" "s < 2 ^ 63"
  shows "time64_to_tm s 0 =
    \<lparr>tm_sec = s mod 60, tm_min = s div 60 mod 60, tm_hour = s div 3600 mod 24, tm_mday = c_mday c,
     tm_mon = c_mon c, tm_year = c_year c - 1900, tm_wday = c_wday c, tm_yday = c_yday c\<rparr>"
proof -
  have d: "0 \<le> s div 86400" "s div 86400 < 2 ^ 47" using assms by simp_all
  have w: "c_wday c = (4 + s div 86400) mod 7"
    using assms d(1) by (simp add: civil_of_march_eq civil_of_march_def)
  have t: "s mod 86400 mod 3600 mod 60 = s mod 60" "s mod 86400 mod 3600 div 60 = s div 60 mod 60"
    "s mod 86400 div 3600 = s div 3600 mod 24"
  proof -
    have h: "s mod 86400 = 3600 * (s div 3600 mod 24) + s mod 3600"
      using zmod_zmult2_eq [of 24 s 3600] by simp
    have m: "s mod 3600 = 60 * (s div 60 mod 60) + s mod 60"
      using zmod_zmult2_eq [of 60 s 60] by simp
    show "s mod 86400 div 3600 = s div 3600 mod 24" unfolding h by simp
    have "s mod 86400 mod 3600 = s mod 3600" by (simp add: mod_mod_cancel)
    then show "s mod 86400 mod 3600 mod 60 = s mod 60" "s mod 86400 mod 3600 div 60 = s div 60 mod 60"
      by (simp_all add: mod_mod_cancel) (simp add: m)
  qed
  show ?thesis
    using assms d w
    by (simp add: time64_to_tm_def sdiv_nonneg smod_nonneg raise_rem_in_day lower_rem_in_day date_of_days t Let_def)
qed

text \<open>The leap day of 2000 was a Tuesday.\<close>

theorem time64_to_tm_correct_witness:
  "time64_to_tm 951782400 0 =
    \<lparr>tm_sec = 0, tm_min = 0, tm_hour = 0, tm_mday = 29, tm_mon = 1, tm_year = 100, tm_wday = 2, tm_yday = 59\<rparr>"
  using time64_to_tm_correct [of 951782400]
  by (simp add: civil_of_march_eq civil_of_march_def march_year_def march_day_def month_of_def mday_of_def leap_def)

end
