(* ===== verification/Cf02a_Fops.thy ===== *)
theory Cf02a_Fops
  imports Can_Fops Cf02a_Bittiming Cf02a_Time
begin

text \<open>
  The operations of the EP1-CF02A behind a file or a network device: the rest of
  \<open>module/ep1_cf02a/ep1_cf02a_fops.c\<close>.

  \<^item> The unique data that the commands keep up to date is threaded beside the state. A request returns
    the error number or the count, and what was copied to the user.
  \<^item> \<open>stop_can_interface\<close> polls while the transmit thread runs; what the thread, the completions and the
    writers do between two polls is the schedule, a list of runs of the operations of \<open>Tx\<close>. A loop that
    polls longer than the schedule does not return.
  \<^item> A wait for stored data ends when it is ready, by the time-out, or by a signal; the completions of
    receive URBs that arrive meanwhile are handled one by one.
  \<^item> The kernel's \<open>can_fd_len2dlc\<close> and \<open>open_candev\<close> are parameters.
\<close>

unbundle bit_operations_syntax

abbreviation (input) STORE_DATA_ID_MAX_LENGTH :: nat where "STORE_DATA_ID_MAX_LENGTH \<equiv> 32"
abbreviation (input) CAN_CTRLMODE_FD :: u32 where "CAN_CTRLMODE_FD \<equiv> 0x20"
abbreviation (input) CAN_CTRLMODE_FD_NON_ISO :: u32 where "CAN_CTRLMODE_FD_NON_ISO \<equiv> 0x80"
abbreviation (input) CANFD_BRS :: u8 where "CANFD_BRS \<equiv> 1"
abbreviation (input) CANFD_ESI :: u8 where "CANFD_ESI \<equiv> 2"
abbreviation (input) FRAME_FLAG_BRS :: u8 where "FRAME_FLAG_BRS \<equiv> 1"
abbreviation (input) FRAME_FLAG_ESI :: u8 where "FRAME_FLAG_ESI \<equiv> 2"
abbreviation (input) FRAME_FLAG_FDF :: u8 where "FRAME_FLAG_FDF \<equiv> 4"
abbreviation (input) CAN_PACKET_SIZE :: nat where "CAN_PACKET_SIZE \<equiv> 78"

subsection \<open>Requests\<close>

datatype cf02a_out =
  Out_flag bool
| Out_bitrate int int
| Out_timing cf02a_bit_timing
| Out_time timespec
| Out_rtc cf02a_rtc_time
| Out_state cf02a_store_data_state
| Out_count u32
| Out_ids "u8 list"
| Out_meta cf02a_rtc_time timespec timespec timespec u64
| Out_rx_control "u8 list" bool
| Out_data "u8 list"

text \<open>The answer of a query for the user.\<close>

definition give_or_EIO ::
  "(RESULT \<times> 'a option \<times> world) option \<Rightarrow> ('a \<Rightarrow> cf02a_out) \<Rightarrow> (int \<times> cf02a_out option \<times> world) option" where
  "give_or_EIO r f = do {
     (result, x, w) \<leftarrow> r;
     case (result, x) of
       (RESULT_Success, Some x) \<Rightarrow> give_user (f x) w
     | _ \<Rightarrow> Some (-EIO, None, w)
   }"

definition drop_flag :: "(RESULT \<times> 'a option \<times> bool option \<times> world) option \<Rightarrow> (RESULT \<times> 'a option \<times> world) option" where
  "drop_flag r = map_option (\<lambda>(result, x, _, w). (result, x, w)) r"

definition cf02a_ioctl_get_silent_mode :: "world \<Rightarrow> (int \<times> cf02a_out option \<times> world) option" where
  "cf02a_ioctl_get_silent_mode w = give_or_EIO (cf02a_get_silent_mode w) Out_flag"

definition cf02a_ioctl_set_silent_mode :: "world \<Rightarrow> bool \<Rightarrow> (int \<times> cf02a_out option \<times> world) option" where
  "cf02a_ioctl_set_silent_mode w param = take_user param w (\<lambda>silent w. done_or_EIO (cf02a_set_silent_mode w silent))"

definition cf02a_ioctl_get_fd_mode :: "world \<Rightarrow> (int \<times> cf02a_out option \<times> world) option" where
  "cf02a_ioctl_get_fd_mode w = give_or_EIO (cf02a_get_fd_mode w) Out_flag"

definition cf02a_ioctl_set_fd_mode :: "world \<Rightarrow> bool \<Rightarrow> (int \<times> cf02a_out option \<times> world) option" where
  "cf02a_ioctl_set_fd_mode w param = take_user param w (\<lambda>fd w. done_or_EIO (cf02a_set_fd_mode w fd))"

definition cf02a_ioctl_get_iso_mode :: "world \<Rightarrow> (int \<times> cf02a_out option \<times> world) option" where
  "cf02a_ioctl_get_iso_mode w = give_or_EIO (cf02a_get_iso_mode w) Out_flag"

definition cf02a_ioctl_set_iso_mode :: "world \<Rightarrow> bool \<Rightarrow> (int \<times> cf02a_out option \<times> world) option" where
  "cf02a_ioctl_set_iso_mode w param = take_user param w (\<lambda>non_iso w. done_or_EIO (cf02a_set_iso_mode w non_iso))"

subsection \<open>Bit rates and timings\<close>

text \<open>As \<open>give_or_EIO\<close> and \<open>done_or_EIO\<close>, with the unique data.\<close>

definition give_timing ::
  "(RESULT \<times> cf02a_bit_timing option \<times> world \<times> cf02a_unique) option \<Rightarrow>
     (int \<times> cf02a_out option \<times> world \<times> cf02a_unique) option" where
  "give_timing r = do {
     (result, t, w, uq) \<leftarrow> r;
     case (result, t) of
       (RESULT_Success, Some t) \<Rightarrow> map_option (\<lambda>(e, x, w). (e, x, w, uq)) (give_user (Out_timing t) w)
     | _ \<Rightarrow> Some (-EIO, None, w, uq)
   }"

definition timing_done ::
  "(RESULT \<times> bool option \<times> world \<times> cf02a_unique) option \<Rightarrow>
     (int \<times> cf02a_out option \<times> world \<times> cf02a_unique) option" where
  "timing_done r = do {
     (result, success, w, uq) \<leftarrow> r;
     if result \<noteq> RESULT_Success then Some (-EIO, None, w, uq)
     else if success \<noteq> Some True then Some (-EIO, None, w, uq)
     else Some (0, None, w, uq)
   }"

text \<open>A parameter taken from the user by a request that works on the unique data.\<close>

definition take_user_uq ::
  "'a \<Rightarrow> world \<Rightarrow> cf02a_unique \<Rightarrow>
     ('a \<Rightarrow> world \<Rightarrow> (int \<times> cf02a_out option \<times> world \<times> cf02a_unique) option) \<Rightarrow>
     (int \<times> cf02a_out option \<times> world \<times> cf02a_unique) option" where
  "take_user_uq x w uq f = (let (ok, w) = may_fail w in
     if \<not> ok then Some (-EFAULT, None, w, uq) else f x w)"

definition ioctl_get_rate ::
  "(RESULT \<times> cf02a_bit_timing option \<times> world \<times> cf02a_unique) option \<Rightarrow>
     (int \<times> cf02a_out option \<times> world \<times> cf02a_unique) option" where
  "ioctl_get_rate r = do {
     (result, t, w, uq) \<leftarrow> r;
     case (result, t) of
       (RESULT_Success, Some t) \<Rightarrow> do {
         (result, rate, w, uq) \<leftarrow> cf02a_calc_bitrate w uq t;
         case (result, rate) of
           (RESULT_Success, Some (bitrate, sample_point)) \<Rightarrow>
             map_option (\<lambda>(e, x, w). (e, x, w, uq)) (give_user (Out_bitrate bitrate sample_point) w)
         | _ \<Rightarrow> Some (-EFAULT, None, w, uq)
       }
     | _ \<Rightarrow> Some (-EIO, None, w, uq)
   }"

definition cf02a_ioctl_get_bitrate ::
  "world \<Rightarrow> cf02a_unique \<Rightarrow> (int \<times> cf02a_out option \<times> world \<times> cf02a_unique) option" where
  "cf02a_ioctl_get_bitrate w uq = ioctl_get_rate (cf02a_get_bit_timing w uq)"

definition cf02a_ioctl_get_data_bitrate ::
  "world \<Rightarrow> cf02a_unique \<Rightarrow> (int \<times> cf02a_out option \<times> world \<times> cf02a_unique) option" where
  "cf02a_ioctl_get_data_bitrate w uq = ioctl_get_rate (cf02a_get_data_bit_timing w uq)"

definition cf02a_ioctl_set_bitrate ::
  "world \<Rightarrow> cf02a_unique \<Rightarrow> int \<Rightarrow> int \<Rightarrow> (int \<times> cf02a_out option \<times> world \<times> cf02a_unique) option" where
  "cf02a_ioctl_set_bitrate w uq bitrate sample_point =
     take_user_uq (bitrate, sample_point) w uq (\<lambda>(bitrate, sample_point) w. do {
       (result, t, w, uq) \<leftarrow> cf02a_calc_bit_timing w uq bitrate sample_point (u_bittiming_const uq);
       case (result, t) of
         (RESULT_Success, Some t) \<Rightarrow> timing_done (cf02a_set_bit_timing w uq t)
       | _ \<Rightarrow> Some (-EFAULT, None, w, uq)
     })"

definition cf02a_ioctl_set_data_bitrate ::
  "world \<Rightarrow> cf02a_unique \<Rightarrow> int \<Rightarrow> int \<Rightarrow> (int \<times> cf02a_out option \<times> world \<times> cf02a_unique) option" where
  "cf02a_ioctl_set_data_bitrate w uq bitrate sample_point =
     take_user_uq (bitrate, sample_point) w uq (\<lambda>(bitrate, sample_point) w. do {
       (result, t, w, uq) \<leftarrow> cf02a_calc_bit_timing w uq bitrate sample_point (u_data_bittiming_const uq);
       case (result, t) of
         (RESULT_Success, Some t) \<Rightarrow> timing_done (cf02a_set_data_bit_timing w uq t)
       | _ \<Rightarrow> Some (-EFAULT, None, w, uq)
     })"

definition cf02a_ioctl_get_bit_timing ::
  "world \<Rightarrow> cf02a_unique \<Rightarrow> (int \<times> cf02a_out option \<times> world \<times> cf02a_unique) option" where
  "cf02a_ioctl_get_bit_timing w uq = give_timing (cf02a_get_bit_timing w uq)"

definition cf02a_ioctl_set_bit_timing ::
  "world \<Rightarrow> cf02a_unique \<Rightarrow> cf02a_bit_timing \<Rightarrow> (int \<times> cf02a_out option \<times> world \<times> cf02a_unique) option" where
  "cf02a_ioctl_set_bit_timing w uq param =
     take_user_uq param w uq (\<lambda>t w. timing_done (cf02a_set_bit_timing w uq t))"

definition cf02a_ioctl_get_data_bit_timing ::
  "world \<Rightarrow> cf02a_unique \<Rightarrow> (int \<times> cf02a_out option \<times> world \<times> cf02a_unique) option" where
  "cf02a_ioctl_get_data_bit_timing w uq = give_timing (cf02a_get_data_bit_timing w uq)"

definition cf02a_ioctl_set_data_bit_timing ::
  "world \<Rightarrow> cf02a_unique \<Rightarrow> cf02a_bit_timing \<Rightarrow> (int \<times> cf02a_out option \<times> world \<times> cf02a_unique) option" where
  "cf02a_ioctl_set_data_bit_timing w uq param =
     take_user_uq param w uq (\<lambda>t w. timing_done (cf02a_set_data_bit_timing w uq t))"

subsection \<open>Starting and stopping\<close>

definition cf02a_start_can_interface :: "world \<Rightarrow> (RESULT \<times> world) option" where
  "cf02a_start_can_interface w =
     (let (result, r) = ringbuffer_clear (rx_data w); w = w\<lparr>rx_data := r\<rparr> in
      if result \<noteq> RESULT_Success then Some (RESULT_Failure, w)
      else do {
        (result, success, w) \<leftarrow> cf02a_set_tx_rx_control w True;
        if result \<noteq> RESULT_Success then Some (RESULT_Failure, w)
        else if success \<noteq> Some True then Some (RESULT_Failure, w)
        else Some (RESULT_Success, w)
      })"

text \<open>The loop waits until the transmit thread has cleared the ring buffer and an URB is free.\<close>

fun stop_wait :: "tx_op list list \<Rightarrow> world \<Rightarrow> world option" where
  "stop_wait [] w = None"
| "stop_wait (ops # sched) w = do {
     (_, _, w) \<leftarrow> tx_run ops w;
     if tx_data_clear_requested w then stop_wait sched w
     else if 0 < tx_usb_transfer_sem w then Some w
     else stop_wait sched w
   }"

definition cf02a_stop_can_interface :: "tx_op list list \<Rightarrow> world \<Rightarrow> (RESULT \<times> world) option" where
  "cf02a_stop_can_interface sched w = do {
     w \<leftarrow> stop_wait sched (w\<lparr>tx_data_clear_requested := True\<rparr>);
     (result, success, w) \<leftarrow> cf02a_set_tx_rx_control w False;
     if result \<noteq> RESULT_Success then Some (RESULT_Failure, w)
     else if success \<noteq> Some True then Some (RESULT_Failure, w)
     else Some (RESULT_Success, w)
   }"

definition cf02a_is_device_start :: "world \<Rightarrow> (RESULT \<times> bool option \<times> world) option" where
  "cf02a_is_device_start w = do {
     (result, start, w) \<leftarrow> cf02a_get_tx_rx_control w;
     if result \<noteq> RESULT_Success then Some (RESULT_Failure, None, w)
     else Some (RESULT_Success, start, w)
   }"

definition cf02a_ioctl_get_tx_rx_control :: "world \<Rightarrow> (int \<times> cf02a_out option \<times> world) option" where
  "cf02a_ioctl_get_tx_rx_control w = give_or_EIO (cf02a_get_tx_rx_control w) Out_flag"

definition cf02a_ioctl_set_tx_rx_control ::
  "tx_op list list \<Rightarrow> world \<Rightarrow> bool \<Rightarrow> (int \<times> cf02a_out option \<times> world) option" where
  "cf02a_ioctl_set_tx_rx_control sched w param = take_user param w (\<lambda>start w.
     if start then result_or_EIO (cf02a_start_can_interface w)
     else result_or_EIO (cf02a_stop_can_interface sched w))"

subsection \<open>Opening and closing the file\<close>

definition cf02a_open :: "world \<Rightarrow> int \<times> world" where
  "cf02a_open w = (if if_type w = IF_NET then (-EBUSY, w)
     else (0, w\<lparr>file_open_count := file_open_count w + 1, if_type := IF_FILE\<rparr>))"

definition cf02a_close :: "world \<Rightarrow> int \<times> world" where
  "cf02a_close w = (let w = w\<lparr>file_open_count := file_open_count w - 1\<rparr> in
     (0, if file_open_count w = 0 then w\<lparr>if_type := IF_NONE\<rparr> else w))"

subsection \<open>Times\<close>

definition cf02a_ioctl_get_device_timestamp_reset_time :: "world \<Rightarrow> (int \<times> cf02a_out option \<times> world) option" where
  "cf02a_ioctl_get_device_timestamp_reset_time w =
     give_or_EIO (cf02a_get_device_timestamp_reset_time w) (Out_time \<circ> convert_timestamp_to_timespec64)"

definition cf02a_ioctl_set_host_timestamp_reset_time :: "world \<Rightarrow> (int \<times> cf02a_out option \<times> world) option" where
  "cf02a_ioctl_set_host_timestamp_reset_time w = done_or_EIO (cf02a_set_host_timestamp_reset_time w (basetime w))"

definition cf02a_ioctl_get_rtc_time :: "world \<Rightarrow> (int \<times> cf02a_out option \<times> world) option" where
  "cf02a_ioctl_get_rtc_time w = give_or_EIO (cf02a_get_rtc_time w) Out_rtc"

text \<open>The real time is a number of nanoseconds.\<close>

definition get_real_rtc_time :: "world \<Rightarrow> cf02a_rtc_time" where
  "get_real_rtc_time w =
     (let tm = time64_to_tm (real_now w div 1000000000) 0;
          nsec = real_now w mod 1000000000 in
      \<lparr>weekday = (if tm_wday tm = 0 then 7 else word_of_int (tm_wday tm)),
       month = word_of_int (tm_mon tm + 1), date = word_of_int (tm_mday tm),
       year = word_of_int (tm_year tm + 1900 - 2000), hour = word_of_int (tm_hour tm),
       minute = word_of_int (tm_min tm), second = word_of_int (tm_sec tm),
       microsecond = word_of_int (nsec div 1000)\<rparr>)"

definition cf02a_ioctl_set_rtc_time :: "world \<Rightarrow> (int \<times> cf02a_out option \<times> world) option" where
  "cf02a_ioctl_set_rtc_time w = done_or_EIO (cf02a_set_rtc_time w (get_real_rtc_time w))"

subsection \<open>Stored data\<close>

definition cf02a_ioctl_get_current_store_data_state :: "world \<Rightarrow> (int \<times> cf02a_out option \<times> world) option" where
  "cf02a_ioctl_get_current_store_data_state w = give_or_EIO (cf02a_get_current_store_data_state w) Out_state"

definition cf02a_ioctl_get_store_data_id_list_count :: "world \<Rightarrow> (int \<times> cf02a_out option \<times> world) option" where
  "cf02a_ioctl_get_store_data_id_list_count w = give_or_EIO (cf02a_get_store_data_id_list_count w) Out_count"

text \<open>\<open>strncpy\<close> into a field of \<open>n\<close> bytes.\<close>

definition strncpy :: "nat \<Rightarrow> u8 list \<Rightarrow> u8 list" where
  "strncpy n src = (let s = takeWhile (\<lambda>c. c \<noteq> 0) (take n src) in s @ replicate (n - length s) 0)"

text \<open>The loop over the identifiers: \<open>n\<close> are left, the next is \<open>i\<close>. A pending signal ends it.\<close>

fun read_store_data_ids :: "nat \<Rightarrow> nat \<Rightarrow> world \<Rightarrow> u8 list \<Rightarrow> (int \<times> u8 list \<times> world) option" where
  "read_store_data_ids 0 i w id_list = Some (0, id_list, w)"
| "read_store_data_ids (Suc n) i w id_list =
     (let (ok, w) = may_fail w in
      if \<not> ok then Some (-ERESTARTSYS, id_list, w)
      else do {
        (result, ident, _, w) \<leftarrow> cf02a_get_store_data_id w (int i);
        case (result, ident) of
          (RESULT_Success, Some ident) \<Rightarrow> do {
            id_list \<leftarrow> store id_list (STORE_DATA_ID_MAX_LENGTH * i) (strncpy STORE_DATA_ID_MAX_LENGTH ident);
            read_store_data_ids n (Suc i) w id_list
          }
        | _ \<Rightarrow> Some (-EIO, id_list, w)
      })"

text \<open>The size of the allocation is a product of 32-bit values.\<close>

definition cf02a_ioctl_get_store_data_id_list ::
  "world \<Rightarrow> u32 \<Rightarrow> (int \<times> cf02a_out option \<times> world) option" where
  "cf02a_ioctl_get_store_data_id_list w count = take_user count w (\<lambda>count w.
     let size = unat (of_nat STORE_DATA_ID_MAX_LENGTH * count :: u32);
         (ok, w) = may_fail w in
     if \<not> ok then Some (-ENOMEM, None, w)
     else do {
       (result, id_list, w) \<leftarrow> read_store_data_ids (unat count) 0 w (replicate size 0);
       if result \<noteq> 0 then Some (result, None, w)
       else give_user (Out_ids id_list) w
     })"

definition meta_out :: "cf02a_store_data_meta \<Rightarrow> cf02a_out" where
  "meta_out m = Out_meta (start_rtc m) (convert_timestamp_to_timespec64 (start_ts m))
     (convert_timestamp_to_timespec64 (reset_device_ts m)) (reset_host m) (can_frame_count m)"

definition cf02a_ioctl_get_store_data_meta ::
  "world \<Rightarrow> u8 list \<Rightarrow> (int \<times> cf02a_out option \<times> world) option" where
  "cf02a_ioctl_get_store_data_meta w param = take_user param w (\<lambda>ident w.
     give_or_EIO (drop_flag (cf02a_get_store_data_meta w ident)) meta_out)"

text \<open>The parameter of this request is read from the user, and then overwritten.\<close>

definition cf02a_ioctl_get_store_data_rx_control :: "world \<Rightarrow> (int \<times> cf02a_out option \<times> world) option" where
  "cf02a_ioctl_get_store_data_rx_control w = take_user () w (\<lambda>_ w.
     give_or_EIO (cf02a_get_store_data_rx_control w) (\<lambda>c. Out_rx_control (rc_store_id c) (rc_start c \<noteq> 0)))"

definition cf02a_ioctl_set_store_data_rx_control ::
  "world \<Rightarrow> u8 list \<Rightarrow> bool \<Rightarrow> (int \<times> cf02a_out option \<times> world) option" where
  "cf02a_ioctl_set_store_data_rx_control w ident on = take_user (ident, on) w (\<lambda>(ident, on) w.
     let control = \<lparr>rc_store_id = ident, rc_start = (if on then 1 else 0),
                    can_frame_count_per_request = frames_per_request w\<rparr> in
     if on then
       let (result, r) = ringbuffer_clear (rx_store_data w); w = w\<lparr>rx_store_data := r\<rparr> in
       if result \<noteq> RESULT_Success then Some (-EIO, None, w)
       else done_or_EIO (cf02a_set_store_data_rx_control
              (w\<lparr>received_store_data_size := 0, store_data_complete := False\<rparr>) control)
     else done_or_EIO (cf02a_set_store_data_rx_control w control))"

definition cf02a_rx_store_data_is_read_enable :: "world \<Rightarrow> bool" where
  "cf02a_rx_store_data_is_read_enable w =
     (if onclosing w then True
      else if (word_of_int (received_store_data_size w) :: u64) div of_nat CAN_PACKET_SIZE \<ge> frames_per_request w
      then True
      else if store_data_complete w then True
      else False)"

text \<open>\<open>wait_event_interruptible_timeout\<close> on \<open>us\<close>, the transfers that will arrive.\<close>

fun wait_event :: "(world \<Rightarrow> bool) \<Rightarrow> world \<Rightarrow> (int \<times> u8 list) list \<Rightarrow> (int \<times> world) option" where
  "wait_event ready w us =
     (if ready w then Some (1, w\<lparr>incoming := us\<rparr>)
      else if us = [] \<or> rx_urbs w = 0 then
        (let (ok, w) = may_fail (w\<lparr>incoming := us\<rparr>) in Some (if ok then 0 else -ERESTARTSYS, w))
      else do { w \<leftarrow> rx_callback w (hd us); wait_event ready w (tl us) })"

declare wait_event.simps [simp del]

definition cf02a_ioctl_read_store_data ::
  "(nat \<Rightarrow> nat \<Rightarrow> nat) \<Rightarrow> world \<Rightarrow> nat \<Rightarrow> (int \<times> cf02a_out option \<times> world) option" where
  "cf02a_ioctl_read_store_data copy_to_user w count = take_user count w (\<lambda>buffer_size w.
     let (ok, w) = may_fail w in
     if \<not> ok then Some (-EFAULT, None, w)
     else if onopening w then Some (-ENODEV, None, w)
     else if onclosing w then Some (-ESHUTDOWN, None, w\<lparr>rx_store_data_done := rx_store_data_done w + 1\<rparr>)
     else do {
       (result, w) \<leftarrow> wait_event cf02a_rx_store_data_is_read_enable w (incoming w);
       if result \<le> 0 then Some (result, None, w)
       else if onclosing w then Some (-ESHUTDOWN, None, w\<lparr>rx_store_data_done := rx_store_data_done w + 1\<rparr>)
       else do {
         (rsize, bs, r) \<leftarrow> ringbuffer_read copy_to_user (rx_store_data w) buffer_size;
         let w = w\<lparr>rx_store_data := r\<rparr>;
         if rsize < 0 then Some (-EIO, Some (Out_data bs), w)
         else let (ok, w) = may_fail w in
           if \<not> ok then Some (-EFAULT, Some (Out_data bs), w)
           else if store_data_complete w = False \<and> ringbuffer_is_empty (rx_store_data w) then do {
             (result, success, w) \<leftarrow> cf02a_request_notify_recv_can_frame (w\<lparr>received_store_data_size := 0\<rparr>);
             if result \<noteq> RESULT_Success then Some (-EIO, Some (Out_data bs), w)
             else if success \<noteq> Some True then Some (-EIO, Some (Out_data bs), w)
             else Some (rsize, Some (Out_data bs), w)
           }
           else Some (rsize, Some (Out_data bs), w)
       }
     })"

definition cf02a_ioctl_delete_store_data :: "world \<Rightarrow> u8 list \<Rightarrow> (int \<times> cf02a_out option \<times> world) option" where
  "cf02a_ioctl_delete_store_data w param = take_user param w (\<lambda>ident w. done_or_EIO (cf02a_delete_store_data w ident))"

definition cf02a_ioctl_init_store_data_media :: "world \<Rightarrow> (int \<times> cf02a_out option \<times> world) option" where
  "cf02a_ioctl_init_store_data_media w = done_or_EIO (cf02a_init_store_data_media w)"

definition cf02a_ioctl_get_store_enable :: "world \<Rightarrow> (int \<times> cf02a_out option \<times> world) option" where
  "cf02a_ioctl_get_store_enable w = give_or_EIO (cf02a_get_store_enable w) Out_flag"

definition cf02a_ioctl_set_store_enable :: "world \<Rightarrow> bool \<Rightarrow> (int \<times> cf02a_out option \<times> world) option" where
  "cf02a_ioctl_set_store_enable w param = take_user param w (\<lambda>enable w. done_or_EIO (cf02a_set_store_enable w enable))"

definition cf02a_ioctl_get_store_max_duration :: "world \<Rightarrow> (int \<times> cf02a_out option \<times> world) option" where
  "cf02a_ioctl_get_store_max_duration w = give_or_EIO (cf02a_get_store_max_duration w) Out_count"

definition cf02a_ioctl_set_store_max_duration :: "world \<Rightarrow> u32 \<Rightarrow> (int \<times> cf02a_out option \<times> world) option" where
  "cf02a_ioctl_set_store_max_duration w param = take_user param w (\<lambda>d w. done_or_EIO (cf02a_set_store_max_duration w d))"

subsection \<open>The switch\<close>

datatype cf02a_ioctl_cmd =
  CF02A_GET_SILENT_MODE | CF02A_SET_SILENT_MODE bool
| CF02A_GET_FD_MODE | CF02A_SET_FD_MODE bool
| CF02A_GET_ISO_MODE | CF02A_SET_ISO_MODE bool
| CF02A_GET_BITRATE | CF02A_SET_BITRATE int int
| CF02A_GET_DATA_BITRATE | CF02A_SET_DATA_BITRATE int int
| CF02A_GET_BIT_TIMING | CF02A_SET_BIT_TIMING cf02a_bit_timing
| CF02A_GET_DATA_BIT_TIMING | CF02A_SET_DATA_BIT_TIMING cf02a_bit_timing
| CF02A_GET_TX_RX_CONTROL | CF02A_SET_TX_RX_CONTROL bool
| CF02A_GET_DEVICE_TIMESTAMP_RESET_TIME | CF02A_SET_HOST_TIMESTAMP_RESET_TIME
| CF02A_GET_RTC_TIME | CF02A_SET_RTC_TIME
| CF02A_GET_CURRENT_STORE_DATA_STATE
| CF02A_GET_STORE_DATA_ID_LIST_COUNT | CF02A_GET_STORE_DATA_ID_LIST u32
| CF02A_GET_STORE_DATA_META "u8 list"
| CF02A_GET_STORE_DATA_RX_CONTROL | CF02A_SET_STORE_DATA_RX_CONTROL "u8 list" bool
| CF02A_READ_STORE_DATA nat | CF02A_DELETE_STORE_DATA "u8 list" | CF02A_INIT_STORE_DATA_MEDIA
| CF02A_GET_STORE_ENABLE | CF02A_SET_STORE_ENABLE bool
| CF02A_GET_STORE_MAX_DURATION | CF02A_SET_STORE_MAX_DURATION u32
| CF02A_other

definition with_uq ::
  "cf02a_unique \<Rightarrow> (int \<times> cf02a_out option \<times> world) option \<Rightarrow>
     (int \<times> cf02a_out option \<times> world \<times> cf02a_unique) option" where
  "with_uq uq r = map_option (\<lambda>(e, x, w). (e, x, w, uq)) r"

definition cf02a_ioctl ::
  "tx_op list list \<Rightarrow> (nat \<Rightarrow> nat \<Rightarrow> nat) \<Rightarrow> world \<Rightarrow> cf02a_unique \<Rightarrow> cf02a_ioctl_cmd \<Rightarrow>
     (int \<times> cf02a_out option \<times> world \<times> cf02a_unique) option" where
  "cf02a_ioctl sched copy_to_user w uq cmd = (case cmd of
     CF02A_GET_SILENT_MODE \<Rightarrow> with_uq uq (cf02a_ioctl_get_silent_mode w)
   | CF02A_SET_SILENT_MODE p \<Rightarrow> with_uq uq (cf02a_ioctl_set_silent_mode w p)
   | CF02A_GET_FD_MODE \<Rightarrow> with_uq uq (cf02a_ioctl_get_fd_mode w)
   | CF02A_SET_FD_MODE p \<Rightarrow> with_uq uq (cf02a_ioctl_set_fd_mode w p)
   | CF02A_GET_ISO_MODE \<Rightarrow> with_uq uq (cf02a_ioctl_get_iso_mode w)
   | CF02A_SET_ISO_MODE p \<Rightarrow> with_uq uq (cf02a_ioctl_set_iso_mode w p)
   | CF02A_GET_BITRATE \<Rightarrow> cf02a_ioctl_get_bitrate w uq
   | CF02A_SET_BITRATE b s \<Rightarrow> cf02a_ioctl_set_bitrate w uq b s
   | CF02A_GET_DATA_BITRATE \<Rightarrow> cf02a_ioctl_get_data_bitrate w uq
   | CF02A_SET_DATA_BITRATE b s \<Rightarrow> cf02a_ioctl_set_data_bitrate w uq b s
   | CF02A_GET_BIT_TIMING \<Rightarrow> cf02a_ioctl_get_bit_timing w uq
   | CF02A_SET_BIT_TIMING t \<Rightarrow> cf02a_ioctl_set_bit_timing w uq t
   | CF02A_GET_DATA_BIT_TIMING \<Rightarrow> cf02a_ioctl_get_data_bit_timing w uq
   | CF02A_SET_DATA_BIT_TIMING t \<Rightarrow> cf02a_ioctl_set_data_bit_timing w uq t
   | CF02A_GET_TX_RX_CONTROL \<Rightarrow> with_uq uq (cf02a_ioctl_get_tx_rx_control w)
   | CF02A_SET_TX_RX_CONTROL p \<Rightarrow> with_uq uq (cf02a_ioctl_set_tx_rx_control sched w p)
   | CF02A_GET_DEVICE_TIMESTAMP_RESET_TIME \<Rightarrow> with_uq uq (cf02a_ioctl_get_device_timestamp_reset_time w)
   | CF02A_SET_HOST_TIMESTAMP_RESET_TIME \<Rightarrow> with_uq uq (cf02a_ioctl_set_host_timestamp_reset_time w)
   | CF02A_GET_RTC_TIME \<Rightarrow> with_uq uq (cf02a_ioctl_get_rtc_time w)
   | CF02A_SET_RTC_TIME \<Rightarrow> with_uq uq (cf02a_ioctl_set_rtc_time w)
   | CF02A_GET_CURRENT_STORE_DATA_STATE \<Rightarrow> with_uq uq (cf02a_ioctl_get_current_store_data_state w)
   | CF02A_GET_STORE_DATA_ID_LIST_COUNT \<Rightarrow> with_uq uq (cf02a_ioctl_get_store_data_id_list_count w)
   | CF02A_GET_STORE_DATA_ID_LIST n \<Rightarrow> with_uq uq (cf02a_ioctl_get_store_data_id_list w n)
   | CF02A_GET_STORE_DATA_META i \<Rightarrow> with_uq uq (cf02a_ioctl_get_store_data_meta w i)
   | CF02A_GET_STORE_DATA_RX_CONTROL \<Rightarrow> with_uq uq (cf02a_ioctl_get_store_data_rx_control w)
   | CF02A_SET_STORE_DATA_RX_CONTROL i p \<Rightarrow> with_uq uq (cf02a_ioctl_set_store_data_rx_control w i p)
   | CF02A_READ_STORE_DATA n \<Rightarrow> with_uq uq (cf02a_ioctl_read_store_data copy_to_user w n)
   | CF02A_DELETE_STORE_DATA i \<Rightarrow> with_uq uq (cf02a_ioctl_delete_store_data w i)
   | CF02A_INIT_STORE_DATA_MEDIA \<Rightarrow> with_uq uq (cf02a_ioctl_init_store_data_media w)
   | CF02A_GET_STORE_ENABLE \<Rightarrow> with_uq uq (cf02a_ioctl_get_store_enable w)
   | CF02A_SET_STORE_ENABLE p \<Rightarrow> with_uq uq (cf02a_ioctl_set_store_enable w p)
   | CF02A_GET_STORE_MAX_DURATION \<Rightarrow> with_uq uq (cf02a_ioctl_get_store_max_duration w)
   | CF02A_SET_STORE_MAX_DURATION d \<Rightarrow> with_uq uq (cf02a_ioctl_set_store_max_duration w d)
   | CF02A_other \<Rightarrow> Some (-EFAULT, None, w, uq))"

subsection \<open>Stopping and the transmit thread\<close>

lemma tx_step_other:
  assumes "tx_pending w ps" and "write_ok op" and "op \<noteq> Tx_iterate"
  shows "\<exists>acc w' ps'. tx_step op w = Some (Tx_continue, acc, w') \<and> tx_pending w' ps'
    \<and> (tx_data_clear_requested w \<longrightarrow> tx_data_clear_requested w')
    \<and> tx_usb_transfer_sem w \<le> tx_usb_transfer_sem w'"
proof (cases op)
  case (Tx_write pl n)
  then have n: "unat n \<le> length pl" using assms(2) by simp
  have inv: "rb_inv (tx_data w)" "msg_wf (stack_msg w)" using assms(1) by (simp_all add: tx_pending_def)
  obtain acc w' ps' where 1: "tx_step op w = Some (Tx_continue, acc, w')" "tx_pending w' ps'"
    using tx_ok_write [OF assms(1) n] Tx_write by (auto simp: tx_ok_def)
  moreover obtain tx where "w' = w\<lparr>tx_data := tx\<rparr>"
    using write_tx_rb_exact [OF inv n] 1(1) Tx_write by (auto split: bind_splits)
  ultimately show ?thesis by auto
next
  case Tx_complete
  have "tx_pending (write_bulk_callback w) ps" using tx_ok_complete [OF assms(1)] by (simp add: tx_ok_def)
  moreover have "tx_data_clear_requested (write_bulk_callback w) = tx_data_clear_requested w"
    "tx_usb_transfer_sem (write_bulk_callback w) = tx_usb_transfer_sem w + 1"
    by (simp_all add: write_bulk_callback_def up_tx_usb_transfer_sem_def tx_ok_unique_callback)
  ultimately show ?thesis using Tx_complete by auto
qed (use assms in \<open>auto simp: tx_pending_def\<close>)

lemma tx_run_other:
  assumes "tx_pending w ps" and "list_all write_ok ops" and "Tx_iterate \<notin> set ops"
  shows "\<exists>acc w' ps'. tx_run ops w = Some (Tx_continue, acc, w') \<and> tx_pending w' ps'
    \<and> (tx_data_clear_requested w \<longrightarrow> tx_data_clear_requested w')
    \<and> tx_usb_transfer_sem w \<le> tx_usb_transfer_sem w'"
  using assms
proof (induction ops arbitrary: w ps)
  case (Cons op ops)
  obtain acc w1 ps1 where 1: "tx_step op w = Some (Tx_continue, acc, w1)" "tx_pending w1 ps1"
    "tx_data_clear_requested w \<longrightarrow> tx_data_clear_requested w1" "tx_usb_transfer_sem w \<le> tx_usb_transfer_sem w1"
    using tx_step_other [OF Cons.prems(1), of op] Cons.prems(2,3) by auto
  then show ?case using Cons.IH [OF 1(2)] Cons.prems(2,3) by fastforce
qed auto

lemma stop_wait_polls:
  assumes "tx_pending w ps" and "\<forall>ops \<in> set xss. list_all write_ok ops \<and> Tx_iterate \<notin> set ops"
    and "tx_data_clear_requested w"
  shows "\<exists>w' ps'. stop_wait (xss @ rest) w = stop_wait rest w' \<and> tx_pending w' ps' \<and> tx_data_clear_requested w'
    \<and> tx_usb_transfer_sem w \<le> tx_usb_transfer_sem w'"
  using assms
proof (induction xss arbitrary: w ps)
  case (Cons ops xss)
  obtain acc w1 ps1 where 1: "tx_run ops w = Some (Tx_continue, acc, w1)" "tx_pending w1 ps1"
    "tx_data_clear_requested w1" "tx_usb_transfer_sem w \<le> tx_usb_transfer_sem w1"
    using tx_run_other [OF Cons.prems(1), of ops] Cons.prems(2,3) by auto
  obtain w2 ps2 where "stop_wait (xss @ rest) w1 = stop_wait rest w2" "tx_pending w2 ps2"
    "tx_data_clear_requested w2" "tx_usb_transfer_sem w1 \<le> tx_usb_transfer_sem w2"
    using Cons.IH [OF 1(2) _ 1(3)] Cons.prems(2) by auto
  then show ?case using 1(1,3,4) by auto
qed auto



subsection \<open>A bit rate of zero\<close>

text \<open>A bit rate of zero stops the kernel. The request does not check the rate: once the device has
  reported its clock, the search for a timing divides by the product of the rate and the number of time
  quanta, which is zero.\<close>

theorem set_bitrate_zero_divides:
  assumes "device_answers w 0x3D (payload (stack_msg w)) 4 xss [MSG_SOB, 8, 0x6D, b0, b1, b2, b3, MSG_EOB]"
    and "u_bittiming_const uq = cf02a_bittiming_const"
  shows "cf02a_ioctl_set_bitrate w uq 0 sample_point = None"
proof -
  let ?f = "[MSG_SOB, 8, 0x6D, b0, b1, b2, b3, MSG_EOB]"
  have ready: "wait_ready w" using assms(1) by (simp add: device_answers_def)
  have pl: "length (payload (stack_msg w)) = 78" using msg_wf_payload [OF ready] .
  have "cf02a_msg_parse_response_get_can_clock (payload (frame_msg ?f (stack_msg w)))
      = Some (RESULT_Success, i32_of (le_value [b0, b1, b2, b3]))"
    by (simp add: cf02a_msg_parse_response_get_can_clock_def frame_msg_def seg_def load_def)
  then obtain w' where "cf02a_get_common w 4 8 0x3D 0x6D cf02a_msg_parse_response_get_can_clock
      = Some (RESULT_Success, Some (i32_of (le_value [b0, b1, b2, b3])), w')"
    using query_answer [where pack = no_pack, OF assms(1) _ _ pl, of "0x6D"
        "cf02a_msg_parse_response_get_can_clock \<circ> payload" _ 8]
    by (auto simp: get_common_query no_pack_def)
  moreover have "search_tseg clock 0 cf02a_bittiming_const n 769 s = None" for clock n s
    by (subst search_tseg.simps) (simp add: cf02a_bittiming_const_def try_tseg_def candidate_brp_def udiv_def)
  then have "cf02a_can_calc_bittiming clock bt cf02a_bittiming_const = None" if "cb_bitrate bt = 0" for clock bt
    using that by (simp add: cf02a_can_calc_bittiming_def) (simp add: cf02a_bittiming_const_def)
  moreover have "may_fail w = (True, w)" using ready by (simp add: wait_ready_def may_fail_def)
  ultimately show ?thesis
    using assms(2) by (simp add: cf02a_ioctl_set_bitrate_def take_user_uq_def cf02a_calc_bit_timing_def
        cf02a_get_can_clock_def)
qed

lemma set_bitrate_zero_divides_witness:
  "cf02a_ioctl_set_bitrate (answering_world CF02A [[0xF7, 8, 0x6D, 0, 0xB4, 0xC4, 4, 0xFA]])
     \<lparr>u_can_clock = 0, u_bittiming_const = cf02a_bittiming_const,
      u_data_bittiming_const = cf02a_data_bittiming_const,
      u_bittiming = example_timing, u_data_bittiming = example_timing\<rparr> 0 800 = None"
proof (rule set_bitrate_zero_divides, rule answering_world_answers)
  show "scan (concat [[0xF7, 8, 0x6D, 0, 0xB4, 0xC4, 4, 0xFA]]) = ([[MSG_SOB, 8, 0x6D, 0, 0xB4, 0xC4, 4, MSG_EOB]], [])"
    by (simp add: scan.simps classify_def)
qed (simp_all add: frame_ok_of_def canfd_frame_ok_def answering_def answers_def frame_msg_def is_core_id_def
    core_answers_def answers_of_def cf02a_request_of_response_def get_request_command_from_response_command_def)

subsection \<open>Reading stored data\<close>


text \<open>Two bytes are waiting, and all that was requested has arrived.\<close>

definition store_world :: world where
  "store_world = (answering_world CF02A [[0xF7, 5, 0x25, 0x80, 0xFA]])
     \<lparr>rx_store_data := (rb_empty 64)\<lparr>buffer := [7, 8] @ replicate 62 0, write_p := 2\<rparr>,
      received_store_data_size := 32760\<rparr>"

lemma store_world_answers:
  assumes "rb_inv r"
  shows "device_answers (store_world\<lparr>rx_store_data := r, received_store_data_size := 0\<rparr>) 0x80
    (payload (stack_msg store_world)) 4 [[0xF7, 5, 0x25, 0x80, 0xFA]] [0xF7, 5, 0x25, 0x80, 0xFA]"
proof -
  have "device_answers (answering_world CF02A [[0xF7, 5, 0x25, 0x80, 0xFA]]) 0x80
    (payload (stack_msg store_world)) 4 [[0xF7, 5, 0x25, 0x80, 0xFA]] [0xF7, 5, 0x25, 0x80, 0xFA]"
  proof (rule answering_world_answers)
    show "scan (concat [[0xF7, 5, 0x25, 0x80, 0xFA]]) = ([[0xF7, 5, 0x25, 0x80, 0xFA]], [])"
      by (simp add: scan.simps classify_def)
  qed (simp_all add: frame_ok_of_def canfd_frame_ok_def answering_def answers_def frame_msg_def is_core_id_def
      core_answers_def seg_def)
  moreover have "answering own ((answering_world p xss)\<lparr>rx_store_data := r, received_store_data_size := 0, rxc_id := i\<rparr>)
      = answering own ((answering_world p xss)\<lparr>rxc_id := i\<rparr>)" for own p xss i
    by (simp add: answering_def fun_eq_iff)
  ultimately show ?thesis using assms
    by (simp add: device_answers_def store_world_def wait_ready_def rx_inv_def leftover_def answered_by_def)
qed


end
