(* ===== verification/Ag08a_Cmd.thy ===== *)
theory Ag08a_Cmd
  imports Cmd
begin

text \<open>
  The commands of the EP1-AG08A: \<open>module/ep1_ag08a/ep1_ag08a_cmd.c\<close>. The packers of this device
  take pointers that may be \<open>NULL\<close>; the request's payload never is.
\<close>

text \<open>The packer applied to the payload of the request.\<close>

definition packed ::
  "(u8 list option \<Rightarrow> nat \<Rightarrow> (RESULT \<times> u8 list option) option) \<Rightarrow> nat \<Rightarrow> u8 list \<Rightarrow>
     (RESULT \<times> u8 list) option" where
  "packed pack n pl = map_option (\<lambda>(r, d). (r, case d of Some d \<Rightarrow> d | None \<Rightarrow> pl)) (pack (Some pl) n)"

definition ag08a_get_status ::
  "world \<Rightarrow> ag08a_resp_get_status option \<Rightarrow>
     (RESULT \<times> ag08a_resp_get_status option option \<times> world) option" where
  "ag08a_get_status w status =
     query w AG08A_CMD_GetStatus no_pack 4 18 AG08A_CMD_ResponseGetStatus
       (\<lambda>m. ag08a_msg_parse_response_get_status (Some (payload m)) (unat (payload_size m)) status)"

definition ag08a_set_analog_input ::
  "world \<Rightarrow> ag08a_set_analog_input option \<Rightarrow> (RESULT \<times> bool option \<times> world) option" where
  "ag08a_set_analog_input w param =
     control w AG08A_CMD_SetAnalogInput (packed (ag08a_msg_pack_set_analog_input param) (13 - 4)) 13"

definition ag08a_control_analog_input ::
  "world \<Rightarrow> bool list option \<Rightarrow> (RESULT \<times> bool option \<times> world) option" where
  "ag08a_control_analog_input w param =
     control w AG08A_CMD_ControlAnalogInput (packed (ag08a_msg_pack_control_analog_input param) (5 - 4)) 5"

text \<open>The packer also updates the caller's structure, whose new content is not returned here.\<close>

definition ag08a_set_analog_output ::
  "world \<Rightarrow> ag08a_set_analog_output option \<Rightarrow> (RESULT \<times> bool option \<times> world) option" where
  "ag08a_set_analog_output w param =
     control w AG08A_CMD_SetAnalogOutput
       (packed (\<lambda>d n. map_option (\<lambda>(r, _, d). (r, d)) (ag08a_msg_pack_set_analog_output param d n)) (7 - 4)) 7"

definition ag08a_control_analog_output ::
  "world \<Rightarrow> bool option \<Rightarrow> (RESULT \<times> bool option \<times> world) option" where
  "ag08a_control_analog_output w param =
     control w AG08A_CMD_ControlAnalogOutput (packed (ag08a_msg_pack_control_analog_output param) (5 - 4)) 5"

end
