(* ===== verification/Ag08a_Fops.thy ===== *)
theory Ag08a_Fops
  imports Can_Fops Ag08a_Cmd
begin

text \<open>
  The operations of the EP1-AG08A behind its file: \<open>module/ep1_ag08a/ep1_ag08a_fops.c\<close>. The
  structure a status is parsed into is the caller's local one, the argument \<open>st\<close>.

  The lemmas: a payload of samples has between 11 and 25 bytes, as the number of its channels says, so
  that a walk over the payloads always advances; the guards that the device is stopped.
\<close>

unbundle bit_operations_syntax

subsection \<open>Payloads\<close>

text \<open>The number of bits set, by the arithmetic of the source; its argument is a byte here.\<close>

definition count_bits :: "int \<Rightarrow> int" where
  "count_bits n =
     (let s = drop_bit 1 n AND 0x1B6DB6DB;
          s = n - s - (drop_bit 1 s AND 0x1B6DB6DB)
      in ((s + drop_bit 3 s) AND 0x71C71C7) mod 63)"

text \<open>The payload starts at offset \<open>pos\<close> of \<open>buf\<close>: eight bytes of time stamp, the channels, two bytes for
  each channel.\<close>

definition ag08a_get_read_payload_size :: "u8 list \<Rightarrow> nat \<Rightarrow> int option" where
  "ag08a_get_read_payload_size buf pos = do {
     channel \<leftarrow> load1 buf (pos + 8);
     if channel = 0 then Some (-1)
     else let no_data_ch_count = 8 - count_bits (uint channel);
              cmd_size = 29 - 2 * no_data_ch_count
          in Some (cmd_size - 4)
   }"

definition ag08a_get_write_payload_size :: int where
  "ag08a_get_write_payload_size = -1"

subsection \<open>Input and output\<close>

text \<open>The status, or the failure to get it.\<close>

definition ag08a_status ::
  "world \<Rightarrow> ag08a_resp_get_status \<Rightarrow> (RESULT \<times> ag08a_resp_get_status \<times> world) option" where
  "ag08a_status w st = do {
     (result, s, w) \<leftarrow> ag08a_get_status w (Some st);
     Some (result, case s of Some (Some s) \<Rightarrow> s | _ \<Rightarrow> st, w)
   }"

definition ag08a_is_device_input_start ::
  "world \<Rightarrow> ag08a_resp_get_status \<Rightarrow> (RESULT \<times> bool option \<times> world) option" where
  "ag08a_is_device_input_start w st = do {
     (result, s, w) \<leftarrow> ag08a_status w st;
     if result \<noteq> RESULT_Success then Some (RESULT_Failure, None, w)
     else Some (RESULT_Success, Some (list_ex id (take AG08A_CH_NUM (in_ctrl s))), w)
   }"

definition ag08a_is_device_output_start ::
  "world \<Rightarrow> ag08a_resp_get_status \<Rightarrow> (RESULT \<times> bool option \<times> world) option" where
  "ag08a_is_device_output_start w st = do {
     (result, s, w) \<leftarrow> ag08a_status w st;
     if result \<noteq> RESULT_Success then Some (RESULT_Failure, None, w)
     else Some (RESULT_Success, Some (out_ctrl s), w)
   }"

definition done_or_failure :: "(RESULT \<times> bool option \<times> world) option \<Rightarrow> (RESULT \<times> world) option" where
  "done_or_failure r = do {
     (result, success, w) \<leftarrow> r;
     if result \<noteq> RESULT_Success then Some (RESULT_Failure, w)
     else if success \<noteq> Some True then Some (RESULT_Failure, w)
     else Some (RESULT_Success, w)
   }"

definition ag08a_set_device_input ::
  "world \<Rightarrow> ag08a_resp_get_status \<Rightarrow> ag08a_set_analog_input \<Rightarrow> (RESULT \<times> world) option" where
  "ag08a_set_device_input w st cfg = do {
     (result, start, w) \<leftarrow> ag08a_is_device_input_start w st;
     if result \<noteq> RESULT_Success then Some (RESULT_Failure, w)
     else if start = Some True then Some (RESULT_Failure, w)
     else done_or_failure (ag08a_set_analog_input w (Some cfg))
   }"

definition ag08a_set_device_output ::
  "world \<Rightarrow> ag08a_resp_get_status \<Rightarrow> ag08a_set_analog_output \<Rightarrow> (RESULT \<times> world) option" where
  "ag08a_set_device_output w st cfg = do {
     (result, start, w) \<leftarrow> ag08a_is_device_output_start w st;
     if result \<noteq> RESULT_Success then Some (RESULT_Failure, w)
     else if start = Some True then Some (RESULT_Failure, w)
     else done_or_failure (ag08a_set_analog_output w (Some cfg))
   }"

definition ag08a_control_device_input :: "world \<Rightarrow> bool list \<Rightarrow> (RESULT \<times> world) option" where
  "ag08a_control_device_input w ctrl = done_or_failure (ag08a_control_analog_input w (Some ctrl))"

definition ag08a_control_device_output :: "world \<Rightarrow> bool \<Rightarrow> (RESULT \<times> world) option" where
  "ag08a_control_device_output w ctrl = done_or_failure (ag08a_control_analog_output w (Some ctrl))"

definition ag08a_stop_device_input :: "world \<Rightarrow> (RESULT \<times> world) option" where
  "ag08a_stop_device_input w = ag08a_control_device_input w (replicate AG08A_CH_NUM False)"

definition ag08a_stop_device_output :: "world \<Rightarrow> (RESULT \<times> world) option" where
  "ag08a_stop_device_output w = ag08a_control_device_output w False"

subsection \<open>The file\<close>

definition ag08a_open :: "world \<Rightarrow> int \<times> world" where
  "ag08a_open w = (if if_type w \<noteq> IF_NONE then (-EBUSY, w) else (0, w\<lparr>if_type := IF_FILE\<rparr>))"

definition ag08a_close :: "world \<Rightarrow> int \<times> world" where
  "ag08a_close w = (0, w\<lparr>if_type := IF_NONE\<rparr>)"

datatype ag08a_ioctl =
  AG08A_IOCTL_GET_STATUS
| AG08A_IOCTL_SET_ANALOG_INPUT ag08a_set_analog_input
| AG08A_IOCTL_CONTROL_ANALOG_INPUT "bool list"
| AG08A_IOCTL_SET_ANALOG_OUTPUT ag08a_set_analog_output
| AG08A_IOCTL_CONTROL_ANALOG_OUTPUT bool
| AG08A_other

definition ag08a_ioctl ::
  "world \<Rightarrow> ag08a_resp_get_status \<Rightarrow> ag08a_ioctl \<Rightarrow> (int \<times> ag08a_resp_get_status option \<times> world) option"
where
  "ag08a_ioctl w st cmd = (case cmd of
     AG08A_IOCTL_GET_STATUS \<Rightarrow> do {
       (result, s, w) \<leftarrow> ag08a_status w st;
       if result \<noteq> RESULT_Success then Some (-EIO, None, w) else give_user s w
     }
   | AG08A_IOCTL_SET_ANALOG_INPUT param \<Rightarrow> take_user param w (\<lambda>cfg w.
       result_or_EIO (ag08a_set_device_input w st cfg))
   | AG08A_IOCTL_CONTROL_ANALOG_INPUT param \<Rightarrow> take_user param w (\<lambda>ctrl w.
       let start = list_ex id (take AG08A_CH_NUM ctrl) in
       if start then
         let (result, r) = ringbuffer_clear (rx_data w); w = w\<lparr>rx_data := r\<rparr> in
         if result \<noteq> RESULT_Success then Some (-EIO, None, w)
         else result_or_EIO (ag08a_control_device_input w ctrl)
       else result_or_EIO (ag08a_control_device_input w ctrl))
   | AG08A_IOCTL_SET_ANALOG_OUTPUT param \<Rightarrow> take_user param w (\<lambda>cfg w.
       result_or_EIO (ag08a_set_device_output w st cfg))
   | AG08A_IOCTL_CONTROL_ANALOG_OUTPUT param \<Rightarrow> take_user param w (\<lambda>ctrl w.
       result_or_EIO (ag08a_control_device_output w ctrl))
   | AG08A_other \<Rightarrow> Some (-EFAULT, None, w))"

subsection \<open>Lemmas\<close>

text \<open>The reference: how many of the eight bits are set.\<close>

definition popcount :: "u8 \<Rightarrow> nat" where
  "popcount b = length (filter (bit b) [0, 1, 2, 3, 4, 5, 6, 7])"

lemma count_bits_ints:
  "list_all (\<lambda>n. count_bits n = int (length (filter (bit n) [0, 1, 2, 3, 4, 5, 6, 7]))) [0..255]"
  by (simp add: count_bits_def upto_rec1 Let_def bit_numeral_rec)

lemma count_bits_popcount: "count_bits (uint b) = int (popcount b)"
proof -
  have "uint b \<in> set [0..255]" using uint_bounded [of b] by simp
  then have "count_bits (uint b) = int (length (filter (bit (uint b)) [0, 1, 2, 3, 4, 5, 6, 7]))"
    using count_bits_ints unfolding list_all_iff by blast
  then show ?thesis by (simp add: popcount_def bit_uint_iff)
qed

lemma popcount_bounds: "popcount b \<le> 8" "b \<noteq> 0 \<Longrightarrow> 1 \<le> popcount b"
proof -
  show "popcount b \<le> 8"
    unfolding popcount_def by (rule order_trans [OF length_filter_le]) simp
  assume "b \<noteq> 0"
  then obtain i where i: "i < 8" "bit b i"
    using bit_word_eqI [of b 0] by auto
  from i(1) have "i \<in> set [0, 1, 2, 3, 4, 5, 6, 7]" by simp presburger
  then have "i \<in> set (filter (bit b) [0, 1, 2, 3, 4, 5, 6, 7])"
    using i(2) by (simp only: set_filter mem_Collect_eq conj_absorb HOL.simp_thms)
  then have "0 < popcount b" unfolding popcount_def by (rule length_pos_if_in_set)
  then show "1 \<le> popcount b" by simp
qed

lemma ag08a_read_payload_size:
  "ag08a_get_read_payload_size buf pos = Some n \<Longrightarrow> n = -1 \<or> 11 \<le> n \<and> n \<le> 25"
proof -
  assume a: "ag08a_get_read_payload_size buf pos = Some n"
  show ?thesis
  proof (cases "n = -1")
    case False
    then obtain c where "c \<noteq> 0" "n = 9 + 2 * int (popcount c)"
      using a by (auto simp: ag08a_get_read_payload_size_def Let_def count_bits_popcount split: bind_splits if_splits)
    then show ?thesis using popcount_bounds [of c] by simp
  qed simp
qed

subsection \<open>The guards\<close>

text \<open>The frame of a status: the configuration \<open>p\<close>, the byte of the running channels, the output.\<close>

definition ag08a_status_frame :: "ag08a_set_analog_input \<Rightarrow> u8 list \<Rightarrow> u8 list" where
  "ag08a_status_frame p t = [MSG_SOB, 18, AG08A_CMD_ResponseGetStatus]
     @ [word_of_int (ag08a_convert_send_rate_to_value (send_rate p))]
     @ map (\<lambda>ch. word_of_int (range_code p ch)) [0..<8] @ t @ [MSG_EOB]"

definition ag08a_status_of :: "ag08a_set_analog_input \<Rightarrow> u8 list \<Rightarrow> ag08a_resp_get_status" where
  "ag08a_status_of p t =
     \<lparr>in_cfg = p, in_ctrl = map (\<lambda>ch. t ! 0 AND push_bit ch 1 \<noteq> 0) [0..<8],
      out_cfg = \<lparr>waveform_type = uint (t ! 1), voltage = uint (t ! 2) * 20, frequency = uint (t ! 3) * 1000\<rparr>,
      out_ctrl = (t ! 4 AND 1 \<noteq> 0)\<rparr>"

lemma ag08a_status_answered:
  assumes dev: "device_answers w AG08A_CMD_GetStatus (payload (stack_msg w)) 4 xss (ag08a_status_frame p t)"
    and p: "length (vmin p) = 8" "length (vmax p) = 8" "ag08a_input_supported p"
    and st: "length (vmin (in_cfg st)) = 8" "length (vmax (in_cfg st)) = 8" and t: "length t = 5"
  shows "\<exists>w'. ag08a_status w st = Some (RESULT_Success, ag08a_status_of p t, w')
    \<and> idle_again w w' \<and> sent w' = sent w @ [[MSG_SOB, 4, AG08A_CMD_GetStatus, MSG_EOB]]"
proof -
  let ?f = "ag08a_status_frame p t" and ?m = "frame_msg (ag08a_status_frame p t) (stack_msg w)"
  let ?d = "word_of_int (ag08a_convert_send_rate_to_value (send_rate p))
     # map (\<lambda>ch. word_of_int (range_code p ch)) [0..<8] :: u8 list"
  have pl: "length (payload (stack_msg w)) = 78"
    using dev msg_wf_payload by (simp add: device_answers_def)
  have f: "?f = [MSG_SOB, 18, 0x35] @ ?d @ t @ [MSG_EOB]" by (simp add: ag08a_status_frame_def)
  have ld: "length ?d = 9" by simp
  have fl: "length ?f = 18" unfolding f using t by simp
  have fi: "?f ! 1 = 18" "?f ! 2 = 0x35" unfolding f by simp_all
  have "seg ?f 3 17 = ?d @ t"
    unfolding f seg_def using ld t by (simp del: upt_conv_Cons upt_rec_numeral)
  then have m: "\<exists>rest. payload ?m = take 9 ?d @ t @ rest" "unat (payload_size ?m) = 14"
    using fl fi ld by (simp_all add: frame_msg_def del: upt_conv_Cons upt_rec_numeral)
  obtain rest where rest: "payload ?m = take 9 ?d @ t @ rest" using m(1) by blast
  have d: "\<forall>ch<8. ?d ! (1 + ch) = word_of_int (range_code p ch)" by simp
  have ps: "ag08a_msg_parse_response_get_status (Some (payload ?m)) (unat (payload_size ?m)) (Some st)
      = Some (RESULT_Success, Some (ag08a_status_of p t))"
    unfolding m(2) rest ag08a_status_of_def
    by (rule parse_status_ok) (use p st t d ld in \<open>simp_all del: upt_conv_Cons upt_rec_numeral\<close>)
  show ?thesis
    using query_answer [where pack = no_pack, OF dev fi(2) _ pl, of
        "\<lambda>m. ag08a_msg_parse_response_get_status (Some (payload m)) (unat (payload_size m)) (Some st)"
        "Some (ag08a_status_of p t)" 18] ps fl
    by (auto simp: ag08a_status_def ag08a_get_status_def no_pack_def msg_bytes_empty)
qed


lemma any_running: "length t = 5 \<Longrightarrow> list_ex id (take 8 (in_ctrl (ag08a_status_of p t))) \<longleftrightarrow> t ! 0 \<noteq> 0"
proof -
  have "take 8 (in_ctrl (ag08a_status_of p t)) = in_ctrl (ag08a_status_of p t)"
    by (simp add: ag08a_status_of_def)
  moreover have "list_ex id (in_ctrl (ag08a_status_of p t)) \<longleftrightarrow> (\<exists>i<8. bit (t ! 0) i)"
    by (simp only: ag08a_status_of_def and_push_bit_eq ag08a_resp_get_status.simps) (auto simp: list_ex_iff)
  moreover have "(\<exists>i<8. bit (t ! 0) i) \<longleftrightarrow> t ! 0 \<noteq> 0"
    using bit_word_eqI [of "t ! 0" 0] by auto
  ultimately show ?thesis by simp
qed

text \<open>The length of a payload of samples is computed from the number of channels in it. The bit
  arithmetic of \<open>count_bits\<close> counts the bits of the channel byte, and the size is the time stamp, the
  channel byte and two bytes for each channel; a payload without channels has none.\<close>

theorem ag08a_read_payload_size_correct:
  assumes "pos + 8 < length buf"
  shows "count_bits (uint (buf ! (pos + 8))) = int (popcount (buf ! (pos + 8)))
    \<and> ag08a_get_read_payload_size buf pos
        = Some (if buf ! (pos + 8) = 0 then -1 else 8 + 1 + 2 * int (popcount (buf ! (pos + 8))))"
  using assms
  by (simp add: ag08a_get_read_payload_size_def load1_eq Let_def count_bits_popcount)

lemma ag08a_read_payload_size_correct_witness:
  "count_bits (uint (0xA5 :: u8)) = int (popcount 0xA5)
    \<and> ag08a_get_read_payload_size [0, 0, 0, 0, 0, 0, 0, 0, 0xA5] 0 = Some 17"
  using ag08a_read_payload_size_correct [of 0 "[0, 0, 0, 0, 0, 0, 0, 0, 0xA5]"]
  by (simp add: popcount_def bit_numeral_rec)

text \<open>C28: the analog inputs and output are configured only while they are stopped. The device is asked for
  its status; when the status it answers with shows a running channel (for the output, a running
  output), the configuration is refused and nothing else has been sent; otherwise the configuration is
  sent from an idle driver, and the result is whether the device took it.\<close>

theorem ag08a_configured_when_stopped:
  assumes "device_answers w AG08A_CMD_GetStatus (payload (stack_msg w)) 4 xss (ag08a_status_frame p t)"
    and "length (vmin p) = 8" "length (vmax p) = 8" "ag08a_input_supported p"
    and "length (vmin (in_cfg st)) = 8" "length (vmax (in_cfg st)) = 8" and "length t = 5"
  shows "\<exists>w'. idle_again w w' \<and> sent w' = sent w @ [[MSG_SOB, 4, AG08A_CMD_GetStatus, MSG_EOB]]
    \<and> ag08a_set_device_input w st cfg = (if t ! 0 \<noteq> 0 then Some (RESULT_Failure, w')
        else done_or_failure (ag08a_set_analog_input w' (Some cfg)))
    \<and> ag08a_set_device_output w st out = (if t ! 4 AND 1 \<noteq> 0 then Some (RESULT_Failure, w')
        else done_or_failure (ag08a_set_analog_output w' (Some out)))"
proof -
  obtain w' where w': "ag08a_status w st = Some (RESULT_Success, ag08a_status_of p t, w')" "idle_again w w'"
    "sent w' = sent w @ [[MSG_SOB, 4, AG08A_CMD_GetStatus, MSG_EOB]]"
    using ag08a_status_answered [OF assms] by blast
  moreover have "out_ctrl (ag08a_status_of p t) \<longleftrightarrow> t ! 4 AND 1 \<noteq> 0" by (simp add: ag08a_status_of_def)
  ultimately show ?thesis using any_running [OF assms(7), of p]
    by (intro exI [of _ w']) (simp add: ag08a_set_device_input_def ag08a_set_device_output_def
        ag08a_is_device_input_start_def ag08a_is_device_output_start_def)
qed

text \<open>A device that stands still, one that runs its second channel.\<close>

definition example_input :: ag08a_set_analog_input where
  "example_input = \<lparr>send_rate = 10000000, vmin = replicate 8 (-10000), vmax = replicate 8 10000\<rparr>"

lemma example_input: "length (vmin example_input) = 8" "length (vmax example_input) = 8"
  "ag08a_input_supported example_input"
  by (simp_all add: example_input_def ag08a_input_supported_def list_all_iff zip_replicate)

abbreviation (input) status_world :: "u8 list \<Rightarrow> world" where
  "status_world t \<equiv> answering_world AG08A [ag08a_status_frame example_input t]"

lemma status_frame_example:
  "ag08a_status_frame example_input [c, wv, v, f, x]
    = [0xF7, 18, 0x35, 1, 0, 0, 0, 0, 0, 0, 0, 0, c, wv, v, f, x, 0xFA]"
  by (simp add: ag08a_status_frame_def example_input_def ag08a_convert_send_rate_to_value_def
      ag08a_convert_input_voltage_to_value_def upt_rec)

lemma status_world_answers:
  assumes "c \<noteq> 0xFA"
  shows "device_answers (status_world [c, wv, v, f, x]) AG08A_CMD_GetStatus
    (payload (stack_msg (status_world [c, wv, v, f, x]))) 4
    [ag08a_status_frame example_input [c, wv, v, f, x]] (ag08a_status_frame example_input [c, wv, v, f, x])"
proof (rule answering_world_answers)
  show "scan (concat [ag08a_status_frame example_input [c, wv, v, f, x]])
      = ([ag08a_status_frame example_input [c, wv, v, f, x]], [])"
    by (simp add: status_frame_example scan.simps classify_def)
qed (simp_all add: status_frame_example frame_ok_of_def answering_def answers_def frame_msg_def is_core_id_def
    core_answers_def answers_of_def get_request_command_from_response_command_def)

lemma ag08a_configured_when_stopped_witness:
  "(\<exists>w'. sent w' = [[0xF7, 4, 0x15, 0xFA]]
     \<and> ag08a_set_device_input (status_world [2, 1, 5, 5, 0]) (ag08a_status_of example_input [0, 0, 0, 0, 0]) example_input
       = Some (RESULT_Failure, w'))
   \<and> (\<exists>w'. sent w' = [[0xF7, 4, 0x15, 0xFA]]
     \<and> ag08a_set_device_input (status_world [0, 1, 5, 5, 0]) (ag08a_status_of example_input [0, 0, 0, 0, 0]) example_input
       = done_or_failure (ag08a_set_analog_input w' (Some example_input)))"
proof -
  have st: "in_cfg (ag08a_status_of example_input [0, 0, 0, 0, 0]) = example_input"
    by (simp add: ag08a_status_of_def)
  have sent: "sent (status_world t) = []" for t by (simp add: answering_world_def world0_def)
  note ok = ag08a_configured_when_stopped [where p = example_input and cfg = example_input
      and st = "ag08a_status_of example_input [0, 0, 0, 0, 0]", OF status_world_answers example_input]
  show ?thesis
    using ok [where c1 = 2 and wv1 = 1 and v1 = 5 and f1 = 5 and x1 = 0]
      ok [where c1 = 0 and wv1 = 1 and v1 = 5 and f1 = 5 and x1 = 0] example_input(1,2)
    unfolding st sent by auto
qed

end
