(* ===== verification/Fops.thy ===== *)
theory Fops
  imports Cf02a_Fops Ag08a_Fops
begin

text \<open>
  The character device: \<open>module/apt_usbtrx_fops.c\<close>, which checks that the device is there, does what all
  products have in common, and calls the product's own operations for the rest.

  \<^item> \<open>private_data\<close> says whether the file's private data is the device or \<open>NULL\<close>. A blocking read
    ends when there is something to read, or by a signal when nothing arrives any more.
  \<^item> In the mode \<open>HOST\<close> a read copies the messages into \<open>rx_rbmsg\<close>, overwrites their time stamps
    there, and copies the result to the user. The host is little endian.
  \<^item> The uninitialised locals of \<open>ioctl\<close>, and what runs beside it, are its first argument.

  The properties: what a read in the mode \<open>HOST\<close> delivers, for whole messages and for a message cut in
  two; the sequence of messages of a firmware update.
\<close>

unbundle bit_operations_syntax

abbreviation (input) TIMESTAMP_MODE_DEVICE :: int where "TIMESTAMP_MODE_DEVICE \<equiv> 0"
abbreviation (input) TIMESTAMP_MODE_HOST :: int where "TIMESTAMP_MODE_HOST \<equiv> 1"
abbreviation (input) TIMESTAMP_MODE_MAX :: int where "TIMESTAMP_MODE_MAX \<equiv> 2"
abbreviation (input) CMD_LENGTH_SEND_FW_DATA :: nat where "CMD_LENGTH_SEND_FW_DATA \<equiv> 36"

subsection \<open>The products' operations\<close>

text \<open>The buffer of the payload is there; what is written may be at \<open>NULL\<close>. The sizes do not depend on
  the contents, except for the EP1-AG08A.\<close>

definition unique_can_get_read_payload_size :: int where
  "unique_can_get_read_payload_size = 21"

definition unique_can_get_write_payload_size :: "u8 list option \<Rightarrow> int" where
  "unique_can_get_write_payload_size pl = (if pl = None then -1 else 13)"

definition unique_can_get_fw_size :: int where
  "unique_can_get_fw_size = 384 * 1024"

definition cf02a_get_read_payload_size :: int where
  "cf02a_get_read_payload_size = 78"

definition cf02a_get_write_payload_size :: "u8 list option \<Rightarrow> int" where
  "cf02a_get_write_payload_size pl = (if pl = None then -1 else 70)"

definition cf02a_get_fw_size :: int where
  "cf02a_get_fw_size = 256 * 1024"

definition ag08a_get_fw_size :: int where
  "ag08a_get_fw_size = 192 * 1024"

lemmas product_sizes [simp] =
  unique_can_get_read_payload_size_def unique_can_get_write_payload_size_def unique_can_get_fw_size_def
  cf02a_get_read_payload_size_def cf02a_get_write_payload_size_def cf02a_get_fw_size_def ag08a_get_fw_size_def

text \<open>\<open>unique_func.get_read_payload_size\<close> of the payload at offset \<open>pos\<close>, and the other two.\<close>

definition get_read_payload_size :: "product \<Rightarrow> u8 list \<Rightarrow> nat \<Rightarrow> int option" where
  "get_read_payload_size p buf pos = (case p of
     CT2A \<Rightarrow> Some unique_can_get_read_payload_size
   | CH02A \<Rightarrow> Some unique_can_get_read_payload_size
   | CF02A \<Rightarrow> Some cf02a_get_read_payload_size
   | AG08A \<Rightarrow> ag08a_get_read_payload_size buf pos)"

definition get_write_payload_size :: "product \<Rightarrow> u8 list option \<Rightarrow> int" where
  "get_write_payload_size p pl = (case p of
     CT2A \<Rightarrow> unique_can_get_write_payload_size pl
   | CH02A \<Rightarrow> unique_can_get_write_payload_size pl
   | CF02A \<Rightarrow> cf02a_get_write_payload_size pl
   | AG08A \<Rightarrow> if pl = None then -1 else ag08a_get_write_payload_size)"

definition get_fw_size :: "product \<Rightarrow> int" where
  "get_fw_size p = (case p of
     CT2A \<Rightarrow> unique_can_get_fw_size | CH02A \<Rightarrow> unique_can_get_fw_size | CF02A \<Rightarrow> cf02a_get_fw_size
   | AG08A \<Rightarrow> ag08a_get_fw_size)"

lemma get_read_payload_size_pos:
  "get_read_payload_size p buf pos = Some n \<Longrightarrow> n = -1 \<or> 11 \<le> n \<and> n \<le> 78"
  using ag08a_read_payload_size [of buf pos n] by (cases p) (auto simp: get_read_payload_size_def)

subsection \<open>Time stamps\<close>

text \<open>The time stamp of \<open>us\<close> microseconds as it is stored in a payload.\<close>

definition host_stamp :: "u64 \<Rightarrow> u8 list" where
  "host_stamp us =
     (let sec = (ucast (us div 1000000) :: u32);
          usec = (ucast (us - ucast sec * 1000000) :: u32) in
      le_bytes 4 (uint sec) @ le_bytes 4 (uint usec))"

text \<open>The loop over the payloads, from offset \<open>pos\<close>; \<open>stamp\<close> is what overwrites the time stamps, if
  they are to be. A payload longer than what remains does not advance.\<close>

function parse_payloads ::
  "product \<Rightarrow> u8 list option \<Rightarrow> u8 list \<Rightarrow> nat \<Rightarrow> int \<Rightarrow> (RESULT \<times> u8 list) option" where
  "parse_payloads p stamp buf pos remain =
     (if remain \<le> 0 then Some (RESULT_Success, buf)
      else case (case stamp of None \<Rightarrow> Some buf | Some st \<Rightarrow> store buf pos st) of
        None \<Rightarrow> None
      | Some buf \<Rightarrow> (case get_read_payload_size p buf pos of
          None \<Rightarrow> None
        | Some psize \<Rightarrow>
            if psize < 0 then Some (RESULT_Failure, buf)
            else if psize > int (CMD_MAX_LENGTH - 4) then Some (RESULT_Failure, buf)
            else let remain = remain - psize in
              parse_payloads p stamp buf (if remain < 0 then pos else pos + nat psize) remain))"
  by pat_completeness auto
termination
  by (relation "measure (\<lambda>(_, _, _, _, n). nat n)") (auto dest: get_read_payload_size_pos)

declare parse_payloads.simps [simp del]

definition parse_rbmsg :: "world \<Rightarrow> u8 list option \<Rightarrow> nat \<Rightarrow> u64 \<Rightarrow> (RESULT \<times> u8 list option) option" where
  "parse_rbmsg w pl sz relative_time_ns = (case pl of
     None \<Rightarrow> Some (RESULT_Failure, None)
   | Some buf \<Rightarrow> do {
       let us = (if timestamp_mode w = TIMESTAMP_MODE_HOST then relative_time_ns div 1000 else 0);
       (result, buf) \<leftarrow> parse_payloads (product w)
         (if timestamp_mode w \<noteq> TIMESTAMP_MODE_DEVICE then Some (host_stamp us) else None) buf 0 (int sz);
       Some (result, Some buf)
     })"

subsection \<open>Opening and closing\<close>

definition usbtrx_open :: "world \<Rightarrow> bool \<Rightarrow> bool \<Rightarrow> int \<times> world" where
  "usbtrx_open w intf_found intfdata_found =
     (if \<not> intf_found then (-ENODEV, w)
      else if \<not> intfdata_found then (-ENODEV, w)
      else if onopening w then (-ENODEV, w)
      else if onclosing w then (-ESHUTDOWN, w)
      else let (result, w) = (case product w of CT2A \<Rightarrow> unique_can_open w | CH02A \<Rightarrow> unique_can_open w
             | CF02A \<Rightarrow> cf02a_open w | AG08A \<Rightarrow> ag08a_open w) in
        if result < 0 then (result, w) else (0, w))"

text \<open>With \<open>NULL\<close> private data, \<open>kref_put\<close> is called on a member of \<open>NULL\<close>.\<close>

definition usbtrx_release :: "world \<Rightarrow> bool \<Rightarrow> (int \<times> world) option" where
  "usbtrx_release w private_data =
     (if \<not> private_data then None
      else if onopening w then Some (-ENODEV, w)
      else if onclosing w then Some (-ESHUTDOWN, w)
      else Some (case product w of CT2A \<Rightarrow> unique_can_close w | CH02A \<Rightarrow> unique_can_close w
             | CF02A \<Rightarrow> cf02a_close w | AG08A \<Rightarrow> ag08a_close w))"

subsection \<open>Reading\<close>

definition is_read_enable :: "world \<Rightarrow> bool" where
  "is_read_enable w =
     (if onclosing w then True
      else if ringbuffer_is_empty (rx_data w) \<noteq> True then True
      else False)"

text \<open>\<open>wait_event_interruptible\<close>: \<open>us\<close> are the transfers that will arrive.\<close>

fun wait_event_interruptible :: "(world \<Rightarrow> bool) \<Rightarrow> world \<Rightarrow> (int \<times> u8 list) list \<Rightarrow> (int \<times> world) option" where
  "wait_event_interruptible ready w us =
     (if ready w then Some (0, w\<lparr>incoming := us\<rparr>)
      else case us of
        [] \<Rightarrow> Some (-ERESTARTSYS, w\<lparr>incoming := []\<rparr>)
      | u # us \<Rightarrow>
          if rx_urbs w = 0 then Some (-ERESTARTSYS, w\<lparr>incoming := u # us\<rparr>)
          else do { w \<leftarrow> rx_callback w u; wait_event_interruptible ready w us })"

declare wait_event_interruptible.simps [simp del]

definition complete_rx_done :: "world \<Rightarrow> world" where
  "complete_rx_done w = w\<lparr>rx_done := rx_done w + 1\<rparr>"

text \<open>The branch of the mode \<open>HOST\<close>.\<close>

definition read_host :: "world \<Rightarrow> nat \<Rightarrow> (int \<times> u8 list \<times> world) option" where
  "read_host w count = do {
     let size = ringbuffer_get_used_size (rx_data w);
     let size = (if size > count then count else size);
     (rsize, bs, r) \<leftarrow> ringbuffer_rawread (rx_data w) size;
     rbmsg \<leftarrow> store (rx_rbmsg w) 0 bs;
     let w = w\<lparr>rx_data := r, rx_rbmsg := rbmsg\<rparr>;
     if rsize < 0 then Some (-EIO, [], w)
     else if rsize \<noteq> 0 then do {
       (result, rbmsg) \<leftarrow> parse_rbmsg w (Some (rx_rbmsg w)) (nat rsize) (get_relative_time_ns w (basetime w));
       let w = (case rbmsg of None \<Rightarrow> w | Some b \<Rightarrow> w\<lparr>rx_rbmsg := b\<rparr>);
       if result \<noteq> RESULT_Success then Some (-EIO, [], w)
       else let (ok, w) = may_fail w in
         if \<not> ok then Some (-EIO, [], w)
         else do { out \<leftarrow> load (rx_rbmsg w) 0 (nat rsize); Some (rsize, out, w) }
     }
     else Some (rsize, [], w)
   }"

text \<open>The result, and what was copied to the user.\<close>

definition usbtrx_read ::
  "(nat \<Rightarrow> nat \<Rightarrow> nat) \<Rightarrow> world \<Rightarrow> bool \<Rightarrow> nat \<Rightarrow> (int \<times> u8 list \<times> world) option" where
  "usbtrx_read copy_to_user w private_data count =
     (if \<not> private_data then Some (-ENODEV, [], w)
      else if onopening w then Some (-ENODEV, [], w)
      else if onclosing w then Some (-ESHUTDOWN, [], complete_rx_done w)
      else do {
        (result, w) \<leftarrow> wait_event_interruptible is_read_enable w (incoming w);
        if result \<noteq> 0 then Some (result, [], w)
        else if onclosing w then Some (-ESHUTDOWN, [], complete_rx_done w)
        else if timestamp_mode w = TIMESTAMP_MODE_DEVICE then do {
          (rsize, bs, r) \<leftarrow> ringbuffer_read copy_to_user (rx_data w) count;
          let w = w\<lparr>rx_data := r\<rparr>;
          if rsize < 0 then Some (-EIO, bs, w) else Some (rsize, bs, w)
        }
        else read_host w count
      })"

subsection \<open>Writing\<close>

text \<open>\<open>user\<close> is the memory the user's pointer leads to, or \<open>None\<close> for \<open>NULL\<close>; where it is shorter than
  what is copied, the copy fails.\<close>

definition copy_from_user :: "world \<Rightarrow> u8 list \<Rightarrow> u8 list option \<Rightarrow> nat \<Rightarrow> (bool \<times> u8 list \<times> world) option" where
  "copy_from_user w dst user n =
     (let (ok, w) = may_fail w in
      case user of
        None \<Rightarrow> Some (False, dst, w)
      | Some bs \<Rightarrow>
          if \<not> ok \<or> length bs < n then Some (False, dst, w)
          else do { dst \<leftarrow> store dst 0 (take n bs); Some (True, dst, w) })"

definition usbtrx_write :: "world \<Rightarrow> bool \<Rightarrow> u8 list option \<Rightarrow> nat \<Rightarrow> (int \<times> world) option" where
  "usbtrx_write w private_data user count =
     (if \<not> private_data then Some (-ENODEV, w)
      else if count = 0 then Some (0, w)
      else let payload_size = (word_of_int (get_write_payload_size (product w) user) :: u8) in
        if unat payload_size > CMD_MAX_LENGTH - 4 then Some (-EIO, w)
        else if unat payload_size \<noteq> count then Some (-EIO, w)
        else do {
          (ok, pl, w) \<leftarrow> copy_from_user w (payload (stack_msg w)) user (unat payload_size);
          if \<not> ok then Some (-EIO, w)
          else do {
            (result, w) \<leftarrow> write_tx_rb w pl payload_size;
            if result < 0 then Some (result, w) else Some (int count, w)
          }
        })"

text \<open>The file of a device in DFU mode. A failure after the count was raised does not take it back.\<close>

definition write_fw_data :: "world \<Rightarrow> bool \<Rightarrow> u8 list option \<Rightarrow> nat \<Rightarrow> (int \<times> world) option" where
  "write_fw_data w private_data user count =
     (if \<not> private_data then Some (-ENODEV, w)
      else if count = 0 then Some (0, w)
      else if count \<noteq> 32 then Some (-EIO, w)
      else if onopening w then Some (-ENODEV, w)
      else if onclosing w then Some (-ESHUTDOWN, w)
      else do {
        (ok, pl, w) \<leftarrow> copy_from_user w (payload (stack_msg w)) user count;
        if \<not> ok then Some (-EIO, w)
        else let (ok, w) = down_tx_usb_transfer_sem w in
          if \<not> ok then Some (-EIO, w)
          else do {
            let w = w\<lparr>fw_count := i32_of (fw_count w + int count)\<rparr>;
            let i = (if fw_count w = int count then CMD_SendFWDataS
                     else if fw_count w = get_fw_size (product w) then CMD_SendFWDataE
                     else CMD_SendFWData);
            (result, data) \<leftarrow> msg_pack
              \<lparr>msg_id = i, payload = pl, payload_size = of_nat (CMD_LENGTH_SEND_FW_DATA - 4)\<rparr>
              (replicate CMD_LENGTH_SEND_FW_DATA 0) CMD_LENGTH_SEND_FW_DATA;
            if result \<noteq> RESULT_Success then Some (-EIO, up_tx_usb_transfer_sem w)
            else do {
              (result, w) \<leftarrow> setup_tx_urb w data CMD_LENGTH_SEND_FW_DATA;
              if result \<noteq> RESULT_Success then Some (-EIO, up_tx_usb_transfer_sem w)
              else Some (int count, w)
            }
          }
      })"

text \<open>The completion of an URB in DFU mode, where the product's own part does nothing.\<close>

definition write_bulk_callback_null :: "world \<Rightarrow> world" where
  "write_bulk_callback_null w = w"

definition dfu_write_bulk_callback :: "world \<Rightarrow> world" where
  "dfu_write_bulk_callback w = write_bulk_callback_null (up_tx_usb_transfer_sem w)"

subsection \<open>Requests\<close>

record ioctl_args =
  ia_device_id :: "u8 list"
  ia_serial_no :: "u8 list"
  ia_status :: msg_resp_get_status
  ia_ch_status :: ch02a_msg_resp_get_status
  ia_ag_status :: ag08a_resp_get_status
  ia_schedule :: "tx_op list list"
  ia_copy_to_user :: "nat \<Rightarrow> nat \<Rightarrow> nat"

datatype ioctl =
  IOCTL_GET_DEVICE_ID | IOCTL_GET_SERIAL_NO | IOCTL_GET_FW_VERSION | IOCTL_GET_FW_VERSION_REVISION
| IOCTL_ENABLE_RESET_TS | IOCTL_RESET_TS | IOCTL_RESET_DEVICE
| IOCTL_GET_BASETIME | IOCTL_SET_BASETIME timespec | IOCTL_MOVE_DFU
| IOCTL_SET_TIMESTAMP_MODE int | IOCTL_GET_TIMESTAMP_MODE | IOCTL_GET_FIRMWARE_SIZE
| Can_ioctl can_ioctl | Cf02a_ioctl cf02a_ioctl_cmd | Ag08a_ioctl ag08a_ioctl

datatype ioctl_out =
  Out_device_id int "u8 list"
| Out_serial_no int int "u8 list"
| Out_fw_version int int
| Out_fw_version_revision int int int
| Out_timespec timespec
| Out_timestamp_mode int
| Out_firmware_size int
| Out_can can_out
| Out_cf02a cf02a_out
| Out_ag08a ag08a_resp_get_status

text \<open>\<open>unique_func.is_device_input_start\<close> and \<open>unique_func.ioctl\<close>. A command of another product is one
  the product's switch does not have.\<close>

definition is_device_input_start :: "ioctl_args \<Rightarrow> world \<Rightarrow> (RESULT \<times> bool option \<times> world) option" where
  "is_device_input_start a w = (case product w of
     CT2A \<Rightarrow> unique_can_is_device_input_start w (ia_status a)
   | CH02A \<Rightarrow> unique_can_is_device_input_start w (ia_status a)
   | CF02A \<Rightarrow> cf02a_is_device_start w
   | AG08A \<Rightarrow> ag08a_is_device_input_start w (ia_ag_status a))"

definition unique_ioctl ::
  "ioctl_args \<Rightarrow> world \<Rightarrow> cf02a_unique \<Rightarrow> ioctl \<Rightarrow> (int \<times> ioctl_out option \<times> world \<times> cf02a_unique) option" where
  "unique_ioctl a w uq cmd =
     (let can = (case cmd of Can_ioctl c \<Rightarrow> c | _ \<Rightarrow> Can_other);
          cf = (case cmd of Cf02a_ioctl c \<Rightarrow> c | _ \<Rightarrow> CF02A_other);
          ag = (case cmd of Ag08a_ioctl c \<Rightarrow> c | _ \<Rightarrow> AG08A_other) in
      case product w of
        CT2A \<Rightarrow> map_option (\<lambda>(e, x, w). (e, map_option Out_can x, w, uq)) (unique_can_ioctl w (ia_status a) can)
      | CH02A \<Rightarrow> map_option (\<lambda>(e, x, w). (e, map_option Out_can x, w, uq))
          (ch02a_ioctl w (ia_status a) (ia_ch_status a) can)
      | CF02A \<Rightarrow> map_option (\<lambda>(e, x, w, uq). (e, map_option Out_cf02a x, w, uq))
          (cf02a_ioctl (ia_schedule a) (ia_copy_to_user a) w uq cf)
      | AG08A \<Rightarrow> map_option (\<lambda>(e, x, w). (e, map_option Out_ag08a x, w, uq)) (ag08a_ioctl w (ia_ag_status a) ag))"

text \<open>The answer of a query for the user.\<close>

definition reply ::
  "(RESULT \<times> 'a option \<times> world) option \<Rightarrow> ('a \<Rightarrow> ioctl_out) \<Rightarrow> (int \<times> ioctl_out option \<times> world) option" where
  "reply r f = do {
     (result, x, w) \<leftarrow> r;
     case (result, x) of
       (RESULT_Success, Some x) \<Rightarrow> give_user (f x) w
     | _ \<Rightarrow> Some (-EIO, None, w)
   }"

text \<open>The guard of the requests that are refused while the device runs.\<close>

definition when_stopped ::
  "ioctl_args \<Rightarrow> world \<Rightarrow> (world \<Rightarrow> (int \<times> ioctl_out option \<times> world) option) \<Rightarrow>
     (int \<times> ioctl_out option \<times> world) option" where
  "when_stopped a w f = do {
     (result, start, w) \<leftarrow> is_device_input_start a w;
     if result \<noteq> RESULT_Success then Some (-EIO, None, w)
     else if start = Some True then Some (-EBUSY, None, w)
     else f w
   }"

definition common_ioctl :: "ioctl_args \<Rightarrow> world \<Rightarrow> ioctl \<Rightarrow> (int \<times> ioctl_out option \<times> world) option" where
  "common_ioctl a w cmd = (case cmd of
     IOCTL_GET_DEVICE_ID \<Rightarrow> reply (get_device_id w (Some (ia_device_id a)) 4 True) (\<lambda>(i, c). Out_device_id c i)
   | IOCTL_GET_SERIAL_NO \<Rightarrow> reply (get_serial_no w (Some (ia_serial_no a)) 14 True True)
       (\<lambda>(i, c, p). Out_serial_no c p i)
   | IOCTL_GET_FW_VERSION \<Rightarrow> reply (get_fw_version w) (\<lambda>(ma, mi). Out_fw_version ma mi)
   | IOCTL_GET_FW_VERSION_REVISION \<Rightarrow> reply (get_fw_version_revision w)
       (\<lambda>(ma, mi, re). Out_fw_version_revision ma mi re)
   | IOCTL_ENABLE_RESET_TS \<Rightarrow> done_or_EIO (enable_reset_ts w)
   | IOCTL_RESET_TS \<Rightarrow> do {
       (result, success, w) \<leftarrow> reset_ts_cmd w;
       if result \<noteq> RESULT_Success then Some (-EIO, None, w)
       else if success \<noteq> Some True then Some (-EIO, None, w)
       else give_user (Out_timespec (basetime w)) w
     }
   | IOCTL_RESET_DEVICE \<Rightarrow> done_or_EIO (reset_device w)
   | IOCTL_GET_BASETIME \<Rightarrow> give_user (Out_timespec (basetime w)) w
   | IOCTL_SET_BASETIME param \<Rightarrow> take_user param w (\<lambda>t w. Some (0, None, w\<lparr>basetime := t\<rparr>))
   | IOCTL_MOVE_DFU \<Rightarrow> when_stopped a w (\<lambda>w. done_or_EIO (move_dfu w))
   | IOCTL_SET_TIMESTAMP_MODE param \<Rightarrow> take_user param w (\<lambda>mode w.
       if mode < 0 \<or> TIMESTAMP_MODE_MAX \<le> mode then Some (-EINVAL, None, w)
       else when_stopped a w (\<lambda>w. Some (0, None, w\<lparr>timestamp_mode := mode\<rparr>)))
   | IOCTL_GET_TIMESTAMP_MODE \<Rightarrow> give_user (Out_timestamp_mode (timestamp_mode w)) w
   | IOCTL_GET_FIRMWARE_SIZE \<Rightarrow> give_user (Out_firmware_size (get_fw_size (product w))) w
   | _ \<Rightarrow> Some (-EFAULT, None, w))"

definition usbtrx_ioctl ::
  "ioctl_args \<Rightarrow> world \<Rightarrow> cf02a_unique \<Rightarrow> bool \<Rightarrow> ioctl \<Rightarrow>
     (int \<times> ioctl_out option \<times> world \<times> cf02a_unique) option" where
  "usbtrx_ioctl a w uq private_data cmd =
     (if \<not> private_data then Some (-ENODEV, None, w, uq)
      else if onopening w then Some (-ENODEV, None, w, uq)
      else if onclosing w then Some (-ESHUTDOWN, None, w, uq)
      else case cmd of
        Can_ioctl _ \<Rightarrow> unique_ioctl a w uq cmd
      | Cf02a_ioctl _ \<Rightarrow> unique_ioctl a w uq cmd
      | Ag08a_ioctl _ \<Rightarrow> unique_ioctl a w uq cmd
      | _ \<Rightarrow> map_option (\<lambda>(e, x, w). (e, x, w, uq)) (common_ioctl a w cmd))"

subsection \<open>Whole payloads\<close>

definition payload_ok :: "product \<Rightarrow> u8 list \<Rightarrow> bool" where
  "payload_ok p x \<longleftrightarrow> get_read_payload_size p x 0 = Some (int (length x))"

definition restamp :: "u8 list \<Rightarrow> u8 list \<Rightarrow> u8 list" where
  "restamp st x = st @ drop 8 x"

lemma payload_ok_length: "payload_ok p x \<Longrightarrow> 11 \<le> length x \<and> length x \<le> 78"
  using get_read_payload_size_pos [of p x 0 "int (length x)"] by (auto simp: payload_ok_def)

lemma length_restamp: "length st = 8 \<Longrightarrow> 8 \<le> length x \<Longrightarrow> length (restamp st x) = length x"
  by (simp add: restamp_def)

lemma length_host_stamp [simp]: "length (host_stamp us) = 8"
  by (simp add: host_stamp_def Let_def)

text \<open>The size depends on the ninth byte of the payload at most.\<close>

lemma payload_size_at:
  assumes "payload_ok p x" and "length st = 8"
  shows "get_read_payload_size p (pre @ restamp st x @ rest) (length pre) = Some (int (length x))"
proof -
  have len: "11 \<le> length x" using payload_ok_length [OF assms(1)] by simp
  have nth: "(restamp st x @ rest) ! 8 = x ! 8" "length pre + 8 < length (pre @ restamp st x @ rest)"
    using len assms(2) by (simp_all add: restamp_def nth_append)
  show ?thesis
    using assms(1) len
    by (cases p) (auto simp: payload_ok_def get_read_payload_size_def ag08a_get_read_payload_size_def
        load1_eq [OF nth(2)] nth(1) load1_eq)
qed

lemma parse_payloads_walk:
  assumes "list_all (payload_ok p) xs" and st: "length st = 8"
  shows "parse_payloads p (Some st) (pre @ concat xs @ rest) (length pre) (int (length (concat xs)))
    = Some (RESULT_Success, pre @ concat (map (restamp st) xs) @ rest)"
  using assms(1)
proof (induction xs arbitrary: pre)
  case Nil
  then show ?case by (simp add: parse_payloads.simps)
next
  case (Cons x xs)
  then have x: "payload_ok p x" and xs: "list_all (payload_ok p) xs" by simp_all
  have len: "11 \<le> length x" "length x \<le> 78" using payload_ok_length [OF x] by simp_all
  have stored: "store (pre @ concat (x # xs) @ rest) (length pre) st = Some (pre @ restamp st x @ concat xs @ rest)"
    using len st by (simp add: store_def restamp_def)
  have lr: "length (pre @ restamp st x) = length pre + length x" using len st by (simp add: length_restamp)
  have "parse_payloads p (Some st) (pre @ concat (x # xs) @ rest) (length pre) (int (length (concat (x # xs))))
      = parse_payloads p (Some st) ((pre @ restamp st x) @ concat xs @ rest) (length (pre @ restamp st x))
          (int (length (concat xs)))"
    using len stored payload_size_at [OF x st, of pre "concat xs @ rest"] unfolding lr
    by (subst parse_payloads.simps) (simp add: Let_def)
  also have "\<dots> = Some (RESULT_Success, (pre @ restamp st x) @ concat (map (restamp st) xs) @ rest)"
    by (rule Cons.IH [OF xs])
  finally show ?case by simp
qed

text \<open>What the stored time stamp reads back as.\<close>

lemma host_usec:
  "(ucast (us - ucast (ucast (us div 1000000) :: u32) * 1000000 :: u64) :: u32) = ucast (us mod 1000000)"
proof -
  let ?q = "uint us div 1000000"
  have "uint (ucast (us - ucast (ucast (us div 1000000) :: u32) * 1000000 :: u64) :: u32)
      = (uint us - ?q mod 4294967296 * 1000000) mod 18446744073709551616 mod 4294967296"
    by (simp add: uint_word_ariths unsigned_ucast_eq take_bit_eq_mod uint_div uint_mod mod_simps)
  also have "\<dots> = (uint us - ?q mod 4294967296 * 1000000) mod 4294967296"
    by (rule mod_mod_cancel) simp
  also have "\<dots> = (uint us - ?q * 1000000) mod 4294967296" by (rule mod_diff_cong [OF refl]) (simp only: mod_mult_left_eq)
  also have "\<dots> = uint (ucast (us mod 1000000) :: u32)"
    by (simp add: minus_div_mult_eq_mod unsigned_ucast_eq take_bit_eq_mod uint_mod)
  finally show ?thesis by (simp only: word_uint_eq_iff)
qed

lemma host_stamp_value:
  "payload_timestamp (host_stamp us @ xs)
    = Some \<lparr>ts_sec = ucast (us div 1000000), ts_usec = ucast (us mod 1000000)\<rparr>"
proof -
  have v: "word_of_int (le_value (le_bytes 4 (uint x))) = x" for x :: u32
  proof -
    have "uint x < 256 ^ 4" using uint_bounded [of x] by simp
    then show ?thesis by (simp add: le_value_le_bytes)
  qed
  show ?thesis by (simp add: payload_timestamp_def host_stamp_def Let_def load_def v host_usec)
qed

subsection \<open>Reading in the mode HOST\<close>

abbreviation (input) host_us :: "world \<Rightarrow> u64" where
  "host_us w \<equiv> get_relative_time_ns w (basetime w) div 1000"

text \<open>A file that can be read, in the mode \<open>HOST\<close>, with the bytes \<open>bs\<close> waiting.\<close>

definition host_reader :: "world \<Rightarrow> u8 list \<Rightarrow> bool" where
  "host_reader w bs \<longleftrightarrow> rb_inv (rx_data w) \<and> rb_bytes (rx_data w) = bs
     \<and> buffer_size (rx_data w) \<le> length (rx_rbmsg w) \<and> timestamp_mode w = TIMESTAMP_MODE_HOST
     \<and> \<not> onopening w \<and> \<not> onclosing w \<and> choices w = []"

lemma usbtrx_read_host_eq:
  assumes r: "host_reader w bs" and n: "n = min (length bs) count" "0 < n"
    and parse: "parse_payloads (product w) (Some (host_stamp (host_us w))) (take n bs @ drop n (rx_rbmsg w)) 0 (int n)
      = Some (RESULT_Success, buf)" and buf: "n \<le> length buf"
  shows "usbtrx_read cu w True count
    = Some (int n, take n buf, w\<lparr>rx_data := rb_advance (rx_data w) n, rx_rbmsg := buf\<rparr>)"
proof -
  have inv: "rb_inv (rx_data w)" and bs: "rb_bytes (rx_data w) = bs"
    and len: "length bs \<le> length (rx_rbmsg w)" and state: "timestamp_mode w = TIMESTAMP_MODE_HOST" "\<not> onopening w"
    "\<not> onclosing w" "choices w = []"
    using r rb_bytes_le_size [of "rx_data w"] by (auto simp: host_reader_def)
  have ne: "\<not> ringbuffer_is_empty (rx_data w)" using n bs is_empty_bytes [OF inv] by auto
  have used: "ringbuffer_get_used_size (rx_data w) = length bs" using used_size_bytes [OF inv] bs by simp
  have size: "(if length bs > count then count else length bs) = n" using n by auto
  have st: "store (rx_rbmsg w) 0 (take n bs) = Some (take n bs @ drop n (rx_rbmsg w))"
    using n len by (simp add: store_def)
  have rel: "get_relative_time_ns (w\<lparr>rx_data := x, rx_rbmsg := y\<rparr>) b = get_relative_time_ns w b" for x y b
    by (simp add: get_relative_time_ns_def get_ts64_def)
  have raw: "ringbuffer_rawread (rx_data w) n = Some (int n, take n bs, rb_advance (rx_data w) n)"
    using rawread_eq [OF inv, of n] bs n(1) by simp
  have same: "w\<lparr>incoming := incoming w\<rparr> = w" by simp
  show ?thesis
    using n(2) state ne parse buf
    by (simp add: usbtrx_read_def wait_event_interruptible.simps is_read_enable_def read_host_def used size raw st
        Let_def parse_rbmsg_def rel may_fail_def load_def same)
qed

lemma host_reader_next:
  assumes "host_reader w bs" and "length buf = length (rx_rbmsg w)"
  shows "host_reader (w\<lparr>rx_data := rb_advance (rx_data w) n, rx_rbmsg := buf\<rparr>) (drop n bs)"
  using assms rb_inv_advance [of "rx_data w" n] rb_bytes_advance [of "rx_data w" n]
  by (auto simp: host_reader_def rb_advance_def Let_def)

text \<open>C18: in the mode \<open>HOST\<close> the time stamps of the messages are replaced, and nothing else. A read that
  takes all waiting messages, each of the length its product gives it, delivers every byte of them with
  the exception of the eight of the time stamp; these hold the seconds and microseconds since the base
  time, and the ring buffer is empty afterwards.\<close>

theorem usbtrx_read_host_correct:
  assumes "host_reader w (concat xs)" and "xs \<noteq> []" and "list_all (payload_ok (product w)) xs"
    and "length (concat xs) \<le> count"
  shows "\<exists>w'. usbtrx_read cu w True count
      = Some (int (length (concat xs)), concat (map (\<lambda>x. host_stamp (host_us w) @ drop 8 x) xs), w')
    \<and> host_reader w' []
    \<and> payload_timestamp (host_stamp (host_us w))
        = Some \<lparr>ts_sec = ucast (host_us w div 1000000), ts_usec = ucast (host_us w mod 1000000)\<rparr>"
proof -
  let ?st = "host_stamp (host_us w)" and ?n = "length (concat xs)"
  let ?out = "concat (map (restamp ?st) xs)"
  have lr: "length ?out = ?n"
    using assms(3) by (induction xs) (auto simp: length_restamp dest: payload_ok_length)
  obtain x ys where x: "xs = x # ys" using assms(2) by (cases xs) auto
  then have pos: "0 < ?n" using assms(3) payload_ok_length [of "product w" x] by auto
  have n: "?n = min (length (concat xs)) count" using assms(4) by simp
  have parse: "parse_payloads (product w) (Some ?st) (take ?n (concat xs) @ drop ?n (rx_rbmsg w)) 0 (int ?n)
      = Some (RESULT_Success, ?out @ drop ?n (rx_rbmsg w))"
    using parse_payloads_walk [OF assms(3), of ?st "[]" "drop ?n (rx_rbmsg w)"] by simp
  have "length (?out @ drop ?n (rx_rbmsg w)) = length (rx_rbmsg w)"
    using assms(1) rb_bytes_le_size [of "rx_data w"] lr by (auto simp: host_reader_def)
  moreover have "usbtrx_read cu w True count
      = Some (int ?n, ?out, w\<lparr>rx_data := rb_advance (rx_data w) ?n, rx_rbmsg := ?out @ drop ?n (rx_rbmsg w)\<rparr>)"
    using usbtrx_read_host_eq [OF assms(1) n pos parse, of cu] lr by simp
  ultimately show ?thesis
    using host_reader_next [OF assms(1), of "?out @ drop ?n (rx_rbmsg w)" ?n] host_stamp_value [of "host_us w" "[]"]
    by (auto simp: restamp_def cong: map_cong)
qed

text \<open>In the mode \<open>HOST\<close> a read that cuts a message in two destroys data. When the first read of a
  CAN message ends within its data bytes, the next read takes what follows for the start of a message
  and overwrites it: instead of the frame's last data bytes the user receives the first bytes of a
  time stamp. In the mode \<open>DEVICE\<close> every cut is harmless.\<close>

theorem usbtrx_read_host_cut:
  assumes "host_reader w f" and "product w = CT2A \<or> product w = CH02A" and "length f = 21"
    and "13 \<le> k" and "k < 21" and "21 - k \<le> count"
  shows "\<exists>w'. usbtrx_read cu w True k
        = Some (int k, take k (host_stamp (host_us w) @ drop 8 f), w')
      \<and> (\<exists>w''. usbtrx_read cu w' True count
        = Some (int (21 - k), take (21 - k) (host_stamp (host_us w)), w''))"
proof -
  let ?st = "host_stamp (host_us w)"
  have short: "parse_payloads p (Some ?st) buf 0 (int n) = Some (RESULT_Success, ?st @ drop 8 buf)"
    if "0 < n" "n \<le> 21" "8 \<le> length buf" "p = CT2A \<or> p = CH02A" for p buf n
    using that by (subst parse_payloads.simps) (auto simp: store_def get_read_payload_size_def Let_def
        parse_payloads.simps)
  have rb: "21 \<le> length (rx_rbmsg w)"
    using assms(1,3) rb_bytes_le_size [of "rx_data w"] by (auto simp: host_reader_def)
  let ?b1 = "?st @ drop 8 (take k f @ drop k (rx_rbmsg w))"
  have p1: "parse_payloads (product w) (Some ?st) (take k f @ drop k (rx_rbmsg w)) 0 (int k)
      = Some (RESULT_Success, ?b1)"
    using assms(2-5) rb by (intro short) auto
  let ?w1 = "w\<lparr>rx_data := rb_advance (rx_data w) k, rx_rbmsg := ?b1\<rparr>"
  have l1: "length ?b1 = length (rx_rbmsg w)" using assms(3-5) rb by simp
  have 1: "usbtrx_read cu w True k = Some (int k, take k ?b1, ?w1)"
    using assms(3-5) rb by (intro usbtrx_read_host_eq [OF assms(1) _ _ p1]) auto
  have out: "take k ?b1 = take k (?st @ drop 8 f)"
    using assms(3-5) by (simp add: drop_take min_def)
  have r1: "host_reader ?w1 (drop k f)" by (rule host_reader_next [OF assms(1) l1])
  have us: "host_us ?w1 = host_us w" by (simp add: get_relative_time_ns_def get_ts64_def)
  let ?d = "take (21 - k) (drop k f) @ drop (21 - k) (rx_rbmsg ?w1)"
  have p2: "parse_payloads (product ?w1) (Some (host_stamp (host_us ?w1))) ?d 0 (int (21 - k))
      = Some (RESULT_Success, ?st @ drop 8 ?d)"
    unfolding us using assms(2-5) rb l1 by (intro short) auto
  have "usbtrx_read cu ?w1 True count = Some (int (21 - k), take (21 - k) (?st @ drop 8 ?d),
      ?w1\<lparr>rx_data := rb_advance (rx_data ?w1) (21 - k), rx_rbmsg := ?st @ drop 8 ?d\<rparr>)"
    using assms(3-6) rb l1 by (intro usbtrx_read_host_eq [OF r1 _ _ p2]) auto
  moreover have "take (21 - k) (?st @ drop 8 ?d) = take (21 - k) ?st" using assms(4) by simp
  ultimately have 2: "usbtrx_read cu ?w1 True count = Some (int (21 - k), take (21 - k) ?st,
      ?w1\<lparr>rx_data := rb_advance (rx_data ?w1) (21 - k), rx_rbmsg := ?st @ drop 8 ?d\<rparr>)" by (simp only:)
  show ?thesis by (intro exI conjI, rule 1 [unfolded out], rule 2)
qed

text \<open>A device whose clock stands one and a half seconds after the base time, with \<open>bs\<close> to read.\<close>

definition host_world :: "product \<Rightarrow> u8 list \<Rightarrow> world" where
  "host_world p bs = (world0 p)\<lparr>timestamp_mode := TIMESTAMP_MODE_HOST,
     raw_now := \<lparr>tv_sec = 1, tv_nsec = 500000000\<rparr>,
     rx_data := (rb_empty 64)\<lparr>buffer := bs @ replicate (64 - length bs) 0, write_p := length bs\<rparr>\<rparr>"

lemma host_world_reader: "bs \<noteq> [] \<Longrightarrow> length bs \<le> 64 \<Longrightarrow> host_reader (host_world p bs) bs"
  by (simp add: host_reader_def host_world_def world0_def rb_empty_def rb_inv_def rb_bytes_def seg_def)

lemma host_world_us: "host_us (host_world p bs) = 1500000"
  by (simp add: host_world_def world0_def get_relative_time_ns_def get_ts64_def timespec_to_ns_def)

lemma le_bytes_4:
  "le_bytes 4 x = [word_of_int x, word_of_int (x div 256), word_of_int (x div 65536), word_of_int (x div 16777216)]"
proof -
  have "le_bytes 4 x = le_bytes (Suc (Suc (Suc (Suc 0)))) x" by (simp only: numeral_eq_Suc pred_numeral_simps)
      (simp add: numeral_2_eq_2)
  then show ?thesis by (simp add: drop_bit_eq_div flip: zdiv_zmult2_eq)
qed

lemma host_stamp_example: "host_stamp 1500000 = [1, 0, 0, 0, 0x20, 0xA1, 7, 0]"
  by (simp add: host_stamp_def le_bytes_4)

lemma usbtrx_read_host_correct_witness:
  "\<exists>w'. usbtrx_read (\<lambda>_ _. 0) (host_world AG08A
        [9, 9, 9, 9, 9, 9, 9, 9, 1, 0x34, 0x12, 8, 8, 8, 8, 8, 8, 8, 8, 3, 1, 2, 3, 4]) True 64
      = Some (24, [1, 0, 0, 0, 0x20, 0xA1, 7, 0, 1, 0x34, 0x12, 1, 0, 0, 0, 0x20, 0xA1, 7, 0, 3, 1, 2, 3, 4], w')"
proof -
  have p: "product (host_world AG08A bs) = AG08A" for bs by (simp add: host_world_def world0_def)
  have ok: "list_all (payload_ok AG08A) [[9, 9, 9, 9, 9, 9, 9, 9, 1, 0x34, 0x12], [8, 8, 8, 8, 8, 8, 8, 8, 3, 1, 2, 3, 4]]"
    by (simp add: payload_ok_def get_read_payload_size_def ag08a_get_read_payload_size_def load1_def count_bits_def)
  show ?thesis
    using usbtrx_read_host_correct [of "host_world AG08A
        [9, 9, 9, 9, 9, 9, 9, 9, 1, 0x34, 0x12, 8, 8, 8, 8, 8, 8, 8, 8, 3, 1, 2, 3, 4]"
        "[[9, 9, 9, 9, 9, 9, 9, 9, 1, 0x34, 0x12], [8, 8, 8, 8, 8, 8, 8, 8, 3, 1, 2, 3, 4]]" 64 "\<lambda>_ _. 0"] ok
    by (auto simp: host_world_us host_stamp_example p host_world_reader)
qed

text \<open>A frame with the data 11 to 18, read in pieces of 20 bytes and of one: the last byte of the data is lost.\<close>

lemma usbtrx_read_host_cut_witness:
  "\<exists>w'. usbtrx_read (\<lambda>_ _. 0) (host_world CT2A
        [9, 9, 9, 9, 9, 9, 9, 9, 0x23, 1, 0, 0, 8, 11, 12, 13, 14, 15, 16, 17, 18]) True 20
      = Some (20, [1, 0, 0, 0, 0x20, 0xA1, 7, 0, 0x23, 1, 0, 0, 8, 11, 12, 13, 14, 15, 16, 17], w')
    \<and> (\<exists>w''. usbtrx_read (\<lambda>_ _. 0) w' True 64 = Some (1, [1], w''))"
proof -
  have p: "product (host_world CT2A bs) = CT2A" for bs by (simp add: host_world_def world0_def)
  show ?thesis
    using usbtrx_read_host_cut [of "host_world CT2A
        [9, 9, 9, 9, 9, 9, 9, 9, 0x23, 1, 0, 0, 8, 11, 12, 13, 14, 15, 16, 17, 18]"
        "[9, 9, 9, 9, 9, 9, 9, 9, 0x23, 1, 0, 0, 8, 11, 12, 13, 14, 15, 16, 17, 18]" 20 64 "\<lambda>_ _. 0"]
    by (simp add: host_world_us host_stamp_example p host_world_reader)
qed

subsection \<open>The firmware update\<close>

text \<open>A history of the file in DFU mode: writes, and completions of URBs. \<open>fw_run\<close> collects the results.\<close>

datatype fw_op = Fw_write "u8 list" | Fw_complete

fun fw_run :: "fw_op list \<Rightarrow> world \<Rightarrow> (int list \<times> world) option" where
  "fw_run [] w = Some ([], w)"
| "fw_run (Fw_write c # ops) w = do {
     (r, w) \<leftarrow> write_fw_data w True (Some c) (length c);
     (rs, w) \<leftarrow> fw_run ops w;
     Some (r # rs, w)
   }"
| "fw_run (Fw_complete # ops) w = fw_run ops (dfu_write_bulk_callback w)"

fun fw_chunks :: "fw_op list \<Rightarrow> u8 list list" where
  "fw_chunks [] = []"
| "fw_chunks (Fw_write c # ops) = c # fw_chunks ops"
| "fw_chunks (Fw_complete # ops) = fw_chunks ops"

text \<open>With \<open>n\<close> URBs free at the start, one is free at every write.\<close>

fun urbs_suffice :: "nat \<Rightarrow> fw_op list \<Rightarrow> bool" where
  "urbs_suffice n [] = True"
| "urbs_suffice n (Fw_write c # ops) = (0 < n \<and> urbs_suffice (n - 1) ops)"
| "urbs_suffice n (Fw_complete # ops) = urbs_suffice (n + 1) ops"

text \<open>The messages of an image in pieces of 32 bytes, of which \<open>pos\<close> bytes are already sent.\<close>

fun fw_frames :: "int \<Rightarrow> int \<Rightarrow> u8 list list \<Rightarrow> u8 list list" where
  "fw_frames fw_size pos [] = []"
| "fw_frames fw_size pos (c # cs) =
     ([MSG_SOB, 36, if pos = 0 then CMD_SendFWDataS else if pos + 32 = fw_size then CMD_SendFWDataE
        else CMD_SendFWData] @ c @ [MSG_EOB]) # fw_frames fw_size (pos + 32) cs"

text \<open>A device in DFU mode that takes everything.\<close>

definition fw_ready :: "world \<Rightarrow> bool" where
  "fw_ready w \<longleftrightarrow> choices w = [] \<and> \<not> onopening w \<and> \<not> onclosing w \<and> msg_wf (stack_msg w)"

lemma write_fw_data_step:
  assumes w: "fw_ready w" and sem: "0 < tx_usb_transfer_sem w" and c: "length c = 32"
    and pos: "0 \<le> fw_count w" "fw_count w + 32 < 2 ^ 31"
  shows "\<exists>w'. write_fw_data w True (Some c) 32 = Some (32, w')
    \<and> sent w' = sent w @ fw_frames (get_fw_size (product w)) (fw_count w) [c]
    \<and> fw_count w' = fw_count w + 32 \<and> tx_usb_transfer_sem w' = tx_usb_transfer_sem w - 1
    \<and> product w' = product w \<and> fw_ready w'"
proof -
  have st: "store (payload (stack_msg w)) 0 c = Some (c @ drop 32 (payload (stack_msg w)))"
    using w c by (simp add: fw_ready_def store_def msg_wf_def)
  have cnt: "i32_of (fw_count w + 32) = fw_count w + 32" using pos by (intro i32_of_id) auto
  have pack: "msg_pack \<lparr>msg_id = i, payload = c @ drop 32 (payload (stack_msg w)), payload_size = 32\<rparr>
      (replicate 36 0) 36 = Some (RESULT_Success, [MSG_SOB, 36, i] @ c @ [MSG_EOB])" for i
    using c w by (subst msg_pack_eq) (simp_all add: msg_wf_def msg_bytes_def fw_ready_def)
  show ?thesis
    using w sem c pos
    by (simp add: write_fw_data_def fw_ready_def copy_from_user_def may_fail_def st cnt pack
        down_tx_usb_transfer_sem_def Let_def setup_tx_urb_def load_def)
qed

lemma fw_run_frames:
  assumes "fw_ready w" and "urbs_suffice (tx_usb_transfer_sem w) ops" and "\<forall>c \<in> set (fw_chunks ops). length c = 32"
    and "0 \<le> fw_count w" and "fw_count w + 32 * int (length (fw_chunks ops)) < 2 ^ 31"
  shows "\<exists>w'. fw_run ops w = Some (replicate (length (fw_chunks ops)) 32, w')
    \<and> sent w' = sent w @ fw_frames (get_fw_size (product w)) (fw_count w) (fw_chunks ops)
    \<and> fw_count w' = fw_count w + 32 * int (length (fw_chunks ops))"
  using assms
proof (induction ops arbitrary: w)
  case (Cons op ops)
  show ?case
  proof (cases op)
    case (Fw_write c)
    have pre: "0 < tx_usb_transfer_sem w" "length c = 32" "fw_count w + 32 < 2 ^ 31"
      using Cons.prems(2,3,5) Fw_write by auto
    obtain w1 where w1: "write_fw_data w True (Some c) 32 = Some (32, w1)"
      "sent w1 = sent w @ fw_frames (get_fw_size (product w)) (fw_count w) [c]" "fw_count w1 = fw_count w + 32"
      "tx_usb_transfer_sem w1 = tx_usb_transfer_sem w - 1" "product w1 = product w" "fw_ready w1"
      using write_fw_data_step [OF Cons.prems(1) pre(1,2) Cons.prems(4) pre(3)] by blast
    have prems: "urbs_suffice (tx_usb_transfer_sem w1) ops" "\<forall>c \<in> set (fw_chunks ops). length c = 32"
      "0 \<le> fw_count w1" "fw_count w1 + 32 * int (length (fw_chunks ops)) < 2 ^ 31"
      using Cons.prems(2-5) Fw_write w1(3,4) by simp_all
    obtain w2 where "fw_run ops w1 = Some (replicate (length (fw_chunks ops)) 32, w2)"
      "sent w2 = sent w1 @ fw_frames (get_fw_size (product w1)) (fw_count w1) (fw_chunks ops)"
      "fw_count w2 = fw_count w1 + 32 * int (length (fw_chunks ops))"
      using Cons.IH [OF w1(6) prems] by blast
    then show ?thesis using w1 pre(2) Fw_write by simp
  next
    case Fw_complete
    let ?w = "dfu_write_bulk_callback w"
    have w: "fw_ready ?w" "tx_usb_transfer_sem ?w = tx_usb_transfer_sem w + 1" "sent ?w = sent w"
      "fw_count ?w = fw_count w" "product ?w = product w"
      using Cons.prems(1) by (simp_all add: dfu_write_bulk_callback_def write_bulk_callback_null_def
          up_tx_usb_transfer_sem_def fw_ready_def)
    show ?thesis
      using Cons.IH [OF w(1)] Cons.prems(2-5) w(2-5) Fw_complete by simp
  qed
qed simp

lemma length_fw_frames: "length (fw_frames n pos cs) = length cs"
  by (induction cs arbitrary: pos) simp_all

lemma fw_frames_nth:
  "0 \<le> pos \<Longrightarrow> i < length cs \<Longrightarrow> fw_frames n pos cs ! i = [MSG_SOB, 36, if pos + 32 * int i = 0 then CMD_SendFWDataS
     else if pos + 32 * int i + 32 = n then CMD_SendFWDataE else CMD_SendFWData] @ cs ! i @ [MSG_EOB]"
  by (induction cs arbitrary: pos i) (auto simp: nth_Cons algebra_simps split: nat.splits)

text \<open>C19: a firmware image reaches the device in one piece. When the pieces of 32 bytes of an image of
  exactly the product's size are written in order, with completions of URBs in between whenever all are
  in use, every write succeeds, and what is sent is one message for each piece, the first marked as the
  start, the last as the end, and all others as neither.\<close>

theorem fw_update_sequence:
  assumes "fw_ready w" and "fw_count w = 0" and "urbs_suffice (tx_usb_transfer_sem w) ops"
    and "\<forall>c \<in> set (fw_chunks ops). length c = 32"
    and "32 * int (length (fw_chunks ops)) = get_fw_size (product w)"
  shows "\<exists>w'. fw_run ops w = Some (replicate (length (fw_chunks ops)) 32, w')
    \<and> sent w' = sent w @ map (\<lambda>i. [MSG_SOB, 36, if i = 0 then CMD_SendFWDataS
          else if i = length (fw_chunks ops) - 1 then CMD_SendFWDataE else CMD_SendFWData]
        @ fw_chunks ops ! i @ [MSG_EOB]) [0..<length (fw_chunks ops)]"
proof -
  let ?n = "length (fw_chunks ops)"
  have "get_fw_size p < 2 ^ 31" for p by (cases p) (simp_all add: get_fw_size_def)
  then have small: "fw_count w + 32 * int ?n < 2 ^ 31" using assms(2,5) by simp
  have last: "32 * int i + 32 = get_fw_size (product w) \<longleftrightarrow> i = ?n - 1" if "i < ?n" for i
    using assms(5) that by linarith
  have "fw_frames (get_fw_size (product w)) 0 (fw_chunks ops)
      = map (\<lambda>i. [MSG_SOB, 36, if i = 0 then CMD_SendFWDataS
          else if i = ?n - 1 then CMD_SendFWDataE else CMD_SendFWData]
        @ fw_chunks ops ! i @ [MSG_EOB]) [0..<?n]"
    using last by (intro nth_equalityI) (simp_all add: fw_frames_nth length_fw_frames)
  then show ?thesis using fw_run_frames [OF assms(1,3,4) _ small] assms(2) by auto
qed

text \<open>An image of zeros for an EP1-AG08A, an URB completing after every write.\<close>

definition fw_example :: "nat \<Rightarrow> fw_op list" where
  "fw_example n = concat (replicate n [Fw_write (replicate 32 0), Fw_complete])"

lemma fw_example:
  "fw_chunks (fw_example n) = replicate n (replicate 32 0)" "0 < k \<Longrightarrow> urbs_suffice k (fw_example n)"
  by (induction n) (simp_all add: fw_example_def)

lemma fw_update_sequence_witness:
  "\<exists>w'. fw_run (fw_example 6144) (world0 AG08A) = Some (replicate 6144 32, w')
    \<and> length (sent w') = 6144 \<and> (sent w' ! 0) ! 2 = CMD_SendFWDataS \<and> (sent w' ! 1) ! 2 = CMD_SendFWData
    \<and> (sent w' ! 6143) ! 2 = CMD_SendFWDataE"
proof -
  have w: "fw_ready (world0 AG08A)" "fw_count (world0 AG08A) = 0" "tx_usb_transfer_sem (world0 AG08A) = 4"
    "product (world0 AG08A) = AG08A" "sent (world0 AG08A) = []"
    by (simp_all add: fw_ready_def world0_def msg_wf_def)
  show ?thesis
    using fw_update_sequence [of "world0 AG08A" "fw_example 6144"] w fw_example(1) [of 6144] fw_example(2) [of 4 6144]
    by (auto simp: get_fw_size_def simp del: upt_rec_numeral)
qed

end
