(* ===== verification/Cf02a_Net.thy ===== *)
theory Cf02a_Net
  imports Cf02a_Fops
begin

text \<open>
  The EP1-CF02A as a network device: the functions under \<open>SUPPORT_NETDEV\<close> of
  \<open>module/ep1_cf02a/ep1_cf02a_fops.c\<close>. The members of the kernel's \<open>can_priv\<close> are \<open>ctrlmode\<close>, \<open>can_bt\<close>,
  \<open>can_data_bt\<close> and \<open>candev_state\<close>. A frame to send is a classical or an FD frame.
\<close>

unbundle bit_operations_syntax

subsection \<open>Bit timings and modes\<close>

definition cf02a_netdev_set_bittiming :: "world \<Rightarrow> cf02a_unique \<Rightarrow> (int \<times> world \<times> cf02a_unique) option" where
  "cf02a_netdev_set_bittiming w uq = do {
     (result, t, w, uq) \<leftarrow> cf02a_calc_bit_timing w uq (sint (cb_bitrate (can_bt w)))
       (sint (cb_sample_point (can_bt w))) (u_bittiming_const uq);
     case (result, t) of
       (RESULT_Success, Some t) \<Rightarrow> do {
         (result, success, w, uq) \<leftarrow> cf02a_set_bit_timing w uq t;
         if result \<noteq> RESULT_Success then Some (-EIO, w, uq)
         else if success \<noteq> Some True then Some (-EIO, w, uq)
         else Some (0, w, uq)
       }
     | _ \<Rightarrow> Some (-EINVAL, w, uq)
   }"

definition cf02a_netdev_set_data_bittiming :: "world \<Rightarrow> cf02a_unique \<Rightarrow> (int \<times> world \<times> cf02a_unique) option" where
  "cf02a_netdev_set_data_bittiming w uq = do {
     (result, t, w, uq) \<leftarrow> cf02a_calc_bit_timing w uq (sint (cb_bitrate (can_data_bt w)))
       (sint (cb_sample_point (can_data_bt w))) (u_data_bittiming_const uq);
     case (result, t) of
       (RESULT_Success, Some t) \<Rightarrow> do {
         (result, success, w, uq) \<leftarrow> cf02a_set_data_bit_timing w uq t;
         if result \<noteq> RESULT_Success then Some (-EIO, w, uq)
         else if success \<noteq> Some True then Some (-EIO, w, uq)
         else Some (0, w, uq)
       }
     | _ \<Rightarrow> Some (-EINVAL, w, uq)
   }"

definition cf02a_apply_control_modes :: "world \<Rightarrow> u32 \<Rightarrow> (int \<times> world) option" where
  "cf02a_apply_control_modes w mode = do {
     (result, success, w) \<leftarrow> cf02a_set_silent_mode w (mode AND CAN_CTRLMODE_LISTENONLY \<noteq> 0);
     if result \<noteq> RESULT_Success then Some (-EIO, w)
     else if success \<noteq> Some True then Some (-EIO, w)
     else do {
       (result, success, w) \<leftarrow> cf02a_set_fd_mode w (mode AND CAN_CTRLMODE_FD \<noteq> 0);
       if result \<noteq> RESULT_Success then Some (-EIO, w)
       else if success \<noteq> Some True then Some (-EIO, w)
       else if mode AND CAN_CTRLMODE_FD \<noteq> 0 then do {
         (result, success, w) \<leftarrow> cf02a_set_iso_mode w (mode AND CAN_CTRLMODE_FD_NON_ISO \<noteq> 0);
         if result \<noteq> RESULT_Success then Some (-EIO, w)
         else if success \<noteq> Some True then Some (-EIO, w)
         else Some (0, w)
       }
       else Some (0, w)
     }
   }"

subsection \<open>Opening and closing\<close>

definition cf02a_netdev_start :: "world \<Rightarrow> cf02a_unique \<Rightarrow> (int \<times> world \<times> cf02a_unique) option" where
  "cf02a_netdev_start w uq = do {
     (result, w, uq) \<leftarrow> cf02a_netdev_set_bittiming w uq;
     if result \<noteq> 0 then Some (-EIO, w, uq)
     else do {
       (result, w, uq) \<leftarrow> (if ctrlmode w AND CAN_CTRLMODE_FD \<noteq> 0 then cf02a_netdev_set_data_bittiming w uq
                          else Some (0, w, uq));
       if result \<noteq> 0 then Some (-EIO, w, uq)
       else do {
         (result, w) \<leftarrow> cf02a_apply_control_modes w (ctrlmode w);
         if result \<noteq> 0 then Some (result, w, uq)
         else do {
           (result, time, w) \<leftarrow> cf02a_get_device_timestamp_reset_time w;
           case (result, time) of
             (RESULT_Success, Some time) \<Rightarrow> do {
               (result, w) \<leftarrow> cf02a_start_can_interface
                 (w\<lparr>reset_ts := convert_timestamp_to_timespec64 time\<rparr>);
               if result \<noteq> RESULT_Success then Some (-EIO, w, uq)
               else Some (0, w\<lparr>candev_state := CAN_STATE_ERROR_ACTIVE, if_type := IF_NET\<rparr>, uq)
             }
           | _ \<Rightarrow> Some (-EIO, w, uq)
         }
       }
     }
   }"

definition cf02a_netdev_open ::
  "(world \<Rightarrow> int) \<Rightarrow> world \<Rightarrow> cf02a_unique \<Rightarrow> (int \<times> world \<times> cf02a_unique) option" where
  "cf02a_netdev_open open_candev w uq =
     (if if_type w \<noteq> IF_NONE then Some (-EBUSY, w, uq)
      else let err = open_candev w in
        if err \<noteq> 0 then Some (err, w, uq)
        else do {
          (err, w, uq) \<leftarrow> cf02a_netdev_start (emit Open_candev w) uq;
          if err \<noteq> 0 then Some (err, emit Close_candev w, uq)
          else Some (0, emit Start_statistics (emit Net_start_queue w), uq)
        })"

definition cf02a_netdev_close :: "tx_op list list \<Rightarrow> world \<Rightarrow> (int \<times> world) option" where
  "cf02a_netdev_close sched w = do {
     (result, w) \<leftarrow> cf02a_stop_can_interface sched (emit Cancel_statistics w);
     if result \<noteq> RESULT_Success then Some (-EIO, w)
     else Some (0, (emit Close_candev (emit Net_stop_queue w))
            \<lparr>candev_state := CAN_STATE_STOPPED, if_type := IF_NONE\<rparr>)
   }"

definition cf02a_netdev_set_mode ::
  "tx_op list list \<Rightarrow> world \<Rightarrow> cf02a_unique \<Rightarrow> can_mode \<Rightarrow> (int \<times> world \<times> cf02a_unique) option" where
  "cf02a_netdev_set_mode sched w uq mode = (case mode of
     CAN_MODE_START \<Rightarrow> do {
       (result, w) \<leftarrow> cf02a_stop_can_interface sched w;
       if result \<noteq> RESULT_Success then Some (-EIO, w, uq)
       else do {
         (result, w, uq) \<leftarrow> cf02a_netdev_start w uq;
         if result \<noteq> 0 then Some (result, w, uq) else Some (0, w, uq)
       }
     }
   | CAN_MODE_other \<Rightarrow> Some (-EOPNOTSUPP, w, uq))"

subsection \<open>Transmission\<close>

record canfd_frame =
  fd_id :: u32
  fd_len :: u8
  fd_flags :: u8
  fd_data :: "u8 list"

datatype skb_frame = Classical can_frame | Fd canfd_frame

definition id_bytes :: "u32 \<Rightarrow> u8 list" where
  "id_bytes i = [ucast (i AND 0xFF), ucast (drop_bit 8 (i AND 0xFF00)), ucast (drop_bit 16 (i AND 0xFF0000)),
     ucast (drop_bit 24 (i AND 0xFF000000))]"

text \<open>\<open>send_cf\<close> and the number of data bytes that are counted when the frame is sent.\<close>

definition cf02a_send_payload :: "(u8 \<Rightarrow> u8) \<Rightarrow> skb_frame \<Rightarrow> (u8 list \<times> u8) option" where
  "cf02a_send_payload can_fd_len2dlc skb = (case skb of
     Fd cfd \<Rightarrow> do {
       data \<leftarrow> load (fd_data cfd) 0 (unat (fd_len cfd));
       data \<leftarrow> store (replicate 64 0) 0 data;
       let flags = FRAME_FLAG_FDF;
       let flags = (if fd_flags cfd AND CANFD_BRS \<noteq> 0 then flags OR FRAME_FLAG_BRS else flags);
       let flags = (if fd_flags cfd AND CANFD_ESI \<noteq> 0 then flags OR FRAME_FLAG_ESI else flags);
       Some (id_bytes (fd_id cfd) @ [can_fd_len2dlc (fd_len cfd), flags] @ data, fd_len cfd)
     }
   | Classical cf \<Rightarrow> do {
       data \<leftarrow> load (can_data cf) 0 (unat (can_dlc cf));
       data \<leftarrow> store (replicate 64 0) 0 data;
       Some (id_bytes (can_id cf) @ [can_dlc cf, 0] @ data, can_dlc cf)
     })"

definition cf02a_netdev_start_xmit ::
  "(u8 \<Rightarrow> u8) \<Rightarrow> world \<Rightarrow> bool \<Rightarrow> skb_frame \<Rightarrow> (netdev_tx \<times> skb_fate \<times> world) option" where
  "cf02a_netdev_start_xmit can_fd_len2dlc w invalid skb =
     (if is_silent w then Some (NETDEV_TX_OK, Skb_kept, w)
      else if invalid then Some (NETDEV_TX_OK, Skb_dropped, w)
      else do {
        (send_cf, size) \<leftarrow> cf02a_send_payload can_fd_len2dlc skb;
        (result, w) \<leftarrow> write_tx_rb (emit Put_echo (emit Net_stop_queue (w\<lparr>tx_data_size := size\<rparr>))) send_cf 70;
        if result < 0 then Some (NETDEV_TX_BUSY, Skb_echoed, w)
        else Some (NETDEV_TX_OK, Skb_echoed, w)
      })"

subsection \<open>Statistics\<close>

definition state_of_statistics :: "u8 \<Rightarrow> can_state" where
  "state_of_statistics s =
     (if s = 0 then CAN_STATE_ERROR_ACTIVE else if s = 1 then CAN_STATE_ERROR_WARNING
      else if s = 2 then CAN_STATE_ERROR_PASSIVE else if s = 3 then CAN_STATE_BUS_OFF
      else CAN_STATE_ERROR_ACTIVE)"

definition cf02a_statistics_work_func :: "world \<Rightarrow> world option" where
  "cf02a_statistics_work_func w =
     (if \<not> netdev_present w then Some w
      else if on_terminating w then Some w
      else do {
        (result, s, w) \<leftarrow> cf02a_get_can_statistics w;
        case (result, s) of
          (RESULT_Success, Some s) \<Rightarrow>
            Some (emit Start_statistics (w\<lparr>candev_state := state_of_statistics (Cf02a_Msg.can_state s),
              fw_rx_dropped := ucast (rx_dropped s)\<rparr>))
        | _ \<Rightarrow> Some (emit Start_statistics w)
      })"

definition cf02a_netdev_get_state :: "world \<Rightarrow> int \<times> can_state" where
  "cf02a_netdev_get_state w = (0, candev_state w)"

record link_stats =
  ls_rx_packets :: u64
  ls_tx_packets :: u64
  ls_rx_bytes :: u64
  ls_tx_bytes :: u64
  ls_rx_dropped :: u64

definition cf02a_netdev_get_stats64 :: "world \<Rightarrow> link_stats \<Rightarrow> link_stats" where
  "cf02a_netdev_get_stats64 w storage =
     (if on_terminating w then storage
      else \<lparr>ls_rx_packets = rx_packets w, ls_tx_packets = tx_packets w, ls_rx_bytes = rx_bytes w,
            ls_tx_bytes = tx_bytes w, ls_rx_dropped = ls_rx_dropped storage + fw_rx_dropped w\<rparr>)"

end
