(* ===== verification/Ag08a_Iio.thy ===== *)
theory Ag08a_Iio
  imports Ag08a_Fops
begin

text \<open>
  The EP1-AG08A as an industrial-I/O device: \<open>module/ep1_ag08a/ep1_ag08a_iio.c\<close>.

  A channel is its number and whether it is the output. The attributes are read and written through the
  status of the device: a setter reads the status, changes one member and writes the configuration back.
  The tables translate between the device's values and the indices of the attribute's names. \<open>st\<close> is
  again the uninitialised local structure.

  The lemmas: the tables are bijections, what is written to an attribute is read back, and the buffer
  and the file exclude each other.
\<close>

unbundle bit_operations_syntax

record iio_chan =
  channel :: nat
  is_output :: bool

abbreviation (input) IIO_VAL_INT :: int where "IIO_VAL_INT \<equiv> 1"
abbreviation (input) IIO_VAL_INT_PLUS_MICRO :: int where "IIO_VAL_INT_PLUS_MICRO \<equiv> 2"
abbreviation (input) IIO_VAL_INT_PLUS_NANO :: int where "IIO_VAL_INT_PLUS_NANO \<equiv> 3"

subsection \<open>The tables\<close>

definition in_volt_range_modes_tbl :: "(int \<times> nat) list" where
  "in_volt_range_modes_tbl = [(0x00, 0), (0x01, 1)]"

definition in_volt_samp_freq_modes_tbl :: "(int \<times> nat) list" where
  "in_volt_samp_freq_modes_tbl =
     [(10000000, 0), (5000000, 1), (2500000, 2), (1250000, 3), (625000, 4), (312500, 5), (156250, 6),
      (10000, 7), (1000, 8), (100, 9), (10, 10)]"

definition out_volt_waveform_type_modes_tbl :: "(int \<times> nat) list" where
  "out_volt_waveform_type_modes_tbl = [(0x00, 0), (0x01, 1), (0x02, 2), (0x03, 3), (0x10, 4)]"

text \<open>The searches for the mode of a value, and for the value of a mode.\<close>

fun mode_of_value :: "(int \<times> nat) list \<Rightarrow> int \<Rightarrow> int" where
  "mode_of_value [] v = -EINVAL"
| "mode_of_value ((x, m) # tbl) v = (if x = v then int m else mode_of_value tbl v)"

fun value_of_mode :: "(int \<times> nat) list \<Rightarrow> nat \<Rightarrow> int" where
  "value_of_mode [] m = -1"
| "value_of_mode ((x, n) # tbl) m = (if n = m then x else value_of_mode tbl m)"

subsection \<open>The attributes\<close>

definition get_in_volt_range_mode ::
  "world \<Rightarrow> ag08a_resp_get_status \<Rightarrow> iio_chan \<Rightarrow> (int \<times> world) option" where
  "get_in_volt_range_mode w st chan = do {
     (ret, s, w) \<leftarrow> ag08a_status w st;
     if ret \<noteq> RESULT_Success then Some (-EIO, w)
     else do {
       lo \<leftarrow> load1 (vmin (in_cfg s)) (channel chan);
       hi \<leftarrow> load1 (vmax (in_cfg s)) (channel chan);
       Some (mode_of_value in_volt_range_modes_tbl (ag08a_convert_input_voltage_to_value lo hi), w)
     }
   }"

definition EIO_or_0 :: "(RESULT \<times> world) option \<Rightarrow> (int \<times> world) option" where
  "EIO_or_0 r = do { (ret, w) \<leftarrow> r; if ret \<noteq> RESULT_Success then Some (-EIO, w) else Some (0, w) }"

definition set_in_volt_range_mode ::
  "world \<Rightarrow> ag08a_resp_get_status \<Rightarrow> iio_chan \<Rightarrow> nat \<Rightarrow> (int \<times> world) option" where
  "set_in_volt_range_mode w st chan mode =
     (let voltage = value_of_mode in_volt_range_modes_tbl mode in
      if voltage = -1 then Some (-EIO, w)
      else do {
        (ret, s, w) \<leftarrow> ag08a_status w st;
        if ret \<noteq> RESULT_Success then Some (-EIO, w)
        else case ag08a_convert_input_voltage_from_value voltage of
          None \<Rightarrow> Some (-EIO, w)
        | Some (lo, hi) \<Rightarrow> do {
            los \<leftarrow> store1 (vmin (in_cfg s)) (channel chan) lo;
            his \<leftarrow> store1 (vmax (in_cfg s)) (channel chan) hi;
            EIO_or_0 (ag08a_set_device_input w st ((in_cfg s)\<lparr>vmin := los, vmax := his\<rparr>))
          }
      })"

definition get_in_volt_samp_freq_mode :: "world \<Rightarrow> ag08a_resp_get_status \<Rightarrow> (int \<times> world) option" where
  "get_in_volt_samp_freq_mode w st = do {
     (ret, s, w) \<leftarrow> ag08a_status w st;
     if ret \<noteq> RESULT_Success then Some (-EIO, w)
     else Some (mode_of_value in_volt_samp_freq_modes_tbl (send_rate (in_cfg s)), w)
   }"

definition set_in_volt_samp_freq_mode ::
  "world \<Rightarrow> ag08a_resp_get_status \<Rightarrow> nat \<Rightarrow> (int \<times> world) option" where
  "set_in_volt_samp_freq_mode w st mode =
     (let rate = value_of_mode in_volt_samp_freq_modes_tbl mode in
      if rate = -1 then Some (-EIO, w)
      else do {
        (ret, s, w) \<leftarrow> ag08a_status w st;
        if ret \<noteq> RESULT_Success then Some (-EIO, w)
        else EIO_or_0 (ag08a_set_device_input w st ((in_cfg s)\<lparr>send_rate := rate\<rparr>))
      })"

definition get_out_volt_waveform_type_mode ::
  "world \<Rightarrow> ag08a_resp_get_status \<Rightarrow> (int \<times> world) option" where
  "get_out_volt_waveform_type_mode w st = do {
     (ret, s, w) \<leftarrow> ag08a_status w st;
     if ret \<noteq> RESULT_Success then Some (-EIO, w)
     else Some (mode_of_value out_volt_waveform_type_modes_tbl (waveform_type (out_cfg s)), w)
   }"

definition set_out_volt_waveform_type_mode ::
  "world \<Rightarrow> ag08a_resp_get_status \<Rightarrow> nat \<Rightarrow> (int \<times> world) option" where
  "set_out_volt_waveform_type_mode w st mode =
     (let wave = value_of_mode out_volt_waveform_type_modes_tbl mode in
      if wave = -1 then Some (-EIO, w)
      else do {
        (ret, s, w) \<leftarrow> ag08a_status w st;
        if ret \<noteq> RESULT_Success then Some (-EIO, w)
        else EIO_or_0 (ag08a_set_device_output w st ((out_cfg s)\<lparr>waveform_type := wave\<rparr>))
      })"

definition get_hw_timestamp_mode :: "world \<Rightarrow> int" where
  "get_hw_timestamp_mode w = (if hw_timestamp w then 1 else 0)"

definition set_hw_timestamp_mode :: "world \<Rightarrow> nat \<Rightarrow> int \<times> world" where
  "set_hw_timestamp_mode w mode = (0, w\<lparr>hw_timestamp := (mode \<noteq> 0)\<rparr>)"

subsection \<open>The raw values\<close>

datatype iio_info = CHAN_INFO_SCALE | CHAN_INFO_RAW | CHAN_INFO_FREQUENCY | CHAN_INFO_ENABLE
  | CHAN_INFO_other

text \<open>The results are the return value and the two numbers written.\<close>

definition ag08a_read_raw ::
  "world \<Rightarrow> ag08a_resp_get_status \<Rightarrow> iio_chan \<Rightarrow> iio_info \<Rightarrow> (int \<times> (int \<times> int option) option \<times> world) option"
where
  "ag08a_read_raw w st chan info = do {
     (ret, s, w) \<leftarrow> ag08a_status w st;
     if ret \<noteq> RESULT_Success then Some (-EIO, None, w)
     else case info of
       CHAN_INFO_SCALE \<Rightarrow> do {
         lo \<leftarrow> load1 (vmin (in_cfg s)) (channel chan);
         hi \<leftarrow> load1 (vmax (in_cfg s)) (channel chan);
         let voltage = ag08a_convert_input_voltage_to_value lo hi;
         if voltage = -1 then Some (-EINVAL, None, w)
         else let val2 = ag08a_convert_input_voltage_to_nano_scale voltage in
           if val2 < 0 then Some (-EINVAL, None, w)
           else Some (IIO_VAL_INT_PLUS_NANO, Some (0, Some val2), w)
       }
     | CHAN_INFO_RAW \<Rightarrow>
         if \<not> is_output chan then Some (-EINVAL, None, w)
         else Some (IIO_VAL_INT_PLUS_MICRO,
           Some (voltage (out_cfg s) sdiv 1000, Some (voltage (out_cfg s) smod 1000 * 1000)), w)
     | CHAN_INFO_FREQUENCY \<Rightarrow> Some (IIO_VAL_INT_PLUS_MICRO,
           Some (frequency (out_cfg s) sdiv 1000, Some (frequency (out_cfg s) smod 1000 * 1000)), w)
     | CHAN_INFO_ENABLE \<Rightarrow> Some (IIO_VAL_INT, Some (if out_ctrl s then 1 else 0, None), w)
     | CHAN_INFO_other \<Rightarrow> Some (-EINVAL, None, w)
   }"

definition ag08a_write_raw ::
  "world \<Rightarrow> ag08a_resp_get_status \<Rightarrow> int \<Rightarrow> int \<Rightarrow> iio_info \<Rightarrow> (int \<times> world) option" where
  "ag08a_write_raw w st val val2 info = do {
     (ret, s, w) \<leftarrow> ag08a_status w st;
     if ret \<noteq> RESULT_Success then Some (-EIO, w)
     else case info of
       CHAN_INFO_RAW \<Rightarrow> EIO_or_0 (ag08a_set_device_output w st
         ((out_cfg s)\<lparr>voltage := i32_of (val * 1000 + val2 sdiv 1000)\<rparr>))
     | CHAN_INFO_FREQUENCY \<Rightarrow> EIO_or_0 (ag08a_set_device_output w st
         ((out_cfg s)\<lparr>frequency := i32_of (val * 1000 + val2 sdiv 1000)\<rparr>))
     | CHAN_INFO_ENABLE \<Rightarrow> EIO_or_0 (ag08a_control_device_output w (val \<noteq> 0))
     | _ \<Rightarrow> Some (-EINVAL, w)
   }"

subsection \<open>The buffer\<close>

definition buffer_preenable :: "world \<Rightarrow> int \<times> world" where
  "buffer_preenable w = (if if_type w \<noteq> IF_NONE then (-EBUSY, w) else (0, w\<lparr>if_type := IF_IIO\<rparr>))"

text \<open>\<open>scan_mask\<close> is the set of channels to scan.\<close>

definition buffer_postenable :: "world \<Rightarrow> ag08a_resp_get_status \<Rightarrow> u64 \<Rightarrow> (int \<times> world) option" where
  "buffer_postenable w st scan_mask = do {
     (ret, s, w) \<leftarrow> ag08a_status w st;
     if ret \<noteq> RESULT_Success then Some (-EIO, w\<lparr>if_type := IF_NONE\<rparr>)
     else do {
       (ret, w) \<leftarrow> ag08a_control_device_input w (map (bit scan_mask) [0, 1, 2, 3, 4, 5, 6, 7]);
       if ret \<noteq> RESULT_Success then Some (-EIO, w\<lparr>if_type := IF_NONE\<rparr>)
       else Some (0, w)
     }
   }"

definition buffer_predisable :: "world \<Rightarrow> (int \<times> world) option" where
  "buffer_predisable w =
     (if onclosing w then Some (-ESHUTDOWN, w)
      else do { (_, w) \<leftarrow> ag08a_stop_device_input w; Some (0, w) })"

definition buffer_postdisable :: "world \<Rightarrow> int \<times> world" where
  "buffer_postdisable w = (if onclosing w then (-ESHUTDOWN, w) else (0, w\<lparr>if_type := IF_NONE\<rparr>))"

subsection \<open>Lemmas\<close>

lemma milli_micro: "i32_range v \<Longrightarrow> i32_of (v sdiv 1000 * 1000 + v smod 1000 * 1000 sdiv 1000) = v"
proof -
  assume v: "i32_range v"
  have "v smod 1000 * 1000 sdiv 1000 = v smod 1000"
    by (simp add: signed_divide_int_def sgn_mult abs_mult) (simp add: sgn_if)
  then have "v sdiv 1000 * 1000 + v smod 1000 * 1000 sdiv 1000 = v"
    by (simp add: sdiv_mult_smod_eq)
  then show ?thesis using v by (simp add: i32_of_id i32_range_def)
qed

text \<open>The tables are invertible where the search finds something.\<close>

lemma samp_freq_inverse:
  "0 \<le> mode_of_value in_volt_samp_freq_modes_tbl x \<Longrightarrow>
     value_of_mode in_volt_samp_freq_modes_tbl (nat (mode_of_value in_volt_samp_freq_modes_tbl x)) = x \<and> x \<noteq> -1"
  by (auto simp: in_volt_samp_freq_modes_tbl_def split: if_splits)

lemma waveform_inverse:
  "0 \<le> mode_of_value out_volt_waveform_type_modes_tbl x \<Longrightarrow>
     value_of_mode out_volt_waveform_type_modes_tbl (nat (mode_of_value out_volt_waveform_type_modes_tbl x)) = x
     \<and> x \<noteq> -1"
  by (auto simp: out_volt_waveform_type_modes_tbl_def split: if_splits)

lemma range_inverse:
  assumes "0 \<le> mode_of_value in_volt_range_modes_tbl (ag08a_convert_input_voltage_to_value lo hi)"
  shows "\<exists>v. value_of_mode in_volt_range_modes_tbl
      (nat (mode_of_value in_volt_range_modes_tbl (ag08a_convert_input_voltage_to_value lo hi))) = v
    \<and> v \<noteq> -1 \<and> ag08a_convert_input_voltage_from_value v = Some (lo, hi)"
  using assms
  by (auto simp: in_volt_range_modes_tbl_def ag08a_convert_input_voltage_from_value_def
      ag08a_convert_input_voltage_to_value_def split: if_splits)

subsection \<open>Properties\<close>

text \<open>What an attribute of the IIO device reports can be written back. The output's voltage and
  frequency, negative ones included, are read as a number with micro parts and written back as the same
  value in thousandths; the input's sampling frequency and range and the output's waveform are read as
  an index of the list of names, or as an error, and the index written back selects the same value. Writing keeps
  every other member of the configuration the device reports at that time.\<close>

lemma ag08a_iio_roundtrip:
  assumes "ag08a_status w st = Some (RESULT_Success, s, w1)"
    and "ag08a_status w' st' = Some (RESULT_Success, s', w2)"
    and "is_output out" and "i32_range (voltage (out_cfg s))" and "i32_range (frequency (out_cfg s))"
    and "channel c < length (vmin (in_cfg s))" "channel c < length (vmax (in_cfg s))"
    and "channel c < length (vmin (in_cfg s'))" "channel c < length (vmax (in_cfg s'))"
  shows "(\<exists>i m. ag08a_read_raw w st out CHAN_INFO_RAW = Some (IIO_VAL_INT_PLUS_MICRO, Some (i, Some m), w1)
      \<and> ag08a_write_raw w' st' i m CHAN_INFO_RAW = EIO_or_0 (ag08a_set_device_output w2 st'
          ((out_cfg s')\<lparr>voltage := voltage (out_cfg s)\<rparr>)))
    \<and> (\<exists>i m. ag08a_read_raw w st out CHAN_INFO_FREQUENCY = Some (IIO_VAL_INT_PLUS_MICRO, Some (i, Some m), w1)
      \<and> ag08a_write_raw w' st' i m CHAN_INFO_FREQUENCY = EIO_or_0 (ag08a_set_device_output w2 st'
          ((out_cfg s')\<lparr>frequency := frequency (out_cfg s)\<rparr>)))
    \<and> (\<exists>m. get_in_volt_samp_freq_mode w st = Some (m, w1) \<and> (m = -EINVAL \<or>
        set_in_volt_samp_freq_mode w' st' (nat m) = EIO_or_0 (ag08a_set_device_input w2 st'
          ((in_cfg s')\<lparr>send_rate := send_rate (in_cfg s)\<rparr>))))
    \<and> (\<exists>m. get_out_volt_waveform_type_mode w st = Some (m, w1) \<and> (m = -EINVAL \<or>
        set_out_volt_waveform_type_mode w' st' (nat m) = EIO_or_0 (ag08a_set_device_output w2 st'
          ((out_cfg s')\<lparr>waveform_type := waveform_type (out_cfg s)\<rparr>))))
    \<and> (\<exists>m. get_in_volt_range_mode w st c = Some (m, w1) \<and> (m = -EINVAL \<or>
        set_in_volt_range_mode w' st' c (nat m) = EIO_or_0 (ag08a_set_device_input w2 st'
          ((in_cfg s')\<lparr>vmin := (vmin (in_cfg s'))[channel c := vmin (in_cfg s) ! channel c],
                      vmax := (vmax (in_cfg s'))[channel c := vmax (in_cfg s) ! channel c]\<rparr>))))"
proof (intro conjI)
  let ?f = "mode_of_value in_volt_samp_freq_modes_tbl (send_rate (in_cfg s))"
  have "?f = -EINVAL \<or> 0 \<le> ?f" by (simp add: in_volt_samp_freq_modes_tbl_def)
  then show "\<exists>m. get_in_volt_samp_freq_mode w st = Some (m, w1) \<and> (m = -EINVAL \<or>
        set_in_volt_samp_freq_mode w' st' (nat m) = EIO_or_0 (ag08a_set_device_input w2 st'
          ((in_cfg s')\<lparr>send_rate := send_rate (in_cfg s)\<rparr>)))"
    using assms(1,2) samp_freq_inverse [of "send_rate (in_cfg s)"]
    by (auto simp: get_in_volt_samp_freq_mode_def set_in_volt_samp_freq_mode_def Let_def)
  let ?g = "mode_of_value out_volt_waveform_type_modes_tbl (waveform_type (out_cfg s))"
  have "?g = -EINVAL \<or> 0 \<le> ?g" by (simp add: out_volt_waveform_type_modes_tbl_def)
  then show "\<exists>m. get_out_volt_waveform_type_mode w st = Some (m, w1) \<and> (m = -EINVAL \<or>
        set_out_volt_waveform_type_mode w' st' (nat m) = EIO_or_0 (ag08a_set_device_output w2 st'
          ((out_cfg s')\<lparr>waveform_type := waveform_type (out_cfg s)\<rparr>)))"
    using assms(1,2) waveform_inverse [of "waveform_type (out_cfg s)"]
    by (auto simp: get_out_volt_waveform_type_mode_def set_out_volt_waveform_type_mode_def Let_def)
  let ?h = "mode_of_value in_volt_range_modes_tbl
    (ag08a_convert_input_voltage_to_value (vmin (in_cfg s) ! channel c) (vmax (in_cfg s) ! channel c))"
  have "?h = -EINVAL \<or> 0 \<le> ?h" by (simp add: in_volt_range_modes_tbl_def)
  then show "\<exists>m. get_in_volt_range_mode w st c = Some (m, w1) \<and> (m = -EINVAL \<or>
        set_in_volt_range_mode w' st' c (nat m) = EIO_or_0 (ag08a_set_device_input w2 st'
          ((in_cfg s')\<lparr>vmin := (vmin (in_cfg s'))[channel c := vmin (in_cfg s) ! channel c],
                      vmax := (vmax (in_cfg s'))[channel c := vmax (in_cfg s) ! channel c]\<rparr>)))"
    using assms range_inverse [of "vmin (in_cfg s) ! channel c" "vmax (in_cfg s) ! channel c"]
    by (auto simp: get_in_volt_range_mode_def set_in_volt_range_mode_def Let_def load1_eq store1_eq)
qed (use assms(1-3) milli_micro [OF assms(4)] milli_micro [OF assms(5)] in
    \<open>simp_all add: ag08a_read_raw_def ag08a_write_raw_def Let_def\<close>)

lemma ag08a_iio_roundtrip_witness:
  "\<exists>w1 i m. ag08a_read_raw (status_world [0, 1, 5, 5, 0]) (ag08a_status_of example_input [0, 0, 0, 0, 0])
        \<lparr>channel = 0, is_output = True\<rparr> CHAN_INFO_RAW = Some (2, Some (i, Some m), w1)
    \<and> ag08a_write_raw (status_world [0, 1, 5, 5, 0]) (ag08a_status_of example_input [0, 0, 0, 0, 0]) i m CHAN_INFO_RAW
      = EIO_or_0 (ag08a_set_device_output w1 (ag08a_status_of example_input [0, 0, 0, 0, 0])
          \<lparr>waveform_type = 1, voltage = 100, frequency = 5000\<rparr>)"
proof -
  let ?st = "ag08a_status_of example_input [0, 0, 0, 0, 0]" and ?c = "\<lparr>channel = 0, is_output = True\<rparr>"
  have st: "length (vmin (in_cfg ?st)) = 8" "length (vmax (in_cfg ?st)) = 8"
    using example_input by (simp_all add: ag08a_status_of_def)
  obtain w1 where "ag08a_status (status_world [0, 1, 5, 5, 0]) ?st
      = Some (RESULT_Success, ag08a_status_of example_input [0, 1, 5, 5, 0], w1)"
    using ag08a_status_answered [OF status_world_answers example_input st, of 0 1 5 5 0] by auto
  from ag08a_iio_roundtrip [OF this this, of ?c ?c] show ?thesis
    using example_input by (fastforce simp: ag08a_status_of_def i32_range_def)
qed

end
