(* ===== verification/Probe.thy ===== *)
theory Probe
  imports Fops Cf02a_Net Ag08a_Iio
begin

text \<open>
  Attaching and detaching a device: \<open>module/apt_usbtrx_main.c\<close> and the \<open>*_main.c\<close> of the products.

  \<^item> \<open>driver\<close> is a device under construction. \<open>dw\<close> and \<open>du\<close> are its state and the unique data of the
    EP1-CF02A; \<open>held\<close> is what has been allocated, registered or started and not been given back,
    \<open>ptr\<close> the pointers to it that are not \<open>NULL\<close>. \<open>rx_wq\<close> and \<open>tx_wq\<close> say whether the wait queues of the
    ring buffers are initialised. Freeing what is not held, stopping a thread that does not run, and
    waking an uninitialised wait queue are undefined: \<open>None\<close>.
  \<^item> The kernel's functions that may fail use \<open>choices\<close>. \<open>kthread_run\<close> does not return \<open>NULL\<close> when it
    fails, but an error pointer. \<open>unregister_netdev\<close> closes a network device that is up.
  \<^item> The IIO device belongs to the interface, which the kernel cleans up itself. The attributes
    in sysfs are in \<open>Sysfs\<close>. The minor's class, DMA addresses and the log are left out, and so are the
    completions that arrive while a device is taken down, as what they write to is given back.

  The properties: what a failed or a successful probe, and a disconnect, hold in the end; the failures
  that are not handled.
\<close>

unbundle bit_operations_syntax

abbreviation (input) TXDATA_BUFFER_SIZE :: nat where "TXDATA_BUFFER_SIZE \<equiv> 256 * 1024"
abbreviation (input) STORE_DATA_BUFFER_SIZE :: nat where "STORE_DATA_BUFFER_SIZE \<equiv> 8 * 4 * 1024"
abbreviation (input) AP_CT2A_CLOCK :: u32 where "AP_CT2A_CLOCK \<equiv> 10000000"
abbreviation (input) AP_CT2A_DEFAULT_BAUDRATE :: u32 where "AP_CT2A_DEFAULT_BAUDRATE \<equiv> 500000"
abbreviation (input) CAN_CTRLMODE_LISTENONLY :: u32 where "CAN_CTRLMODE_LISTENONLY \<equiv> 2"
abbreviation (input) STORE_DATA_STATE_NOT_SUPPORTED :: u8 where "STORE_DATA_STATE_NOT_SUPPORTED \<equiv> 2"

subsection \<open>What a device holds\<close>

datatype resource =
  M_dev | M_unique | M_bittiming | M_data_bittiming | M_store_data
| M_rx_transfer | M_rx_complete | M_rx_rbmsg | M_minor | M_rx_data | M_rxbuf | M_tx_data
| M_thread | M_netdev

text \<open>The members of the network device that are set up with it.\<close>

record netdev =
  nd_ctrlmode_supported :: u32
  nd_clock :: u32
  nd_bittiming_const :: bittiming_const
  nd_data_bittiming_const :: bittiming_const
  nd_dev_id :: int

record driver =
  dw :: world
  du :: cf02a_unique
  unique_func :: product
  held :: "resource set"
  ptr :: "resource set"
  rx_wq :: bool
  tx_wq :: bool
  kref :: nat
  intfdata :: bool
  nd :: netdev

datatype endpoint = Bulk_in | Bulk_out | Endpoint_other

record interface =
  if_class :: u8
  if_subclass :: u8
  id_product :: u16
  endpoints :: "endpoint list"

definition ask :: "driver \<Rightarrow> bool \<times> driver" where
  "ask d = (let (ok, w) = may_fail (dw d) in (ok, d\<lparr>dw := w\<rparr>))"

definition alloc_res :: "resource \<Rightarrow> driver \<Rightarrow> bool \<times> driver" where
  "alloc_res r d = (let (ok, d) = ask d in
     (ok, if ok then d\<lparr>held := insert r (held d), ptr := insert r (ptr d)\<rparr> else d\<lparr>ptr := ptr d - {r}\<rparr>))"

definition free_res :: "resource \<Rightarrow> driver \<Rightarrow> driver option" where
  "free_res r d =
     (if r \<notin> ptr d then Some d else if r \<in> held d then Some (d\<lparr>held := held d - {r}\<rparr>) else None)"

definition set_null :: "resource \<Rightarrow> driver \<Rightarrow> driver" where
  "set_null r d = d\<lparr>ptr := ptr d - {r}\<rparr>"

text \<open>The use of the unique data.\<close>

definition get_unique_data :: "driver \<Rightarrow> driver option" where
  "get_unique_data d = (if M_unique \<in> held d then Some d else None)"

definition wake_up :: "bool \<Rightarrow> driver \<Rightarrow> driver option" where
  "wake_up wq d = (if wq then Some d else None)"

text \<open>The pattern of a call whose failure is passed on.\<close>

definition on_success ::
  "(RESULT \<times> driver) option \<Rightarrow> (driver \<Rightarrow> (RESULT \<times> driver) option) \<Rightarrow> (RESULT \<times> driver) option" where
  "on_success r f = do {
     (result, d) \<leftarrow> r;
     if result \<noteq> RESULT_Success then Some (RESULT_Failure, d) else f d
   }"

text \<open>A ring buffer is initialised, and given back.\<close>

definition ring_init ::
  "resource \<Rightarrow> (world \<Rightarrow> ringbuffer) \<Rightarrow> ((ringbuffer \<Rightarrow> ringbuffer) \<Rightarrow> world \<Rightarrow> world) \<Rightarrow> nat \<Rightarrow> driver \<Rightarrow>
     RESULT \<times> driver" where
  "ring_init r get upd n d =
     (let (ok, d) = alloc_res r d;
          (result, rb) = ringbuffer_init (\<lambda>n. if ok then Some (replicate n 0) else None) (get (dw d)) n in
      (result, d\<lparr>dw := upd (\<lambda>_. rb) (dw d)\<rparr>))"

definition ring_term ::
  "resource \<Rightarrow> (world \<Rightarrow> ringbuffer) \<Rightarrow> ((ringbuffer \<Rightarrow> ringbuffer) \<Rightarrow> world \<Rightarrow> world) \<Rightarrow> driver \<Rightarrow>
     (RESULT \<times> driver) option" where
  "ring_term r get upd d = do {
     let (result, rb) = ringbuffer_term (get (dw d));
     d \<leftarrow> free_res r d;
     Some (result, set_null r (d\<lparr>dw := upd (\<lambda>_. rb) (dw d)\<rparr>))
   }"

subsection \<open>The unique data\<close>

text \<open>The summary's \<open>rtr_ext\<close> keeps the zeros of the allocation.\<close>

definition unique_can_init_data :: "driver \<Rightarrow> (RESULT \<times> driver) option" where
  "unique_can_init_data d =
     (if M_unique \<in> ptr d then Some (RESULT_Failure, d)
      else let (ok, d) = alloc_res M_unique d in
        if \<not> ok then Some (RESULT_Failure, d)
        else let w = dw d in
          Some (RESULT_Success, d\<lparr>dw := w\<lparr>if_type := IF_NONE,
            summary := \<lparr>dat_std = init_stats w, dat_ext = init_stats w, rtr_std = init_stats w,
              rtr_ext = \<lparr>st_kt = 0, st_timestamp = 0, st_num = 0, st_total_num = 0\<rparr>, err = init_stats w\<rparr>,
            netdev_present := False\<rparr>\<rparr>))"

definition unique_can_free_data :: "driver \<Rightarrow> (RESULT \<times> driver) option" where
  "unique_can_free_data d =
     (if M_unique \<notin> ptr d then Some (RESULT_Failure, d)
      else do { d \<leftarrow> free_res M_unique d; Some (RESULT_Success, d) })"

definition ag08a_init_data :: "driver \<Rightarrow> (RESULT \<times> driver) option" where
  "ag08a_init_data d =
     (if M_unique \<in> ptr d then Some (RESULT_Failure, d)
      else let (ok, d) = alloc_res M_unique d in
        if \<not> ok then Some (RESULT_Failure, d)
        else Some (RESULT_Success, d\<lparr>dw := (dw d)\<lparr>if_type := IF_NONE\<rparr>\<rparr>))"

definition ag08a_free_data :: "driver \<Rightarrow> (RESULT \<times> driver) option" where
  "ag08a_free_data d =
     (if M_unique \<notin> ptr d then Some (RESULT_Failure, d)
      else do { d \<leftarrow> free_res M_unique d; Some (RESULT_Success, d) })"

definition no_timing :: cf02a_bit_timing where
  "no_timing = \<lparr>bt_prop_seg = 0, bt_phase_seg1 = 0, bt_phase_seg2 = 0, bt_sjw = 0, bt_brp = 0\<rparr>"

definition cf02a_init_data :: "driver \<Rightarrow> (RESULT \<times> driver) option" where
  "cf02a_init_data d =
     (if M_unique \<in> ptr d then Some (RESULT_Failure, d)
      else let (ok, d) = alloc_res M_unique d in
        if \<not> ok then Some (RESULT_Failure, d)
        else let d = d\<lparr>dw := (dw d)\<lparr>tx_transfer_max_token := (8 * 1000 * 1000 div 8) div 74 div 1000\<rparr>,
                       du := \<lparr>u_can_clock = 0, u_bittiming_const = cf02a_bittiming_const,
                         u_data_bittiming_const = cf02a_data_bittiming_const, u_bittiming = no_timing,
                         u_data_bittiming = no_timing\<rparr>\<rparr>;
                 (ok, d) = alloc_res M_bittiming d in
          if \<not> ok then do { d \<leftarrow> free_res M_unique d; Some (RESULT_Failure, d) }
          else let (ok, d) = alloc_res M_data_bittiming d in
            if \<not> ok then do {
              d \<leftarrow> free_res M_bittiming d; d \<leftarrow> free_res M_unique d; Some (RESULT_Failure, d) }
            else let d = d\<lparr>dw := (dw d)\<lparr>
                       frames_per_request := (of_nat STORE_DATA_BUFFER_SIZE - 1) div of_nat CAN_PACKET_SIZE,
                       received_store_data_size := 0\<rparr>\<rparr>;
                     (result, d) = ring_init M_store_data rx_store_data rx_store_data_update
                       STORE_DATA_BUFFER_SIZE d in
              if result \<noteq> RESULT_Success then do {
                d \<leftarrow> free_res M_bittiming d; d \<leftarrow> free_res M_data_bittiming d; d \<leftarrow> free_res M_unique d;
                Some (RESULT_Failure, d) }
              else Some (RESULT_Success, d\<lparr>dw := (dw d)\<lparr>rx_store_data_done := 0, store_data_complete := False,
                is_store_data_enabled := False, file_open_count := 0, if_type := IF_NONE,
                netdev_present := False, on_terminating := False\<rparr>\<rparr>))"

definition cf02a_free_data :: "driver \<Rightarrow> (RESULT \<times> driver) option" where
  "cf02a_free_data d =
     (if M_unique \<notin> ptr d then Some (RESULT_Failure, d)
      else do {
        d \<leftarrow> get_unique_data d;
        (_, d) \<leftarrow> ring_term M_store_data rx_store_data rx_store_data_update d;
        d \<leftarrow> map_option (set_null M_bittiming) (free_res M_bittiming d);
        d \<leftarrow> map_option (set_null M_data_bittiming) (free_res M_data_bittiming d);
        d \<leftarrow> free_res M_unique d;
        Some (RESULT_Success, d)
      })"

definition init_data :: "driver \<Rightarrow> (RESULT \<times> driver) option" where
  "init_data d = (case unique_func d of
     CT2A \<Rightarrow> unique_can_init_data d | CH02A \<Rightarrow> unique_can_init_data d
   | CF02A \<Rightarrow> cf02a_init_data d | AG08A \<Rightarrow> ag08a_init_data d)"

definition free_data :: "driver \<Rightarrow> (RESULT \<times> driver) option" where
  "free_data d = (case unique_func d of
     CT2A \<Rightarrow> unique_can_free_data d | CH02A \<Rightarrow> unique_can_free_data d
   | CF02A \<Rightarrow> cf02a_free_data d | AG08A \<Rightarrow> ag08a_free_data d)"

subsection \<open>The network device\<close>

abbreviation (input) no_can_timing :: can_bittiming where
  "no_can_timing \<equiv> \<lparr>cb_bitrate = 0, cb_sample_point = 0, cb_tq = 0, cb_prop_seg = 0, cb_phase_seg1 = 0,
     cb_phase_seg2 = 0, cb_sjw = 0, cb_brp = 0\<rparr>"

definition no_bittiming_const :: bittiming_const where
  "no_bittiming_const = \<lparr>tseg1_min = 0, tseg1_max = 0, tseg2_min = 0, tseg2_max = 0, sjw_max = 0,
     brp_min = 0, brp_max = 0, brp_inc = 0\<rparr>"

definition ct2a_bittiming_const :: bittiming_const where
  "ct2a_bittiming_const = \<lparr>tseg1_min = 1, tseg1_max = 16, tseg2_min = 1, tseg2_max = 8, sjw_max = 4,
     brp_min = 1, brp_max = 1024, brp_inc = 1\<rparr>"

definition ch02a_bittiming_const :: bittiming_const where
  "ch02a_bittiming_const = \<lparr>tseg1_min = 1, tseg1_max = 16, tseg2_min = 1, tseg2_max = 8, sjw_max = 4,
     brp_min = 1, brp_max = 512, brp_inc = 1\<rparr>"

text \<open>\<open>alloc_candev\<close> gives a network device and its private data, all zero.\<close>

definition alloc_candev :: "driver \<Rightarrow> bool \<times> driver" where
  "alloc_candev d =
     (let (ok, d) = alloc_res M_netdev d in
      (ok, if ok then d\<lparr>dw := (dw d)\<lparr>reset_ts := \<lparr>tv_sec = 0, tv_nsec = 0\<rparr>, rx_packets := 0, rx_bytes := 0,
                          tx_packets := 0, tx_bytes := 0, tx_data_size := 0, fw_rx_dropped := 0, ctrlmode := 0,
                          can_bt := no_can_timing, can_data_bt := no_can_timing,
                          candev_state := CAN_STATE_STOPPED\<rparr>,
                        nd := \<lparr>nd_ctrlmode_supported = 0, nd_clock = 0, nd_bittiming_const = no_bittiming_const,
                          nd_data_bittiming_const = no_bittiming_const, nd_dev_id = 0\<rparr>\<rparr>
           else d))"

text \<open>The end of the products' \<open>create_candev\<close>. The error number is only compared with zero.\<close>

definition register_candev :: "driver \<Rightarrow> (RESULT \<times> driver) option" where
  "register_candev d =
     (let d = d\<lparr>nd := (nd d)\<lparr>nd_dev_id := ch (dw d)\<rparr>, dw := (dw d)\<lparr>netdev_present := True\<rparr>\<rparr>;
          (ok, d) = ask d in
      if ok then Some (RESULT_Success, d)
      else do {
        d \<leftarrow> free_res M_netdev (d\<lparr>dw := (dw d)\<lparr>netdev_present := False\<rparr>\<rparr>);
        Some (RESULT_Failure, set_null M_netdev d)
      })"

definition unique_can_create_candev :: "driver \<Rightarrow> (RESULT \<times> driver) option" where
  "unique_can_create_candev d =
     (let (ok, d) = alloc_candev d in
      if \<not> ok then Some (RESULT_Failure, d)
      else register_candev (d\<lparr>
        dw := (dw d)\<lparr>can_bt := no_can_timing\<lparr>cb_bitrate := AP_CT2A_DEFAULT_BAUDRATE\<rparr>\<rparr>,
        nd := (nd d)\<lparr>nd_ctrlmode_supported := CAN_CTRLMODE_LISTENONLY, nd_clock := AP_CT2A_CLOCK,
                     nd_bittiming_const := ct2a_bittiming_const\<rparr>\<rparr>))"

definition ch02a_set_current_bittiming :: "driver \<Rightarrow> driver option" where
  "ch02a_set_current_bittiming d =
     (let bt = (can_bt (dw d))\<lparr>cb_bitrate := AP_CT2A_DEFAULT_BAUDRATE\<rparr>;
          d = d\<lparr>dw := (dw d)\<lparr>can_bt := bt\<rparr>, nd := (nd d)\<lparr>nd_clock := AP_CT2A_CLOCK\<rparr>\<rparr> in
      if \<not> ch02a_is_support_bittiming_command (dw d) then Some d
      else do {
        (result, timing, w) \<leftarrow> ch02a_get_bit_timing (dw d);
        case (result, timing) of
          (RESULT_Success, Some t) \<Rightarrow> do {
            let p = ch_params t;
            let nominal = i32_of (1 + ch_prop_seg p + ch_phase_seg1 p + ch_phase_seg2 p);
            sample_point \<leftarrow> idiv (i32_of ((nominal - ch_phase_seg2 p) * 1000)) nominal;
            mhz \<leftarrow> idiv (ch_can_clock t) 1000000;
            ns \<leftarrow> idiv 1000 mhz;
            Some (d\<lparr>dw := w\<lparr>can_bt := bt\<lparr>cb_prop_seg := word_of_int (ch_prop_seg p),
                      cb_phase_seg1 := word_of_int (ch_phase_seg1 p),
                      cb_phase_seg2 := word_of_int (ch_phase_seg2 p),
                      cb_sjw := word_of_int (ch_sjw p), cb_brp := word_of_int (ch_brp p),
                      cb_sample_point := word_of_int sample_point,
                      cb_tq := word_of_int (ns * ch_brp p)\<rparr>\<rparr>,
                    nd := (nd d)\<lparr>nd_clock := word_of_int (ch_can_clock t)\<rparr>\<rparr>)
          }
        | _ \<Rightarrow> Some (d\<lparr>dw := w\<rparr>)
      })"

definition ch02a_create_candev :: "driver \<Rightarrow> (RESULT \<times> driver) option" where
  "ch02a_create_candev d =
     (let (ok, d) = alloc_candev d in
      if \<not> ok then Some (RESULT_Failure, d)
      else do {
        d \<leftarrow> ch02a_set_current_bittiming (d\<lparr>nd := (nd d)\<lparr>nd_ctrlmode_supported := CAN_CTRLMODE_LISTENONLY,
               nd_bittiming_const := ch02a_bittiming_const\<rparr>\<rparr>);
        register_candev d
      })"

definition cf02a_bit_timing_to_can_bittiming ::
  "cf02a_unique \<Rightarrow> cf02a_bit_timing \<Rightarrow> can_bittiming \<Rightarrow> can_bittiming option" where
  "cf02a_bit_timing_to_can_bittiming uq src dst = do {
     let dst = dst\<lparr>cb_prop_seg := word_of_int (bt_prop_seg src), cb_phase_seg1 := word_of_int (bt_phase_seg1 src),
                   cb_phase_seg2 := word_of_int (bt_phase_seg2 src), cb_sjw := word_of_int (bt_sjw src),
                   cb_brp := word_of_int (bt_brp src)\<rparr>;
     let prop_seg = sint (cb_prop_seg dst);
     let phase_seg1 = sint (cb_phase_seg1 dst);
     let phase_seg2 = sint (cb_phase_seg2 dst);
     let brp = sint (cb_brp dst);
     let all_tseg = i32_of (1 + prop_seg + phase_seg1 + phase_seg2);
     bitrate \<leftarrow> udiv (u_can_clock uq) (word_of_int (brp * all_tseg));
     sample_point \<leftarrow> idiv (i32_of (1000 * (1 + prop_seg + phase_seg1))) all_tseg;
     tq \<leftarrow> do_div (word_of_int brp * 1000000000) (u_can_clock uq);
     Some (dst\<lparr>cb_bitrate := bitrate, cb_sample_point := word_of_int sample_point, cb_tq := ucast tq\<rparr>)
   }"

definition cf02a_create_candev :: "driver \<Rightarrow> (RESULT \<times> driver) option" where
  "cf02a_create_candev d =
     (let (ok, d) = alloc_candev d in
      if \<not> ok then Some (RESULT_Failure, d)
      else do {
        bt \<leftarrow> cf02a_bit_timing_to_can_bittiming (du d) (u_data_bittiming (du d)) (can_data_bt (dw d));
        register_candev (d\<lparr>dw := (dw d)\<lparr>can_data_bt := bt\<rparr>,
          nd := (nd d)\<lparr>
            nd_ctrlmode_supported := CAN_CTRLMODE_LISTENONLY OR CAN_CTRLMODE_FD OR CAN_CTRLMODE_FD_NON_ISO,
            nd_clock := u_can_clock (du d), nd_bittiming_const := u_bittiming_const (du d),
            nd_data_bittiming_const := u_data_bittiming_const (du d)\<rparr>\<rparr>)
      })"

text \<open>The interface owns what \<open>create_iiodev\<close> allocates.\<close>

definition ag08a_create_iiodev :: "driver \<Rightarrow> (RESULT \<times> driver) option" where
  "ag08a_create_iiodev d =
     (let (ok, d) = ask d in
      if \<not> ok then Some (RESULT_Failure, d)
      else let d = d\<lparr>dw := (dw d)\<lparr>hw_timestamp := True, iio_buffer := replicate 24 0\<rparr>\<rparr>; (ok, d) = ask d in
      if \<not> ok then Some (RESULT_Failure, d)
      else let (ok, d) = ask d in
      if \<not> ok then Some (RESULT_Failure, d)
      else let (ok, d) = ask d in
      if \<not> ok then Some (RESULT_Failure, d)
      else Some (RESULT_Success, d))"

subsection \<open>Setting up the products\<close>

definition unique_can_is_need_init_reset_ts :: "driver \<Rightarrow> bool" where
  "unique_can_is_need_init_reset_ts d \<longleftrightarrow> ch (dw d) = 1"

definition cf02a_is_need_init_reset_ts :: "driver \<Rightarrow> bool" where
  "cf02a_is_need_init_reset_ts d \<longleftrightarrow> ch (dw d) = 1"

definition ag08a_is_need_init_reset_ts :: "driver \<Rightarrow> bool" where
  "ag08a_is_need_init_reset_ts d \<longleftrightarrow> ch (dw d) = 0"

definition is_need_init_reset_ts :: "driver \<Rightarrow> bool" where
  "is_need_init_reset_ts d = (case unique_func d of
     CT2A \<Rightarrow> unique_can_is_need_init_reset_ts d | CH02A \<Rightarrow> unique_can_is_need_init_reset_ts d
   | CF02A \<Rightarrow> cf02a_is_need_init_reset_ts d | AG08A \<Rightarrow> ag08a_is_need_init_reset_ts d)"

definition unique_can_init :: "driver \<Rightarrow> (RESULT \<times> driver) option" where
  "unique_can_init d = on_success (unique_can_create_candev d) (\<lambda>d. Some (RESULT_Success, d))"

definition ch02a_init :: "driver \<Rightarrow> (RESULT \<times> driver) option" where
  "ch02a_init d = on_success (ch02a_create_candev d) (\<lambda>d. Some (RESULT_Success, d))"

definition ag08a_init :: "driver \<Rightarrow> (RESULT \<times> driver) option" where
  "ag08a_init d = on_success (ag08a_create_iiodev d) (\<lambda>d. Some (RESULT_Success, d))"

text \<open>The commands keep the copies in the unique data up to date themselves; storing them again changes
  nothing.\<close>

definition cf02a_init_current_settings :: "driver \<Rightarrow> (RESULT \<times> driver) option" where
  "cf02a_init_current_settings d = do {
     (result, _, w, uq) \<leftarrow> cf02a_get_can_clock (dw d) (du d);
     on_success (Some (result, d\<lparr>dw := w, du := uq\<rparr>)) (\<lambda>d. do {
       (result, _, w, uq) \<leftarrow> cf02a_get_bit_timing (dw d) (du d);
       on_success (Some (result, d\<lparr>dw := w, du := uq\<rparr>)) (\<lambda>d. do {
         (result, _, w, uq) \<leftarrow> cf02a_get_data_bit_timing (dw d) (du d);
         on_success (Some (result, d\<lparr>dw := w, du := uq\<rparr>)) (\<lambda>d. do {
           (result, state, w) \<leftarrow> cf02a_get_current_store_data_state (dw d);
           case (result, state) of
             (RESULT_Success, Some state) \<Rightarrow>
               Some (RESULT_Success, d\<lparr>dw := w\<lparr>is_store_data_enabled :=
                 (sd_state state \<noteq> STORE_DATA_STATE_NOT_SUPPORTED)\<rparr>\<rparr>)
           | _ \<Rightarrow> Some (RESULT_Failure, d\<lparr>dw := w\<rparr>)
         })
       })
     })
   }"

definition cf02a_init :: "driver \<Rightarrow> (RESULT \<times> driver) option" where
  "cf02a_init d = on_success (cf02a_init_current_settings d) (\<lambda>d. do {
     d \<leftarrow> (if is_store_data_enabled (dw d) \<and> cf02a_is_need_init_reset_ts d \<and> sync_pulse (dw d) = 0
       then do {
         (_, _, w) \<leftarrow> cf02a_set_host_timestamp_reset_time (dw d) (basetime (dw d));
         Some (d\<lparr>dw := w\<rparr>)
       }
       else Some d);
     on_success (cf02a_create_candev d) (\<lambda>d. Some (RESULT_Success, d))
   })"

definition unique_init :: "driver \<Rightarrow> (RESULT \<times> driver) option" where
  "unique_init d = (case unique_func d of
     CT2A \<Rightarrow> unique_can_init d | CH02A \<Rightarrow> ch02a_init d | CF02A \<Rightarrow> cf02a_init d | AG08A \<Rightarrow> ag08a_init d)"

subsection \<open>Taking down the products\<close>

text \<open>What the kernel knows when a device goes away: whether its network device is up; the uninitialised
  local of its closing, and what the transmit thread does meanwhile.\<close>

record detach =
  netdev_up :: bool
  stop_status :: msg_resp_get_status
  stop_schedule :: "tx_op list list"

definition ndo_stop :: "detach \<Rightarrow> driver \<Rightarrow> driver option" where
  "ndo_stop a d = do {
     (_, w) \<leftarrow> (case unique_func d of
       CF02A \<Rightarrow> cf02a_netdev_close (stop_schedule a) (dw d)
     | AG08A \<Rightarrow> Some (0, dw d)
     | _ \<Rightarrow> unique_can_netdev_close (dw d) (stop_status a));
     Some (d\<lparr>dw := w\<rparr>)
   }"

text \<open>\<open>unregister_netdev\<close> and \<open>free_candev\<close>, where there is a network device.\<close>

definition remove_netdev :: "detach \<Rightarrow> driver \<Rightarrow> driver option" where
  "remove_netdev a d = do {
     d \<leftarrow> (if netdev_up a then ndo_stop a d else Some d);
     d \<leftarrow> free_res M_netdev d;
     Some (set_null M_netdev (d\<lparr>dw := (dw d)\<lparr>netdev_present := False\<rparr>\<rparr>))
   }"

definition unique_can_terminate :: "detach \<Rightarrow> driver \<Rightarrow> (RESULT \<times> driver) option" where
  "unique_can_terminate a d = do {
     d \<leftarrow> get_unique_data d;
     d \<leftarrow> (if netdev_present (dw d) then remove_netdev a d else Some d);
     Some (RESULT_Success, d)
   }"

definition ch02a_terminate :: "detach \<Rightarrow> driver \<Rightarrow> (RESULT \<times> driver) option" where
  "ch02a_terminate a d = do {
     d \<leftarrow> get_unique_data d;
     d \<leftarrow> (if netdev_present (dw d) then remove_netdev a d else Some d);
     Some (RESULT_Success, d)
   }"

definition cf02a_terminate :: "detach \<Rightarrow> driver \<Rightarrow> (RESULT \<times> driver) option" where
  "cf02a_terminate a d = do {
     d \<leftarrow> get_unique_data d;
     let d = d\<lparr>dw := (dw d)\<lparr>on_terminating := True\<rparr>\<rparr>;
     d \<leftarrow> (if netdev_present (dw d) then remove_netdev a (d\<lparr>dw := emit Cancel_statistics (dw d)\<rparr>) else Some d);
     let w = emit Wake_store (dw d);
     Some (RESULT_Success, d\<lparr>dw := w\<lparr>rx_store_data_done := rx_store_data_done w - 1\<rparr>\<rparr>)
   }"

definition ag08a_terminate :: "driver \<Rightarrow> (RESULT \<times> driver) option" where
  "ag08a_terminate d = Some (RESULT_Success, d)"

definition terminate :: "detach \<Rightarrow> driver \<Rightarrow> (RESULT \<times> driver) option" where
  "terminate a d = (case unique_func d of
     CT2A \<Rightarrow> unique_can_terminate a d | CH02A \<Rightarrow> ch02a_terminate a d
   | CF02A \<Rightarrow> cf02a_terminate a d | AG08A \<Rightarrow> ag08a_terminate d)"

subsection \<open>Setting up a device\<close>

text \<open>Every member gets its first value.\<close>

definition init_members :: "driver \<Rightarrow> driver" where
  "init_members d =
     d\<lparr>ptr := ptr d - {M_rxbuf, M_rx_transfer, M_rx_complete, M_rx_rbmsg, M_thread, M_unique},
            dw := (dw d)\<lparr>rxt_buffer := [], rxt_data_size := 0, rxc_done := 0, rxc_buffer := [],
              rxc_data_size := 0, rx_ongoing := False, clock_monotonic := False,
              basetime := \<lparr>tv_sec = 0, tv_nsec = 0\<rparr>, onopening := True, onclosing := False, fw_count := 0,
              send_msg_sem := 1, tx_usb_transfer_sem := MAX_TX_URBS, tx_data_clear_requested := False,
              tx_transfer_expired := jiffies (dw d), tx_transfer_max_token := 0, tx_transfer_token := 0,
              ch := 0, serial_no := replicate 15 0, sync_pulse := 0, fw_major := 0, fw_minor := 0,
              fw_revision := 0, tx_buffer_rate := 0, rx_done := 0, timestamp_mode := TIMESTAMP_MODE_DEVICE,
              rx_rbmsg := []\<rparr>\<rparr>"

definition init_instance :: "driver \<Rightarrow> (RESULT \<times> driver) option" where
  "init_instance d = on_success (init_data (init_members d)) (\<lambda>d. Some (RESULT_Success, d))"

text \<open>The indices of the endpoints found so far, \<open>i\<close> being the next.\<close>

fun search_endpoints :: "nat \<Rightarrow> nat option \<Rightarrow> nat option \<Rightarrow> endpoint list \<Rightarrow> RESULT \<times> nat option \<times> nat option" where
  "search_endpoints i bulk_in bulk_out [] = (RESULT_Failure, bulk_in, bulk_out)"
| "search_endpoints i bulk_in bulk_out (e # es) =
     (let bulk_in = (if bulk_in = None \<and> e = Bulk_in then Some i else bulk_in);
          bulk_out = (if bulk_out = None \<and> e = Bulk_out then Some i else bulk_out) in
      if bulk_in \<noteq> None \<and> bulk_out \<noteq> None then (RESULT_Success, bulk_in, bulk_out)
      else search_endpoints (Suc i) bulk_in bulk_out es)"

definition get_endpoints :: "interface \<Rightarrow> RESULT \<times> nat option \<times> nat option" where
  "get_endpoints intf = search_endpoints 0 None None (endpoints intf)"

definition is_dfu :: "interface \<Rightarrow> bool" where
  "is_dfu intf \<longleftrightarrow> if_class intf = 0xFF \<and> if_subclass intf = 1"

text \<open>The retries of the first command; \<open>n\<close> are left.\<close>

fun retry_device_id :: "nat \<Rightarrow> driver \<Rightarrow> (bool \<times> driver) option" where
  "retry_device_id 0 d = Some (False, d)"
| "retry_device_id (Suc n) d = do {
     (result, x, w) \<leftarrow> get_device_id (dw d) (Some (replicate 4 0)) 4 True;
     case (result, x) of
       (RESULT_Success, Some (_, c)) \<Rightarrow> Some (True, d\<lparr>dw := w\<lparr>ch := c\<rparr>\<rparr>)
     | _ \<Rightarrow> retry_device_id n (d\<lparr>dw := w\<rparr>)
   }"

text \<open>Who the device is: channel, serial number, version of the firmware.\<close>

definition identify :: "driver \<Rightarrow> (RESULT \<times> driver) option" where
  "identify d = do {
     (found, d) \<leftarrow> retry_device_id 3 d;
     if \<not> found then Some (RESULT_Failure, d)
     else do {
       (result, x, w) \<leftarrow> get_serial_no (dw d) (Some (replicate 15 0)) 15 True True;
       case (result, x) of
         (RESULT_Success, Some (sn, _, pulse)) \<Rightarrow> do {
           let d = d\<lparr>dw := w\<lparr>serial_no := sn, sync_pulse := pulse\<rparr>\<rparr>;
           (result, x, w) \<leftarrow> get_fw_version (dw d);
           case (result, x) of
             (RESULT_Success, Some (major, minor)) \<Rightarrow> do {
               let d = d\<lparr>dw := w\<lparr>fw_major := major, fw_minor := minor\<rparr>\<rparr>;
               if is_support_revision_command (device_type_of (unique_func d)) major minor then do {
                 (result, x, w) \<leftarrow> get_fw_version_revision (dw d);
                 case (result, x) of
                   (RESULT_Success, Some (major, minor, revision)) \<Rightarrow>
                     Some (RESULT_Success,
                       d\<lparr>dw := w\<lparr>fw_major := major, fw_minor := minor, fw_revision := revision\<rparr>\<rparr>)
                 | _ \<Rightarrow> Some (RESULT_Failure, d\<lparr>dw := w\<rparr>)
               }
               else Some (RESULT_Success, d)
             }
           | _ \<Rightarrow> Some (RESULT_Failure, d\<lparr>dw := w\<rparr>)
         }
       | _ \<Rightarrow> Some (RESULT_Failure, d\<lparr>dw := w\<rparr>)
     }
   }"

text \<open>The ring buffer of the transmit path and its thread. The result is compared with \<open>NULL\<close>.\<close>

definition start_tx_thread :: "driver \<Rightarrow> RESULT \<times> driver" where
  "start_tx_thread d =
     (let (result, d) = ring_init M_tx_data tx_data tx_data_update TXDATA_BUFFER_SIZE (d\<lparr>tx_wq := True\<rparr>) in
      if result \<noteq> RESULT_Success then (RESULT_Failure, d)
      else let (ok, d) = ask d;
               d = d\<lparr>ptr := insert M_thread (ptr d), held := (if ok then insert M_thread (held d) else held d)\<rparr> in
        if M_thread \<notin> ptr d then (RESULT_Failure, d) else (RESULT_Success, d))"

text \<open>The time stamps are reset where the device asks for it; that it does not answer is accepted.\<close>

definition start_time_stamps :: "driver \<Rightarrow> (RESULT \<times> driver) option" where
  "start_time_stamps d = do {
     (result, success, w) \<leftarrow> enable_reset_ts (dw d);
     let d = d\<lparr>dw := w\<rparr>;
     if result \<noteq> RESULT_Success then Some (RESULT_Failure, d)
     else if success \<noteq> Some True then Some (RESULT_Failure, d)
     else if is_need_init_reset_ts d \<and> sync_pulse (dw d) = 0 then do {
       (result, success, w) \<leftarrow> reset_ts_cmd (dw d);
       let d = d\<lparr>dw := w\<rparr>;
       if result \<noteq> RESULT_Success \<and> result \<noteq> RESULT_Timeout then Some (RESULT_Failure, d)
       else Some (RESULT_Success, d)
     }
     else Some (RESULT_Success, d)
   }"

definition usbtrx_init :: "interface \<Rightarrow> driver \<Rightarrow> (RESULT \<times> driver) option" where
  "usbtrx_init intf d =
     (if if_class intf \<noteq> 0xFF then Some (RESULT_Failure, d)
      else if if_subclass intf \<noteq> 0 \<and> if_subclass intf \<noteq> 1 then Some (RESULT_Failure, d)
      else let (ok, d) = alloc_res M_minor d in
      if \<not> ok then Some (RESULT_Failure, d)
      else let (result, d) = ring_init M_rx_data rx_data rx_data_update (rx_data_size_of (unique_func d))
             (d\<lparr>rx_wq := True\<rparr>) in
      if result \<noteq> RESULT_Success then Some (RESULT_Failure, d)
      else let (result, w) = setup_rx_urbs (dw d);
               d = (if 0 < rx_urbs w
                 then d\<lparr>dw := w, held := insert M_rxbuf (held d), ptr := insert M_rxbuf (ptr d)\<rparr>
                 else d\<lparr>dw := w\<rparr>) in
      if result \<noteq> RESULT_Success then Some (RESULT_Failure, d)
      else let d = d\<lparr>dw := (dw d)\<lparr>basetime := get_ts64 (dw d)\<rparr>\<rparr> in
      if if_subclass intf = 1 then Some (RESULT_Success, d\<lparr>dw := (dw d)\<lparr>onopening := False\<rparr>\<rparr>)
      else on_success (identify d) (\<lambda>d.
           on_success (Some (start_tx_thread d)) (\<lambda>d.
           on_success (start_time_stamps d) (\<lambda>d.
           on_success (unique_init d) (\<lambda>d.
             Some (RESULT_Success, d\<lparr>dw := (dw d)\<lparr>onopening := False\<rparr>\<rparr>))))))"

subsection \<open>Taking down a device\<close>

text \<open>Everything is stopped. Killing the receive URBs completes them; as the device is closing, they are
  not submitted again.\<close>

definition stop_thread :: "interface \<Rightarrow> driver \<Rightarrow> driver option" where
  "stop_thread intf d =
     (if \<not> is_dfu intf \<and> M_thread \<in> ptr d then do { d \<leftarrow> wake_up (tx_wq d) d; free_res M_thread d } else Some d)"

definition quiesce :: "detach \<Rightarrow> interface \<Rightarrow> driver \<Rightarrow> driver option" where
  "quiesce a intf d = do {
     (_, d) \<leftarrow> terminate a d;
     let d = d\<lparr>dw := (dw d)\<lparr>onclosing := True, rx_ongoing := False\<rparr>\<rparr>;
     d \<leftarrow> wake_up (rx_wq d) d;
     d \<leftarrow> stop_thread intf (d\<lparr>dw := (dw d)\<lparr>rx_done := rx_done (dw d) - 1\<rparr>\<rparr>);
     d \<leftarrow> free_res M_rxbuf (d\<lparr>dw := (dw d)\<lparr>rx_urbs := 0\<rparr>\<rparr>);
     Some (set_null M_rxbuf d)
   }"

text \<open>And everything is given back.\<close>

definition release_memory :: "driver \<Rightarrow> driver option" where
  "release_memory d = do {
     d \<leftarrow> free_res M_rx_transfer d;
     d \<leftarrow> free_res M_rx_complete d;
     d \<leftarrow> free_res M_rx_rbmsg d;
     (_, d) \<leftarrow> free_data d;
     Some d
   }"

definition usbtrx_term :: "detach \<Rightarrow> interface \<Rightarrow> driver \<Rightarrow> (RESULT \<times> driver) option" where
  "usbtrx_term a intf d = do {
     d \<leftarrow> quiesce a intf d;
     (_, d) \<leftarrow> ring_term M_rx_data rx_data rx_data_update d;
     (_, d) \<leftarrow> (if \<not> is_dfu intf then ring_term M_tx_data tx_data tx_data_update d else Some (RESULT_Success, d));
     d \<leftarrow> free_res M_minor d;
     d \<leftarrow> release_memory (set_null M_minor d);
     Some (RESULT_Success, d)
   }"

definition kref_put :: "driver \<Rightarrow> driver" where
  "kref_put d = (if kref d = 1 then d\<lparr>kref := 0, held := held d - {M_dev}\<rparr> else d\<lparr>kref := kref d - 1\<rparr>)"

text \<open>\<open>goto error\<close> in \<open>probe\<close>, once there is a device.\<close>

definition probe_error :: "int \<Rightarrow> driver \<Rightarrow> (int \<times> driver) option" where
  "probe_error retval d = Some (retval, kref_put d)"

text \<open>\<open>dev\<close> as \<open>kzalloc\<close> gives it.\<close>

definition new_device :: "driver \<Rightarrow> driver" where
  "new_device d =
     (let zero = \<lparr>buffer = [], buffer_size = 0, begin_p = 0, end_p = 0, read_p = 0, write_p = 0,
        skip_count = 0, log_write_buffer_is_full = False\<rparr> in
      d\<lparr>held := insert M_dev (held d), ptr := {}, kref := 1, rx_wq := False, tx_wq := False,
        dw := (dw d)\<lparr>rx_data := zero, tx_data := zero, rx_urbs := 0, rxc_id := 0\<rparr>\<rparr>)"

definition alloc_buffers :: "driver \<Rightarrow> bool \<times> driver" where
  "alloc_buffers d =
     (let (ok, d) = alloc_res M_rx_transfer d in
      if \<not> ok then (False, d)
      else let (ok, d) = alloc_res M_rx_complete (d\<lparr>dw := (dw d)\<lparr>rxt_buffer := replicate (2 * RX_BUFFER_SIZE) 0\<rparr>\<rparr>) in
      if \<not> ok then (False, d)
      else let (ok, d) = alloc_res M_rx_rbmsg (d\<lparr>dw := (dw d)\<lparr>rxc_buffer := replicate RX_BUFFER_SIZE 0\<rparr>\<rparr>) in
      if \<not> ok then (False, d)
      else (True, d\<lparr>dw := (dw d)\<lparr>rx_rbmsg := replicate (rx_data_size_of (unique_func d)) 0\<rparr>\<rparr>))"

text \<open>What \<open>probe\<close> does once everything is allocated.\<close>

definition start_device :: "detach \<Rightarrow> interface \<Rightarrow> driver \<Rightarrow> (int \<times> driver) option" where
  "start_device a intf d = do {
     (result, d) \<leftarrow> usbtrx_init intf d;
     if result \<noteq> RESULT_Success then do {
       (_, d) \<leftarrow> usbtrx_term a intf d;
       probe_error (-EIO) (d\<lparr>intfdata := False\<rparr>)
     }
     else Some (0, d)
   }"

text \<open>\<open>d\<close> is what there is before: nothing but the environment.\<close>

definition probe :: "detach \<Rightarrow> interface \<Rightarrow> driver \<Rightarrow> (int \<times> driver) option" where
  "probe a intf d =
     (let (ok, d) = ask (d\<lparr>intfdata := False\<rparr>) in
      if \<not> ok then Some (-ENOMEM, d)
      else case init_function (id_product intf) of
        None \<Rightarrow> probe_error (-ENOMEM) (new_device d)
      | Some p \<Rightarrow> do {
          (result, d) \<leftarrow> init_instance ((new_device d)\<lparr>unique_func := p, dw := (dw (new_device d))\<lparr>product := p\<rparr>\<rparr>);
          if result \<noteq> RESULT_Success then probe_error (-ENOMEM) d
          else let (ok, d) = alloc_buffers d in
          if \<not> ok then probe_error (-ENOMEM) d
          else let (result, bulk_in, bulk_out) = get_endpoints intf in
          if result \<noteq> RESULT_Success then probe_error (-ENOMEM) d
          else start_device a intf (d\<lparr>intfdata := True\<rparr>)
        })"

definition disconnect :: "detach \<Rightarrow> interface \<Rightarrow> driver \<Rightarrow> driver option" where
  "disconnect a intf d =
     (if \<not> intfdata d then Some d
      else do {
        (_, d) \<leftarrow> usbtrx_term a intf d;
        Some (kref_put (d\<lparr>intfdata := False\<rparr>))
      })"

end
