(* ===== verification/Probe_Resources.thy ===== *)
theory Probe_Resources
  imports Probe
begin

text \<open>
  What the driver holds while a device is attached and detached.

  \<^item> \<open>owned\<close> and \<open>attached\<close> are the invariants: what is held is pointed to, and what is pointed to is held,
    a thread that failed to start apart. Each step of the probe preserves them.
  \<^item> \<open>gone S d d'\<close>: from \<open>d\<close> to \<open>d'\<close> just \<open>S\<close> has been given back. The steps of the way down add up to
    everything but the device itself. \<open>solid\<close> is when they succeed.
  \<^item> The properties: a probe and a disconnect leave nothing behind, and the failures that are not
    handled.
\<close>

subsection \<open>What the steps hold\<close>

text \<open>Steps that only talk to the device hold what was held.\<close>

definition same :: "driver \<Rightarrow> driver \<Rightarrow> bool" where
  "same d d' \<longleftrightarrow> held d' = held d \<and> ptr d' = ptr d \<and> unique_func d' = unique_func d \<and> kref d' = kref d
     \<and> rx_wq d' = rx_wq d \<and> tx_wq d' = tx_wq d \<and> intfdata d' = intfdata d"

lemma same_refl [simp]: "same d d"
  by (simp add: same_def)

lemma same_update [simp]:
  "same d (d'\<lparr>dw := w\<rparr>) = same d d'" "same d (d'\<lparr>du := u\<rparr>) = same d d'" "same d (d'\<lparr>nd := n\<rparr>) = same d d'"
  "same (d\<lparr>dw := w\<rparr>) d' = same d d'" "same (d\<lparr>du := u\<rparr>) d' = same d d'" "same (d\<lparr>nd := n\<rparr>) d' = same d d'"
  by (simp_all add: same_def)

lemma same_trans: "same a b \<Longrightarrow> same b c \<Longrightarrow> same a c"
  by (simp add: same_def)

lemma ask_same [simp]: "ask d = (ok, d') \<Longrightarrow> same d d'"
  by (auto simp: ask_def split: prod.splits)

lemma on_success_cases:
  assumes "on_success r f = Some (result, d')"
  obtains e d where "r = Some (e, d)" "e \<noteq> RESULT_Success" "result = RESULT_Failure" "d' = d"
  | d where "r = Some (RESULT_Success, d)" "f d = Some (result, d')"
  using assms by (auto simp: on_success_def split: bind_splits if_splits)

lemma retry_same: "retry_device_id n d = Some (r, d') \<Longrightarrow> same d d'"
proof (induction n arbitrary: d)
  case (Suc n)
  then show ?case
    using Suc.IH [of "d\<lparr>dw := w\<rparr>" for w]
    by (auto split: bind_splits RESULT.splits option.splits prod.splits)
qed simp

lemma identify_same: "identify d = Some (r, d') \<Longrightarrow> same d d'"
  by (auto simp: identify_def Let_def split: bind_splits RESULT.splits option.splits prod.splits if_splits dest: retry_same)

lemma start_time_stamps_same: "start_time_stamps d = Some (r, d') \<Longrightarrow> same d d'"
  by (auto simp: start_time_stamps_def Let_def split: bind_splits if_splits)

lemma settings_same: "cf02a_init_current_settings d = Some (r, d') \<Longrightarrow> same d d'"
  by (auto simp: cf02a_init_current_settings_def on_success_def Let_def
      split: bind_splits if_splits RESULT.splits option.splits)

lemma ch02a_bittiming_same: "ch02a_set_current_bittiming d = Some d' \<Longrightarrow> same d d'"
  by (auto simp: ch02a_set_current_bittiming_def Let_def
      split: bind_splits if_splits RESULT.splits option.splits)

lemma create_iiodev_same: "ag08a_create_iiodev d = Some (r, d') \<Longrightarrow> same d d'"
  by (auto simp: ag08a_create_iiodev_def Let_def split: prod.splits if_splits)
    (auto simp: same_def dest!: ask_same)


subsection \<open>What is held while a device is set up\<close>

text \<open>There is a pointer to what is held, and nothing but a thread that failed to start is pointed to and
  not held.\<close>

definition owned :: "driver \<Rightarrow> bool" where
  "owned d \<longleftrightarrow> M_dev \<in> held d \<and> M_dev \<notin> ptr d \<and> M_unique \<in> held d
     \<and> (\<forall>r. r \<noteq> M_dev \<and> r \<noteq> M_thread \<longrightarrow> (r \<in> held d \<longleftrightarrow> r \<in> ptr d)) \<and> (M_thread \<in> held d \<longrightarrow> M_thread \<in> ptr d)
     \<and> (unique_func d \<noteq> CF02A \<longrightarrow> M_bittiming \<notin> held d \<and> M_data_bittiming \<notin> held d \<and> M_store_data \<notin> held d)"

definition attached :: "interface \<Rightarrow> driver \<Rightarrow> bool" where
  "attached intf d \<longleftrightarrow> owned d \<and> (M_netdev \<in> held d \<longrightarrow> netdev_present (dw d) \<and> unique_func d \<noteq> AG08A)
     \<and> (is_dfu intf \<longrightarrow> M_thread \<notin> ptr d \<and> M_tx_data \<notin> held d)"

lemma same_owned: "same d d' \<Longrightarrow> owned d' = owned d"
  by (simp add: same_def owned_def)

lemma alloc_res_eq:
  "alloc_res r d = (ok, d') \<Longrightarrow> held d' = (if ok then insert r (held d) else held d)
     \<and> ptr d' = (if ok then insert r (ptr d) else ptr d - {r}) \<and> unique_func d' = unique_func d \<and> kref d' = kref d
     \<and> rx_wq d' = rx_wq d \<and> tx_wq d' = tx_wq d \<and> intfdata d' = intfdata d"
  by (auto simp: alloc_res_def ask_def split: prod.splits if_splits)

lemma ring_init_eq:
  "ring_init r get upd n d = (result, d') \<Longrightarrow> \<exists>ok. (result = RESULT_Success \<longleftrightarrow> ok)
     \<and> held d' = (if ok then insert r (held d) else held d)
     \<and> ptr d' = (if ok then insert r (ptr d) else ptr d - {r}) \<and> unique_func d' = unique_func d \<and> kref d' = kref d
     \<and> rx_wq d' = rx_wq d \<and> tx_wq d' = tx_wq d \<and> intfdata d' = intfdata d"
  by (auto simp: ring_init_def ringbuffer_init_def ringbuffer_init_instance_def
      dest!: alloc_res_eq split: prod.splits if_splits option.splits)

lemma ring_init_held:
  assumes "ring_init r get upd n d = (result, d')"
  shows "held d' = (if result = RESULT_Success then insert r (held d) else held d)"
    "ptr d' = (if result = RESULT_Success then insert r (ptr d) else ptr d - {r})"
    "unique_func d' = unique_func d" "kref d' = kref d" "intfdata d' = intfdata d"
  using ring_init_eq [OF assms] by auto

lemma free_res_eq:
  "free_res r d = Some d' \<Longrightarrow> (r \<notin> ptr d \<and> d' = d) \<or> (r \<in> ptr d \<and> r \<in> held d \<and> d' = d\<lparr>held := held d - {r}\<rparr>)"
  by (auto simp: free_res_def split: if_splits)

lemma register_candev_eq:
  assumes "register_candev d = Some (r, d')" and "M_netdev \<in> ptr d" "M_netdev \<in> held d"
  shows "r = RESULT_Success \<and> netdev_present (dw d') \<and> same d d'
    \<or> r \<noteq> RESULT_Success \<and> held d' = held d - {M_netdev} \<and> ptr d' = ptr d - {M_netdev} \<and> unique_func d' = unique_func d
      \<and> kref d' = kref d \<and> rx_wq d' = rx_wq d \<and> tx_wq d' = tx_wq d \<and> intfdata d' = intfdata d"
  using assms
  by (auto simp: register_candev_def ask_def may_fail_def same_def free_res_def set_null_def Let_def
      split: prod.splits if_splits bind_splits list.splits)


text \<open>Setting up the network device changes nothing else.\<close>

definition net_step :: "driver \<Rightarrow> driver \<Rightarrow> bool" where
  "net_step d d' \<longleftrightarrow> held d' - {M_netdev} = held d - {M_netdev} \<and> ptr d' - {M_netdev} = ptr d - {M_netdev}
     \<and> (M_netdev \<in> held d' \<longleftrightarrow> M_netdev \<in> ptr d') \<and> (M_netdev \<in> held d' \<longrightarrow> netdev_present (dw d'))
     \<and> unique_func d' = unique_func d \<and> kref d' = kref d \<and> rx_wq d' = rx_wq d \<and> tx_wq d' = tx_wq d
     \<and> intfdata d' = intfdata d"

lemma same_net_step: "same d e \<Longrightarrow> net_step e d' \<Longrightarrow> net_step d d'"
  by (simp add: same_def net_step_def)

lemma net_step_same: "same d d' \<Longrightarrow> M_netdev \<notin> held d \<Longrightarrow> M_netdev \<notin> ptr d \<Longrightarrow> net_step d d'"
  by (simp add: same_def net_step_def)

lemma alloc_candev_eq:
  assumes "alloc_candev d = (ok, d')" and "M_netdev \<notin> held d" "M_netdev \<notin> ptr d"
  shows "ok \<and> M_netdev \<in> held d' \<and> M_netdev \<in> ptr d' \<and> held d' - {M_netdev} = held d \<and> ptr d' - {M_netdev} = ptr d
      \<and> unique_func d' = unique_func d \<and> kref d' = kref d \<and> rx_wq d' = rx_wq d \<and> tx_wq d' = tx_wq d
      \<and> intfdata d' = intfdata d
    \<or> \<not> ok \<and> same d d'"
  using assms by (auto simp: alloc_candev_def Let_def same_def split: prod.splits if_splits dest!: alloc_res_eq)

lemma register_net_step:
  assumes "register_candev e = Some (r, d')" and "M_netdev \<in> ptr e" "M_netdev \<in> held e"
    and "held e - {M_netdev} = held d" "ptr e - {M_netdev} = ptr d"
    and "unique_func e = unique_func d" "kref e = kref d" "rx_wq e = rx_wq d" "tx_wq e = tx_wq d" "intfdata e = intfdata d"
  shows "net_step d d' \<and> (r \<noteq> RESULT_Success \<longrightarrow> M_netdev \<notin> held d')"
  using register_candev_eq [OF assms(1-3)] assms(2-) by (auto simp: net_step_def same_def)

lemma create_candev_step:
  assumes "unique_can_create_candev d = Some (r, d') \<or> ch02a_create_candev d = Some (r, d')
      \<or> cf02a_create_candev d = Some (r, d')"
    and n: "M_netdev \<notin> held d" "M_netdev \<notin> ptr d"
  shows "net_step d d' \<and> (r \<noteq> RESULT_Success \<longrightarrow> M_netdev \<notin> held d')"
proof (cases "alloc_candev d")
  case (Pair ok e)
  note c = alloc_candev_eq [OF Pair n]
  show ?thesis
  proof (cases ok)
    case False
    then have s: "same d e" using c by simp
    have "r \<noteq> RESULT_Success" "d' = e"
      using assms(1) False Pair
      by (auto simp: unique_can_create_candev_def ch02a_create_candev_def cf02a_create_candev_def)
    then show ?thesis using s n by (simp add: net_step_same) (simp add: same_def)
  next
    case True
    then obtain f where f: "register_candev f = Some (r, d')" "same e f"
      using assms(1) Pair
      by (auto simp: unique_can_create_candev_def ch02a_create_candev_def cf02a_create_candev_def
          split: bind_splits dest!: ch02a_bittiming_same)
    show ?thesis
      by (rule register_net_step [OF f(1)]) (use f(2) c True in \<open>simp_all add: same_def\<close>)
  qed
qed

lemma on_success_id:
  "on_success r (\<lambda>d. Some (RESULT_Success, d)) = Some (result, d') \<Longrightarrow>
    \<exists>f. r = Some (f, d') \<and> (result \<noteq> RESULT_Success \<longleftrightarrow> f \<noteq> RESULT_Success)"
  by (auto elim!: on_success_cases)

lemma cf02a_init_same:
  assumes "cf02a_init d = Some (r, d')"
  shows "same d d' \<and> r \<noteq> RESULT_Success
    \<or> (\<exists>e f. same d e \<and> cf02a_create_candev e = Some (f, d') \<and> (r \<noteq> RESULT_Success \<longleftrightarrow> f \<noteq> RESULT_Success))"
  using assms unfolding cf02a_init_def
proof (cases rule: on_success_cases)
  case (1 e d)
  then show ?thesis using settings_same by auto
next
  case (2 e)
  then obtain e' where e: "on_success (cf02a_create_candev e') (\<lambda>d. Some (RESULT_Success, d)) = Some (r, d')"
    "same e e'"
    by (auto split: bind_splits if_splits)
  then show ?thesis
    using same_trans [OF settings_same [OF 2(1)] e(2)] on_success_id [OF e(1)] by blast
qed

lemma unique_init_step:
  assumes "unique_init d = Some (r, d')" and n: "M_netdev \<notin> held d" "M_netdev \<notin> ptr d"
  shows "net_step d d' \<and> (r \<noteq> RESULT_Success \<longrightarrow> M_netdev \<notin> held d') \<and> (unique_func d = AG08A \<longrightarrow> M_netdev \<notin> held d')"
proof (cases "unique_func d")
  case CT2A
  then show ?thesis
    using assms(1) create_candev_step [OF _ n]
    by (auto simp: unique_init_def unique_can_init_def elim!: on_success_cases)
next
  case CH02A
  then show ?thesis
    using assms(1) create_candev_step [OF _ n]
    by (auto simp: unique_init_def ch02a_init_def elim!: on_success_cases)
next
  case AG08A
  then have "same d d'"
    using assms(1) by (auto simp: unique_init_def ag08a_init_def elim!: on_success_cases dest: create_iiodev_same)
  then show ?thesis using n by (simp add: net_step_same) (simp add: same_def)
next
  case CF02A
  then have 1: "cf02a_init d = Some (r, d')" using assms(1) by (simp add: unique_init_def)
  then consider "same d d'" "r \<noteq> RESULT_Success"
    | e f where "same d e" "cf02a_create_candev e = Some (f, d')" "r \<noteq> RESULT_Success \<longleftrightarrow> f \<noteq> RESULT_Success"
    using cf02a_init_same by blast
  then show ?thesis
  proof cases
    case 1
    then show ?thesis using n CF02A by (simp add: net_step_same) (simp add: same_def)
  next
    case 2
    have "M_netdev \<notin> held e" "M_netdev \<notin> ptr e" using 2(1) n by (simp_all add: same_def)
    then show ?thesis
      using create_candev_step [of e f d'] 2 CF02A same_net_step [of d e d'] by auto
  qed
qed


lemma owned_step:
  assumes "owned d" "r \<notin> {M_dev, M_thread, M_bittiming, M_data_bittiming, M_store_data}"
    and "held d' = (if ok then insert r (held d) else held d)" "ptr d' = (if ok then insert r (ptr d) else ptr d - {r})"
    and "unique_func d' = unique_func d" "ok \<or> r \<notin> held d"
  shows "owned d'"
  using assms by (auto simp: owned_def split: if_splits)

lemma owned_other:
  assumes o: "owned d" and x: "x \<notin> {M_dev, M_unique, M_bittiming, M_data_bittiming, M_store_data}"
    and h: "held d' - {x} = held d - {x}" "ptr d' - {x} = ptr d - {x}" and u: "unique_func d' = unique_func d"
    and X: "x \<in> held d' \<longrightarrow> x \<in> ptr d'" "x \<noteq> M_thread \<longrightarrow> x \<in> ptr d' \<longrightarrow> x \<in> held d'"
  shows "owned d'"
proof -
  have r: "r \<in> held d' \<longleftrightarrow> r \<in> held d" "r \<in> ptr d' \<longleftrightarrow> r \<in> ptr d" if "r \<noteq> x" for r
    using h that by blast+
  have "M_dev \<noteq> x" "M_unique \<noteq> x" "M_bittiming \<noteq> x" "M_data_bittiming \<noteq> x" "M_store_data \<noteq> x"
    using x by auto
  note x' = this
  have "r \<in> held d' \<longleftrightarrow> r \<in> ptr d'" if "r \<noteq> M_dev" "r \<noteq> M_thread" for r
  proof (cases "r = x")
    case True
    then show ?thesis using X that by blast
  next
    case False
    then show ?thesis using r o that by (simp add: owned_def)
  qed
  moreover have "M_thread \<in> held d' \<longrightarrow> M_thread \<in> ptr d'"
    using X(1) r [of M_thread] o by (cases "x = M_thread") (simp_all add: owned_def)
  moreover have "M_dev \<in> held d'" "M_dev \<notin> ptr d'" "M_unique \<in> held d'"
    and "unique_func d' \<noteq> CF02A \<longrightarrow> M_bittiming \<notin> held d' \<and> M_data_bittiming \<notin> held d' \<and> M_store_data \<notin> held d'"
    using o u by (auto simp: owned_def r x')
  ultimately show ?thesis by (simp add: owned_def)
qed

lemma owned_net_step: "owned d \<Longrightarrow> net_step d d' \<Longrightarrow> owned d'"
  by (rule owned_other [where x = M_netdev and d = d]) (simp_all add: net_step_def)

text \<open>What is true of a device before and while it is set up.\<close>

definition fresh :: "driver \<Rightarrow> bool" where
  "fresh d \<longleftrightarrow> owned d \<and> M_netdev \<notin> held d \<and> M_thread \<notin> ptr d \<and> M_tx_data \<notin> held d"

lemma start_tx_thread_eq:
  assumes "start_tx_thread d = (r, d')" and "fresh d"
  shows "owned d' \<and> M_netdev \<notin> held d' \<and> unique_func d' = unique_func d \<and> kref d' = kref d \<and> rx_wq d' = rx_wq d
    \<and> tx_wq d' \<and> intfdata d' = intfdata d"
proof -
  obtain r1 d1 where 1: "ring_init M_tx_data tx_data tx_data_update TXDATA_BUFFER_SIZE (d\<lparr>tx_wq := True\<rparr>) = (r1, d1)"
    by fastforce
  note e = ring_init_eq [OF 1]
  have f: "owned (d\<lparr>tx_wq := True\<rparr>)" "M_tx_data \<notin> held d" "M_thread \<notin> ptr d" "M_thread \<notin> held d" "M_netdev \<notin> held d"
    using assms(2) by (auto simp: fresh_def owned_def)
  have o: "owned d1" using e f by (elim exE) (rule owned_step [of "d\<lparr>tx_wq := True\<rparr>" M_tx_data d1], auto)
  have d1: "M_thread \<notin> held d1" "M_netdev \<notin> held d1" using e f by auto
  have h: "held d' - {M_thread} = held d1 - {M_thread}" "ptr d' - {M_thread} = ptr d1 - {M_thread}"
    and t: "M_thread \<in> held d' \<longrightarrow> M_thread \<in> ptr d'" and u: "unique_func d' = unique_func d1"
    and k: "kref d' = kref d1" "rx_wq d' = rx_wq d1" "tx_wq d' = tx_wq d1" "intfdata d' = intfdata d1"
    using assms(1) 1 d1(1) by (auto simp: start_tx_thread_def ask_def Let_def split: if_splits prod.splits)
  have "owned d'" by (rule owned_other [OF o _ h u t]) simp_all
  moreover have "M_netdev \<notin> held d'" using h(1) d1(2) by blast
  ultimately show ?thesis using e k u by auto
qed


lemma session_attached:
  assumes "on_success (identify d) (\<lambda>d. on_success (Some (start_tx_thread d)) (\<lambda>d.
      on_success (start_time_stamps d) (\<lambda>d. on_success (unique_init d) (\<lambda>d.
        Some (RESULT_Success, d\<lparr>dw := (dw d)\<lparr>onopening := False\<rparr>\<rparr>))))) = Some (r, d')"
    and f: "fresh d" and i: "\<not> is_dfu intf"
  shows "attached intf d' \<and> (r \<noteq> RESULT_Success \<longrightarrow> M_netdev \<notin> held d') \<and> (r = RESULT_Success \<longrightarrow> tx_wq d')
    \<and> unique_func d' = unique_func d \<and> kref d' = kref d \<and> rx_wq d' = rx_wq d \<and> intfdata d' = intfdata d"
  using assms(1)
proof (cases rule: on_success_cases)
  case (1 e d1)
  then have "same d d'" using identify_same by simp
  then show ?thesis using f i 1 same_owned [of d d'] by (auto simp: attached_def fresh_def same_def)
next
  case (2 d1)
  then have s1: "same d d1" using identify_same by simp
  then have f1: "fresh d1" using f same_owned [of d d1] by (auto simp: fresh_def same_def)
  obtain r2 d2 where d2: "start_tx_thread d1 = (r2, d2)" by fastforce
  note o2 = start_tx_thread_eq [OF d2 f1]
  have n2: "M_netdev \<notin> ptr d2" using o2 by (auto simp: owned_def)
  from 2(2) show ?thesis
  proof (cases rule: on_success_cases)
    case (1 e x)
    then show ?thesis using d2 o2 s1 i by (auto simp: attached_def same_def)
  next
    case (2 x)
    then have d2': "x = d2" using d2 by simp
    from 2(2) [unfolded d2'] show ?thesis
    proof (cases rule: on_success_cases)
      case (1 e d3)
      then have "same d2 d'" using start_time_stamps_same by simp
      then show ?thesis using 1 o2 s1 i same_owned [of d2 d'] by (auto simp: attached_def same_def)
    next
      case (2 d3)
      then have s3: "same d2 d3" using start_time_stamps_same by simp
      have n3: "M_netdev \<notin> held d3" "M_netdev \<notin> ptr d3" and o3: "owned d3"
        using s3 o2 n2 same_owned [OF s3] by (simp_all add: same_def)
      obtain r4 d4 where 4: "unique_init d3 = Some (r4, d4)" "held d' = held d4" "ptr d' = ptr d4"
        "same d4 d'" "netdev_present (dw d') = netdev_present (dw d4)" "r = RESULT_Success \<longleftrightarrow> r4 = RESULT_Success"
        using 2(2) by (auto elim!: on_success_cases simp: same_def)
      note u4 = unique_init_step [OF 4(1) n3]
      have "owned d'" using owned_net_step [of d3 d4] o3 u4 same_owned [OF 4(4)] by simp
      then show ?thesis
        using u4 4(2-6) s1 s3 o2 i by (auto simp: attached_def same_def net_step_def)
    qed
  qed
qed


lemma usbtrx_init_attached:
  assumes init: "usbtrx_init intf d = Some (r, d')" and f: "fresh d"
    and n: "M_minor \<notin> held d" "M_rx_data \<notin> held d" "M_rxbuf \<notin> held d"
  shows "attached intf d' \<and> (r \<noteq> RESULT_Success \<longrightarrow> M_netdev \<notin> held d') \<and> kref d' = kref d \<and> intfdata d' = intfdata d
    \<and> unique_func d' = unique_func d
    \<and> (r = RESULT_Success \<longrightarrow> rx_wq d' \<and> (\<not> is_dfu intf \<longrightarrow> tx_wq d'))"
proof -
  obtain ok1 d1 where 1: "alloc_res M_minor d = (ok1, d1)" by fastforce
  note e1 = alloc_res_eq [OF 1]
  have o: "owned d" "M_netdev \<notin> held d" "M_thread \<notin> ptr d" "M_tx_data \<notin> held d"
    using f by (simp_all add: fresh_def)
  have o1: "owned d1" by (rule owned_step [OF o(1), of M_minor d1 ok1]) (use e1 n in simp_all)
  have f1: "fresh d1" using o1 o e1 by (auto simp: fresh_def)
  obtain r2 d2 where 2: "ring_init M_rx_data rx_data rx_data_update (rx_data_size_of (unique_func d1)) (d1\<lparr>rx_wq := True\<rparr>)
      = (r2, d2)" by fastforce
  obtain ok2 where e2: "(r2 = RESULT_Success) = ok2" "held d2 = (if ok2 then insert M_rx_data (held d1) else held d1)"
    "ptr d2 = (if ok2 then insert M_rx_data (ptr d1) else ptr d1 - {M_rx_data})" "unique_func d2 = unique_func d1"
    "kref d2 = kref d1" "rx_wq d2" "intfdata d2 = intfdata d1"
    using ring_init_eq [OF 2] by auto
  have o2: "owned d2" by (rule owned_step [OF o1, of M_rx_data d2 ok2]) (use e1 e2 n in \<open>simp_all split: if_splits\<close>)
  have f2: "fresh d2" using o2 f1 e2 by (auto simp: fresh_def)
  obtain r3 w where 3: "setup_rx_urbs (dw d2) = (r3, w)" by fastforce
  define d3 where "d3 = (if 0 < rx_urbs w
    then d2\<lparr>dw := w, held := insert M_rxbuf (held d2), ptr := insert M_rxbuf (ptr d2)\<rparr> else d2\<lparr>dw := w\<rparr>)"
  have o3: "owned d3"
    using owned_step [OF o2, of M_rxbuf "d2\<lparr>dw := w, held := insert M_rxbuf (held d2), ptr := insert M_rxbuf (ptr d2)\<rparr>" True]
      o2 same_owned [of d2 "d2\<lparr>dw := w\<rparr>"]
    by (simp add: d3_def)
  have f3: "fresh d3" using o3 f2 by (auto simp: fresh_def d3_def)
  have k3: "kref d3 = kref d" "intfdata d3 = intfdata d" "unique_func d3 = unique_func d" "rx_wq d3"
    using e1 e2 by (simp_all add: d3_def)
  let ?d4 = "d3\<lparr>dw := (dw d3)\<lparr>basetime := get_ts64 (dw d3)\<rparr>\<rparr>"
  have f4: "fresh ?d4" using f3 same_owned [of d3 ?d4] by (simp add: fresh_def)
  have net: "attached intf x \<and> M_netdev \<notin> held x" if "fresh x" for x
    using that by (auto simp: attached_def fresh_def owned_def)
  consider (bad) "r \<noteq> RESULT_Success" "d' = d \<or> d' = d1 \<or> d' = d2 \<or> d' = d3"
    | (dfu) "if_subclass intf = 1" "if_class intf = 0xFF" "r = RESULT_Success" "d' = ?d4\<lparr>dw := (dw ?d4)\<lparr>onopening := False\<rparr>\<rparr>"
    | (session) "\<not> is_dfu intf" "on_success (identify ?d4) (\<lambda>d. on_success (Some (start_tx_thread d)) (\<lambda>d.
      on_success (start_time_stamps d) (\<lambda>d. on_success (unique_init d) (\<lambda>d.
        Some (RESULT_Success, d\<lparr>dw := (dw d)\<lparr>onopening := False\<rparr>\<rparr>))))) = Some (r, d')"
    using init unfolding usbtrx_init_def
    by (simp add: Let_def 1 2 3 flip: d3_def split: if_splits) (auto simp: is_dfu_def)
  then show ?thesis
  proof cases
    case bad
    then show ?thesis using net [OF f] net [OF f1] net [OF f2] net [OF f3] e1 e2 k3 by auto
  next
    case dfu
    have "fresh d'" using f4 same_owned [of ?d4 d'] dfu(4) by (simp add: fresh_def)
    then show ?thesis using net [of d'] dfu k3 by (auto simp: is_dfu_def)
  next
    case session
    then show ?thesis using session_attached [OF session(2) f4 session(1)] k3 by simp
  qed
qed


subsection \<open>Giving back\<close>

text \<open>From \<open>d\<close> to \<open>d'\<close> just \<open>S\<close> has been given back.\<close>

definition gone :: "resource set \<Rightarrow> driver \<Rightarrow> driver \<Rightarrow> bool" where
  "gone S d d' \<longleftrightarrow> held d' = held d - S \<and> ptr d' - S = ptr d - S \<and> unique_func d' = unique_func d \<and> kref d' = kref d
     \<and> rx_wq d' = rx_wq d \<and> tx_wq d' = tx_wq d \<and> intfdata d' = intfdata d"

lemma gone_update [simp]: "gone S d (d'\<lparr>dw := w\<rparr>) = gone S d d'"
  by (simp add: gone_def)

lemma gone_free:
  assumes "gone S d d1" "free_res r d1 = Some d2" "r \<in> held d \<longrightarrow> r \<in> ptr d" "r \<notin> S"
  shows "gone (insert r S) d d2" "gone (insert r S) d (set_null r d2)"
proof -
  have "r \<in> ptr d1 \<longleftrightarrow> r \<in> ptr d" using assms(1,4) by (auto simp: gone_def)
  then have "held d2 = held d - insert r S \<and> ptr d2 = ptr d1"
    using assms free_res_eq [OF assms(2)] by (auto simp: gone_def)
  moreover have "unique_func d2 = unique_func d" "kref d2 = kref d" "rx_wq d2 = rx_wq d" "tx_wq d2 = tx_wq d"
    "intfdata d2 = intfdata d"
    using assms(1) free_res_eq [OF assms(2)] by (auto simp: gone_def)
  moreover have "ptr d1 - insert r S = ptr d - insert r S" using assms(1) by (auto simp: gone_def)
  ultimately show "gone (insert r S) d d2" "gone (insert r S) d (set_null r d2)"
    by (auto simp: gone_def set_null_def)
qed

lemma gone_ring:
  assumes "gone S d d1" "ring_term r get upd d1 = Some (result, d2)" "r \<in> held d \<longrightarrow> r \<in> ptr d" "r \<notin> S"
  shows "gone (insert r S) d d2"
proof -
  obtain d3 rb where "free_res r d1 = Some d3" "d2 = set_null r (d3\<lparr>dw := upd (\<lambda>_. rb) (dw d3)\<rparr>)"
    using assms(2) by (auto simp: ring_term_def split: bind_splits prod.splits)
  then show ?thesis
    using gone_free(2) [OF assms(1) _ assms(3,4), of d3] by (simp add: set_null_def gone_def)
qed

lemma ndo_stop_same: "ndo_stop a d = Some d' \<Longrightarrow> same d d'"
  by (auto simp: ndo_stop_def split: bind_splits)

lemma remove_netdev_gone:
  assumes "remove_netdev a d = Some d'" "M_netdev \<in> held d \<longrightarrow> M_netdev \<in> ptr d"
  shows "gone {M_netdev} d d'"
proof -
  obtain e f where s: "(if netdev_up a then ndo_stop a d else Some d) = Some e"
    and e: "free_res M_netdev e = Some f" "d' = set_null M_netdev (f\<lparr>dw := (dw f)\<lparr>netdev_present := False\<rparr>\<rparr>)"
    using assms(1) by (auto simp: remove_netdev_def split: bind_splits)
  have same: "same d e" using s ndo_stop_same by (auto split: if_splits)
  have "gone {} d e" using same by (simp add: gone_def same_def)
  from gone_free(2) [OF this e(1) assms(2)] show ?thesis by (simp add: e(2) set_null_def gone_def)
qed

lemma terminate_gone:
  assumes t: "terminate a d = Some (r, d')" and att: "attached intf d"
  shows "gone {M_netdev} d d'"
proof -
  have p: "M_netdev \<in> held d \<longrightarrow> M_netdev \<in> ptr d" "M_netdev \<notin> held d \<longrightarrow> M_netdev \<notin> ptr d"
    using att by (auto simp: attached_def owned_def)
  have n: "gone {M_netdev} e e \<longleftrightarrow> M_netdev \<notin> held e" for e
    by (auto simp: gone_def)
  have u: "M_netdev \<in> held d \<longrightarrow> netdev_present (dw d)" "unique_func d = AG08A \<longrightarrow> M_netdev \<notin> held d"
    using att by (auto simp: attached_def)
  have p': "M_netdev \<in> held (d\<lparr>dw := w\<rparr>) \<longrightarrow> M_netdev \<in> ptr (d\<lparr>dw := w\<rparr>)" for w using p by simp
  have g: "gone {M_netdev} (d\<lparr>dw := w\<rparr>) e = gone {M_netdev} d e" for w e by (simp add: gone_def)
  show ?thesis
    using t u
    by (cases "unique_func d")
      (auto simp: terminate_def unique_can_terminate_def ch02a_terminate_def cf02a_terminate_def ag08a_terminate_def
        get_unique_data_def Let_def g n split: bind_splits if_splits
        dest!: remove_netdev_gone [OF _ p(1)] remove_netdev_gone [OF _ p'])
qed

lemma free_data_gone:
  assumes t: "free_data d1 = Some (r, d')" and g: "gone S d d1" and o: "owned d"
    and S: "S \<inter> {M_unique, M_bittiming, M_data_bittiming, M_store_data} = {}"
  shows "gone ({M_unique, M_bittiming, M_data_bittiming, M_store_data} \<union> S) d d'"
proof -
  have p: "x \<in> held d \<longrightarrow> x \<in> ptr d" if "x \<noteq> M_dev" "x \<noteq> M_thread" for x using o that by (simp add: owned_def)
  have u: "unique_func d1 = unique_func d" "M_unique \<in> ptr d1" using g o S by (auto simp: gone_def owned_def)
  show ?thesis
  proof (cases "unique_func d = CF02A")
    case True
    then have "cf02a_free_data d1 = Some (r, d')" using t u by (simp add: free_data_def)
    then obtain d2 d3 d4 x where d: "ring_term M_store_data rx_store_data rx_store_data_update d1 = Some (x, d2)"
      "free_res M_bittiming d2 = Some d3" "free_res M_data_bittiming (set_null M_bittiming d3) = Some d4"
      "free_res M_unique (set_null M_data_bittiming d4) = Some d'"
      using u by (auto simp: cf02a_free_data_def get_unique_data_def split: bind_splits if_splits)
    note 1 = gone_ring [OF g d(1) p]
    note 2 = gone_free(2) [OF 1 d(2) p]
    note 3 = gone_free(2) [OF 2 d(3) p]
    have "gone (insert M_unique (insert M_data_bittiming (insert M_bittiming (insert M_store_data S)))) d d'"
      by (rule gone_free(1) [OF 3 d(4) p]) (use S in auto)
    moreover have "insert M_unique (insert M_data_bittiming (insert M_bittiming (insert M_store_data S)))
      = {M_unique, M_bittiming, M_data_bittiming, M_store_data} \<union> S" by auto
    ultimately show ?thesis by simp
  next
    case False
    then have "free_res M_unique d1 = Some d'"
      using t u by (cases "unique_func d") (auto simp: free_data_def unique_can_free_data_def ag08a_free_data_def split: bind_splits)
    from gone_free(1) [OF g this p] have g': "gone (insert M_unique S) d d'" using S by auto
    have "M_bittiming \<notin> held d" "M_data_bittiming \<notin> held d" "M_store_data \<notin> held d"
      "M_bittiming \<notin> ptr d" "M_data_bittiming \<notin> ptr d" "M_store_data \<notin> ptr d"
      using o False by (auto simp: owned_def)
    then show ?thesis using g' by (auto simp: gone_def)
  qed
qed


lemma gone_trans: "gone S d e \<Longrightarrow> same e f \<Longrightarrow> gone S d f"
  by (simp add: gone_def same_def)

lemma stop_thread_gone:
  assumes g: "gone S d d1" and t: "stop_thread intf d1 = Some d2" and p: "M_thread \<in> held d \<longrightarrow> M_thread \<in> ptr d"
    and i: "is_dfu intf \<longrightarrow> M_thread \<notin> ptr d" and S: "M_thread \<notin> S"
  shows "gone (insert M_thread S) d d2"
proof -
  have m: "M_thread \<in> ptr d1 \<longleftrightarrow> M_thread \<in> ptr d" using g S by (auto simp: gone_def)
  show ?thesis
  proof (cases "\<not> is_dfu intf \<and> M_thread \<in> ptr d1")
    case True
    then have "free_res M_thread d1 = Some d2"
      using t by (auto simp: stop_thread_def wake_up_def split: bind_splits if_splits)
    from gone_free(1) [OF g this p S] show ?thesis .
  next
    case False
    then have "d2 = d1" "M_thread \<notin> ptr d" using t i m by (auto simp: stop_thread_def)
    then show ?thesis using g p by (auto simp: gone_def)
  qed
qed

lemma quiesce_gone:
  assumes t: "quiesce a intf d = Some d'" and att: "attached intf d"
  shows "gone {M_netdev, M_thread, M_rxbuf} d d'"
proof -
  have o: "owned d" "is_dfu intf \<longrightarrow> M_thread \<notin> ptr d" using att by (simp_all add: attached_def)
  obtain r1 d1 d2 d3 w w' where 1: "terminate a d = Some (r1, d1)" and 2: "stop_thread intf (d1\<lparr>dw := w\<rparr>) = Some d2"
    and 3: "free_res M_rxbuf (d2\<lparr>dw := w'\<rparr>) = Some d3" and d': "d' = set_null M_rxbuf d3"
    using t by (auto simp: quiesce_def wake_up_def Let_def split: bind_splits if_splits)
  have g1: "gone {M_netdev} d (d1\<lparr>dw := w\<rparr>)" using terminate_gone [OF 1 att] by simp
  have g2: "gone {M_thread, M_netdev} d (d2\<lparr>dw := w'\<rparr>)"
    using stop_thread_gone [OF g1 2] o by (simp add: owned_def)
  have "gone {M_rxbuf, M_thread, M_netdev} d d'"
    unfolding d' by (rule gone_free(2) [OF g2 3]) (use o in \<open>auto simp: owned_def\<close>)
  then show ?thesis by (simp add: insert_commute)
qed

lemma release_memory_gone:
  assumes t: "release_memory d1 = Some d'" and g: "gone S d d1" and o: "owned d"
    and S: "S \<inter> {M_unique, M_bittiming, M_data_bittiming, M_store_data, M_rx_transfer, M_rx_complete, M_rx_rbmsg} = {}"
  shows "gone ({M_unique, M_bittiming, M_data_bittiming, M_store_data}
    \<union> {M_rx_transfer, M_rx_complete, M_rx_rbmsg} \<union> S) d d'"
proof -
  have p: "x \<in> held d \<longrightarrow> x \<in> ptr d" if "x \<noteq> M_dev" "x \<noteq> M_thread" for x using o that by (simp add: owned_def)
  obtain d2 d3 d4 r where 1: "free_res M_rx_transfer d1 = Some d2" and 2: "free_res M_rx_complete d2 = Some d3"
    and 3: "free_res M_rx_rbmsg d3 = Some d4" and 4: "free_data d4 = Some (r, d')"
    using t by (auto simp: release_memory_def split: bind_splits)
  have g1: "gone (insert M_rx_transfer S) d d2" by (rule gone_free(1) [OF g 1 p]) (use S in auto)
  have g2: "gone (insert M_rx_complete (insert M_rx_transfer S)) d d3" by (rule gone_free(1) [OF g1 2 p]) (use S in auto)
  have g3: "gone (insert M_rx_rbmsg (insert M_rx_complete (insert M_rx_transfer S))) d d4"
    by (rule gone_free(1) [OF g2 3 p]) (use S in auto)
  have "gone ({M_unique, M_bittiming, M_data_bittiming, M_store_data}
    \<union> insert M_rx_rbmsg (insert M_rx_complete (insert M_rx_transfer S))) d d'"
    by (rule free_data_gone [OF 4 g3 o]) (use S in auto)
  then show ?thesis by (simp add: insert_commute)
qed

lemma usbtrx_term_held:
  assumes t: "usbtrx_term a intf d = Some (r, d')" and att: "attached intf d"
  shows "held d' = {M_dev} \<and> kref d' = kref d \<and> intfdata d' = intfdata d \<and> unique_func d' = unique_func d"
proof -
  have o: "owned d" and i: "is_dfu intf \<longrightarrow> M_tx_data \<notin> held d" using att by (simp_all add: attached_def)
  have p: "x \<in> held d \<longrightarrow> x \<in> ptr d" if "x \<noteq> M_dev" "x \<noteq> M_thread" for x using o that by (simp add: owned_def)
  obtain d1 d2 d3 d4 r2 r3 where 1: "quiesce a intf d = Some d1"
    and 2: "ring_term M_rx_data rx_data rx_data_update d1 = Some (r2, d2)"
    and 3: "(if \<not> is_dfu intf then ring_term M_tx_data tx_data tx_data_update d2 else Some (RESULT_Success, d2)) = Some (r3, d3)"
    and 4: "free_res M_minor d3 = Some d4" and 5: "release_memory (set_null M_minor d4) = Some d'"
    using t by (auto simp: usbtrx_term_def split: bind_splits)
  have g2: "gone {M_rx_data, M_netdev, M_thread, M_rxbuf} d d2"
    by (rule gone_ring [OF quiesce_gone [OF 1 att] 2 p]) auto
  have g3: "gone {M_tx_data, M_rx_data, M_netdev, M_thread, M_rxbuf} d d3"
  proof (cases "is_dfu intf")
    case True
    then have "d3 = d2" "M_tx_data \<notin> held d" "M_tx_data \<notin> ptr d" using 3 i o by (auto simp: owned_def)
    then show ?thesis using g2 by (auto simp: gone_def)
  next
    case False
    then have "ring_term M_tx_data tx_data tx_data_update d2 = Some (r3, d3)" using 3 by simp
    from gone_ring [OF g2 this p] show ?thesis by auto
  qed
  have g4: "gone {M_minor, M_tx_data, M_rx_data, M_netdev, M_thread, M_rxbuf} d (set_null M_minor d4)"
    by (rule gone_free(2) [OF g3 4 p]) auto
  have g: "gone ({M_unique, M_bittiming, M_data_bittiming, M_store_data} \<union> {M_rx_transfer, M_rx_complete, M_rx_rbmsg}
    \<union> {M_minor, M_tx_data, M_rx_data, M_netdev, M_thread, M_rxbuf}) d d'"
    by (rule release_memory_gone [OF 5 g4 o]) auto
  have "x \<in> held d' \<longleftrightarrow> x = M_dev" for x
    using g o by (cases x) (auto simp: gone_def owned_def)
  then show ?thesis using g by (auto simp: gone_def)
qed


text \<open>Giving back succeeds where every pointer leads to what is held, \<open>S\<close> apart.\<close>

definition solid :: "resource set \<Rightarrow> driver \<Rightarrow> bool" where
  "solid S d \<longleftrightarrow> (\<forall>r. r \<notin> S \<and> r \<in> ptr d \<longrightarrow> r \<in> held d) \<and> (M_unique \<notin> S \<longrightarrow> M_unique \<in> held d)"

lemma solid_update [simp]:
  "solid S (d\<lparr>dw := w\<rparr>) = solid S d"
  by (simp add: solid_def)

lemma solid_null: "solid S d \<Longrightarrow> solid S (set_null r d)"
  by (simp add: solid_def set_null_def)

lemma solid_free:
  assumes "solid S d" "r \<notin> S"
  shows "\<exists>d'. free_res r d = Some d' \<and> solid (insert r S) d' \<and> unique_func d' = unique_func d
    \<and> rx_wq d' = rx_wq d \<and> tx_wq d' = tx_wq d \<and> ptr d' = ptr d"
proof (cases "r \<in> ptr d")
  case True
  then show ?thesis using assms by (auto simp: free_res_def solid_def)
next
  case False
  then show ?thesis using assms by (auto simp: free_res_def solid_def)
qed

lemma solid_ring:
  assumes "solid S d" "r \<notin> S"
  shows "\<exists>result d'. ring_term r get upd d = Some (result, d') \<and> solid (insert r S) d' \<and> unique_func d' = unique_func d"
proof -
  obtain d1 where "free_res r d = Some d1" "solid (insert r S) d1" "unique_func d1 = unique_func d"
    using solid_free [OF assms] by blast
  then show ?thesis
    by (simp add: ring_term_def ringbuffer_term_def solid_null) (simp add: set_null_def)
qed

lemma free_data_returns:
  assumes "solid S d" "S \<inter> {M_unique, M_bittiming, M_data_bittiming, M_store_data} = {}"
  shows "\<exists>r d'. free_data d = Some (r, d')"
proof (cases "unique_func d = CF02A \<and> M_unique \<in> ptr d")
  case True
  obtain r1 d1 where 1: "ring_term M_store_data rx_store_data rx_store_data_update d = Some (r1, d1)"
    "solid (insert M_store_data S) d1"
    using solid_ring [OF assms(1), of M_store_data rx_store_data rx_store_data_update] assms(2) by blast
  obtain d2 where 2: "free_res M_bittiming d1 = Some d2" "solid (insert M_bittiming (insert M_store_data S)) d2"
    using solid_free [OF 1(2), of M_bittiming] assms(2) by blast
  obtain d3 where 3: "free_res M_data_bittiming (set_null M_bittiming d2) = Some d3"
    "solid (insert M_data_bittiming (insert M_bittiming (insert M_store_data S))) d3"
    using solid_free [OF solid_null [OF 2(2)], of M_data_bittiming] assms(2) by blast
  obtain d4 where "free_res M_unique (set_null M_data_bittiming d3) = Some d4"
    using solid_free [OF solid_null [OF 3(2)], of M_unique] assms(2) by blast
  then show ?thesis
    using True assms 1 2 3 by (auto simp: free_data_def cf02a_free_data_def get_unique_data_def solid_def)
next
  case False
  obtain d4 where "free_res M_unique d = Some d4" using solid_free [OF assms(1), of M_unique] assms(2) by blast
  then show ?thesis
    using False by (cases "unique_func d") (auto simp: free_data_def unique_can_free_data_def ag08a_free_data_def cf02a_free_data_def)
qed

lemma terminate_returns:
  assumes "solid {} d" "\<not> netdev_up a"
  obtains r d' where "terminate a d = Some (r, d')" "solid {M_netdev} d'" "rx_wq d' = rx_wq d" "tx_wq d' = tx_wq d"
    "ptr d' - {M_netdev} = ptr d - {M_netdev}"
proof -
  have "\<exists>d'. remove_netdev a (d\<lparr>dw := w\<rparr>) = Some d' \<and> solid {M_netdev} d' \<and> rx_wq d' = rx_wq d \<and> tx_wq d' = tx_wq d
      \<and> ptr d' - {M_netdev} = ptr d - {M_netdev}" for w
  proof -
    obtain e where "free_res M_netdev (d\<lparr>dw := w\<rparr>) = Some e" "solid {M_netdev} e" "rx_wq e = rx_wq d"
      "tx_wq e = tx_wq d" "ptr e = ptr d"
      using solid_free [of "{}" "d\<lparr>dw := w\<rparr>" M_netdev] assms(1) by auto
    then show ?thesis
      using assms(2) by (simp add: remove_netdev_def solid_null) (auto simp: set_null_def)
  qed
  note n = this this [of "dw d", simplified]
  have s: "solid {M_netdev} d" "M_unique \<in> held d" using assms(1) by (auto simp: solid_def)
  have "\<exists>r d'. terminate a d = Some (r, d') \<and> solid {M_netdev} d' \<and> rx_wq d' = rx_wq d \<and> tx_wq d' = tx_wq d
      \<and> ptr d' - {M_netdev} = ptr d - {M_netdev}"
  proof (cases "unique_func d = CF02A \<and> netdev_present (dw d)")
    case True
    obtain e where "remove_netdev a (d\<lparr>dw := emit Cancel_statistics ((dw d)\<lparr>on_terminating := True\<rparr>)\<rparr>) = Some e"
      "solid {M_netdev} e" "rx_wq e = rx_wq d" "tx_wq e = tx_wq d" "ptr e - {M_netdev} = ptr d - {M_netdev}"
      using n(1) [of "emit Cancel_statistics ((dw d)\<lparr>on_terminating := True\<rparr>)"] by blast
    then show ?thesis
      using True s by (simp add: terminate_def cf02a_terminate_def get_unique_data_def Let_def)
  next
    case False
    then show ?thesis
      using n(2) s
      by (cases "unique_func d") (auto simp: terminate_def unique_can_terminate_def ch02a_terminate_def cf02a_terminate_def
        ag08a_terminate_def get_unique_data_def Let_def)
  qed
  then show thesis using that by blast
qed

lemma usbtrx_term_returns:
  assumes s: "solid {} d" and a: "\<not> netdev_up a" and q: "rx_wq d" "\<not> is_dfu intf \<longrightarrow> tx_wq d"
  shows "\<exists>r d'. usbtrx_term a intf d = Some (r, d')"
proof -
  obtain r1 d1 where 1: "terminate a d = Some (r1, d1)" "solid {M_netdev} d1" "rx_wq d1 = rx_wq d" "tx_wq d1 = tx_wq d"
    by (rule terminate_returns [OF s a])
  have s1: "solid {M_netdev} (d1\<lparr>dw := w\<rparr>)" for w using 1(2) by simp
  have "\<exists>d2. stop_thread intf (d1\<lparr>dw := w\<rparr>) = Some d2 \<and> solid {M_thread, M_netdev} d2" for w
  proof -
    obtain e where "free_res M_thread (d1\<lparr>dw := w\<rparr>) = Some e" "solid {M_thread, M_netdev} e"
      using solid_free [OF s1 [of w], of M_thread] by auto
    moreover have "solid {M_thread, M_netdev} (d1\<lparr>dw := w\<rparr>)" using s1 [of w] by (simp add: solid_def)
    ultimately show ?thesis using q 1(4) by (auto simp: stop_thread_def wake_up_def)
  qed
  then obtain d2 where 2: "stop_thread intf (d1\<lparr>dw := (dw d1)\<lparr>onclosing := True, rx_ongoing := False, rx_done := rx_done (dw d1) - 1\<rparr>\<rparr>)
      = Some d2" "solid {M_thread, M_netdev} (d2\<lparr>dw := (dw d2)\<lparr>rx_urbs := 0\<rparr>\<rparr>)" by fastforce
  obtain d3 where 3: "free_res M_rxbuf (d2\<lparr>dw := (dw d2)\<lparr>rx_urbs := 0\<rparr>\<rparr>) = Some d3" "solid {M_rxbuf, M_thread, M_netdev} d3"
    using solid_free [OF 2(2), of M_rxbuf] by auto
  have quiesced: "quiesce a intf d = Some (set_null M_rxbuf d3)"
    using 1 2 3 q by (simp add: quiesce_def wake_up_def)
  obtain r4 d4 where 4: "ring_term M_rx_data rx_data rx_data_update (set_null M_rxbuf d3) = Some (r4, d4)"
    "solid {M_rx_data, M_rxbuf, M_thread, M_netdev} d4"
    using solid_ring [OF solid_null [OF 3(2), of M_rxbuf], of M_rx_data rx_data rx_data_update] by auto
  obtain r5 d5 where 5: "(if \<not> is_dfu intf then ring_term M_tx_data tx_data tx_data_update d4 else Some (RESULT_Success, d4)) = Some (r5, d5)"
    "solid {M_tx_data, M_rx_data, M_rxbuf, M_thread, M_netdev} d5"
  proof (cases "is_dfu intf")
    case True
    then show ?thesis using that [of RESULT_Success d4] 4(2) by (simp add: solid_def)
  next
    case False
    then show ?thesis using solid_ring [OF 4(2), of M_tx_data tx_data tx_data_update] that by auto
  qed
  obtain d6 where 6: "free_res M_minor d5 = Some d6" "solid {M_minor, M_tx_data, M_rx_data, M_rxbuf, M_thread, M_netdev} d6"
    using solid_free [OF 5(2), of M_minor] by auto
  obtain d7 where 7: "free_res M_rx_transfer (set_null M_minor d6) = Some d7"
    "solid {M_rx_transfer, M_minor, M_tx_data, M_rx_data, M_rxbuf, M_thread, M_netdev} d7"
    using solid_free [OF solid_null [OF 6(2)], of M_rx_transfer] by auto
  obtain d8 where 8: "free_res M_rx_complete d7 = Some d8"
    "solid {M_rx_complete, M_rx_transfer, M_minor, M_tx_data, M_rx_data, M_rxbuf, M_thread, M_netdev} d8"
    using solid_free [OF 7(2), of M_rx_complete] by auto
  obtain d9 where 9: "free_res M_rx_rbmsg d8 = Some d9"
    "solid {M_rx_rbmsg, M_rx_complete, M_rx_transfer, M_minor, M_tx_data, M_rx_data, M_rxbuf, M_thread, M_netdev} d9"
    using solid_free [OF 8(2), of M_rx_rbmsg] by auto
  obtain r10 d10 where 10: "free_data d9 = Some (r10, d10)"
    using free_data_returns [OF 9(2)] by auto
  have "release_memory (set_null M_minor d6) = Some d10" by (simp add: release_memory_def 7 8 9 10)
  then show ?thesis using quiesced 4(1) 5(1) 6(1) by (simp add: usbtrx_term_def)
qed


subsection \<open>Probing\<close>

definition unique_data :: "product \<Rightarrow> resource set" where
  "unique_data p = (if p = CF02A then {M_unique, M_bittiming, M_data_bittiming, M_store_data} else {M_unique})"

lemma init_members_eq: "held (init_members d) = held d" "ptr d = {} \<Longrightarrow> ptr (init_members d) = {}"
  "unique_func (init_members d) = unique_func d" "kref (init_members d) = kref d" "intfdata (init_members d) = intfdata d"
  by (simp_all add: init_members_def)

lemma cf02a_init_data_eq:
  assumes i: "cf02a_init_data d = Some (r, d')" and h: "held d = {M_dev}" "ptr d = {}"
  shows "(r = RESULT_Success \<longrightarrow> held d' = insert M_dev (unique_data CF02A) \<and> ptr d' = unique_data CF02A)
    \<and> (r \<noteq> RESULT_Success \<longrightarrow> held d' = {M_dev}) \<and> unique_func d' = unique_func d \<and> kref d' = kref d \<and> intfdata d' = intfdata d"
proof -
  obtain ok1 d1 where 1: "alloc_res M_unique d = (ok1, d1)" by fastforce
  note e1 = alloc_res_eq [OF 1]
  define d1' where "d1' = d1\<lparr>dw := (dw d1)\<lparr>tx_transfer_max_token := (8 * 1000 * 1000 div 8) div 74 div 1000\<rparr>,
    du := \<lparr>u_can_clock = 0, u_bittiming_const = cf02a_bittiming_const,
      u_data_bittiming_const = cf02a_data_bittiming_const, u_bittiming = no_timing, u_data_bittiming = no_timing\<rparr>\<rparr>"
  have s1: "same d1 d1'" by (simp add: d1'_def)
  obtain ok2 d2 where 2: "alloc_res M_bittiming d1' = (ok2, d2)" by fastforce
  note e2 = alloc_res_eq [OF 2]
  obtain ok3 d3 where 3: "alloc_res M_data_bittiming d2 = (ok3, d3)" by fastforce
  note e3 = alloc_res_eq [OF 3]
  define d3' where "d3' = d3\<lparr>dw := (dw d3)\<lparr>
    frames_per_request := (of_nat STORE_DATA_BUFFER_SIZE - 1) div of_nat CAN_PACKET_SIZE, received_store_data_size := 0\<rparr>\<rparr>"
  have s3: "same d3 d3'" by (simp add: d3'_def)
  obtain r4 d4 where 4: "ring_init M_store_data rx_store_data rx_store_data_update STORE_DATA_BUFFER_SIZE d3' = (r4, d4)"
    by fastforce
  note e4 = ring_init_held [OF 4]
  note i' = i [unfolded cf02a_init_data_def Let_def 1 prod.case, folded d1'_def, unfolded 2 prod.case 3, folded d3'_def,
    unfolded 4 prod.case]
  consider "\<not> ok1" | "ok1" "\<not> ok2" | "ok1" "ok2" "\<not> ok3" | "ok1" "ok2" "ok3" "r4 \<noteq> RESULT_Success"
    | "ok1" "ok2" "ok3" "r4 = RESULT_Success" by blast
  then show ?thesis
  proof cases
    case 1
    then show ?thesis using i' h e1 by simp
  next
    case 2
    then have "free_res M_unique d2 = Some d'" "r \<noteq> RESULT_Success" using i' h by (auto split: bind_splits)
    moreover have "held d2 = {M_dev, M_unique}" "ptr d2 = {M_unique}" "unique_func d2 = unique_func d"
      "kref d2 = kref d" "intfdata d2 = intfdata d"
      using 2 h e1 e2 s1 by (simp_all add: same_def insert_commute insert_Diff_if)
    ultimately show ?thesis by (clarsimp simp: free_res_def insert_Diff_if split: if_splits)
  next
    case 3
    then obtain x where "free_res M_bittiming d3 = Some x" "free_res M_unique x = Some d'" "r \<noteq> RESULT_Success"
      using i' h by (auto split: bind_splits)
    moreover have "held d3 = {M_dev, M_unique, M_bittiming}" "ptr d3 = {M_unique, M_bittiming}"
      "unique_func d3 = unique_func d" "kref d3 = kref d" "intfdata d3 = intfdata d"
      using 3 h e1 e2 e3 s1 by (simp_all add: same_def insert_commute insert_Diff_if)
    ultimately show ?thesis by (clarsimp simp: free_res_def insert_Diff_if split: if_splits)
  next
    case 4
    then obtain x y where "free_res M_bittiming d4 = Some x" "free_res M_data_bittiming x = Some y"
      "free_res M_unique y = Some d'" "r \<noteq> RESULT_Success"
      using i' h by (auto split: bind_splits)
    moreover have "held d4 = {M_dev, M_unique, M_bittiming, M_data_bittiming}" "unique_func d4 = unique_func d"
      "kref d4 = kref d" "intfdata d4 = intfdata d" "ptr d4 = {M_unique, M_bittiming, M_data_bittiming}"
      using 4 h e1 e2 e3 e4 s1 s3 by (simp_all add: same_def insert_commute insert_Diff_if)
    ultimately show ?thesis by (clarsimp simp: free_res_def insert_Diff_if split: if_splits)
  next
    case 5
    then have "same d4 d'" "r = RESULT_Success" using i' h by (auto simp: same_def)
    moreover have "held d4 = {M_dev, M_unique, M_bittiming, M_data_bittiming, M_store_data}"
      "ptr d4 = {M_unique, M_bittiming, M_data_bittiming, M_store_data}" "unique_func d4 = unique_func d"
      "kref d4 = kref d" "intfdata d4 = intfdata d"
      using 5 h e1 e2 e3 e4 s1 s3 by (simp_all add: same_def insert_commute)
    ultimately show ?thesis by (simp add: same_def unique_data_def)
  qed
qed

lemma init_instance_eq:
  assumes i: "init_instance d = Some (r, d')" and h: "held d = {M_dev}" "ptr d = {}"
  shows "(r = RESULT_Success \<longrightarrow> held d' = insert M_dev (unique_data (unique_func d)) \<and> ptr d' = unique_data (unique_func d))
    \<and> (r \<noteq> RESULT_Success \<longrightarrow> held d' = {M_dev}) \<and> unique_func d' = unique_func d \<and> kref d' = kref d \<and> intfdata d' = intfdata d"
proof -
  let ?e = "init_members d"
  note e = init_members_eq(1) [of d] init_members_eq(2) [OF h(2)] init_members_eq(3-5) [of d]
  obtain f where f: "init_data ?e = Some (f, d')" "r \<noteq> RESULT_Success \<longleftrightarrow> f \<noteq> RESULT_Success"
    using on_success_id i unfolding init_instance_def by blast
  show ?thesis
  proof (cases "unique_func d = CF02A")
    case False
    obtain ok d1 where 1: "alloc_res M_unique ?e = (ok, d1)" by fastforce
    note e1 = alloc_res_eq [OF 1]
    have "(f \<noteq> RESULT_Success \<longleftrightarrow> \<not> ok) \<and> same d1 d'"
      using f(1) False e h
      by (cases "unique_func d") (auto simp: init_data_def unique_can_init_data_def ag08a_init_data_def Let_def 1
        split: if_splits)
    then show ?thesis using e1 e h f(2) False by (cases ok) (simp_all add: same_def unique_data_def insert_commute)
  next
    case True
    then have "cf02a_init_data ?e = Some (f, d')" using f(1) e by (simp add: init_data_def)
    from cf02a_init_data_eq [OF this] show ?thesis using e h f(2) True by simp
  qed
qed


lemma new_device_eq: "held d = {} \<Longrightarrow> held (new_device d) = {M_dev}" "ptr (new_device d) = {}"
  "kref (new_device d) = 1" "intfdata (new_device d) = intfdata d"
  by (simp_all add: new_device_def Let_def)

lemma alloc_buffers_eq:
  assumes "alloc_buffers d = (ok, d')"
  shows "(ok \<longrightarrow> held d' = {M_rx_transfer, M_rx_complete, M_rx_rbmsg} \<union> held d
      \<and> ptr d' = {M_rx_transfer, M_rx_complete, M_rx_rbmsg} \<union> ptr d)
    \<and> unique_func d' = unique_func d \<and> kref d' = kref d \<and> intfdata d' = intfdata d"
proof -
  obtain ok1 d1 where 1: "alloc_res M_rx_transfer d = (ok1, d1)" by fastforce
  obtain ok2 d2 where 2: "alloc_res M_rx_complete (d1\<lparr>dw := (dw d1)\<lparr>rxt_buffer := replicate (2 * RX_BUFFER_SIZE) 0\<rparr>\<rparr>)
    = (ok2, d2)" by fastforce
  obtain ok3 d3 where 3: "alloc_res M_rx_rbmsg (d2\<lparr>dw := (dw d2)\<lparr>rxc_buffer := replicate RX_BUFFER_SIZE 0\<rparr>\<rparr>) = (ok3, d3)"
    by fastforce
  note e = alloc_res_eq [OF 1] alloc_res_eq [OF 2] alloc_res_eq [OF 3]
  have k: "unique_func d3 = unique_func d" "kref d3 = kref d" "intfdata d3 = intfdata d"
    "unique_func d2 = unique_func d" "kref d2 = kref d" "intfdata d2 = intfdata d"
    "unique_func d1 = unique_func d" "kref d1 = kref d" "intfdata d1 = intfdata d" using e by simp_all
  note a = assms [unfolded alloc_buffers_def Let_def 1 prod.case, unfolded 2 prod.case, unfolded 3 prod.case]
  show ?thesis
  proof (cases "ok1 \<and> ok2 \<and> ok3")
    case True
    then have "held d3 = {M_rx_transfer, M_rx_complete, M_rx_rbmsg} \<union> held d"
      "ptr d3 = {M_rx_transfer, M_rx_complete, M_rx_rbmsg} \<union> ptr d"
      using e by (simp_all add: insert_commute)
    then show ?thesis using a True k by (clarsimp)
  next
    case False
    then have "\<not> ok" "d' = d1 \<or> d' = d2 \<or> d' = d3" using a by (auto split: if_splits)
    then show ?thesis using k by auto
  qed
qed

lemma probe_starts:
  assumes p: "probe a intf d0 = Some (r, d)" and h: "held d0 = {}" and r: "r = -EIO \<or> r = 0"
  obtains d1 where "fresh d1" "held d1 \<inter> {M_minor, M_rx_data, M_rxbuf} = {}" "kref d1 = 1" "intfdata d1"
    "start_device a intf d1 = Some (r, d)"
proof -
  obtain ok0 e where 0: "ask (d0\<lparr>intfdata := False\<rparr>) = (ok0, e)" by fastforce
  have e: "held e = {}" using ask_same [OF 0] h by (simp add: same_def)
  note p' = p [unfolded probe_def Let_def 0 prod.case]
  have ok0: "ok0" using p' r by (auto split: if_splits)
  obtain q where q: "init_function (id_product intf) = Some q"
    using p' r ok0 by (auto simp: probe_error_def split: option.splits)
  let ?n = "(new_device e)\<lparr>unique_func := q, dw := (dw (new_device e))\<lparr>product := q\<rparr>\<rparr>"
  obtain r1 d1 where 1: "init_instance ?n = Some (r1, d1)"
    using p' ok0 q by (auto split: bind_splits)
  note e1 = init_instance_eq [OF 1, simplified, OF new_device_eq(1) [OF e] new_device_eq(2), of]
  have r1: "r1 = RESULT_Success"
    using p' ok0 q r 1 by (auto simp: probe_error_def split: if_splits)
  obtain ok2 d2 where 2: "alloc_buffers d1 = (ok2, d2)" by fastforce
  note e2 = alloc_buffers_eq [OF 2]
  obtain r3 i1 i2 where 3: "get_endpoints intf = (r3, i1, i2)" by (cases "get_endpoints intf") auto
  have s: "ok2" "start_device a intf (d2\<lparr>intfdata := True\<rparr>) = Some (r, d)"
    using p' ok0 q r 1 r1 2 3 by (auto simp: probe_error_def split: if_splits)
  have h2: "held d2 = {M_rx_transfer, M_rx_complete, M_rx_rbmsg, M_dev} \<union> unique_data q"
    "ptr d2 = {M_rx_transfer, M_rx_complete, M_rx_rbmsg} \<union> unique_data q" "unique_func d2 = q" "kref d2 = 1"
    using e1 e2 r1 s(1) new_device_eq(3) [of e] by (simp_all add: insert_commute)
  have "fresh (d2\<lparr>intfdata := True\<rparr>)"
    unfolding fresh_def owned_def using h2 by (simp add: unique_data_def) 
  then show thesis
    by (rule that) (use h2 s(2) in \<open>simp_all add: unique_data_def\<close>)
qed

lemma start_device_held:
  assumes s: "start_device a intf d1 = Some (r, d)" and f: "fresh d1"
    and n: "held d1 \<inter> {M_minor, M_rx_data, M_rxbuf} = {}" and k: "kref d1 = 1" "intfdata d1"
  shows "r = -EIO \<and> held d = {} \<or> r = 0 \<and> attached intf d \<and> kref d = 1 \<and> intfdata d \<and> rx_wq d \<and> (\<not> is_dfu intf \<longrightarrow> tx_wq d)"
proof -
  obtain e d2 where 1: "usbtrx_init intf d1 = Some (e, d2)" using s by (auto simp: start_device_def split: bind_splits)
  have n': "M_minor \<notin> held d1" "M_rx_data \<notin> held d1" "M_rxbuf \<notin> held d1" using n by auto
  note i = usbtrx_init_attached [OF 1 f n']
  show ?thesis
  proof (cases "e = RESULT_Success")
    case True
    then show ?thesis using s 1 i k by (simp add: start_device_def)
  next
    case False
    then obtain x d3 where 2: "usbtrx_term a intf d2 = Some (x, d3)" "r = -EIO" "d = kref_put (d3\<lparr>intfdata := False\<rparr>)"
      using s 1 by (auto simp: start_device_def probe_error_def split: bind_splits)
    have "attached intf d2" using i by simp
    from usbtrx_term_held [OF 2(1) this] show ?thesis using 2 i k by (simp add: kref_put_def)
  qed
qed


subsection \<open>When memory is granted\<close>

lemma ask_granted: "choices (dw d) = b # bs \<Longrightarrow> ask d = (b, d\<lparr>dw := (dw d)\<lparr>choices := bs\<rparr>\<rparr>)"
  by (simp add: ask_def may_fail_def)

lemma alloc_granted:
  "choices (dw d) = True # bs \<Longrightarrow> alloc_res r d
    = (True, d\<lparr>dw := (dw d)\<lparr>choices := bs\<rparr>, held := insert r (held d), ptr := insert r (ptr d)\<rparr>)"
  by (simp add: alloc_res_def ask_granted)

lemma ring_granted:
  assumes "choices (dw d) = True # bs" and "\<And>f w. choices (upd f w) = choices w"
  shows "\<exists>d'. ring_init r get upd n d = (RESULT_Success, d') \<and> choices (dw d') = bs"
  using assms by (simp add: ring_init_def alloc_granted ringbuffer_init_def ringbuffer_init_instance_def Let_def)

text \<open>The requests for memory of a probe, before the device is touched.\<close>

definition allocations :: "product \<Rightarrow> nat" where
  "allocations p = (if p = CF02A then 8 else 5)"

lemma init_instance_granted:
  assumes c: "choices (dw d) = replicate (allocations (unique_func d) - 4) True @ bs" and p: "ptr d = {}"
  shows "\<exists>d'. init_instance d = Some (RESULT_Success, d') \<and> choices (dw d') = bs \<and> rx_wq d' = rx_wq d"
proof -
  let ?e = "init_members d"
  have e: "choices (dw ?e) = choices (dw d)" "ptr ?e = {}" "unique_func ?e = unique_func d" "rx_wq ?e = rx_wq d"
    using p by (simp_all add: init_members_def)
  have "\<exists>d'. init_data ?e = Some (RESULT_Success, d') \<and> choices (dw d') = bs \<and> rx_wq d' = rx_wq d"
  proof (cases "unique_func d = CF02A")
    case False
    then have c1: "choices (dw ?e) = True # bs" using c e by (simp add: allocations_def)
    show ?thesis using False e(2-4)
      by (cases "unique_func d")
        (auto simp: init_data_def unique_can_init_data_def ag08a_init_data_def Let_def alloc_granted [OF c1])
  next
    case True
    then have c1: "choices (dw ?e) = True # True # True # True # bs" using c e by (simp add: allocations_def eval_nat_numeral)
    have u: "choices (rx_store_data_update f w) = choices w" for f w by simp
    note g = ring_granted [where upd = rx_store_data_update and get = rx_store_data, OF _ u]
    show ?thesis
      using True e(2-4) c1
      by (simp add: init_data_def cf02a_init_data_def Let_def alloc_granted ring_init_def ringbuffer_init_def
          ringbuffer_init_instance_def)
  qed
  then show ?thesis by (auto simp: init_instance_def on_success_def)
qed

lemma alloc_buffers_granted:
  assumes "choices (dw d) = True # True # True # bs"
  shows "\<exists>d'. alloc_buffers d = (True, d') \<and> choices (dw d') = bs \<and> rx_wq d' = rx_wq d"
  using assms by (simp add: alloc_buffers_def Let_def alloc_granted)

lemma probe_granted:
  assumes c: "choices (dw d) = replicate (allocations p) True @ bs" and h: "held d = {}"
    and f: "init_function (id_product intf) = Some p"
  shows "\<exists>d1. probe a intf d = (if fst (get_endpoints intf) \<noteq> RESULT_Success then probe_error (-ENOMEM) d1
      else start_device a intf (d1\<lparr>intfdata := True\<rparr>))
    \<and> held d1 = {M_dev, M_rx_transfer, M_rx_complete, M_rx_rbmsg} \<union> unique_data p
    \<and> ptr d1 = {M_rx_transfer, M_rx_complete, M_rx_rbmsg} \<union> unique_data p
    \<and> unique_func d1 = p \<and> kref d1 = 1 \<and> \<not> rx_wq d1 \<and> choices (dw d1) = bs"
proof -
  have c0: "choices (dw (d\<lparr>intfdata := False\<rparr>)) = True # replicate (allocations p - 4) True @ True # True # True # bs"
    using c by (simp add: allocations_def eval_nat_numeral replicate_app_Cons_same)
  let ?e = "d\<lparr>intfdata := False, dw := (dw d)\<lparr>choices := replicate (allocations p - 4) True @ True # True # True # bs\<rparr>\<rparr>"
  have a: "ask (d\<lparr>intfdata := False\<rparr>) = (True, ?e)" using ask_granted [OF c0] by simp
  let ?n = "(new_device ?e)\<lparr>unique_func := p, dw := (dw (new_device ?e))\<lparr>product := p\<rparr>\<rparr>"
  have n: "choices (dw ?n) = replicate (allocations (unique_func ?n) - 4) True @ True # True # True # bs" "ptr ?n = {}"
    "held ?n = {M_dev}" "kref ?n = 1" "\<not> rx_wq ?n"
    using h by (simp_all add: new_device_def Let_def)
  obtain d1 where 1: "init_instance ?n = Some (RESULT_Success, d1)" "choices (dw d1) = True # True # True # bs" "\<not> rx_wq d1"
    using init_instance_granted [OF n(1,2)] n(5) by auto
  note e1 = init_instance_eq [OF 1(1) n(3,2)]
  obtain d2 where 2: "alloc_buffers d1 = (True, d2)" "choices (dw d2) = bs" "\<not> rx_wq d2"
    using alloc_buffers_granted [OF 1(2)] 1(3) by auto
  note e2 = alloc_buffers_eq [OF 2(1)]
  have "probe a intf d = (if fst (get_endpoints intf) \<noteq> RESULT_Success then probe_error (-ENOMEM) d2
      else start_device a intf (d2\<lparr>intfdata := True\<rparr>))"
    using 1(1) 2(1) by (simp add: probe_def a f Let_def split: prod.splits)
  moreover have "held d2 = {M_dev, M_rx_transfer, M_rx_complete, M_rx_rbmsg} \<union> unique_data p"
    "ptr d2 = {M_rx_transfer, M_rx_complete, M_rx_rbmsg} \<union> unique_data p" "unique_func d2 = p" "kref d2 = 1"
    using e1 e2 n(4) by (simp_all add: insert_commute)
  ultimately show ?thesis using 2 by blast
qed

subsection \<open>Properties\<close>

lemma attached_update:
  "attached intf d \<Longrightarrow> netdev_present w = netdev_present (dw d) \<Longrightarrow> attached intf (d\<lparr>dw := w\<rparr>)"
  by (auto simp: attached_def owned_def)

lemma attached_solid:
  assumes "attached intf d" "M_thread \<in> held d \<or> is_dfu intf"
  shows "solid {} d"
proof -
  have "r \<in> held d" if "r \<in> ptr d" for r
    using assms that by (cases "r = M_thread"; cases "r = M_dev") (auto simp: attached_def owned_def)
  then show ?thesis using assms by (simp add: solid_def attached_def owned_def)
qed

text \<open>C22: attaching a device is all or nothing, and detaching gives back what attaching took. A probe that
  fails once the device is registered with the interface holds nothing any more: no memory, ring buffer,
  URB, minor number, thread or network device. After a probe that succeeds, whatever happens to the
  device's state in between, a disconnect of a device that no process has open holds nothing either; and
  it does return if the transmit thread had been started, unless the network device is still up.\<close>

theorem probe_disconnect_balanced:
  assumes "probe a intf d0 = Some (r, d)" and "held d0 = {}"
  shows "(r = -EIO \<longrightarrow> held d = {})
    \<and> (r = 0 \<longrightarrow> M_dev \<in> held d \<and> (\<forall>w a'. netdev_present w = netdev_present (dw d) \<longrightarrow>
        (\<forall>d'. disconnect a' intf (d\<lparr>dw := w\<rparr>) = Some d' \<longrightarrow> held d' = {})
        \<and> (\<not> netdev_up a' \<and> (M_thread \<in> held d \<or> is_dfu intf) \<longrightarrow> (\<exists>d'. disconnect a' intf (d\<lparr>dw := w\<rparr>) = Some d'))))"
proof (cases "r = -EIO \<or> r = 0")
  case True
  obtain d1 where 1: "fresh d1" "held d1 \<inter> {M_minor, M_rx_data, M_rxbuf} = {}" "kref d1 = 1" "intfdata d1"
    "start_device a intf d1 = Some (r, d)"
    by (rule probe_starts [OF assms True])
  note s = start_device_held [OF 1(5) 1(1-4)]
  show ?thesis
  proof (intro conjI impI allI)
    show "r = -EIO \<Longrightarrow> held d = {}" using s by auto
  next
    assume "r = 0"
    then show "M_dev \<in> held d" using s by (auto simp: attached_def owned_def)
  next
    fix w :: world and a' :: detach and d'
    assume r: "r = 0" and n: "netdev_present w = netdev_present (dw d)" and d: "disconnect a' intf (d\<lparr>dw := w\<rparr>) = Some d'"
    then obtain e d2 where "usbtrx_term a' intf (d\<lparr>dw := w\<rparr>) = Some (e, d2)" "d' = kref_put (d2\<lparr>intfdata := False\<rparr>)"
      using s by (auto simp: disconnect_def split: bind_splits if_splits)
    moreover have "attached intf (d\<lparr>dw := w\<rparr>)" using s r n by (simp add: attached_update)
    ultimately show "held d' = {}" using usbtrx_term_held [of a' intf "d\<lparr>dw := w\<rparr>" e d2] s r by (simp add: kref_put_def)
  next
    fix w :: world and a' :: detach
    assume r: "r = 0" and n: "netdev_present w = netdev_present (dw d)"
      and t: "\<not> netdev_up a' \<and> (M_thread \<in> held d \<or> is_dfu intf)"
    then have "solid {} (d\<lparr>dw := w\<rparr>)" using s attached_solid [of intf d] by auto
    then obtain e d2 where "usbtrx_term a' intf (d\<lparr>dw := w\<rparr>) = Some (e, d2)"
      using usbtrx_term_returns [of "d\<lparr>dw := w\<rparr>" a' intf] t s r by auto
    then show "\<exists>d'. disconnect a' intf (d\<lparr>dw := w\<rparr>) = Some d'" using s r by (simp add: disconnect_def)
  qed
qed simp

text \<open>A probe that fails before the device is registered leaks. When the interface has no pair of bulk
  endpoints, the error path frees the device's structure and nothing else: the unique data of the product
  and the three buffers stay allocated, and nothing refers to them any more.\<close>

theorem probe_without_endpoints_leaks:
  assumes "choices (dw d) = replicate (allocations p) True @ bs" and "held d = {}"
    and "init_function (id_product intf) = Some p" and "fst (get_endpoints intf) \<noteq> RESULT_Success"
  shows "\<exists>d'. probe a intf d = Some (-ENOMEM, d')
    \<and> held d' = {M_rx_transfer, M_rx_complete, M_rx_rbmsg} \<union> unique_data p"
proof -
  obtain d1 where 1: "probe a intf d = probe_error (-ENOMEM) d1" "kref d1 = 1"
    "held d1 = {M_dev, M_rx_transfer, M_rx_complete, M_rx_rbmsg} \<union> unique_data p"
    using probe_granted [OF assms(1-3), of a] assms(4) by auto
  then show ?thesis by (auto simp: probe_error_def kref_put_def unique_data_def)
qed

text \<open>A device that cannot be registered stops the kernel. When no minor number is left, or the
  interface is of a subclass that the driver does not have, the wait queue of the receive ring buffer has
  not been initialised yet when the clean-up wakes it.\<close>

lemma probe_unregistered_crashes:
  assumes "choices (dw d) = replicate (allocations p) True @ bs" and "held d = {}"
    and "init_function (id_product intf) = Some p" and "fst (get_endpoints intf) = RESULT_Success"
    and "if_class intf \<noteq> 0xFF \<or> if_subclass intf \<notin> {0, 1} \<or> (\<exists>cs. bs = False # cs)"
  shows "probe a intf d = None"
proof -
  obtain d1 where 1: "probe a intf d = start_device a intf (d1\<lparr>intfdata := True\<rparr>)" "\<not> rx_wq d1" "choices (dw d1) = bs"
    "held d1 = {M_dev, M_rx_transfer, M_rx_complete, M_rx_rbmsg} \<union> unique_data p"
    "ptr d1 = {M_rx_transfer, M_rx_complete, M_rx_rbmsg} \<union> unique_data p" "unique_func d1 = p"
    using probe_granted [OF assms(1-3), of a] assms(4) by auto
  have f: "attached intf (d1\<lparr>intfdata := True\<rparr>)"
    unfolding attached_def owned_def using 1 by (simp add: unique_data_def)
  obtain r d2 where 2: "usbtrx_init intf (d1\<lparr>intfdata := True\<rparr>) = Some (r, d2)" "r \<noteq> RESULT_Success" "\<not> rx_wq d2"
    "attached intf d2"
  proof (cases "if_class intf \<noteq> 0xFF \<or> if_subclass intf \<notin> {0, 1}")
    case True
    then have "usbtrx_init intf (d1\<lparr>intfdata := True\<rparr>) = Some (RESULT_Failure, d1\<lparr>intfdata := True\<rparr>)"
      by (auto simp: usbtrx_init_def)
    then show thesis using that f 1(2) by simp
  next
    case False
    then obtain cs where "bs = False # cs" using assms(5) by auto
    then have c: "choices (dw (d1\<lparr>intfdata := True\<rparr>)) = False # cs" using 1(3) by simp
    have "alloc_res M_minor (d1\<lparr>intfdata := True\<rparr>)
        = (False, d1\<lparr>intfdata := True, dw := (dw d1)\<lparr>choices := cs\<rparr>, ptr := ptr d1 - {M_minor}\<rparr>)"
      by (simp add: alloc_res_def ask_granted [OF c])
    then have "usbtrx_init intf (d1\<lparr>intfdata := True\<rparr>) = Some (RESULT_Failure,
        d1\<lparr>intfdata := True, dw := (dw d1)\<lparr>choices := cs\<rparr>, ptr := ptr d1 - {M_minor}\<rparr>)"
      using False by (auto simp: usbtrx_init_def)
    moreover have "attached intf (d1\<lparr>intfdata := True, dw := (dw d1)\<lparr>choices := cs\<rparr>, ptr := ptr d1 - {M_minor}\<rparr>)"
      unfolding attached_def owned_def using 1 by (simp add: unique_data_def)
    ultimately show thesis using that 1(2) by simp
  qed
  have "rx_wq d3 = rx_wq d2" if "terminate a d2 = Some (e, d3)" for e d3
    using terminate_gone [OF that 2(4)] by (simp add: gone_def)
  then have "usbtrx_term a intf d2 = None"
    using 2(3) by (auto simp: usbtrx_term_def quiesce_def wake_up_def split: bind_splits)
  then show ?thesis using 1(1) 2 by (simp add: start_device_def)
qed


text \<open>Witnesses: interfaces, and what there is before a probe.\<close>

definition interface_of :: "u8 \<Rightarrow> u16 \<Rightarrow> endpoint list \<Rightarrow> interface" where
  "interface_of sub p es = \<lparr>if_class = 0xFF, if_subclass = sub, id_product = p, endpoints = es\<rparr>"

definition driver0 :: "bool list \<Rightarrow> driver" where
  "driver0 cs =
    \<lparr>dw = (world0 CT2A)\<lparr>choices := cs\<rparr>,
     du = \<lparr>u_can_clock = 0, u_bittiming_const = no_bittiming_const, u_data_bittiming_const = no_bittiming_const,
       u_bittiming = no_timing, u_data_bittiming = no_timing\<rparr>,
     unique_func = CT2A, held = {}, ptr = {}, rx_wq = False, tx_wq = False, kref = 0, intfdata = False,
     nd = \<lparr>nd_ctrlmode_supported = 0, nd_clock = 0, nd_bittiming_const = no_bittiming_const,
       nd_data_bittiming_const = no_bittiming_const, nd_dev_id = 0\<rparr>\<rparr>"

definition detach0 :: detach where
  "detach0 = \<lparr>netdev_up = False, stop_status = \<lparr>st_mode = \<lparr>silent = False, start = False, baudrate = 0\<rparr>,
       enable_trigger = False, st_trigger = \<lparr>tr_input = \<lparr>tr_enable = False, tr_logic = 0, tr_id = 0\<rparr>,
         tr_output = \<lparr>tr_enable = False, tr_logic = 0, tr_id = 0\<rparr>, pulse_width = 0, pulse_interval = 0\<rparr>\<rparr>,
     stop_schedule = []\<rparr>"

lemma driver0_sel: "choices (dw (driver0 cs)) = cs" "held (driver0 cs) = {}"
  by (simp_all add: driver0_def)

lemma usbtrx_init_dfu:
  assumes c: "choices (dw d) = []" and i: "if_class intf = 0xFF" "if_subclass intf = 1"
  shows "\<exists>d'. usbtrx_init intf d = Some (RESULT_Success, d')"
proof -
  have a: "alloc_res r e = (True, e\<lparr>held := insert r (held e), ptr := insert r (ptr e)\<rparr>)" if "choices (dw e) = []" for r e
    using that by (simp add: alloc_res_def ask_def may_fail_def)
  have s: "\<exists>w'. setup_rx_urbs w = (RESULT_Success, w')" if "choices w = []" for w
    using that by (simp add: setup_rx_urbs_def may_fail_def Let_def numeral_eq_Suc)
  define d1 where "d1 = d\<lparr>held := insert M_minor (held d), ptr := insert M_minor (ptr d)\<rparr>"
  obtain d2 where 2: "ring_init M_rx_data rx_data rx_data_update (rx_data_size_of (unique_func d1)) (d1\<lparr>rx_wq := True\<rparr>)
      = (RESULT_Success, d2)" "choices (dw d2) = []"
    using c by (simp add: ring_init_def a d1_def ringbuffer_init_def ringbuffer_init_instance_def Let_def)
  obtain w where "setup_rx_urbs (dw d2) = (RESULT_Success, w)" using s [OF 2(2)] by blast
  then show ?thesis using i c by (simp add: usbtrx_init_def a Let_def 2(1) flip: d1_def)
qed

lemma probe_example:
  "\<exists>d. probe detach0 (interface_of 1 0x0105 [Endpoint_other, Bulk_out, Bulk_in]) (driver0 (replicate 5 True)) = Some (0, d)"
proof -
  let ?i = "interface_of 1 0x0105 [Endpoint_other, Bulk_out, Bulk_in]"
  have c: "choices (dw (driver0 (replicate 5 True))) = replicate (allocations CH02A) True @ []"
    by (simp add: driver0_sel allocations_def)
  have f: "init_function (id_product ?i) = Some CH02A" by (simp add: interface_of_def init_function_def)
  have e: "fst (get_endpoints ?i) = RESULT_Success" by (simp add: interface_of_def get_endpoints_def)
  obtain d1 where 1: "probe detach0 ?i (driver0 (replicate 5 True)) = start_device detach0 ?i (d1\<lparr>intfdata := True\<rparr>)"
    "choices (dw d1) = []"
    using probe_granted [OF c driver0_sel(2) f, of detach0] e by auto
  obtain d where "usbtrx_init ?i (d1\<lparr>intfdata := True\<rparr>) = Some (RESULT_Success, d)"
    using usbtrx_init_dfu [of "d1\<lparr>intfdata := True\<rparr>" ?i] 1(2) by (auto simp: interface_of_def)
  then show ?thesis by (simp add: 1(1) start_device_def)
qed

theorem probe_disconnect_balanced_witness:
  "\<exists>d d'. probe detach0 (interface_of 1 0x0105 [Endpoint_other, Bulk_out, Bulk_in]) (driver0 (replicate 5 True)) = Some (0, d)
    \<and> disconnect detach0 (interface_of 1 0x0105 [Endpoint_other, Bulk_out, Bulk_in]) d = Some d' \<and> held d' = {}"
proof -
  let ?i = "interface_of 1 0x0105 [Endpoint_other, Bulk_out, Bulk_in]"
  obtain d where p: "probe detach0 ?i (driver0 (replicate 5 True)) = Some (0, d)" using probe_example by blast
  have "is_dfu ?i" by (simp add: is_dfu_def interface_of_def)
  then obtain d' where "disconnect detach0 ?i (d\<lparr>dw := dw d\<rparr>) = Some d'" "held d' = {}"
    using probe_disconnect_balanced [OF p driver0_sel(2)] by (fastforce simp: detach0_def)
  then show ?thesis using p by auto
qed

theorem probe_without_endpoints_leaks_witness:
  "\<exists>d'. probe detach0 (interface_of 0 0x0102 [Bulk_in]) (driver0 (replicate 5 True)) = Some (-ENOMEM, d')
    \<and> held d' = {M_rx_transfer, M_rx_complete, M_rx_rbmsg, M_unique}"
  using probe_without_endpoints_leaks [of "driver0 (replicate 5 True)" AG08A "[]" "interface_of 0 0x0102 [Bulk_in]" detach0]
  by (simp add: driver0_sel allocations_def interface_of_def init_function_def get_endpoints_def unique_data_def insert_commute)

lemma probe_unregistered_crashes_witness:
  "probe detach0 (interface_of 0 0x0101 [Bulk_in, Bulk_out]) (driver0 (replicate 8 True @ [False])) = None
    \<and> probe detach0 (interface_of 2 0x0101 [Bulk_in, Bulk_out]) (driver0 (replicate 8 True)) = None"
  using probe_unregistered_crashes [of "driver0 (replicate 8 True @ [False])" CF02A "[False]"
      "interface_of 0 0x0101 [Bulk_in, Bulk_out]" detach0]
    probe_unregistered_crashes [of "driver0 (replicate 8 True)" CF02A "[]"
      "interface_of 2 0x0101 [Bulk_in, Bulk_out]" detach0]
  by (simp add: driver0_sel allocations_def interface_of_def init_function_def get_endpoints_def)

end
