(* ===== verification/Sysfs.thy ===== *)
theory Sysfs
  imports Format Probe_Resources
begin

text \<open>
  The attributes in sysfs: \<open>module/apt_usbtrx_sysfs.c\<close>, and \<open>ap_ct2a_sysfs.c\<close>, \<open>ep1_ag08a_sysfs.c\<close>,
  \<open>ep1_cf02a_sysfs.c\<close>.

  \<^item> A \<open>show\<close> function returns the text it prints (\<open>Inr\<close>) or a negative error number (\<open>Inl\<close>), and the
    device, which a query of the statistics changes; a \<open>store\<close> function the count or the error. \<open>None\<close> is
    the use of a structure that does not exist, or not any more.
  \<^item> \<open>attrs\<close> are the files there are. Creating one may fail, which is only logged. The kernel's
    \<open>sysfs_streq\<close> is a parameter.
  \<^item> The clock is one of two, so that the error of \<open>basetime_clock_id_show\<close> cannot occur.
\<close>

datatype attribute =
  A_model_name | A_skipcnt | A_timestamp_mode | A_basetime_clock_id | A_firmware_version | A_ch | A_sync_pulse
| A_datcnt | A_ext_datcnt | A_rtrcnt | A_ext_rtrcnt | A_errcnt | A_cnt_timestamp
| A_store_data_enabled | A_fw_rx_dropped | A_can_state | A_reset_fw_statistics | A_can_clock
| A_bt_prop_seg | A_bt_phase_seg1 | A_bt_phase_seg2 | A_bt_sjw | A_bt_brp
| A_dbt_prop_seg | A_dbt_phase_seg1 | A_dbt_phase_seg2 | A_dbt_sjw | A_dbt_brp

type_synonym shown = "((int + string) \<times> driver) option"

definition show_line :: "string \<Rightarrow> driver \<Rightarrow> shown" where
  "show_line s d = Some (Inr (s @ newline), d)"

text \<open>\<open>dev_get_drvdata\<close>: the pointer is null once the interface's data has been cleared.\<close>

definition get_drvdata :: "driver \<Rightarrow> driver option" where
  "get_drvdata d = (if intfdata d \<and> M_dev \<in> held d then Some d else None)"

text \<open>What a pointer of the EP1-CF02A's unique data leads to.\<close>

definition deref :: "resource \<Rightarrow> driver \<Rightarrow> driver option" where
  "deref r d = (if r \<in> held d then Some d else None)"

subsection \<open>The attributes of every device\<close>

definition model_name :: "product \<Rightarrow> string" where
  "model_name p = (case p of CT2A \<Rightarrow> ''AP-CT2A'' | CH02A \<Rightarrow> ''EP1-CH02A'' | CF02A \<Rightarrow> ''EP1-CF02A'' | AG08A \<Rightarrow> ''EP1-AG08A'')"

definition sysfs_model_name_show :: "driver \<Rightarrow> shown" where
  "sysfs_model_name_show d = do { d \<leftarrow> get_drvdata d; show_line (model_name (unique_func d)) d }"

definition sysfs_skipcnt_show :: "driver \<Rightarrow> shown" where
  "sysfs_skipcnt_show d = do { d \<leftarrow> get_drvdata d; show_line (dec (uint (skip_count (rx_data (dw d))))) d }"

definition sysfs_timestamp_mode_show :: "driver \<Rightarrow> shown" where
  "sysfs_timestamp_mode_show d = do { d \<leftarrow> get_drvdata d; show_line (dec (timestamp_mode (dw d))) d }"

definition sysfs_basetime_clock_id_show :: "driver \<Rightarrow> shown" where
  "sysfs_basetime_clock_id_show d = do {
     d \<leftarrow> get_drvdata d;
     show_line (if clock_monotonic (dw d) then ''CLOCK_MONOTONIC'' else ''CLOCK_MONOTONIC_RAW'') d
   }"

definition sysfs_basetime_clock_id_store ::
  "(string \<Rightarrow> string \<Rightarrow> bool) \<Rightarrow> driver \<Rightarrow> string \<Rightarrow> int \<Rightarrow> (int \<times> driver) option" where
  "sysfs_basetime_clock_id_store sysfs_streq d buf count = do {
     d \<leftarrow> get_drvdata d;
     if sysfs_streq buf ''CLOCK_MONOTONIC'' \<or> sysfs_streq buf ''clock_monotonic''
       \<or> sysfs_streq buf ''CLOCK-MONOTONIC'' \<or> sysfs_streq buf ''clock-monotonic''
     then Some (count, d\<lparr>dw := (dw d)\<lparr>clock_monotonic := True\<rparr>\<rparr>)
     else if sysfs_streq buf ''CLOCK_MONOTONIC_RAW'' \<or> sysfs_streq buf ''clock_monotonic_raw''
       \<or> sysfs_streq buf ''CLOCK-MONOTONIC-RAW'' \<or> sysfs_streq buf ''clock-monotonic-raw''
     then Some (count, d\<lparr>dw := (dw d)\<lparr>clock_monotonic := False\<rparr>\<rparr>)
     else Some (-EINVAL, d)
   }"

definition sysfs_firmware_version_show :: "driver \<Rightarrow> shown" where
  "sysfs_firmware_version_show d = do {
     d \<leftarrow> get_drvdata d;
     show_line (dec (fw_major (dw d)) @ ''.'' @ dec (fw_minor (dw d)) @ ''.'' @ dec (fw_revision (dw d))) d
   }"

definition sysfs_ch_show :: "driver \<Rightarrow> shown" where
  "sysfs_ch_show d = do { d \<leftarrow> get_drvdata d; show_line (dec (ch (dw d))) d }"

definition sysfs_sync_pulse_show :: "driver \<Rightarrow> shown" where
  "sysfs_sync_pulse_show d = do {
     d \<leftarrow> get_drvdata d;
     if sync_pulse (dw d) = 0 then show_line ''source'' d
     else if sync_pulse (dw d) = 1 then show_line ''external'' d
     else Some (Inl (-EINVAL), d)
   }"

subsection \<open>The attributes of the AP-CT2A and the EP1-CH02A\<close>

definition sysfs_datcnt_show :: "driver \<Rightarrow> shown" where
  "sysfs_datcnt_show d = do {
     d \<leftarrow> get_drvdata d; d \<leftarrow> get_unique_data d;
     show_line (dec (uint (st_total_num (dat_std (summary (dw d)))))) d
   }"

definition sysfs_ext_datcnt_show :: "driver \<Rightarrow> shown" where
  "sysfs_ext_datcnt_show d = do {
     d \<leftarrow> get_drvdata d; d \<leftarrow> get_unique_data d;
     show_line (dec (uint (st_total_num (dat_ext (summary (dw d)))))) d
   }"

definition sysfs_rtrcnt_show :: "driver \<Rightarrow> shown" where
  "sysfs_rtrcnt_show d = do {
     d \<leftarrow> get_drvdata d; d \<leftarrow> get_unique_data d;
     show_line (dec (uint (st_total_num (rtr_std (summary (dw d)))))) d
   }"

definition sysfs_ext_rtrcnt_show :: "driver \<Rightarrow> shown" where
  "sysfs_ext_rtrcnt_show d = do {
     d \<leftarrow> get_drvdata d; d \<leftarrow> get_unique_data d;
     show_line (dec (uint (st_total_num (rtr_ext (summary (dw d)))))) d
   }"

definition sysfs_errcnt_show :: "driver \<Rightarrow> shown" where
  "sysfs_errcnt_show d = do {
     d \<leftarrow> get_drvdata d; d \<leftarrow> get_unique_data d;
     show_line (dec (uint (st_total_num (err (summary (dw d)))))) d
   }"

text \<open>The seconds of the latest of the five times.\<close>

definition sysfs_cnt_timestamp_show :: "driver \<Rightarrow> shown" where
  "sysfs_cnt_timestamp_show d = do {
     d \<leftarrow> get_drvdata d; d \<leftarrow> get_unique_data d;
     let s = summary (dw d);
     let kt = 0;
     let kt = (if kt < st_kt (dat_std s) then st_kt (dat_std s) else kt);
     let kt = (if kt < st_kt (dat_ext s) then st_kt (dat_ext s) else kt);
     let kt = (if kt < st_kt (rtr_std s) then st_kt (rtr_std s) else kt);
     let kt = (if kt < st_kt (rtr_ext s) then st_kt (rtr_ext s) else kt);
     let kt = (if kt < st_kt (err s) then st_kt (err s) else kt);
     show_line (dec (kt div 1000000000)) d
   }"

subsection \<open>The attributes of the EP1-CF02A\<close>

definition cf02a_sysfs_store_data_enabled_show :: "driver \<Rightarrow> shown" where
  "cf02a_sysfs_store_data_enabled_show d = do {
     d \<leftarrow> get_drvdata d; d \<leftarrow> get_unique_data d;
     show_line (dec (if is_store_data_enabled (dw d) then 1 else 0)) d
   }"

definition cf02a_sysfs_fw_rx_dropped_show :: "interface \<Rightarrow> driver \<Rightarrow> shown" where
  "cf02a_sysfs_fw_rx_dropped_show intf d = do {
     d \<leftarrow> get_drvdata d;
     if is_dfu intf then show_line ''0'' d
     else do {
       (result, statistics, w) \<leftarrow> cf02a_get_can_statistics (dw d);
       let d = d\<lparr>dw := w\<rparr>;
       case (result, statistics) of
         (RESULT_Success, Some st) \<Rightarrow> show_line (dec (uint (rx_dropped st))) d
       | _ \<Rightarrow> show_line ''0'' d
     }
   }"

definition can_state_str :: "u8 \<Rightarrow> string" where
  "can_state_str s = (if s = 0 then ''ERROR-ACTIVE'' else if s = 1 then ''ERROR-WARNING''
     else if s = 2 then ''ERROR-PASSIVE'' else if s = 3 then ''BUS-OFF'' else ''unknown'')"

definition cf02a_sysfs_can_state_show :: "interface \<Rightarrow> driver \<Rightarrow> shown" where
  "cf02a_sysfs_can_state_show intf d = do {
     d \<leftarrow> get_drvdata d;
     if is_dfu intf then show_line ''unknown'' d
     else do {
       (result, statistics, w) \<leftarrow> cf02a_get_can_statistics (dw d);
       let d = d\<lparr>dw := w\<rparr>;
       case (result, statistics) of
         (RESULT_Success, Some st) \<Rightarrow> show_line (can_state_str (can_state st)) d
       | _ \<Rightarrow> show_line ''unknown'' d
     }
   }"

definition cf02a_sysfs_reset_fw_statistics_store :: "interface \<Rightarrow> driver \<Rightarrow> int \<Rightarrow> (int \<times> driver) option" where
  "cf02a_sysfs_reset_fw_statistics_store intf d count = do {
     d \<leftarrow> get_drvdata d;
     if is_dfu intf then Some (count, d)
     else do {
       (result, success, w) \<leftarrow> cf02a_reset_can_statistics (dw d);
       let d = d\<lparr>dw := w\<rparr>;
       if result \<noteq> RESULT_Success \<or> success \<noteq> Some True then Some (-EIO, d)
       else Some (count, d)
     }
   }"

text \<open>An unsigned clock, printed as a signed number.\<close>

definition cf02a_sysfs_can_clock_show :: "driver \<Rightarrow> shown" where
  "cf02a_sysfs_can_clock_show d = do {
     d \<leftarrow> get_drvdata d; d \<leftarrow> get_unique_data d; show_line (dec (sint (u_can_clock (du d)))) d }"

definition cf02a_sysfs_bt_prop_seg_show :: "driver \<Rightarrow> shown" where
  "cf02a_sysfs_bt_prop_seg_show d = do {
     d \<leftarrow> get_drvdata d; d \<leftarrow> get_unique_data d; d \<leftarrow> deref M_bittiming d;
     show_line (dec (bt_prop_seg (u_bittiming (du d)))) d }"

definition cf02a_sysfs_bt_phase_seg1_show :: "driver \<Rightarrow> shown" where
  "cf02a_sysfs_bt_phase_seg1_show d = do {
     d \<leftarrow> get_drvdata d; d \<leftarrow> get_unique_data d; d \<leftarrow> deref M_bittiming d;
     show_line (dec (bt_phase_seg1 (u_bittiming (du d)))) d }"

definition cf02a_sysfs_bt_phase_seg2_show :: "driver \<Rightarrow> shown" where
  "cf02a_sysfs_bt_phase_seg2_show d = do {
     d \<leftarrow> get_drvdata d; d \<leftarrow> get_unique_data d; d \<leftarrow> deref M_bittiming d;
     show_line (dec (bt_phase_seg2 (u_bittiming (du d)))) d }"

definition cf02a_sysfs_bt_sjw_show :: "driver \<Rightarrow> shown" where
  "cf02a_sysfs_bt_sjw_show d = do {
     d \<leftarrow> get_drvdata d; d \<leftarrow> get_unique_data d; d \<leftarrow> deref M_bittiming d;
     show_line (dec (bt_sjw (u_bittiming (du d)))) d }"

definition cf02a_sysfs_bt_brp_show :: "driver \<Rightarrow> shown" where
  "cf02a_sysfs_bt_brp_show d = do {
     d \<leftarrow> get_drvdata d; d \<leftarrow> get_unique_data d; d \<leftarrow> deref M_bittiming d;
     show_line (dec (bt_brp (u_bittiming (du d)))) d }"

definition cf02a_sysfs_dbt_prop_seg_show :: "driver \<Rightarrow> shown" where
  "cf02a_sysfs_dbt_prop_seg_show d = do {
     d \<leftarrow> get_drvdata d; d \<leftarrow> get_unique_data d; d \<leftarrow> deref M_data_bittiming d;
     show_line (dec (bt_prop_seg (u_data_bittiming (du d)))) d }"

definition cf02a_sysfs_dbt_phase_seg1_show :: "driver \<Rightarrow> shown" where
  "cf02a_sysfs_dbt_phase_seg1_show d = do {
     d \<leftarrow> get_drvdata d; d \<leftarrow> get_unique_data d; d \<leftarrow> deref M_data_bittiming d;
     show_line (dec (bt_phase_seg1 (u_data_bittiming (du d)))) d }"

definition cf02a_sysfs_dbt_phase_seg2_show :: "driver \<Rightarrow> shown" where
  "cf02a_sysfs_dbt_phase_seg2_show d = do {
     d \<leftarrow> get_drvdata d; d \<leftarrow> get_unique_data d; d \<leftarrow> deref M_data_bittiming d;
     show_line (dec (bt_phase_seg2 (u_data_bittiming (du d)))) d }"

definition cf02a_sysfs_dbt_sjw_show :: "driver \<Rightarrow> shown" where
  "cf02a_sysfs_dbt_sjw_show d = do {
     d \<leftarrow> get_drvdata d; d \<leftarrow> get_unique_data d; d \<leftarrow> deref M_data_bittiming d;
     show_line (dec (bt_sjw (u_data_bittiming (du d)))) d }"

definition cf02a_sysfs_dbt_brp_show :: "driver \<Rightarrow> shown" where
  "cf02a_sysfs_dbt_brp_show d = do {
     d \<leftarrow> get_drvdata d; d \<leftarrow> get_unique_data d; d \<leftarrow> deref M_data_bittiming d;
     show_line (dec (bt_brp (u_data_bittiming (du d)))) d }"

subsection \<open>Creating and removing the files\<close>

text \<open>\<open>device_create_file\<close> and \<open>device_remove_file\<close> for each of a list of attributes.\<close>

fun create_files :: "attribute list \<Rightarrow> attribute set \<Rightarrow> driver \<Rightarrow> attribute set \<times> driver" where
  "create_files [] attrs d = (attrs, d)"
| "create_files (a # as) attrs d =
     (let (ok, d) = ask d in create_files as (if ok then insert a attrs else attrs) d)"

fun remove_files :: "attribute list \<Rightarrow> attribute set \<Rightarrow> attribute set" where
  "remove_files [] attrs = attrs"
| "remove_files (a # as) attrs = remove_files as (attrs - {a})"

definition unique_can_attributes :: "attribute list" where
  "unique_can_attributes = [A_datcnt, A_ext_datcnt, A_rtrcnt, A_ext_rtrcnt, A_errcnt, A_cnt_timestamp]"

definition cf02a_attributes :: "attribute list" where
  "cf02a_attributes = [A_store_data_enabled, A_fw_rx_dropped, A_can_state, A_reset_fw_statistics, A_can_clock,
     A_bt_prop_seg, A_bt_phase_seg1, A_bt_phase_seg2, A_bt_sjw, A_bt_brp,
     A_dbt_prop_seg, A_dbt_phase_seg1, A_dbt_phase_seg2, A_dbt_sjw, A_dbt_brp]"

definition common_attributes :: "attribute list" where
  "common_attributes = [A_model_name, A_skipcnt, A_timestamp_mode, A_basetime_clock_id, A_firmware_version,
     A_ch, A_sync_pulse]"

text \<open>\<open>dev\<close> says whether the kernel's device is not null.\<close>

definition unique_can_sysfs_init :: "bool \<Rightarrow> attribute set \<Rightarrow> driver \<Rightarrow> RESULT \<times> attribute set \<times> driver" where
  "unique_can_sysfs_init dev attrs d =
     (if \<not> dev then (RESULT_Failure, attrs, d)
      else (RESULT_Success, create_files unique_can_attributes attrs d))"

definition unique_can_sysfs_term :: "bool \<Rightarrow> attribute set \<Rightarrow> RESULT \<times> attribute set" where
  "unique_can_sysfs_term dev attrs =
     (if \<not> dev then (RESULT_Failure, attrs) else (RESULT_Success, remove_files unique_can_attributes attrs))"

definition cf02a_sysfs_init :: "bool \<Rightarrow> attribute set \<Rightarrow> driver \<Rightarrow> RESULT \<times> attribute set \<times> driver" where
  "cf02a_sysfs_init dev attrs d =
     (if \<not> dev then (RESULT_Failure, attrs, d)
      else (RESULT_Success, create_files cf02a_attributes attrs d))"

definition cf02a_sysfs_term :: "bool \<Rightarrow> attribute set \<Rightarrow> RESULT \<times> attribute set" where
  "cf02a_sysfs_term dev attrs =
     (if \<not> dev then (RESULT_Failure, attrs) else (RESULT_Success, remove_files cf02a_attributes attrs))"

definition ag08a_sysfs_init :: "bool \<Rightarrow> attribute set \<Rightarrow> driver \<Rightarrow> RESULT \<times> attribute set \<times> driver" where
  "ag08a_sysfs_init dev attrs d = (if \<not> dev then (RESULT_Failure, attrs, d) else (RESULT_Success, attrs, d))"

definition ag08a_sysfs_term :: "bool \<Rightarrow> attribute set \<Rightarrow> RESULT \<times> attribute set" where
  "ag08a_sysfs_term dev attrs = (if \<not> dev then (RESULT_Failure, attrs) else (RESULT_Success, attrs))"

definition unique_sysfs_init :: "bool \<Rightarrow> attribute set \<Rightarrow> driver \<Rightarrow> RESULT \<times> attribute set \<times> driver" where
  "unique_sysfs_init dev attrs d = (case unique_func d of
     CT2A \<Rightarrow> unique_can_sysfs_init dev attrs d | CH02A \<Rightarrow> unique_can_sysfs_init dev attrs d
   | CF02A \<Rightarrow> cf02a_sysfs_init dev attrs d | AG08A \<Rightarrow> ag08a_sysfs_init dev attrs d)"

definition unique_sysfs_term :: "bool \<Rightarrow> attribute set \<Rightarrow> driver \<Rightarrow> RESULT \<times> attribute set" where
  "unique_sysfs_term dev attrs d = (case unique_func d of
     CT2A \<Rightarrow> unique_can_sysfs_term dev attrs | CH02A \<Rightarrow> unique_can_sysfs_term dev attrs
   | CF02A \<Rightarrow> cf02a_sysfs_term dev attrs | AG08A \<Rightarrow> ag08a_sysfs_term dev attrs)"

definition sysfs_init :: "bool \<Rightarrow> attribute set \<Rightarrow> driver \<Rightarrow> RESULT \<times> attribute set \<times> driver" where
  "sysfs_init dev attrs d =
     (if \<not> dev then (RESULT_Failure, attrs, d)
      else let (attrs, d) = create_files common_attributes attrs d in
      if \<not> intfdata d then (RESULT_Failure, attrs, d)
      else let (result, attrs, d) = unique_sysfs_init dev attrs d in
      if result \<noteq> RESULT_Success then (RESULT_Failure, attrs, d) else (RESULT_Success, attrs, d))"

definition sysfs_term :: "bool \<Rightarrow> attribute set \<Rightarrow> driver \<Rightarrow> RESULT \<times> attribute set" where
  "sysfs_term dev attrs d =
     (if \<not> dev then (RESULT_Failure, attrs)
      else let attrs = remove_files common_attributes attrs in
      if \<not> intfdata d then (RESULT_Failure, attrs)
      else let (result, attrs) = unique_sysfs_term dev attrs d in
      if result \<noteq> RESULT_Success then (RESULT_Failure, attrs) else (RESULT_Success, attrs))"

text \<open>The attribute tables: what reading a file calls. A file without a \<open>show\<close> function cannot be read.\<close>

definition sysfs_show :: "interface \<Rightarrow> attribute \<Rightarrow> driver \<Rightarrow> shown" where
  "sysfs_show intf a d = (case a of
     A_model_name \<Rightarrow> sysfs_model_name_show d | A_skipcnt \<Rightarrow> sysfs_skipcnt_show d
   | A_timestamp_mode \<Rightarrow> sysfs_timestamp_mode_show d | A_basetime_clock_id \<Rightarrow> sysfs_basetime_clock_id_show d
   | A_firmware_version \<Rightarrow> sysfs_firmware_version_show d | A_ch \<Rightarrow> sysfs_ch_show d
   | A_sync_pulse \<Rightarrow> sysfs_sync_pulse_show d
   | A_datcnt \<Rightarrow> sysfs_datcnt_show d | A_ext_datcnt \<Rightarrow> sysfs_ext_datcnt_show d
   | A_rtrcnt \<Rightarrow> sysfs_rtrcnt_show d | A_ext_rtrcnt \<Rightarrow> sysfs_ext_rtrcnt_show d
   | A_errcnt \<Rightarrow> sysfs_errcnt_show d | A_cnt_timestamp \<Rightarrow> sysfs_cnt_timestamp_show d
   | A_store_data_enabled \<Rightarrow> cf02a_sysfs_store_data_enabled_show d
   | A_fw_rx_dropped \<Rightarrow> cf02a_sysfs_fw_rx_dropped_show intf d
   | A_can_state \<Rightarrow> cf02a_sysfs_can_state_show intf d
   | A_reset_fw_statistics \<Rightarrow> Some (Inl (-EIO), d)
   | A_can_clock \<Rightarrow> cf02a_sysfs_can_clock_show d
   | A_bt_prop_seg \<Rightarrow> cf02a_sysfs_bt_prop_seg_show d | A_bt_phase_seg1 \<Rightarrow> cf02a_sysfs_bt_phase_seg1_show d
   | A_bt_phase_seg2 \<Rightarrow> cf02a_sysfs_bt_phase_seg2_show d | A_bt_sjw \<Rightarrow> cf02a_sysfs_bt_sjw_show d
   | A_bt_brp \<Rightarrow> cf02a_sysfs_bt_brp_show d
   | A_dbt_prop_seg \<Rightarrow> cf02a_sysfs_dbt_prop_seg_show d | A_dbt_phase_seg1 \<Rightarrow> cf02a_sysfs_dbt_phase_seg1_show d
   | A_dbt_phase_seg2 \<Rightarrow> cf02a_sysfs_dbt_phase_seg2_show d | A_dbt_sjw \<Rightarrow> cf02a_sysfs_dbt_sjw_show d
   | A_dbt_brp \<Rightarrow> cf02a_sysfs_dbt_brp_show d)"

lemmas sysfs_show_defs =
  sysfs_model_name_show_def sysfs_skipcnt_show_def sysfs_timestamp_mode_show_def
  sysfs_basetime_clock_id_show_def sysfs_firmware_version_show_def sysfs_ch_show_def sysfs_sync_pulse_show_def
  sysfs_datcnt_show_def sysfs_ext_datcnt_show_def sysfs_rtrcnt_show_def sysfs_ext_rtrcnt_show_def
  sysfs_errcnt_show_def sysfs_cnt_timestamp_show_def cf02a_sysfs_store_data_enabled_show_def
  cf02a_sysfs_fw_rx_dropped_show_def cf02a_sysfs_can_state_show_def cf02a_sysfs_can_clock_show_def
  cf02a_sysfs_bt_prop_seg_show_def cf02a_sysfs_bt_phase_seg1_show_def cf02a_sysfs_bt_phase_seg2_show_def
  cf02a_sysfs_bt_sjw_show_def cf02a_sysfs_bt_brp_show_def cf02a_sysfs_dbt_prop_seg_show_def
  cf02a_sysfs_dbt_phase_seg1_show_def cf02a_sysfs_dbt_phase_seg2_show_def cf02a_sysfs_dbt_sjw_show_def
  cf02a_sysfs_dbt_brp_show_def

subsection \<open>The values\<close>

text \<open>\<open>text_line n s\<close>: one line of at most \<open>n\<close> characters, its end included.\<close>

definition text_line :: "nat \<Rightarrow> string \<Rightarrow> bool" where
  "text_line n s \<longleftrightarrow> (\<exists>t. s = t @ newline \<and> CHR 0x0A \<notin> set t \<and> length s \<le> n)"

text \<open>The ranges of the C types behind the members that are integers here.\<close>

definition c_int :: "int \<Rightarrow> bool" where
  "c_int i \<longleftrightarrow> - (2 ^ 31) \<le> i \<and> i < 2 ^ 31"

definition in_c_ranges :: "driver \<Rightarrow> bool" where
  "in_c_ranges d \<longleftrightarrow> c_int (timestamp_mode (dw d)) \<and> c_int (ch (dw d))
     \<and> c_int (fw_major (dw d)) \<and> c_int (fw_minor (dw d)) \<and> c_int (fw_revision (dw d))
     \<and> (\<forall>t \<in> {u_bittiming (du d), u_data_bittiming (du d)}. c_int (bt_prop_seg t) \<and> c_int (bt_phase_seg1 t)
          \<and> c_int (bt_phase_seg2 t) \<and> c_int (bt_sjw t) \<and> c_int (bt_brp t))
     \<and> (\<forall>st \<in> {dat_std, dat_ext, rtr_std, rtr_ext, err}. st_kt (st (summary (dw d))) < 2 ^ 63)"

lemma dec_no_newline: "CHR 0x0A \<notin> set (dec i)"
  using digits_are_digits [of "CHR 0x0A"] by (auto simp: dec_def is_digit_def)

lemma dec_line: "\<bar>i\<bar> < 10 ^ k \<Longrightarrow> 0 < k \<Longrightarrow> text_line (k + 2) (dec i @ newline)"
  using length_dec [of i k] dec_no_newline [of i] by (auto simp: text_line_def newline_def)

lemma text_line_mono: "text_line n s \<Longrightarrow> n \<le> m \<Longrightarrow> text_line m s"
  by (auto simp: text_line_def)

lemma c_int_digits: "c_int i \<Longrightarrow> \<bar>i\<bar> < 10 ^ 10"
  by (auto simp: c_int_def abs_less_iff)

lemma length_c_int: "c_int i \<Longrightarrow> length (dec i) \<le> 11"
  using length_dec [OF c_int_digits] by simp

lemma dec_int_line: "c_int i \<Longrightarrow> text_line 36 (dec i @ newline)"
  using dec_line [OF c_int_digits] text_line_mono by fastforce

lemma dec_u32_line: "text_line 36 (dec (uint (x :: u32)) @ newline)"
proof -
  have "\<bar>uint x\<bar> < 10 ^ 10" using uint_lt2p [of x] by simp
  then show ?thesis using dec_line [of "uint x" 10] text_line_mono [of "10 + 2" _ 36] by simp
qed

lemma dec_u64_line: "text_line 36 (dec (uint (x :: u64)) @ newline)"
proof -
  have "\<bar>uint x\<bar> < 10 ^ 20" using uint_lt2p [of x] by simp
  then show ?thesis using dec_line [of "uint x" 20] text_line_mono [of "20 + 2" _ 36] by simp
qed

lemma c_int_sint: "c_int (sint (x :: u32))"
  using sint_range_size [of x] by (simp add: c_int_def word_size)

lemma newline_name:
  "text_line 36 (model_name p @ newline)" "text_line 36 (can_state_str s @ newline)"
  by (auto simp: text_line_def model_name_def can_state_str_def newline_def split: product.split)

lemma version_line:
  assumes "c_int a" and "c_int b" and "c_int c"
  shows "text_line 36 ((dec a @ ''.'' @ dec b @ ''.'' @ dec c) @ newline)"
  unfolding text_line_def
  using assms [THEN length_c_int] dec_no_newline
  by (intro exI [of _ "dec a @ ''.'' @ dec b @ ''.'' @ dec c"]) (simp add: newline_def)

lemma show_line_iff: "show_line s d = Some (Inr v, d') \<longleftrightarrow> v = s @ newline \<and> d' = d"
  by (auto simp: show_line_def)

lemma checked_iff:
  "get_drvdata d = Some d' \<longleftrightarrow> d' = d \<and> intfdata d \<and> M_dev \<in> held d"
  "get_unique_data d = Some d' \<longleftrightarrow> d' = d \<and> M_unique \<in> held d"
  "deref r d = Some d' \<longleftrightarrow> d' = d \<and> r \<in> held d"
  by (auto simp: get_drvdata_def get_unique_data_def deref_def)

lemma latest: "(if a < b then b else a) = max a (b :: int)"
  by simp

lemma latest_second:
  assumes "in_c_ranges d" and "sysfs_cnt_timestamp_show d = Some (Inr s, d')"
  shows "text_line 36 s"
proof -
  define m where "m = max (max (max (max (max 0 (st_kt (dat_std (summary (dw d))))) (st_kt (dat_ext (summary (dw d)))))
    (st_kt (rtr_std (summary (dw d))))) (st_kt (rtr_ext (summary (dw d))))) (st_kt (err (summary (dw d))))"
  have "0 \<le> m" "m < 2 ^ 63" using assms(1) unfolding m_def in_c_ranges_def by simp_all
  then have "0 \<le> m div 1000000000" "m div 1000000000 < 10 ^ 10" by (simp_all add: div_less_iff_less_mult)
  then have "\<bar>m div 1000000000\<bar> < 10 ^ 10" by simp
  moreover have "sysfs_cnt_timestamp_show d
      = do { d \<leftarrow> get_drvdata d; d \<leftarrow> get_unique_data d; show_line (dec (m div 1000000000)) d }"
    unfolding sysfs_cnt_timestamp_show_def latest Let_def
    by (rule Option.bind_cong [OF refl], rule Option.bind_cong [OF refl]) (simp only: checked_iff m_def)
  then have "s = dec (m div 1000000000) @ newline"
    using assms(2) by (auto simp: show_line_def split: bind_splits)
  ultimately show ?thesis using dec_line [of "m div 1000000000" 10] text_line_mono by fastforce
qed

lemma named_lines:
  "text_line 36 (''CLOCK_MONOTONIC'' @ newline)" "text_line 36 (''CLOCK_MONOTONIC_RAW'' @ newline)"
  "text_line 36 (''source'' @ newline)" "text_line 36 (''external'' @ newline)" "text_line 36 (''0'' @ newline)"
  "text_line 36 (''unknown'' @ newline)" "text_line 36 (dec 0 @ newline)" "text_line 36 (dec 1 @ newline)"
  "text_line 36 (model_name p @ newline)" "text_line 36 (can_state_str s @ newline)"
  using dec_int_line [of 0] dec_int_line [of 1] newline_name
  by (auto simp: text_line_def newline_def c_int_def)

lemma statistics_lines:
  "cf02a_sysfs_fw_rx_dropped_show intf d = Some (v, d') \<Longrightarrow> \<exists>s. v = Inr s \<and> text_line 36 s"
  "cf02a_sysfs_can_state_show intf d = Some (v, d') \<Longrightarrow> \<exists>s. v = Inr s \<and> text_line 36 s"
  using named_lines dec_u32_line
  by (auto simp: cf02a_sysfs_fw_rx_dropped_show_def cf02a_sysfs_can_state_show_def show_line_def Let_def
      split: bind_splits if_splits RESULT.splits option.splits)


definition sysfs_example :: driver where
  "sysfs_example = (driver0 [])\<lparr>held := {M_dev, M_unique}, intfdata := True\<rparr>"


subsection \<open>The clock\<close>

text \<open>What the documentation of \<open>sysfs_streq\<close> promises: equality, but for a newline at the end of one side.\<close>

definition streq_spec :: "(string \<Rightarrow> string \<Rightarrow> bool) \<Rightarrow> bool" where
  "streq_spec streq \<longleftrightarrow> (\<forall>s t. streq s t \<longleftrightarrow> s = t \<or> s = t @ newline \<or> t = s @ newline)"

definition clock_names :: "bool \<Rightarrow> string set" where
  "clock_names monotonic = (if monotonic
     then {''CLOCK_MONOTONIC'', ''clock_monotonic'', ''CLOCK-MONOTONIC'', ''clock-monotonic''}
     else {''CLOCK_MONOTONIC_RAW'', ''clock_monotonic_raw'', ''CLOCK-MONOTONIC-RAW'', ''clock-monotonic-raw''})"

lemma no_newline_at_end: "n \<in> clock_names c \<Longrightarrow> n \<noteq> s @ newline"
  by (auto simp: clock_names_def newline_def split: if_splits)

lemma store_clock:
  assumes "streq_spec streq" and "get_drvdata d = Some d"
  shows "sysfs_basetime_clock_id_store streq d buf n =
    (if buf \<in> clock_names True \<union> (\<lambda>s. s @ newline) ` clock_names True
     then Some (n, d\<lparr>dw := (dw d)\<lparr>clock_monotonic := True\<rparr>\<rparr>)
     else if buf \<in> clock_names False \<union> (\<lambda>s. s @ newline) ` clock_names False
     then Some (n, d\<lparr>dw := (dw d)\<lparr>clock_monotonic := False\<rparr>\<rparr>)
     else Some (-EINVAL, d))"
proof -
  have "streq buf m \<longleftrightarrow> buf = m \<or> buf = m @ newline" if "m \<in> clock_names c" for m c
    using assms(1) no_newline_at_end [OF that] by (auto simp: streq_spec_def)
  note s = this [of _ True] this [of _ False]
  show ?thesis
    using assms(2) s [of "''CLOCK_MONOTONIC''"] s [of "''clock_monotonic''"] s [of "''CLOCK-MONOTONIC''"]
      s [of "''clock-monotonic''"] s [of "''CLOCK_MONOTONIC_RAW''"] s [of "''clock_monotonic_raw''"]
      s [of "''CLOCK-MONOTONIC-RAW''"] s [of "''clock-monotonic-raw''"]
    by (simp add: sysfs_basetime_clock_id_store_def clock_names_def)
qed

text \<open>C38: the clock of the host's time stamps can be set through sysfs and read back. What \<open>show\<close> prints
  is accepted by \<open>store\<close>, with its newline or without, and selects the clock it names, whichever was selected
  before; a \<open>store\<close> that is accepted selects the one clock of which the text is a spelling, and from then on
  time stamps come from it; every other text is refused with \<open>-EINVAL\<close> and changes nothing.\<close>

theorem basetime_clock_id_roundtrip:
  assumes "streq_spec streq" and "intfdata d" and "M_dev \<in> held d" and "intfdata e" and "M_dev \<in> held e"
  shows "(\<forall>s. sysfs_basetime_clock_id_show d = Some (Inr (s @ newline), d) \<longrightarrow>
        (\<forall>buf \<in> {s, s @ newline}. sysfs_basetime_clock_id_store streq e buf n
          = Some (n, e\<lparr>dw := (dw e)\<lparr>clock_monotonic := clock_monotonic (dw d)\<rparr>\<rparr>)))
    \<and> (\<forall>buf. (\<exists>c name. name \<in> clock_names c \<and> buf \<in> {name, name @ newline}
           \<and> (\<exists>e'. sysfs_basetime_clock_id_store streq e buf n = Some (n, e')
                \<and> e' = e\<lparr>dw := (dw e)\<lparr>clock_monotonic := c\<rparr>\<rparr>
                \<and> get_ts64 (dw e') = (if c then mono_now (dw e) else raw_now (dw e))))
         \<or> ((\<forall>c. \<forall>name \<in> clock_names c. buf \<notin> {name, name @ newline})
           \<and> sysfs_basetime_clock_id_store streq e buf n = Some (-EINVAL, e)))"
proof -
  have e: "get_drvdata e = Some e" and d: "get_drvdata d = Some d" using assms(2-5) by (simp_all add: get_drvdata_def)
  note st = store_clock [OF assms(1) e, of _ n]
  have apart: "buf \<notin> clock_names True \<union> (\<lambda>s. s @ newline) ` clock_names True"
    if "buf \<in> clock_names False \<union> (\<lambda>s. s @ newline) ` clock_names False" for buf
    using that by (auto simp: clock_names_def newline_def)
  show ?thesis
  proof (intro conjI allI impI ballI)
    fix s buf
    assume s: "sysfs_basetime_clock_id_show d = Some (Inr (s @ newline), d)" and buf: "buf \<in> {s, s @ newline}"
    then have "s \<in> clock_names (clock_monotonic (dw d))"
      using d by (auto simp: sysfs_basetime_clock_id_show_def show_line_def clock_names_def split: if_splits)
    then have "buf \<in> clock_names (clock_monotonic (dw d)) \<union> (\<lambda>s. s @ newline) ` clock_names (clock_monotonic (dw d))"
      using buf by auto
    then show "sysfs_basetime_clock_id_store streq e buf n
        = Some (n, e\<lparr>dw := (dw e)\<lparr>clock_monotonic := clock_monotonic (dw d)\<rparr>\<rparr>)"
      using apart [of buf] by (cases "clock_monotonic (dw d)") (simp_all add: st)
  next
    fix buf
    consider (names) c name where "name \<in> clock_names c" "buf \<in> {name, name @ newline}"
      | (other) "\<forall>c. \<forall>name \<in> clock_names c. buf \<notin> {name, name @ newline}" by blast
    then show "(\<exists>c name. name \<in> clock_names c \<and> buf \<in> {name, name @ newline}
           \<and> (\<exists>e'. sysfs_basetime_clock_id_store streq e buf n = Some (n, e')
                \<and> e' = e\<lparr>dw := (dw e)\<lparr>clock_monotonic := c\<rparr>\<rparr>
                \<and> get_ts64 (dw e') = (if c then mono_now (dw e) else raw_now (dw e))))
         \<or> ((\<forall>c. \<forall>name \<in> clock_names c. buf \<notin> {name, name @ newline})
           \<and> sysfs_basetime_clock_id_store streq e buf n = Some (-EINVAL, e))"
    proof cases
      case names
      then have "buf \<in> clock_names c \<union> (\<lambda>s. s @ newline) ` clock_names c" by auto
      then have "sysfs_basetime_clock_id_store streq e buf n = Some (n, e\<lparr>dw := (dw e)\<lparr>clock_monotonic := c\<rparr>\<rparr>)"
        using apart [of buf] by (cases c) (simp_all add: st)
      moreover have "get_ts64 (dw (e\<lparr>dw := (dw e)\<lparr>clock_monotonic := c\<rparr>\<rparr>)) = (if c then mono_now (dw e) else raw_now (dw e))"
        by (simp add: get_ts64_def)
      ultimately show ?thesis using names by blast
    next
      case other
      then have "buf \<notin> clock_names c \<union> (\<lambda>s. s @ newline) ` clock_names c" for c by auto
      then show ?thesis using other by (simp add: st)
    qed
  qed
qed

theorem basetime_clock_id_roundtrip_witness:
  "sysfs_basetime_clock_id_store (\<lambda>s t. s = t \<or> s = t @ newline \<or> t = s @ newline) sysfs_example
     (''CLOCK_MONOTONIC_RAW'' @ newline) 20
   = Some (20, sysfs_example\<lparr>dw := (dw sysfs_example)\<lparr>clock_monotonic := False\<rparr>\<rparr>)"
proof -
  have s: "streq_spec (\<lambda>s t. s = t \<or> s = t @ newline \<or> t = s @ newline)" by (simp add: streq_spec_def)
  have d: "intfdata sysfs_example" "M_dev \<in> held sysfs_example" by (simp_all add: sysfs_example_def)
  have "sysfs_basetime_clock_id_show sysfs_example = Some (Inr (''CLOCK_MONOTONIC_RAW'' @ newline), sysfs_example)"
    by (simp add: sysfs_basetime_clock_id_show_def show_line_def get_drvdata_def sysfs_example_def driver0_def world0_def)
  moreover have "clock_monotonic (dw sysfs_example) = False" by (simp add: sysfs_example_def driver0_def world0_def)
  ultimately show ?thesis
    using basetime_clock_id_roundtrip [OF s d d, of 20, THEN conjunct1, rule_format, of "''CLOCK_MONOTONIC_RAW''"
        "''CLOCK_MONOTONIC_RAW'' @ newline"] by simp
qed

subsection \<open>The files\<close>

definition attributes_of :: "product \<Rightarrow> attribute set" where
  "attributes_of p = set common_attributes \<union> (case p of CT2A \<Rightarrow> set unique_can_attributes
     | CH02A \<Rightarrow> set unique_can_attributes | CF02A \<Rightarrow> set cf02a_attributes | AG08A \<Rightarrow> {})"

lemma create_files_subset:
  "create_files as S d = (S', d') \<Longrightarrow> S \<subseteq> S' \<and> S' \<subseteq> S \<union> set as \<and> same d d' \<and> intfdata d' = intfdata d
     \<and> (choices (dw d) = [] \<longrightarrow> S' = S \<union> set as \<and> choices (dw d') = [])"
proof (induction as arbitrary: S d)
  case (Cons a as)
  obtain ok e where a: "ask d = (ok, e)" by (cases "ask d")
  have e: "same d e" "intfdata e = intfdata d" "choices (dw d) = [] \<Longrightarrow> ok \<and> choices (dw e) = []"
    using a ask_same by (auto simp: ask_def may_fail_def split: list.splits)
  have "create_files as (if ok then insert a S else S) e = (S', d')" using Cons.prems a by simp
  from Cons.IH [OF this] e show ?case by (auto intro: same_trans split: if_splits)
qed simp

lemma remove_files_eq: "remove_files as S = S - set as"
  by (induction as arbitrary: S) auto

lemma sysfs_init_files:
  assumes "sysfs_init True {} d = (r, S, d')" and "intfdata d"
  shows "r = RESULT_Success \<and> S \<subseteq> attributes_of (unique_func d) \<and> same d d'
    \<and> (choices (dw d) = [] \<longrightarrow> S = attributes_of (unique_func d))
    \<and> netdev_present (dw d') = netdev_present (dw d)"
proof -
  have net: "netdev_present (dw (snd (create_files as T e))) = netdev_present (dw e)" for as T e
    by (induction as arbitrary: T e) (auto simp: ask_def may_fail_def split: list.splits)
  obtain S1 d1 where 1: "create_files common_attributes {} d = (S1, d1)" by (cases "create_files common_attributes {} d")
  note c1 = create_files_subset [OF 1]
  obtain r2 S2 d2 where 2: "unique_sysfs_init True S1 d1 = (r2, S2, d2)" by (cases "unique_sysfs_init True S1 d1")
  have n1: "netdev_present (dw d1) = netdev_present (dw d)" using net [of common_attributes "{}" d] 1 by simp
  let ?as = "case unique_func d1 of CT2A \<Rightarrow> unique_can_attributes | CH02A \<Rightarrow> unique_can_attributes
    | CF02A \<Rightarrow> cf02a_attributes | AG08A \<Rightarrow> []"
  have 3: "r2 = RESULT_Success" "create_files ?as S1 d1 = (S2, d2)"
    using 2 by (auto simp: unique_sysfs_init_def unique_can_sysfs_init_def cf02a_sysfs_init_def ag08a_sysfs_init_def
        split: product.splits)
  note c2 = create_files_subset [OF 3(2)]
  have n2: "netdev_present (dw d2) = netdev_present (dw d)" using net [of ?as S1 d1] 3(2) n1 by simp
  have u: "unique_func d1 = unique_func d" "intfdata d1" using c1 assms(2) by (simp_all add: same_def)
  then have "r = RESULT_Success" "S = S2" "d' = d2" using assms(1) 1 2 3(1) by (simp_all add: sysfs_init_def)
  moreover have "attributes_of (unique_func d) = set common_attributes \<union> set ?as"
    using u by (simp add: attributes_of_def split: product.split)
  ultimately show ?thesis using c1 c2 n2 by (auto intro: same_trans)
qed

lemma sysfs_term_files:
  assumes "S \<subseteq> attributes_of (unique_func d)" and "intfdata d"
  shows "sysfs_term True S d = (RESULT_Success, {})"
  using assms unfolding sysfs_term_def unique_sysfs_term_def unique_can_sysfs_term_def cf02a_sysfs_term_def
    ag08a_sysfs_term_def attributes_of_def
  by (cases "unique_func d") (auto simp: remove_files_eq)



end
