(* ===== verification/User_Space.thy ===== *)
theory User_Space
  imports Format Fops
begin

text \<open>
  The system under the programs of \<open>tools\<close> and \<open>samples\<close>: system calls on the file of a device, the
  standard output, and the command line.

  \<^item> \<open>sys\<close> is what a program runs on, on a state of any type: the file's operations return a count or a
    negative error number, as the kernel does; \<open>sys_malloc\<close> says whether memory is granted, \<open>sys_stop\<close>
    whether a signal to stop has arrived by now. \<open>None\<close> is a call that does not return.
  \<^item> \<open>proc\<close> is the running program: the system, what has been printed, \<open>errno\<close>, and whether the file is
    open. The calls of the C library return \<open>-1\<close> and set \<open>errno\<close> when the kernel returns an error.
  \<^item> The command line is the sequence of what \<open>getopt\<close> returns, an option's letter and its argument.

  A request that succeeds delivers the structure that its header declares, which the programs rely on:
  the locale \<open>usb_file\<close>. The driver's own dispatcher is an interpretation.
\<close>

subsection \<open>The system\<close>

record 's sys =
  sys_open :: "string \<Rightarrow> 's \<Rightarrow> int \<times> 's"
  sys_close :: "'s \<Rightarrow> 's option"
  sys_ioctl :: "ioctl \<Rightarrow> 's \<Rightarrow> (int \<times> ioctl_out option \<times> 's) option"
  sys_read :: "nat \<Rightarrow> 's \<Rightarrow> (int \<times> u8 list \<times> 's) option"
  sys_write :: "u8 list \<Rightarrow> 's \<Rightarrow> (int \<times> 's) option"
  sys_malloc :: "'s \<Rightarrow> bool \<times> 's"
  sys_sleep :: "'s \<Rightarrow> 's"
  sys_stop :: "'s \<Rightarrow> bool"

record 's proc =
  os :: 's
  stdout :: string
  errno :: int
  fd_open :: bool

abbreviation (input) EXIT_SUCCESS :: int where "EXIT_SUCCESS \<equiv> 0"
abbreviation (input) EXIT_FAILURE :: int where "EXIT_FAILURE \<equiv> 1"
abbreviation (input) EBADF :: int where "EBADF \<equiv> 9"

definition start :: "'s \<Rightarrow> 's proc" where
  "start s = \<lparr>os = s, stdout = [], errno = 0, fd_open = False\<rparr>"

definition print :: "string \<Rightarrow> 's proc \<Rightarrow> 's proc" where
  "print s p = p\<lparr>stdout := stdout p @ s\<rparr>"

definition println :: "string \<Rightarrow> 's proc \<Rightarrow> 's proc" where
  "println s p = print (s @ newline) p"

definition do_open :: "'s sys \<Rightarrow> string \<Rightarrow> 's proc \<Rightarrow> bool \<times> 's proc" where
  "do_open S name p = (let (fd, s) = sys_open S name (os p) in
     if fd < 0 then (False, p\<lparr>os := s, errno := -fd\<rparr>) else (True, p\<lparr>os := s, fd_open := True\<rparr>))"

definition do_close :: "'s sys \<Rightarrow> 's proc \<Rightarrow> 's proc option" where
  "do_close S p = (if \<not> fd_open p then Some (p\<lparr>errno := EBADF\<rparr>)
     else do { s \<leftarrow> sys_close S (os p); Some (p\<lparr>os := s, fd_open := False\<rparr>) })"

definition do_ioctl :: "'s sys \<Rightarrow> ioctl \<Rightarrow> 's proc \<Rightarrow> (int \<times> ioctl_out option \<times> 's proc) option" where
  "do_ioctl S cmd p =
     (if \<not> fd_open p then Some (-1, None, p\<lparr>errno := EBADF\<rparr>)
      else do {
        (r, x, s) \<leftarrow> sys_ioctl S cmd (os p);
        if r < 0 then Some (-1, x, p\<lparr>os := s, errno := -r\<rparr>) else Some (r, x, p\<lparr>os := s\<rparr>)
      })"

definition do_read :: "'s sys \<Rightarrow> nat \<Rightarrow> 's proc \<Rightarrow> (int \<times> u8 list \<times> 's proc) option" where
  "do_read S n p = do {
     (r, bs, s) \<leftarrow> sys_read S n (os p);
     if r < 0 then Some (-1, [], p\<lparr>os := s, errno := -r\<rparr>) else Some (r, bs, p\<lparr>os := s\<rparr>)
   }"

definition do_write :: "'s sys \<Rightarrow> u8 list \<Rightarrow> 's proc \<Rightarrow> (int \<times> 's proc) option" where
  "do_write S bs p = do {
     (r, s) \<leftarrow> sys_write S bs (os p);
     if r < 0 then Some (-1, p\<lparr>os := s, errno := -r\<rparr>) else Some (r, p\<lparr>os := s\<rparr>)
   }"

definition do_malloc :: "'s sys \<Rightarrow> 's proc \<Rightarrow> bool \<times> 's proc" where
  "do_malloc S p = (let (ok, s) = sys_malloc S (os p) in (ok, p\<lparr>os := s\<rparr>))"

definition do_sleep :: "'s sys \<Rightarrow> 's proc \<Rightarrow> 's proc" where
  "do_sleep S p = p\<lparr>os := sys_sleep S (os p)\<rparr>"

definition stop_requested :: "'s sys \<Rightarrow> 's proc \<Rightarrow> bool" where
  "stop_requested S p = sys_stop S (os p)"

text \<open>A system that keeps a record of the requests made on it, with their results and answers.\<close>

type_synonym request_trace = "(ioctl \<times> int \<times> ioctl_out option) list"

definition traced :: "'s sys \<Rightarrow> ('s \<times> request_trace) sys" where
  "traced S =
    \<lparr>sys_open = (\<lambda>name (s, t). let (r, s) = sys_open S name s in (r, (s, t))),
     sys_close = (\<lambda>(s, t). map_option (\<lambda>s. (s, t)) (sys_close S s)),
     sys_ioctl = (\<lambda>cmd (s, t). map_option (\<lambda>(r, x, s). (r, x, (s, t @ [(cmd, r, x)]))) (sys_ioctl S cmd s)),
     sys_read = (\<lambda>n (s, t). map_option (\<lambda>(r, bs, s). (r, bs, (s, t))) (sys_read S n s)),
     sys_write = (\<lambda>bs (s, t). map_option (\<lambda>(r, s). (r, (s, t))) (sys_write S bs s)),
     sys_malloc = (\<lambda>(s, t). let (ok, s) = sys_malloc S s in (ok, (s, t))),
     sys_sleep = (\<lambda>(s, t). (sys_sleep S s, t)),
     sys_stop = (\<lambda>(s, t). sys_stop S s)\<rparr>"

text \<open>The report of a failed request.\<close>

definition ioctl_error :: "string \<Rightarrow> 's proc \<Rightarrow> 's proc" where
  "ioctl_error name p = println (''ioctl().. Error, <errno:'' @ dec (errno p) @ ''> cmd='' @ name) p"

subsection \<open>The command line\<close>

datatype 'o command_line = Usage | Version | Run 'o

text \<open>The loop over the options of the tools: \<open>h\<close> and \<open>v\<close> end it, the others are collected by \<open>opt\<close>.\<close>

fun options :: "(char \<Rightarrow> string \<Rightarrow> 'o \<Rightarrow> 'o) \<Rightarrow> (char \<times> string) list \<Rightarrow> 'o \<Rightarrow> 'o command_line" where
  "options opt [] x = Run x"
| "options opt ((n, arg) # as) x =
     (if n = CHR ''h'' then Usage else if n = CHR ''v'' then Version else options opt as (opt n arg x))"

subsection \<open>What a request delivers\<close>

definition fits :: "(ioctl_out \<Rightarrow> bool) \<Rightarrow> int \<Rightarrow> ioctl_out option \<Rightarrow> bool" where
  "fits f r x \<longleftrightarrow> r = 0 \<and> (case x of None \<Rightarrow> False | Some v \<Rightarrow> f v)"

definition fits_cf02a :: "(cf02a_out \<Rightarrow> bool) \<Rightarrow> int \<Rightarrow> ioctl_out option \<Rightarrow> bool" where
  "fits_cf02a f = fits (\<lambda>v. case v of Out_cf02a v \<Rightarrow> f v | _ \<Rightarrow> False)"

definition cf02a_answer_fits :: "cf02a_ioctl_cmd \<Rightarrow> int \<Rightarrow> ioctl_out option \<Rightarrow> bool" where
  "cf02a_answer_fits cmd r x =
     (if cmd \<in> {CF02A_GET_SILENT_MODE, CF02A_GET_FD_MODE, CF02A_GET_ISO_MODE, CF02A_GET_TX_RX_CONTROL,
                CF02A_GET_STORE_ENABLE}
      then fits_cf02a (\<lambda>v. case v of Out_flag _ \<Rightarrow> True | _ \<Rightarrow> False) r x
      else if cmd \<in> {CF02A_GET_BITRATE, CF02A_GET_DATA_BITRATE}
      then fits_cf02a (\<lambda>v. case v of Out_bitrate _ _ \<Rightarrow> True | _ \<Rightarrow> False) r x
      else if cmd \<in> {CF02A_GET_BIT_TIMING, CF02A_GET_DATA_BIT_TIMING}
      then fits_cf02a (\<lambda>v. case v of Out_timing _ \<Rightarrow> True | _ \<Rightarrow> False) r x
      else case cmd of
        CF02A_GET_DEVICE_TIMESTAMP_RESET_TIME \<Rightarrow> fits_cf02a (\<lambda>v. case v of Out_time _ \<Rightarrow> True | _ \<Rightarrow> False) r x
      | CF02A_GET_RTC_TIME \<Rightarrow> fits_cf02a (\<lambda>v. case v of Out_rtc _ \<Rightarrow> True | _ \<Rightarrow> False) r x
      | CF02A_GET_CURRENT_STORE_DATA_STATE \<Rightarrow> fits_cf02a (\<lambda>v. case v of Out_state _ \<Rightarrow> True | _ \<Rightarrow> False) r x
      | CF02A_GET_STORE_DATA_ID_LIST_COUNT \<Rightarrow> fits_cf02a (\<lambda>v. case v of Out_count _ \<Rightarrow> True | _ \<Rightarrow> False) r x
      | CF02A_GET_STORE_DATA_ID_LIST n \<Rightarrow>
          fits_cf02a (\<lambda>v. case v of Out_ids bs \<Rightarrow> length bs = unat (32 * n) | _ \<Rightarrow> False) r x
      | CF02A_GET_STORE_DATA_META _ \<Rightarrow> fits_cf02a (\<lambda>v. case v of Out_meta _ _ _ _ _ \<Rightarrow> True | _ \<Rightarrow> False) r x
      | CF02A_GET_STORE_DATA_RX_CONTROL \<Rightarrow>
          fits_cf02a (\<lambda>v. case v of Out_rx_control _ _ \<Rightarrow> True | _ \<Rightarrow> False) r x
      | CF02A_READ_STORE_DATA n \<Rightarrow>
          (case x of None \<Rightarrow> r = 0 | Some (Out_cf02a (Out_data bs)) \<Rightarrow> r = int (length bs) \<and> length bs \<le> n | _ \<Rightarrow> False)
      | CF02A_GET_STORE_MAX_DURATION \<Rightarrow> fits_cf02a (\<lambda>v. case v of Out_count _ \<Rightarrow> True | _ \<Rightarrow> False) r x
      | CF02A_other \<Rightarrow> False
      | _ \<Rightarrow> r = 0 \<and> x = None)"

definition can_answer_fits :: "can_ioctl \<Rightarrow> int \<Rightarrow> ioctl_out option \<Rightarrow> bool" where
  "can_answer_fits cmd r x = (case cmd of
     IOCTL_GET_STATUS \<Rightarrow> fits (\<lambda>v. case v of Out_can (Can_status _) \<Rightarrow> True | _ \<Rightarrow> False) r x
   | CH02A_IOCTL_GET_STATUS \<Rightarrow> fits (\<lambda>v. case v of Out_can (Ch02a_status _) \<Rightarrow> True | _ \<Rightarrow> False) r x
   | CH02A_IOCTL_GET_BIT_TIMING \<Rightarrow> fits (\<lambda>v. case v of Out_can (Ch02a_bit_timing _) \<Rightarrow> True | _ \<Rightarrow> False) r x
   | Can_other \<Rightarrow> False
   | _ \<Rightarrow> r = 0 \<and> x = None)"

definition ag08a_answer_fits :: "ag08a_ioctl \<Rightarrow> int \<Rightarrow> ioctl_out option \<Rightarrow> bool" where
  "ag08a_answer_fits cmd r x = (case cmd of
     AG08A_IOCTL_GET_STATUS \<Rightarrow> fits (\<lambda>v. case v of Out_ag08a _ \<Rightarrow> True | _ \<Rightarrow> False) r x
   | AG08A_other \<Rightarrow> False
   | _ \<Rightarrow> r = 0 \<and> x = None)"

definition answer_fits :: "ioctl \<Rightarrow> int \<Rightarrow> ioctl_out option \<Rightarrow> bool" where
  "answer_fits cmd r x = (case cmd of
     IOCTL_GET_DEVICE_ID \<Rightarrow> fits (\<lambda>v. case v of Out_device_id _ _ \<Rightarrow> True | _ \<Rightarrow> False) r x
   | IOCTL_GET_SERIAL_NO \<Rightarrow> fits (\<lambda>v. case v of Out_serial_no _ _ _ \<Rightarrow> True | _ \<Rightarrow> False) r x
   | IOCTL_GET_FW_VERSION \<Rightarrow> fits (\<lambda>v. case v of Out_fw_version _ _ \<Rightarrow> True | _ \<Rightarrow> False) r x
   | IOCTL_GET_FW_VERSION_REVISION \<Rightarrow> fits (\<lambda>v. case v of Out_fw_version_revision _ _ _ \<Rightarrow> True | _ \<Rightarrow> False) r x
   | IOCTL_RESET_TS \<Rightarrow> fits (\<lambda>v. case v of Out_timespec _ \<Rightarrow> True | _ \<Rightarrow> False) r x
   | IOCTL_GET_BASETIME \<Rightarrow> fits (\<lambda>v. case v of Out_timespec _ \<Rightarrow> True | _ \<Rightarrow> False) r x
   | IOCTL_GET_TIMESTAMP_MODE \<Rightarrow> fits (\<lambda>v. case v of Out_timestamp_mode _ \<Rightarrow> True | _ \<Rightarrow> False) r x
   | IOCTL_GET_FIRMWARE_SIZE \<Rightarrow> fits (\<lambda>v. case v of Out_firmware_size _ \<Rightarrow> True | _ \<Rightarrow> False) r x
   | Can_ioctl c \<Rightarrow> can_answer_fits c r x
   | Cf02a_ioctl c \<Rightarrow> cf02a_answer_fits c r x
   | Ag08a_ioctl c \<Rightarrow> ag08a_answer_fits c r x
   | _ \<Rightarrow> r = 0 \<and> x = None)"

subsection \<open>The driver's answers\<close>

text \<open>\<open>gives P r\<close>: if \<open>r\<close> returns and is no error, its result and answer satisfy \<open>P\<close>.\<close>

definition gives :: "(int \<Rightarrow> 'b option \<Rightarrow> bool) \<Rightarrow> (int \<times> 'b option \<times> 'w) option \<Rightarrow> bool" where
  "gives P r \<longleftrightarrow> (\<forall>e x w. r = Some (e, x, w) \<and> 0 \<le> e \<longrightarrow> P e x)"

named_theorems gives_intros "how the steps of a request pass on what is delivered"

lemma gives_error: "e < 0 \<Longrightarrow> gives P (Some (e, x, w))"
  by (simp add: gives_def)

lemma gives_Some [simp]: "gives P (Some (e, x, w)) \<longleftrightarrow> (0 \<le> e \<longrightarrow> P e x)"
  by (simp add: gives_def)

lemma gives_give_user [gives_intros]: "P 0 (Some v) \<Longrightarrow> gives P (give_user v w)"
  by (auto simp: gives_def give_user_def Let_def split: prod.splits if_splits)

lemma gives_take_user [gives_intros]: "(\<And>w. gives P (f v w)) \<Longrightarrow> gives P (take_user v w f)"
  by (auto simp: gives_def take_user_def Let_def split: prod.splits if_splits)

lemma gives_done [gives_intros]: "P 0 None \<Longrightarrow> gives P (done_or_EIO r)"
  by (auto simp: gives_def done_or_EIO_def split: bind_splits if_splits)

lemma gives_result [gives_intros]: "P 0 None \<Longrightarrow> gives P (result_or_EIO r)"
  by (auto simp: gives_def result_or_EIO_def split: bind_splits if_splits)

lemma gives_bind [gives_intros]: "(\<And>y. gives P (f y)) \<Longrightarrow> gives P (r \<bind> f)"
  by (auto simp: gives_def split: bind_splits)

lemma gives_if [gives_intros]: "(b \<Longrightarrow> gives P r) \<Longrightarrow> (\<not> b \<Longrightarrow> gives P s) \<Longrightarrow> gives P (if b then r else s)"
  by simp

lemma gives_prod [gives_intros]: "(\<And>a b. gives P (f a b)) \<Longrightarrow> gives P (case q of (a, b) \<Rightarrow> f a b)"
  by (cases q) simp

lemma gives_let [gives_intros]: "gives P (f v) \<Longrightarrow> gives P (let x = v in f x)"
  by (simp add: Let_def)

lemma gives_option [gives_intros]:
  "gives P r \<Longrightarrow> (\<And>v. gives P (f v)) \<Longrightarrow> gives P (case y of None \<Rightarrow> r | Some v \<Rightarrow> f v)"
  by (cases y) simp_all

lemma gives_answer [gives_intros]: "(\<And>v. P 0 (Some (f v))) \<Longrightarrow> gives P (give_or_EIO r f)"
  unfolding give_or_EIO_def
  by (auto simp: gives_def give_user_def Let_def split: bind_splits prod.splits if_splits RESULT.splits option.splits)

lemma gives_reply [gives_intros]: "(\<And>v. P 0 (Some (f v))) \<Longrightarrow> gives P (reply r f)"
  unfolding reply_def
  by (auto simp: gives_def give_user_def Let_def split: bind_splits prod.splits if_splits RESULT.splits option.splits)

lemma gives_when_stopped [gives_intros]: "(\<And>w. gives P (f w)) \<Longrightarrow> gives P (when_stopped a w f)"
  unfolding when_stopped_def
  by (intro gives_intros) auto

text \<open>The same for the requests that work on the unique data.\<close>

abbreviation (input) without_uq ::
  "(int \<times> 'b option \<times> world \<times> cf02a_unique) option \<Rightarrow> (int \<times> 'b option \<times> world) option" where
  "without_uq r \<equiv> map_option (\<lambda>(e, x, w, _). (e, x, w)) r"

lemma gives_without [gives_intros]:
  "(\<And>e x w uq. r = Some (e, x, w, uq) \<Longrightarrow> 0 \<le> e \<Longrightarrow> P e x) \<Longrightarrow> gives P (without_uq r)"
  by (auto simp: gives_def)

lemma ringbuffer_read_size:
  "ringbuffer_read c r n = Some (k, bs, r') \<Longrightarrow> 0 \<le> k \<Longrightarrow> k = int (length bs) \<and> length bs \<le> n"
  unfolding ringbuffer_read_def Let_def
  by (auto split: if_splits bind_splits dest!: load_length) arith+

lemma gives_read_store_data:
  "gives (\<lambda>e x. case x of None \<Rightarrow> e = 0 | Some (Out_data bs) \<Rightarrow> e = int (length bs) \<and> length bs \<le> n | _ \<Rightarrow> False)
     (cf02a_ioctl_read_store_data c w n)"
  unfolding cf02a_ioctl_read_store_data_def
  apply (intro gives_take_user gives_let gives_prod gives_if gives_error)
     apply simp_all
  apply (rule gives_bind, rule gives_prod)
  subgoal for w result w'
    apply (intro gives_if)
      apply (simp add: gives_def)
     apply (simp add: gives_def)
    apply (auto simp: gives_def Let_def split: bind_splits if_splits prod.splits dest!: ringbuffer_read_size)
    done
  done

lemma read_store_data_ids_length:
  "read_store_data_ids n i w ids = Some (e, ids', w') \<Longrightarrow> length ids' = length ids \<and> e \<le> 0"
proof (induction n i w ids rule: read_store_data_ids.induct)
  case (2 n i w ids)
  then show ?case
    by (auto simp: Let_def split: prod.splits if_splits bind_splits RESULT.splits option.splits dest!: store_length)
qed simp

lemma gives_id_list:
  "gives (\<lambda>e x. e = 0 \<and> (case x of Some (Out_ids bs) \<Rightarrow> length bs = unat (32 * n) | _ \<Rightarrow> False))
     (cf02a_ioctl_get_store_data_id_list w n)"
  unfolding cf02a_ioctl_get_store_data_id_list_def
  apply (intro gives_take_user gives_let gives_prod gives_if gives_error)
   apply simp
  subgoal for w ok w'
    by (auto simp: gives_def give_user_def Let_def split: bind_splits if_splits prod.splits
        dest!: read_store_data_ids_length)
  done

lemma gives_uq:
  "give_timing r = Some (e, x, w, uq) \<Longrightarrow> 0 \<le> e \<Longrightarrow> e = 0 \<and> (\<exists>t. x = Some (Out_timing t))"
  "timing_done r' = Some (e, x, w, uq) \<Longrightarrow> 0 \<le> e \<Longrightarrow> e = 0 \<and> x = None"
  "ioctl_get_rate r = Some (e, x, w, uq) \<Longrightarrow> 0 \<le> e \<Longrightarrow> e = 0 \<and> (\<exists>a b. x = Some (Out_bitrate a b))"
  by (auto simp: give_timing_def timing_done_def ioctl_get_rate_def give_user_def Let_def
      split: bind_splits prod.splits if_splits RESULT.splits option.splits)

lemma take_user_uq_gives:
  assumes "take_user_uq v w uq f = Some (e, x, w', uq')" and "0 \<le> e"
  shows "\<exists>w1. f v w1 = Some (e, x, w', uq')"
  using assms by (auto simp: take_user_uq_def Let_def split: prod.splits if_splits)

lemma set_rate_gives:
  "cf02a_ioctl_set_bitrate w uq b s = Some (e, x, w', uq') \<Longrightarrow> 0 \<le> e \<Longrightarrow> e = 0 \<and> x = None"
  "cf02a_ioctl_set_data_bitrate w uq b s = Some (e, x, w', uq') \<Longrightarrow> 0 \<le> e \<Longrightarrow> e = 0 \<and> x = None"
  "cf02a_ioctl_set_bit_timing w uq t = Some (e, x, w', uq') \<Longrightarrow> 0 \<le> e \<Longrightarrow> e = 0 \<and> x = None"
  "cf02a_ioctl_set_data_bit_timing w uq t = Some (e, x, w', uq') \<Longrightarrow> 0 \<le> e \<Longrightarrow> e = 0 \<and> x = None"
  unfolding cf02a_ioctl_set_bitrate_def cf02a_ioctl_set_data_bitrate_def cf02a_ioctl_set_bit_timing_def
    cf02a_ioctl_set_data_bit_timing_def
  by (auto dest!: take_user_uq_gives gives_uq(2) split: bind_splits prod.splits RESULT.splits option.splits)

lemmas cf02a_request_defs =
  cf02a_ioctl_get_silent_mode_def cf02a_ioctl_set_silent_mode_def cf02a_ioctl_get_fd_mode_def
  cf02a_ioctl_set_fd_mode_def cf02a_ioctl_get_iso_mode_def cf02a_ioctl_set_iso_mode_def
  cf02a_ioctl_get_tx_rx_control_def cf02a_ioctl_set_tx_rx_control_def
  cf02a_ioctl_get_device_timestamp_reset_time_def cf02a_ioctl_set_host_timestamp_reset_time_def
  cf02a_ioctl_get_rtc_time_def cf02a_ioctl_set_rtc_time_def cf02a_ioctl_get_current_store_data_state_def
  cf02a_ioctl_get_store_data_id_list_count_def cf02a_ioctl_get_store_data_meta_def
  cf02a_ioctl_get_store_data_rx_control_def cf02a_ioctl_set_store_data_rx_control_def
  cf02a_ioctl_delete_store_data_def cf02a_ioctl_init_store_data_media_def cf02a_ioctl_get_store_enable_def
  cf02a_ioctl_set_store_enable_def cf02a_ioctl_get_store_max_duration_def cf02a_ioctl_set_store_max_duration_def
  cf02a_ioctl_get_bitrate_def cf02a_ioctl_get_data_bitrate_def cf02a_ioctl_get_bit_timing_def
  cf02a_ioctl_get_data_bit_timing_def

lemmas fits_defs = fits_def fits_cf02a_def

lemma gives_mono: "gives P r \<Longrightarrow> (\<And>e x. P e x \<Longrightarrow> Q e x) \<Longrightarrow> gives Q r"
  by (simp add: gives_def)

lemma without_with [simp]: "without_uq (with_uq uq r) = r"
  by (cases r) (auto simp: with_uq_def)

lemma cf02a_ioctl_fits:
  "gives (\<lambda>e x. cf02a_answer_fits cmd e (map_option Out_cf02a x)) (without_uq (cf02a_ioctl sched c w uq cmd))"
proof (cases "cmd \<in> {CF02A_GET_BITRATE, CF02A_GET_DATA_BITRATE, CF02A_GET_BIT_TIMING, CF02A_GET_DATA_BIT_TIMING}
    \<or> (\<exists>b s. cmd \<in> {CF02A_SET_BITRATE b s, CF02A_SET_DATA_BITRATE b s})
    \<or> (\<exists>t. cmd \<in> {CF02A_SET_BIT_TIMING t, CF02A_SET_DATA_BIT_TIMING t})")
  case True
  then show ?thesis
    by (auto intro!: gives_without simp: cf02a_ioctl_def cf02a_request_defs cf02a_answer_fits_def fits_defs
        dest!: gives_uq(1) gives_uq(3) set_rate_gives)
next
  case False
  show ?thesis
  proof (cases cmd)
    case (CF02A_READ_STORE_DATA n)
    show ?thesis
      unfolding CF02A_READ_STORE_DATA cf02a_ioctl_def cf02a_ioctl_cmd.case without_with
      by (rule gives_mono [OF gives_read_store_data])
        (auto simp: cf02a_answer_fits_def split: option.splits cf02a_out.splits)
  next
    case (CF02A_GET_STORE_DATA_ID_LIST n)
    show ?thesis
      unfolding CF02A_GET_STORE_DATA_ID_LIST cf02a_ioctl_def cf02a_ioctl_cmd.case without_with
      by (rule gives_mono [OF gives_id_list])
        (auto simp: cf02a_answer_fits_def fits_defs split: option.splits cf02a_out.splits)
  next
    case CF02A_other
    then show ?thesis by (simp add: cf02a_ioctl_def gives_def)
  next
    case (CF02A_SET_TX_RX_CONTROL on)
    show ?thesis
      by (simp add: CF02A_SET_TX_RX_CONTROL cf02a_ioctl_def cf02a_request_defs)
        (intro gives_intros; simp add: cf02a_answer_fits_def fits_defs)
  qed (use False in simp_all,
      simp_all add: cf02a_ioctl_def cf02a_request_defs,
      (rule gives_intros conjI impI | simp add: cf02a_answer_fits_def fits_defs meta_out_def)+)
qed

lemma unique_can_ioctl_fits:
  "gives (\<lambda>e x. can_answer_fits cmd e (map_option Out_can x)) (unique_can_ioctl w st cmd)"
  by (cases cmd; simp add: unique_can_ioctl_def; (rule gives_intros conjI impI | simp add: can_answer_fits_def fits_defs)+)

lemma ch02a_ioctl_fits:
  "gives (\<lambda>e x. can_answer_fits cmd e (map_option Out_can x)) (ch02a_ioctl w st cst cmd)"
  by (cases cmd; simp add: ch02a_ioctl_def unique_can_ioctl_fits; (rule gives_intros conjI impI | simp add: can_answer_fits_def fits_defs)+)

lemma ag08a_ioctl_fits:
  "gives (\<lambda>e x. ag08a_answer_fits cmd e (map_option Out_ag08a x)) (ag08a_ioctl w st cmd)"
  by (cases cmd; simp add: ag08a_ioctl_def; (rule gives_intros conjI impI | simp add: ag08a_answer_fits_def fits_defs)+)

lemma gives_map:
  "gives (\<lambda>e x. P e (map_option f x)) r \<Longrightarrow> gives P (map_option (\<lambda>(e, x, w). (e, map_option f x, w)) r)"
  by (auto simp: gives_def)

lemma common_ioctl_fits:
  "gives (answer_fits cmd) (common_ioctl a w cmd)"
  by (cases cmd; simp add: common_ioctl_def; (rule gives_intros conjI impI | simp add: answer_fits_def fits_defs split: prod.split)+)

lemma ringbuffer_rawread_size:
  "ringbuffer_rawread r n = Some (k, bs, r') \<Longrightarrow> k = int (length bs) \<and> length bs \<le> n"
  unfolding ringbuffer_rawread_def Let_def
  by (auto split: if_splits bind_splits dest!: load_length)

lemma wait_event_interruptible_result:
  "wait_event_interruptible ready w us = Some (e, w') \<Longrightarrow> e \<le> 0"
proof (induction ready w us rule: wait_event_interruptible.induct)
  case (1 ready w us)
  from "1.prems" show ?case
    by (subst (asm) wait_event_interruptible.simps) (auto dest: "1.IH" split: if_splits list.splits bind_splits)
qed

lemma usbtrx_read_size:
  assumes "usbtrx_read c w p n = Some (r, bs, w')" and "0 \<le> r"
  shows "r = int (length bs) \<and> length bs \<le> n"
proof -
  have host: "r = int (length bs) \<and> length bs \<le> n" if "read_host v n = Some (r, bs, w')" for v
  proof -
    define m where "m = (if n < ringbuffer_get_used_size (rx_data v) then n else ringbuffer_get_used_size (rx_data v))"
    have m: "m \<le> n" by (simp add: m_def)
    show ?thesis
      using that assms(2) m unfolding read_host_def Let_def m_def [symmetric]
      by (auto split: bind_splits if_splits prod.splits option.splits dest!: ringbuffer_rawread_size load_length)
  qed
  show ?thesis
    using assms host unfolding usbtrx_read_def Let_def
    by (auto split: bind_splits if_splits dest!: ringbuffer_read_size wait_event_interruptible_result)
qed

lemma driver_answers:
  assumes "usbtrx_ioctl a w uq p cmd = Some (r, x, w', uq')" and "0 \<le> r"
  shows "answer_fits cmd r x"
proof -
  have other: "gives (answer_fits cmd) (without_uq (unique_ioctl a w uq cmd))"
    if "cmd = Can_ioctl c1 \<or> cmd = Cf02a_ioctl c2 \<or> cmd = Ag08a_ioctl c3" for c1 c2 c3
  proof (cases "product w")
    case CT2A
    show ?thesis
      using that unique_can_ioctl_fits [of c1 w "ia_status a"] unique_can_ioctl_fits [of Can_other w "ia_status a"]
      by (auto simp: gives_def unique_ioctl_def CT2A answer_fits_def can_answer_fits_def [of Can_other])
  next
    case CH02A
    show ?thesis
      using that ch02a_ioctl_fits [of c1 w "ia_status a" "ia_ch_status a"]
        ch02a_ioctl_fits [of Can_other w "ia_status a" "ia_ch_status a"]
      by (auto simp: gives_def unique_ioctl_def CH02A answer_fits_def can_answer_fits_def [of Can_other])
  next
    case CF02A
    show ?thesis
      using that cf02a_ioctl_fits [of c2 "ia_schedule a" "ia_copy_to_user a" w uq]
        cf02a_ioctl_fits [of CF02A_other "ia_schedule a" "ia_copy_to_user a" w uq]
      by (auto simp: gives_def unique_ioctl_def CF02A answer_fits_def cf02a_answer_fits_def [of CF02A_other])
  next
    case AG08A
    show ?thesis
      using that ag08a_ioctl_fits [of c3 w "ia_ag_status a"] ag08a_ioctl_fits [of AG08A_other w "ia_ag_status a"]
      by (auto simp: gives_def unique_ioctl_def AG08A answer_fits_def ag08a_answer_fits_def [of AG08A_other])
  qed
  have common: "gives (answer_fits cmd) (common_ioctl a w cmd)" by (rule common_ioctl_fits)
  show ?thesis
  proof (cases "p \<and> \<not> onopening w \<and> \<not> onclosing w")
    case True
    then show ?thesis
      using assms other common
      by (cases cmd) (simp_all add: usbtrx_ioctl_def gives_def; metis)+
  next
    case False
    then show ?thesis using assms by (auto simp: usbtrx_ioctl_def split: if_splits)
  qed
qed

text \<open>A system whose file answers as declared, and never reads more than there is room for.\<close>

locale usb_file =
  fixes S :: "'s sys"
  assumes answers: "sys_ioctl S cmd s = Some (r, x, s') \<Longrightarrow> 0 \<le> r \<Longrightarrow> answer_fits cmd r x"
    and reads: "sys_read S n s = Some (k, bs, s') \<Longrightarrow> 0 \<le> k \<Longrightarrow> k = int (length bs) \<and> length bs \<le> n"
begin

lemma ioctl_fits:
  assumes "do_ioctl S cmd p = Some (r, x, p')"
  shows "r = -1 \<or> (0 \<le> r \<and> answer_fits cmd r x)"
proof (cases "fd_open p")
  case True
  then show ?thesis using assms by (auto simp: do_ioctl_def split: bind_splits if_splits dest: answers)
qed (use assms in \<open>simp add: do_ioctl_def\<close>)

lemma read_fits:
  assumes "do_read S n p = Some (r, bs, p')"
  shows "(r = -1 \<and> bs = []) \<or> (r = int (length bs) \<and> length bs \<le> n)"
  using assms by (auto simp: do_read_def split: bind_splits if_splits dest: reads)

end

text \<open>The driver as the system under a program. A device is found when its file is opened.\<close>

definition driver_sys :: "ioctl_args \<Rightarrow> (world \<times> cf02a_unique) sys" where
  "driver_sys a =
    \<lparr>sys_open = (\<lambda>_ (w, uq). let (r, w) = usbtrx_open w True True in (r, (w, uq))),
     sys_close = (\<lambda>(w, uq). map_option (\<lambda>(_, w). (w, uq)) (usbtrx_release w True)),
     sys_ioctl = (\<lambda>cmd (w, uq). map_option (\<lambda>(r, x, w, uq). (r, x, (w, uq))) (usbtrx_ioctl a w uq True cmd)),
     sys_read = (\<lambda>n (w, uq). map_option (\<lambda>(r, bs, w). (r, bs, (w, uq))) (usbtrx_read (ia_copy_to_user a) w True n)),
     sys_write = (\<lambda>bs (w, uq). map_option (\<lambda>(r, w). (r, (w, uq))) (usbtrx_write w True (Some bs) (length bs))),
     sys_malloc = (\<lambda>(w, uq). let (ok, w) = may_fail w in (ok, (w, uq))),
     sys_sleep = (\<lambda>s. s),
     sys_stop = (\<lambda>_. False)\<rparr>"

interpretation usb: usb_file "driver_sys a" for a
  by unfold_locales (auto simp: driver_sys_def dest: driver_answers usbtrx_read_size split: prod.splits)

text \<open>Keeping a record changes no answer.\<close>

lemma usb_file_traced: "usb_file S \<Longrightarrow> usb_file (traced S)"
  unfolding usb_file_def by (auto simp: traced_def; metis)

interpretation logged: usb_file "traced (driver_sys a)" for a
  by (rule usb_file_traced) (rule usb.usb_file_axioms)

definition log :: "('s \<times> request_trace) proc \<Rightarrow> request_trace" where
  "log p = snd (os p)"

lemma ioctl_logged:
  assumes "do_ioctl (traced S) cmd p = Some (r, x, p')" and "fd_open p"
  shows "fd_open p' \<and> (\<exists>e. log p' = log p @ [(cmd, e, x)] \<and> r = (if e < 0 then -1 else e))"
proof -
  obtain s l where s: "os p = (s, l)" by fastforce
  then obtain e s' where "sys_ioctl S cmd s = Some (e, x, s')" and "os p' = (s', l @ [(cmd, e, x)])"
    and "fd_open p'" and "r = (if e < 0 then -1 else e)"
    using assms by (fastforce simp: do_ioctl_def traced_def split: bind_splits if_splits)
  then show ?thesis using s by (auto simp: log_def)
qed

lemma close_logged: "do_close (traced S) p = Some p' \<Longrightarrow> log p' = log p"
  by (cases "os p") (auto simp: do_close_def traced_def log_def split: if_splits bind_splits)

lemma malloc_logged: "do_malloc (traced S) p = (ok, p') \<Longrightarrow> log p' = log p \<and> fd_open p' = fd_open p"
  by (cases "os p") (auto simp: do_malloc_def traced_def log_def split: prod.splits)

lemma print_keeps [simp]:
  "os (print s p) = os p" "os (println s p) = os p" "fd_open (print s p) = fd_open p" "fd_open (println s p) = fd_open p"
  by (simp_all add: print_def println_def)

lemma print_log [simp]: "log (print s p) = log p" "log (println s p) = log p"
  by (simp_all add: log_def)

subsection \<open>Properties\<close>



end
