(* ===== verification/Tools.thy ===== *)
theory Tools
  imports User_Space
begin

text \<open>
  The small tools: \<open>tools/apt_usbtrx_resetts\<close>, \<open>apt_usbtrx_serial_no\<close>, \<open>apt_usbtrx_resetdevice\<close>,
  \<open>apt_usbtrx_enablets\<close>, \<open>tools/ep1_cf02a/ep1_cf02a_get_rtc_time\<close>, \<open>ep1_cf02a_set_rtc_time\<close>,
  \<open>ep1_cf02a_init_store_data_media\<close> and \<open>ep1_cf02a_set_host_resetts\<close>; and the deletion of recordings,
  \<open>ep1_cf02a_delete_store_data\<close>.

  They share one shape, \<open>tool\<close>: read the command line, open the device, make a request. A program is a
  function of what \<open>getopt\<close> returns and the process to the exit code and the process. An answer of the
  wrong form is undefined; \<open>usb_file\<close> excludes it.
\<close>

unbundle bit_operations_syntax

subsection \<open>The shape of a tool\<close>

definition usage_lines :: "string \<Rightarrow> string \<Rightarrow> string list \<Rightarrow> string" where
  "usage_lines name args ls = ''usage: '' @ name @ args @ newline @ ''options: '' @ newline @ concat (map (\<lambda>l. l @ newline) ls)"

definition usage :: "string \<Rightarrow> string" where
  "usage name = usage_lines name '' [-f <dev name>] [-h] [-v]''
     [''  -f DEV_NAME,      Set device name'', ''  -h,               This help text'',
      ''  -v,               Show version number'']"

definition version :: "string \<Rightarrow> string" where
  "version name = name @ '' ver 1.0.0'' @ newline"

definition device_option :: "char \<Rightarrow> string \<Rightarrow> string option \<Rightarrow> string option" where
  "device_option n arg dev = (if n = CHR ''f'' then Some arg else dev)"

text \<open>From the opening of the device on.\<close>

definition with_device ::
  "'s sys \<Rightarrow> string \<Rightarrow> ('s proc \<Rightarrow> (int \<times> 's proc) option) \<Rightarrow> 's proc \<Rightarrow> (int \<times> 's proc) option" where
  "with_device S dev f p =
     (let (ok, p) = do_open S dev p in
      if \<not> ok then Some (EXIT_FAILURE,
        println (''open().. Error, <errno:'' @ dec (errno p) @ ''> devname='' @ dev) p)
      else f p)"

definition tool ::
  "'s sys \<Rightarrow> string \<Rightarrow> ('s proc \<Rightarrow> (int \<times> 's proc) option) \<Rightarrow> (char \<times> string) list \<Rightarrow> 's proc \<Rightarrow>
     (int \<times> 's proc) option" where
  "tool S name f args p = (case options device_option args None of
     Usage \<Rightarrow> Some (EXIT_SUCCESS, print (usage name) p)
   | Version \<Rightarrow> Some (EXIT_SUCCESS, print (version name) p)
   | Run None \<Rightarrow> Some (EXIT_SUCCESS, print (usage name) p)
   | Run (Some dev) \<Rightarrow> with_device S dev f p)"

text \<open>The request of a tool; the file stays open when it fails. \<open>report\<close> prints what it delivers.\<close>

definition request ::
  "'s sys \<Rightarrow> ioctl \<Rightarrow> string \<Rightarrow> (ioctl_out option \<Rightarrow> 's proc \<Rightarrow> 's proc option) \<Rightarrow> 's proc \<Rightarrow>
     (int \<times> 's proc) option" where
  "request S cmd name report p = do {
     (r, x, p) \<leftarrow> do_ioctl S cmd p;
     if r = -1 then Some (EXIT_FAILURE, ioctl_error name p)
     else do { p \<leftarrow> report x p; p \<leftarrow> do_close S p; Some (EXIT_SUCCESS, p) }
   }"

subsection \<open>The small tools\<close>

definition resetts :: "'s sys \<Rightarrow> (char \<times> string) list \<Rightarrow> 's proc \<Rightarrow> (int \<times> 's proc) option" where
  "resetts S = tool S ''apt_usbtrx_resetts'' (request S IOCTL_RESET_TS ''RESET_TS'' (\<lambda>x p. case x of
     Some (Out_timespec t) \<Rightarrow> Some (println (''basetime: '' @ dec (tv_sec t) @ ''.'' @ dec0 9 (tv_nsec t)) p)
   | _ \<Rightarrow> None))"

definition resetdevice :: "'s sys \<Rightarrow> (char \<times> string) list \<Rightarrow> 's proc \<Rightarrow> (int \<times> 's proc) option" where
  "resetdevice S = tool S ''apt_usbtrx_resetdevice'' (request S IOCTL_RESET_DEVICE ''RESET_TS'' (\<lambda>_. Some))"

definition enablets :: "'s sys \<Rightarrow> (char \<times> string) list \<Rightarrow> 's proc \<Rightarrow> (int \<times> 's proc) option" where
  "enablets S = tool S ''apt_usbtrx_enablets'' (request S IOCTL_ENABLE_RESET_TS ''ENABLE_RESET_TS'' (\<lambda>_. Some))"

definition weekday_to_string :: "int \<Rightarrow> string" where
  "weekday_to_string d = (if d = 1 then ''Mon'' else if d = 2 then ''Tue'' else if d = 3 then ''Wed''
     else if d = 4 then ''Thu'' else if d = 5 then ''Fri'' else if d = 6 then ''Sat'' else if d = 7 then ''Sun''
     else ''XXX'')"

definition rtc_to_string :: "cf02a_rtc_time \<Rightarrow> string" where
  "rtc_to_string t = dec0 4 (2000 + uint (year t)) @ ''-'' @ dec0 2 (uint (month t)) @ ''-'' @ dec0 2 (uint (date t))
     @ '' '' @ dec0 2 (uint (hour t)) @ '':'' @ dec0 2 (uint (minute t)) @ '' '' @ dec0 2 (uint (second t))
     @ ''.'' @ dec0 6 (sint (microsecond t))"

definition get_rtc_time :: "'s sys \<Rightarrow> (char \<times> string) list \<Rightarrow> 's proc \<Rightarrow> (int \<times> 's proc) option" where
  "get_rtc_time S = tool S ''ep1_cf02a_get_rtc_time''
     (request S (Cf02a_ioctl CF02A_GET_RTC_TIME) ''EP1_CF02A_IOCTL_GET_RTC_TIME'' (\<lambda>x p. case x of
       Some (Out_cf02a (Out_rtc t)) \<Rightarrow> Some (println (''Get RTC Time(UTC): '' @ rtc_to_string t @ '' ''
         @ weekday_to_string (uint (weekday t))) p)
     | _ \<Rightarrow> None))"

definition set_rtc_time :: "'s sys \<Rightarrow> (char \<times> string) list \<Rightarrow> 's proc \<Rightarrow> (int \<times> 's proc) option" where
  "set_rtc_time S = tool S ''ep1_cf02a_set_rtc_time''
     (request S (Cf02a_ioctl CF02A_SET_RTC_TIME) ''EP1_CF02A_IOCTL_SET_RTC_TIME'' (\<lambda>_. Some))"

definition init_store_data_media :: "'s sys \<Rightarrow> (char \<times> string) list \<Rightarrow> 's proc \<Rightarrow> (int \<times> 's proc) option" where
  "init_store_data_media S = tool S ''ep1_cf02a_init_store_data_media''
     (request S (Cf02a_ioctl CF02A_INIT_STORE_DATA_MEDIA) ''EP1_CF02A_IOCTL_INIT_STORE_DATA_MEDIA''
       (\<lambda>_ p. Some (println ''Successfully initialized store data media.'' p)))"

definition set_host_resetts :: "'s sys \<Rightarrow> (char \<times> string) list \<Rightarrow> 's proc \<Rightarrow> (int \<times> 's proc) option" where
  "set_host_resetts S = tool S ''ep1_cf02a_set_host_resetts''
     (request S (Cf02a_ioctl CF02A_SET_HOST_TIMESTAMP_RESET_TIME) ''EP1_CF02A_IOCTL_SET_HOST_TIMESTAMP_RESET_TIME''
       (\<lambda>_. Some))"

subsection \<open>Who the device is\<close>

abbreviation (input) SHOWFLG_CHANNEL :: u8 where "SHOWFLG_CHANNEL \<equiv> 1"
abbreviation (input) SHOWFLG_SYNCPULSE :: u8 where "SHOWFLG_SYNCPULSE \<equiv> 2"
abbreviation (input) SHOWFLG_SERIALNO :: u8 where "SHOWFLG_SERIALNO \<equiv> 4"

definition char_of_u8 :: "u8 \<Rightarrow> char" where
  "char_of_u8 b = char_of (unat b)"

text \<open>A string of C in an array.\<close>

definition c_string :: "u8 list \<Rightarrow> string" where
  "c_string bs = map char_of_u8 (takeWhile (\<lambda>b. b \<noteq> 0) bs)"

definition serial_no_usage :: string where
  "serial_no_usage = usage_lines ''apt_usbtrx_serial_no'' '' [-f <dev name>] [-h] [-v] [-s]''
     [''  -f DEV_NAME,      Set device name'', ''  -h,               This help text'',
      ''  -v,               Show version number'', ''  -c,               Show channel'',
      ''  -s,               Show serial no'', ''  -p,               Show synchronization pulse'']"

definition serial_no_option :: "char \<Rightarrow> string \<Rightarrow> string option \<times> u8 \<Rightarrow> string option \<times> u8" where
  "serial_no_option n arg = (\<lambda>(dev, showflg).
     if n = CHR ''f'' then (Some arg, showflg)
     else if n = CHR ''c'' then (dev, showflg OR SHOWFLG_CHANNEL)
     else if n = CHR ''p'' then (dev, showflg OR SHOWFLG_SYNCPULSE)
     else if n = CHR ''s'' then (dev, showflg OR SHOWFLG_SERIALNO)
     else (dev, showflg))"

definition show_serial_no :: "u8 \<Rightarrow> int \<Rightarrow> int \<Rightarrow> u8 list \<Rightarrow> 's proc \<Rightarrow> 's proc" where
  "show_serial_no showflg c pulse sn p =
     (let p = (if showflg AND SHOWFLG_CHANNEL \<noteq> 0 then println (dec c) p else p);
          p = (if showflg AND SHOWFLG_SYNCPULSE \<noteq> 0
               then println (if pulse = 0 then ''source'' else ''external'') p else p) in
      if showflg AND SHOWFLG_SERIALNO \<noteq> 0 then println (c_string (take 14 sn)) p else p)"

definition get_serial_no_tool :: "'s sys \<Rightarrow> (char \<times> string) list \<Rightarrow> 's proc \<Rightarrow> (int \<times> 's proc) option" where
  "get_serial_no_tool S args p = (case options serial_no_option args (None, 0) of
     Usage \<Rightarrow> Some (EXIT_SUCCESS, print serial_no_usage p)
   | Version \<Rightarrow> Some (EXIT_SUCCESS, print (version ''apt_usbtrx_serial_no'') p)
   | Run (None, _) \<Rightarrow> Some (EXIT_SUCCESS, print serial_no_usage p)
   | Run (Some dev, showflg) \<Rightarrow> with_device S dev (request S IOCTL_GET_SERIAL_NO ''GET_SERIAL_NO'' (\<lambda>x p. case x of
       Some (Out_serial_no c pulse sn) \<Rightarrow> Some (show_serial_no showflg c pulse sn p)
     | _ \<Rightarrow> None)) p)"

subsection \<open>The list of recordings\<close>

text \<open>Memory for the list: \<open>None\<close> is \<open>NULL\<close>. The kernel writes the identifiers into it, and behind it if there
  were more. The size is a product of 32 bits.\<close>

definition alloc_store_data_id_list :: "'s sys \<Rightarrow> u32 \<Rightarrow> 's proc \<Rightarrow> u32 \<times> u8 list option \<times> 's proc" where
  "alloc_store_data_id_list S count p = (let (ok, p) = do_malloc S p in
     if ok then (count, Some (replicate (unat (32 * count)) 0), p) else (0, None, p))"

definition get_store_data_id_list ::
  "'s sys \<Rightarrow> bool \<Rightarrow> 's proc \<Rightarrow> (RESULT \<times> u32 \<times> u8 list option \<times> 's proc) option" where
  "get_store_data_id_list S verbose p = do {
     (r, x, p) \<leftarrow> do_ioctl S (Cf02a_ioctl CF02A_GET_STORE_DATA_ID_LIST_COUNT) p;
     if r \<noteq> 0 then Some (RESULT_Failure, 0, None, p)
     else case x of
       Some (Out_cf02a (Out_count count)) \<Rightarrow>
         if count = 0 then Some (RESULT_Success, 0, None, p)
         else do {
           let (count, ids, p) = alloc_store_data_id_list S count p;
           let p = (if verbose then println ''get store data id list...''
             (println (''             store data count: '' @ dec (sint count)) p) else p);
           (r, x, p) \<leftarrow> do_ioctl S (Cf02a_ioctl (CF02A_GET_STORE_DATA_ID_LIST count)) p;
           if r \<noteq> 0 then Some (RESULT_Failure, count, None, p)
           else case (x, ids) of
             (Some (Out_cf02a (Out_ids bs)), Some m) \<Rightarrow> do { m \<leftarrow> store m 0 bs; Some (RESULT_Success, count, Some m, p) }
           | (Some (Out_cf02a (Out_ids bs)), None) \<Rightarrow> if bs = [] then Some (RESULT_Success, count, None, p) else None
           | _ \<Rightarrow> None
         }
     | _ \<Rightarrow> None
   }"

definition id_at :: "u8 list option \<Rightarrow> nat \<Rightarrow> u8 list option" where
  "id_at ids i = (case ids of None \<Rightarrow> None | Some m \<Rightarrow> load m (32 * i) 32)"

subsection \<open>Deleting recordings\<close>

definition bytes_of_string :: "string \<Rightarrow> u8 list" where
  "bytes_of_string s = map of_char s @ [0]"

definition stop_storing :: "'s sys \<Rightarrow> 's proc \<Rightarrow> (int \<times> 's proc) option" where
  "stop_storing S p = do {
     (r, _, p) \<leftarrow> do_ioctl S (Cf02a_ioctl (CF02A_SET_TX_RX_CONTROL True)) p;
     if r = -1 then do { p \<leftarrow> do_close S p; Some (EXIT_FAILURE, p) }
     else do {
       (r, _, p) \<leftarrow> do_ioctl S (Cf02a_ioctl (CF02A_SET_TX_RX_CONTROL False)) p;
       if r = -1 then Some (EXIT_FAILURE, p) else Some (EXIT_SUCCESS, p)
     }
   }"

definition add_delete_id :: "'s sys \<Rightarrow> u8 list \<Rightarrow> u8 list list \<Rightarrow> 's proc \<Rightarrow> int \<times> u8 list list \<times> 's proc" where
  "add_delete_id S ident delete_ids p = (let (ok, p) = do_malloc S p in
     if \<not> ok then (EXIT_FAILURE, delete_ids, println (''realloc().. Error, <errno:'' @ dec (errno p) @ ''>'') p)
     else (EXIT_SUCCESS, delete_ids @ [strncpy 31 ident @ [0]], p))"

text \<open>The loop over the list; \<open>n\<close> entries are left from \<open>i\<close> on.\<close>

fun add_delete_ids ::
  "'s sys \<Rightarrow> nat \<Rightarrow> nat \<Rightarrow> u8 list option \<Rightarrow> u8 list list \<Rightarrow> 's proc \<Rightarrow> (int \<times> u8 list list \<times> 's proc) option" where
  "add_delete_ids S 0 i ids delete_ids p = Some (EXIT_SUCCESS, delete_ids, p)"
| "add_delete_ids S (Suc n) i ids delete_ids p = do {
     ident \<leftarrow> id_at ids i;
     let (r, delete_ids, p) = add_delete_id S ident delete_ids p;
     if r \<noteq> 0 then Some (EXIT_FAILURE, delete_ids, p) else add_delete_ids S n (Suc i) ids delete_ids p
   }"

definition add_delete_id_all :: "'s sys \<Rightarrow> 's proc \<Rightarrow> (int \<times> u8 list list \<times> 's proc) option" where
  "add_delete_id_all S p = do {
     (result, count, ids, p) \<leftarrow> get_store_data_id_list S False p;
     if result \<noteq> RESULT_Success
     then Some (EXIT_FAILURE, [], println (''get_store_data_list().. Error, <errno:'' @ dec (errno p) @ ''>'') p)
     else add_delete_ids S (unat count) 0 ids [] p
   }"

fun delete_each :: "'s sys \<Rightarrow> u8 list list \<Rightarrow> 's proc \<Rightarrow> (int \<times> 's proc) option" where
  "delete_each S [] p = do { p \<leftarrow> do_close S p; Some (EXIT_SUCCESS, p) }"
| "delete_each S (ident # ids) p = do {
     (r, _, p) \<leftarrow> do_ioctl S (Cf02a_ioctl (CF02A_DELETE_STORE_DATA ident)) p;
     if r = -1 then do {
       p \<leftarrow> do_close S (ioctl_error ''EP1_CF02A_IOCTL_DELETE_STORE_DATA'' p); Some (EXIT_FAILURE, p) }
     else delete_each S ids (println (''store data id: '' @ c_string ident @ '' is deleted'') p)
   }"

definition delete_usage :: string where
  "delete_usage = usage_lines ''ep1_cf02a_delete_store_data'' '' [-f <dev name>] [-i <id>] [-a] [-h] [-v]''
     [''  -f DEV_NAME,      Set device name'', ''  -i ID,            Set store data id to delete'',
      ''  -a                Delete all store data'', ''  -h,               This help text'',
      ''  -v,               Show version number'']"

definition delete_option ::
  "char \<Rightarrow> string \<Rightarrow> string option \<times> string option \<times> bool \<Rightarrow> string option \<times> string option \<times> bool" where
  "delete_option n arg = (\<lambda>(dev, delete_id, delete_all).
     if n = CHR ''f'' then (Some arg, delete_id, delete_all)
     else if n = CHR ''i'' then (dev, Some arg, delete_all)
     else if n = CHR ''a'' then (dev, delete_id, True)
     else (dev, delete_id, delete_all))"

definition delete_on_device :: "'s sys \<Rightarrow> string option \<Rightarrow> bool \<Rightarrow> 's proc \<Rightarrow> (int \<times> 's proc) option" where
  "delete_on_device S delete_id delete_all p = do {
     (r, p) \<leftarrow> stop_storing S p;
     if r \<noteq> 0 then do {
       p \<leftarrow> do_close S (println (''stop_storing().. Error, <errno:'' @ dec (errno p) @ ''>'') p);
       Some (EXIT_FAILURE, p)
     }
     else do {
       (r, delete_ids, p) \<leftarrow> (if delete_all then add_delete_id_all S p
         else map_option (\<lambda>ident. add_delete_id S (bytes_of_string ident) [] p) delete_id);
       if r \<noteq> 0 then do {
         p \<leftarrow> do_close S (println (''add_delete_id().. Error, <errno:'' @ dec (errno p) @ ''>'') p);
         Some (EXIT_FAILURE, p)
       }
       else delete_each S delete_ids p
     }
   }"

definition delete_store_data :: "'s sys \<Rightarrow> (char \<times> string) list \<Rightarrow> 's proc \<Rightarrow> (int \<times> 's proc) option" where
  "delete_store_data S args p = (case options delete_option args (None, None, False) of
     Usage \<Rightarrow> Some (EXIT_SUCCESS, print delete_usage p)
   | Version \<Rightarrow> Some (EXIT_SUCCESS, print (version ''ep1_cf02a_delete_store_data'') p)
   | Run (dev, delete_id, delete_all) \<Rightarrow> (case dev of
       None \<Rightarrow> Some (EXIT_SUCCESS, print delete_usage p)
     | Some dev \<Rightarrow>
         if delete_id = None \<and> \<not> delete_all then Some (EXIT_SUCCESS, print delete_usage p)
         else with_device S dev (delete_on_device S delete_id delete_all) p))"

subsection \<open>What is deleted\<close>

text \<open>The identifiers in a list of \<open>n\<close>, as they are handed to the driver again.\<close>

definition listed :: "nat \<Rightarrow> u8 list \<Rightarrow> u8 list list" where
  "listed n m = map (\<lambda>i. strncpy 31 (take 32 (drop (32 * i) m)) @ [0]) [0..<n]"

lemma add_delete_id_logged:
  assumes "add_delete_id (traced S) ident ds p = (r, ds', p')"
  shows "log p' = log p \<and> fd_open p' = fd_open p \<and> (r = 0 \<longrightarrow> ds' = ds @ [strncpy 31 ident @ [0]])"
  using assms by (auto simp: add_delete_id_def split: prod.splits if_splits dest: malloc_logged)

lemma add_delete_ids_logged:
  assumes "add_delete_ids (traced S) n i (Some m) ds p = Some (0, ds', p')"
  shows "log p' = log p \<and> fd_open p' = fd_open p
    \<and> ds' = ds @ map (\<lambda>i. strncpy 31 (take 32 (drop (32 * i) m)) @ [0]) [i..<i + n]"
  using assms
proof (induction n arbitrary: i ds p)
  case (Suc n)
  then obtain ident ds1 p1 where 1: "id_at (Some m) i = Some ident"
    "add_delete_id (traced S) ident ds p = (0, ds1, p1)"
    "add_delete_ids (traced S) n (Suc i) (Some m) ds1 p1 = Some (0, ds', p')"
    by (auto simp: Let_def split: bind_splits prod.splits if_splits)
  moreover have "ident = take 32 (drop (32 * i) m)" using 1(1) by (auto simp: id_at_def load_def split: if_splits)
  ultimately show ?case
    using Suc.IH [OF 1(3)] add_delete_id_logged [OF 1(2)] by (simp add: upt_conv_Cons del: upt_Suc)
qed simp

context usb_file
begin

lemma delete_each_logged:
  assumes "delete_each (traced S) ds p = Some (0, p')" and "fd_open p"
  shows "log p' = log p @ map (\<lambda>i. (Cf02a_ioctl (CF02A_DELETE_STORE_DATA i), 0, None)) ds"
  using assms
proof (induction ds arbitrary: p)
  case Nil
  then show ?case by (auto split: bind_splits dest: close_logged)
next
  case (Cons i ds)
  then obtain r x p1 where 1: "do_ioctl (traced S) (Cf02a_ioctl (CF02A_DELETE_STORE_DATA i)) p = Some (r, x, p1)"
    "r \<noteq> -1" "delete_each (traced S) ds (println (''store data id: '' @ c_string i @ '' is deleted'') p1) = Some (0, p')"
    by (auto split: bind_splits prod.splits if_splits)
  moreover have "r = 0 \<and> x = None"
    using usb_file.ioctl_fits [OF usb_file_traced [OF usb_file_axioms] 1(1)] 1(2)
    by (simp add: answer_fits_def cf02a_answer_fits_def)
  ultimately show ?case
    using Cons.IH [OF 1(3)] ioctl_logged [OF 1(1) Cons.prems(2)] by (auto split: if_splits)
qed

text \<open>The answer to the count \<open>c\<close>, and to the list; \<open>count\<close> is 0 when there was no memory for it.\<close>

abbreviation (input) counted :: "u32 \<Rightarrow> ioctl \<times> int \<times> ioctl_out option" where
  "counted c \<equiv> (Cf02a_ioctl CF02A_GET_STORE_DATA_ID_LIST_COUNT, 0, Some (Out_cf02a (Out_count c)))"

abbreviation (input) list_given :: "u32 \<Rightarrow> u8 list \<Rightarrow> ioctl \<times> int \<times> ioctl_out option" where
  "list_given count bs \<equiv> (Cf02a_ioctl (CF02A_GET_STORE_DATA_ID_LIST count), 0, Some (Out_cf02a (Out_ids bs)))"

lemma store_whole: "store m 0 xs = Some m' \<Longrightarrow> length m = length xs \<Longrightarrow> m' = xs"
  by (auto simp: store_def split: if_splits)

lemma id_list_logged:
  assumes "get_store_data_id_list (traced S) v p = Some (RESULT_Success, count, ids, p')" and "fd_open p"
  shows "fd_open p' \<and> (\<exists>c. (c = 0 \<and> count = 0 \<and> log p' = log p @ [counted c])
    \<or> (\<exists>bs. count \<in> {c, 0} \<and> log p' = log p @ [counted c, list_given count bs] \<and> (count = 0 \<or> ids = Some bs)))"
proof -
  note fits = usb_file.ioctl_fits [OF usb_file_traced [OF usb_file_axioms]]
  let ?count = "Cf02a_ioctl CF02A_GET_STORE_DATA_ID_LIST_COUNT"
  let ?list = "\<lambda>n. Cf02a_ioctl (CF02A_GET_STORE_DATA_ID_LIST n)"
  obtain r x p1 where 1: "do_ioctl (traced S) ?count p = Some (r, x, p1)"
    using assms(1) by (cases "do_ioctl (traced S) ?count p") (auto simp: get_store_data_id_list_def)
  have r: "r = 0" using assms(1) 1 by (cases "r = 0") (simp_all add: get_store_data_id_list_def)
  then obtain c where x: "x = Some (Out_cf02a (Out_count c))"
    using fits [OF 1] by (auto simp: answer_fits_def cf02a_answer_fits_def fits_defs split: option.splits ioctl_out.splits cf02a_out.splits)
  have log1: "log p1 = log p @ [counted c]" "fd_open p1"
    using ioctl_logged [OF 1 assms(2)] x r by (auto split: if_splits)
  show ?thesis
  proof (cases "c = 0")
    case True
    then have "count = 0 \<and> p' = p1" using assms(1) 1 by (simp add: get_store_data_id_list_def r x)
    then show ?thesis using log1 True by auto
  next
    case False
    obtain n m p2 where 2: "alloc_store_data_id_list (traced S) c p1 = (n, m, p2)" by (metis prod_cases3)
    then have alloc: "log p2 = log p1" "fd_open p2 = fd_open p1" "n = 0 \<or> (n = c \<and> m = Some (replicate (unat (32 * c)) 0))"
      by (auto simp: alloc_store_data_id_list_def split: prod.splits if_splits dest: malloc_logged)
    obtain p3 where p3: "p3 = (if v then println ''get store data id list...''
        (println (''             store data count: '' @ dec (sint n)) p2) else p2)" by simp
    obtain r3 x3 p4 where 3: "do_ioctl (traced S) (?list n) p3 = Some (r3, x3, p4)"
      using assms(1) False by (cases "do_ioctl (traced S) (?list n) p3")
        (auto simp: get_store_data_id_list_def 1 r x 2 Let_def p3)
    have r3: "r3 = 0"
      using assms(1) False 3 [unfolded p3] by (cases "r3 = 0") (simp_all add: get_store_data_id_list_def 1 r x 2)
    then obtain bs where x3: "x3 = Some (Out_cf02a (Out_ids bs))" "length bs = unat (32 * n)"
      using fits [OF 3]
      by (auto simp: answer_fits_def cf02a_answer_fits_def fits_defs split: option.splits ioctl_out.splits cf02a_out.splits)
    have 4: "(case m of Some b \<Rightarrow> do { b \<leftarrow> store b 0 bs; Some (RESULT_Success, n, Some b, p4) }
        | None \<Rightarrow> if bs = [] then Some (RESULT_Success, n, None, p4) else None) = Some (RESULT_Success, count, ids, p')"
      using assms(1) False 3 [unfolded p3] by (simp add: get_store_data_id_list_def 1 r x 2 r3 x3 split: option.split_asm)
    then have 5: "count = n" "p' = p4" by (auto split: option.splits bind_splits if_splits)
    have "n = 0 \<or> ids = Some bs"
    proof (rule disjCI)
      assume "ids \<noteq> Some bs"
      moreover have "store b 0 bs = ids" if "m = Some b" for b
        using 4 that by (cases "store b 0 bs") simp_all
      moreover have "ids \<noteq> None" if "m = Some b" for b
        using 4 that by (cases "store b 0 bs") (simp_all, metis option.distinct(1))
      ultimately show "n = 0" using alloc(3) x3(2) store_whole by fastforce
    qed
    moreover have "fd_open p3" "log p3 = log p2" using alloc(2) log1(2) by (simp_all add: p3)
    ultimately show ?thesis
      using ioctl_logged [OF 3] 5 alloc log1 r3 x3 by (auto split: if_splits)
  qed
qed

lemma stop_storing_logged:
  assumes "stop_storing (traced S) p = Some (0, p')" and "fd_open p"
  shows "fd_open p' \<and> log p' = log p @ [(Cf02a_ioctl (CF02A_SET_TX_RX_CONTROL True), 0, None),
    (Cf02a_ioctl (CF02A_SET_TX_RX_CONTROL False), 0, None)]"
proof -
  note fits = usb_file.ioctl_fits [OF usb_file_traced [OF usb_file_axioms]]
  obtain r1 x1 p1 r2 x2 where
    1: "do_ioctl (traced S) (Cf02a_ioctl (CF02A_SET_TX_RX_CONTROL True)) p = Some (r1, x1, p1)" "r1 \<noteq> -1" and
    2: "do_ioctl (traced S) (Cf02a_ioctl (CF02A_SET_TX_RX_CONTROL False)) p1 = Some (r2, x2, p')" "r2 \<noteq> -1"
    using assms(1) by (auto simp: stop_storing_def split: bind_splits if_splits)
  have "r1 = 0 \<and> x1 = None" "r2 = 0 \<and> x2 = None"
    using fits [OF 1(1)] fits [OF 2(1)] 1(2) 2(2) by (simp_all add: answer_fits_def cf02a_answer_fits_def)
  then show ?thesis
    using ioctl_logged [OF 1(1) assms(2)] ioctl_logged [OF 2(1)] by (auto split: if_splits)
qed

lemma delete_all_logged:
  assumes "delete_on_device (traced S) None True p = Some (0, p')" and "fd_open p"
  shows "\<exists>c l ids. log p' = log p @ [(Cf02a_ioctl (CF02A_SET_TX_RX_CONTROL True), 0, None),
      (Cf02a_ioctl (CF02A_SET_TX_RX_CONTROL False), 0, None), counted c] @ l
      @ map (\<lambda>i. (Cf02a_ioctl (CF02A_DELETE_STORE_DATA i), 0, None)) ids
    \<and> (c = 0 \<and> l = [] \<and> ids = [] \<or> (\<exists>n bs. n \<in> {c, 0} \<and> ids = listed (unat n) bs \<and> l = [list_given n bs]))"
proof -
  obtain p1 p2 p3 count ids ds where
    1: "stop_storing (traced S) p = Some (0, p1)" and
    2: "get_store_data_id_list (traced S) False p1 = Some (RESULT_Success, count, ids, p2)" and
    3: "add_delete_ids (traced S) (unat count) 0 ids [] p2 = Some (0, ds, p3)" and
    4: "delete_each (traced S) ds p3 = Some (0, p')"
    using assms(1)
    by (auto simp: delete_on_device_def add_delete_id_all_def split: bind_splits prod.splits if_splits)
  note a = stop_storing_logged [OF 1 assms(2)]
  note b = id_list_logged [OF 2]
  have no_list: "count = 0 \<Longrightarrow> ds = [] \<and> p3 = p2" using 3 by simp
  have listed: "ids = Some bs \<Longrightarrow> log p3 = log p2 \<and> fd_open p3 = fd_open p2 \<and> ds = listed (unat count) bs" for bs
    using add_delete_ids_logged [of S "unat count" 0 bs "[]" p2 ds p3] 3 by (simp add: listed_def)
  obtain c where c: "fd_open p2" "(c = 0 \<and> count = 0 \<and> log p2 = log p1 @ [counted c])
    \<or> (\<exists>bs. count \<in> {c, 0} \<and> log p2 = log p1 @ [counted c, list_given count bs] \<and> (count = 0 \<or> ids = Some bs))"
    using b a by blast
  have "fd_open p3 \<and> log p3 = log p2" using c no_list listed by blast
  then have log: "log p' = log p2 @ map (\<lambda>i. (Cf02a_ioctl (CF02A_DELETE_STORE_DATA i), 0, None)) ds"
    using delete_each_logged [OF 4] by simp
  consider (none) "c = 0" "count = 0" "log p2 = log p1 @ [counted c]"
    | (some) bs where "count \<in> {c, 0}" "log p2 = log p1 @ [counted c, list_given count bs]" "count = 0 \<or> ids = Some bs"
    using c(2) by blast
  then show ?thesis
  proof cases
    case none
    then show ?thesis using log a no_list by (intro exI [of _ c] exI [of _ "[]"]) simp
  next
    case (some bs)
    then have "ds = listed (unat count) bs" using no_list listed by (auto simp: listed_def)
    then show ?thesis
      using log a some by (intro exI [of _ c] exI [of _ "[list_given count bs]"] exI [of _ ds]) auto
  qed
qed

end

text \<open>The locale's laws hold of the driver.\<close>

lemma driver_usb_file: "usb_file (driver_sys a)"
  by (rule usb.usb_file_axioms)

text \<open>A file of a device with one recording.\<close>

definition one_recording :: "unit sys" where
  "one_recording = \<lparr>sys_open = \<lambda>_ s. (0, s), sys_close = Some,
     sys_ioctl = (\<lambda>cmd s. Some (case cmd of
         Cf02a_ioctl (CF02A_SET_TX_RX_CONTROL _) \<Rightarrow> (0, None, s)
       | Cf02a_ioctl CF02A_GET_STORE_DATA_ID_LIST_COUNT \<Rightarrow> (0, Some (Out_cf02a (Out_count 1)), s)
       | Cf02a_ioctl (CF02A_GET_STORE_DATA_ID_LIST n) \<Rightarrow>
           if n = 1 then (0, Some (Out_cf02a (Out_ids (65 # replicate 31 0))), s) else (-22, None, s)
       | Cf02a_ioctl (CF02A_DELETE_STORE_DATA _) \<Rightarrow> (0, None, s)
       | _ \<Rightarrow> (-22, None, s))),
     sys_read = \<lambda>_ s. Some (-22, [], s), sys_write = \<lambda>_ s. Some (-22, s), sys_malloc = \<lambda>s. (True, s),
     sys_sleep = id, sys_stop = \<lambda>_. False\<rparr>"

interpretation one_recording: usb_file one_recording
  by unfold_locales
    (auto simp: one_recording_def answer_fits_def cf02a_answer_fits_def fits_defs
      split: ioctl.splits cf02a_ioctl_cmd.splits if_splits)

subsection \<open>Properties\<close>



end
