(* ===== verification/Tool_Store.thy ===== *)
theory Tool_Store
  imports Tools
begin

text \<open>
  Listing, reading and checking recordings:
  \<open>tools/ep1_cf02a/ep1_cf02a_get_store_data_list/ep1_cf02a_get_store_data_list.c\<close>.

  The static variables of the program are \<open>tool_state\<close>. The check expects every identifier to count up in
  the eight data bytes of its frames, the most significant byte first; \<open>check_frame\<close> is the body of
  its loop. The loop that reads a recording need not end (the device may time out for ever while it says
  that it is sending): \<open>None\<close> is also that.
\<close>

unbundle bit_operations_syntax

abbreviation (input) MAX_CAN_IDS :: nat where "MAX_CAN_IDS \<equiv> 256"
abbreviation (input) BUFFER_SIZE :: nat where "BUFFER_SIZE \<equiv> 4992"

subsection \<open>Decoding a packet\<close>

definition can_dlc2len :: "int \<Rightarrow> int" where
  "can_dlc2len dlc = (if 0 \<le> dlc \<and> dlc \<le> 15
     then [0, 1, 2, 3, 4, 5, 6, 7, 8, 12, 16, 20, 24, 32, 48, 64] ! nat dlc else -1)"

definition array_to_uint :: "u8 list \<Rightarrow> nat \<Rightarrow> u32 option" where
  "array_to_uint array pos = do {
     b0 \<leftarrow> load1 array pos; b1 \<leftarrow> load1 array (pos + 1); b2 \<leftarrow> load1 array (pos + 2); b3 \<leftarrow> load1 array (pos + 3);
     Some (ucast b0 OR push_bit 8 (ucast b1) OR push_bit 16 (ucast b2) OR push_bit 24 (ucast b3))
   }"

definition parse_u64_be :: "u8 list \<Rightarrow> int \<Rightarrow> u64" where
  "parse_u64_be data len =
     (if len < 8 then 0 else foldl (\<lambda>x b. push_bit 8 x OR ucast b) 0 (take 8 data))"

text \<open>The argument is added with a single carry.\<close>

definition timespec_add :: "timespec \<Rightarrow> u32 \<Rightarrow> u32 \<Rightarrow> timespec" where
  "timespec_add ts sec nsec =
     (let s = tv_sec ts + uint sec; n = tv_nsec ts + uint nsec in
      if n \<ge> 1000000000 then \<lparr>tv_sec = s + 1, tv_nsec = n - 1000000000\<rparr> else \<lparr>tv_sec = s, tv_nsec = n\<rparr>)"

record canfd_frame =
  can_id :: u32
  frame_len :: u8
  frame_flags :: u8
  frame_data :: "u8 list"

definition print_canfd_frame :: "timespec \<Rightarrow> canfd_frame \<Rightarrow> 's proc \<Rightarrow> 's proc" where
  "print_canfd_frame t f p = println (''['' @ dec (tv_sec t) @ ''.'' @ dec0 9 (tv_nsec t) @ ''] id: ''
     @ hex (unat (can_id f)) @ '', len: '' @ dec (uint (frame_len f)) @ '', flags: ''
     @ hex (unat (frame_flags f)) @ '', data: '' @ concat (map hex2 (frame_data f))) p"

definition decode_packet :: "u8 list \<Rightarrow> nat \<Rightarrow> (timespec \<times> canfd_frame) option" where
  "decode_packet buf pos = do {
     sec \<leftarrow> array_to_uint buf pos;
     usec \<leftarrow> array_to_uint buf (pos + 4);
     i \<leftarrow> array_to_uint buf (pos + 8);
     dlc \<leftarrow> load1 buf (pos + 12);
     flags \<leftarrow> load1 buf (pos + 13);
     bs \<leftarrow> load buf (pos + 14) 64;
     Some (timespec_add \<lparr>tv_sec = 0, tv_nsec = 0\<rparr> sec (usec * 1000),
       \<lparr>can_id = i AND 0x1FFFFFFF, frame_len = word_of_int (can_dlc2len (uint (dlc AND 0x0F))),
        frame_flags = flags, frame_data = bs\<rparr>)
   }"

subsection \<open>The check\<close>

record tracker =
  tr_can_id :: u32
  tr_last_data :: u64
  tr_has_data :: bool

record store_data_result =
  res_id :: "u8 list"
  res_lost :: u64
  res_errors :: u64
  res_has_loss :: bool
  res_has_error :: bool

record tool_state =
  trackers :: "tracker list"
  total_lost_frames :: u64
  total_error_frames :: u64
  store_results :: "store_data_result list"
  store_data_count :: nat

text \<open>The index of the tracker; a new one starts with the zero that \<open>reset_trackers\<close> left.\<close>

definition find_or_create_tracker :: "u32 \<Rightarrow> tool_state \<Rightarrow> nat option \<times> tool_state" where
  "find_or_create_tracker i c =
     (case List.find (\<lambda>n. tr_can_id (trackers c ! n) = i) [0..<length (trackers c)] of
        Some n \<Rightarrow> (Some n, c)
      | None \<Rightarrow>
          if length (trackers c) \<ge> MAX_CAN_IDS then (None, c)
          else (Some (length (trackers c)),
                c\<lparr>trackers := trackers c @ [\<lparr>tr_can_id = i, tr_last_data = 0, tr_has_data = False\<rparr>]\<rparr>))"

definition reset_trackers :: "tool_state \<Rightarrow> tool_state" where
  "reset_trackers c = c\<lparr>trackers := [], total_lost_frames := 0, total_error_frames := 0\<rparr>"

definition mismatch :: "string \<Rightarrow> timespec \<Rightarrow> u32 \<Rightarrow> u64 \<Rightarrow> u64 \<Rightarrow> string \<Rightarrow> u64 \<Rightarrow> string" where
  "mismatch what t i expected got kind n =
     ''['' @ dec (tv_sec t) @ ''.'' @ dec0 9 (tv_nsec t) @ ''] '' @ what @ '' for CAN ID '' @ hex (unat i)
     @ '': expected '' @ dec (uint expected) @ '', got '' @ dec (uint got) @ '', '' @ kind @ '' count '' @ dec (uint n)"

text \<open>What a frame of eight bytes does to its tracker.\<close>

definition track :: "timespec \<Rightarrow> canfd_frame \<Rightarrow> nat \<Rightarrow> tool_state \<Rightarrow> 's proc \<Rightarrow> tool_state \<times> 's proc" where
  "track t f n c p =
     (let tr = trackers c ! n;
          current = parse_u64_be (frame_data f) (uint (frame_len f));
          expected = tr_last_data tr + 1;
          lost = current - tr_last_data tr - 1;
          (c, p) =
            (if \<not> tr_has_data tr then (c, p)
             else if current > expected
             then (c\<lparr>total_lost_frames := total_lost_frames c + lost\<rparr>,
                   println (mismatch ''data mismatch'' t (can_id f) expected current ''lost frame'' lost) p)
             else if current < expected
             then (c, println (mismatch ''timestamp rewind'' t (can_id f) expected current ''rewind''
                                 (tr_last_data tr - current)) p)
             else (c, p));
          last = (if tr_has_data tr then (if current \<ge> expected then current else tr_last_data tr) else current) in
      (c\<lparr>trackers := (trackers c)[n := tr\<lparr>tr_last_data := last, tr_has_data := True\<rparr>]\<rparr>, p))"

definition check_frame :: "timespec \<Rightarrow> canfd_frame \<Rightarrow> tool_state \<Rightarrow> 's proc \<Rightarrow> tool_state \<times> 's proc" where
  "check_frame t f c p =
     (let (tr, c) = find_or_create_tracker (can_id f) c;
          (c, p) = (if tr = None
            then (c\<lparr>total_error_frames := total_error_frames c + 1\<rparr>,
                  println (''Error: Too many CAN IDs (max '' @ dec (int MAX_CAN_IDS) @ '' supported)'') p)
            else (c, p));
          (c, p) = (if frame_len f \<noteq> 8
            then (c\<lparr>total_error_frames := total_error_frames c + 1\<rparr>,
                  println (''Error: CAN frame data length must be 8 bytes (got '' @ dec (uint (frame_len f))
                    @ '' bytes for CAN ID '' @ hex (unat (can_id f)) @ '')'') p)
            else (c, p)) in
      case tr of
        None \<Rightarrow> (c, p)
      | Some n \<Rightarrow> if frame_len f = 8 then track t f n c p else (c, p))"

subsection \<open>Reading a recording\<close>

definition get_store_data_rx_control :: "'s sys \<Rightarrow> 's proc \<Rightarrow> (RESULT \<times> bool option \<times> 's proc) option" where
  "get_store_data_rx_control S p = do {
     (r, x, p) \<leftarrow> do_ioctl S (Cf02a_ioctl CF02A_GET_STORE_DATA_RX_CONTROL) p;
     if r \<noteq> 0 then Some (RESULT_Failure, None, ioctl_error ''EP1_CF02A_IOCTL_GET_STORE_DATA_RX_CONTROL'' p)
     else case x of
       Some (Out_cf02a (Out_rx_control _ on)) \<Rightarrow> Some (RESULT_Success, Some on, p)
     | _ \<Rightarrow> None
   }"

definition set_store_data_rx_control :: "'s sys \<Rightarrow> u8 list \<Rightarrow> bool \<Rightarrow> 's proc \<Rightarrow> (RESULT \<times> 's proc) option" where
  "set_store_data_rx_control S ident on p = do {
     (r, _, p) \<leftarrow> do_ioctl S (Cf02a_ioctl (CF02A_SET_STORE_DATA_RX_CONTROL ident on)) p;
     if r \<noteq> 0 then Some (RESULT_Failure, ioctl_error (''EP1_CF02A_IOCTL_SET_STORE_DATA_RX_CONTROL start=''
       @ (if on then ''true'' else ''false'')) p)
     else Some (RESULT_Success, p)
   }"

text \<open>The packets of one transfer: \<open>n\<close> are left, the next is at \<open>pos\<close> and has the number \<open>can_count\<close>.\<close>

fun read_packets ::
  "bool \<Rightarrow> u8 list \<Rightarrow> nat \<Rightarrow> nat \<Rightarrow> nat \<Rightarrow> tool_state \<Rightarrow> 's proc \<Rightarrow> (nat \<times> tool_state \<times> 's proc) option" where
  "read_packets check buf 0 pos can_count c p = Some (can_count, c, p)"
| "read_packets check buf (Suc n) pos can_count c p = do {
     (t, f) \<leftarrow> decode_packet buf pos;
     let (c, p) = (if check then check_frame t f c p
       else (c, print_canfd_frame t f (print (dec (int can_count) @ '': '') p)));
     read_packets check buf n (pos + CAN_PACKET_SIZE) (can_count + 1) c p
   }"

text \<open>What \<open>read_store_data.count\<close> is after the request, which clears it first.\<close>

definition bytes_read :: "ioctl_out option \<Rightarrow> u8 list option" where
  "bytes_read x = (case x of None \<Rightarrow> Some [] | Some (Out_cf02a (Out_data bs)) \<Rightarrow> Some bs | _ \<Rightarrow> None)"

partial_function (option) read_loop ::
  "'s sys \<Rightarrow> bool \<Rightarrow> int \<Rightarrow> int \<Rightarrow> nat \<Rightarrow> tool_state \<Rightarrow> 's proc \<Rightarrow> (bool \<times> tool_state \<times> 's proc) option" where
  "read_loop S check total_can_frame_size total_rsize can_count c p =
     (if \<not> (total_rsize < total_can_frame_size \<and> \<not> stop_requested S p) then Some (False, c, p)
      else do {
        (r, x, p) \<leftarrow> do_ioctl S (Cf02a_ioctl (CF02A_READ_STORE_DATA BUFFER_SIZE)) p;
        if r < 0 then Some (True, c, ioctl_error ''EP1_CF02A_IOCTL_READ_STORE_DATA'' p)
        else do {
          bs \<leftarrow> bytes_read x;
          if length bs = 0 then do {
            (_, on, p) \<leftarrow> get_store_data_rx_control S (println ''read timeout. no data received.'' p);
            if on \<noteq> Some True \<and> total_rsize \<noteq> total_can_frame_size
            then Some (True, c, println (''read error ('' @ dec total_rsize @ '' / '' @ dec total_can_frame_size @ '' frames)'') p)
            else read_loop S check total_can_frame_size total_rsize can_count c p
          }
          else do {
            (can_count, c, p) \<leftarrow> read_packets check bs (length bs div CAN_PACKET_SIZE) 0 can_count c p;
            read_loop S check total_can_frame_size (total_rsize + int (length bs)) can_count c p
          }
        }
      })"

text \<open>The verdict of a check; the array of results has room for every recording.\<close>

definition record_result :: "u8 list \<Rightarrow> tool_state \<Rightarrow> 's proc \<Rightarrow> (tool_state \<times> 's proc) option" where
  "record_result ident c p =
     (if length (store_results c) \<ge> store_data_count c then None
      else let lost = total_lost_frames c; errors = total_error_frames c;
          res = \<lparr>res_id = strncpy 32 ident, res_lost = lost, res_errors = errors,
                 res_has_loss = (lost > 0), res_has_error = (errors > 0)\<rparr>;
          verdict = (if lost > 0 \<or> errors > 0
            then (if lost > 0 then ''DATA LOSS detected ('' @ dec (uint lost) @ '' lost frames)'' else [])
              @ (if errors > 0 then (if lost > 0 then '', '' else [])
                   @ ''ERROR FRAMES detected ('' @ dec (uint errors) @ '' error frames)'' else [])
            else ''OK (no data loss, no error frames)'') in
        Some (c\<lparr>store_results := store_results c @ [res]\<rparr>,
              println verdict (print ''                 check result: '' p)))"

definition read_store_data ::
  "'s sys \<Rightarrow> u8 list \<Rightarrow> u64 \<Rightarrow> bool \<Rightarrow> tool_state \<Rightarrow> 's proc \<Rightarrow> (RESULT \<times> tool_state \<times> 's proc) option" where
  "read_store_data S ident frame_count check c p = do {
     let total_can_frame_size = sint (frame_count * of_nat CAN_PACKET_SIZE);
     let c = reset_trackers c;
     (result, p) \<leftarrow> set_store_data_rx_control S ident True p;
     if result \<noteq> RESULT_Success then Some (RESULT_Failure, c, p)
     else do {
       (error, c, p) \<leftarrow> read_loop S check total_can_frame_size 0 1 c p;
       (result, p) \<leftarrow> set_store_data_rx_control S ident False p;
       if result \<noteq> RESULT_Success then Some (RESULT_Failure, c, p)
       else do {
         (result, on, p) \<leftarrow> get_store_data_rx_control S p;
         if result \<noteq> RESULT_Success then Some (RESULT_Failure, c, p)
         else if on \<noteq> Some False then Some (RESULT_Failure, c, println ''Stop check failed. start=1'' p)
         else do {
           (c, p) \<leftarrow> (if check then record_result ident c p else Some (c, p));
           Some (if error then RESULT_Failure else RESULT_Success, c, p)
         }
       }
     }
   }"

subsection \<open>The summary\<close>

definition has_errors_or_losses :: "tool_state \<Rightarrow> bool \<times> u64 \<times> u64" where
  "has_errors_or_losses c =
     (let losses = filter res_has_loss (store_results c); errors = filter res_has_error (store_results c) in
      (losses \<noteq> [] \<or> errors \<noteq> [], sum_list (map res_lost losses), sum_list (map res_errors errors)))"

definition summary_lines :: "string \<Rightarrow> string \<Rightarrow> (u8 list \<times> u64) list \<Rightarrow> u64 \<Rightarrow> string" where
  "summary_lines title unit rs sm =
     title @ '' detected in the following store data:'' @ newline
     @ concat (map (\<lambda>(i, n). ''  '' @ c_string i @ '': '' @ dec (uint n) @ unit @ newline) rs)
     @ ''Total'' @ unit @ '' across all store data: '' @ dec (uint sm) @ newline"

definition print_summary :: "bool \<Rightarrow> tool_state \<Rightarrow> 's proc \<Rightarrow> 's proc" where
  "print_summary check c p =
     (if \<not> check \<or> store_results c = [] then p
      else let p = print (newline @ ''--- Summary ---'' @ newline) p;
               (issues, lost, errors) = has_errors_or_losses c in
        if \<not> issues then println ''All store data: OK (no data loss, no error frames detected)'' p
        else let p = (if lost > 0 then print (summary_lines ''Data loss'' '' lost frames''
                   (map (\<lambda>r. (res_id r, res_lost r)) (filter res_has_loss (store_results c))) lost) p else p) in
          if errors > 0 then print (summary_lines ''Error frames'' '' error frames''
            (map (\<lambda>r. (res_id r, res_errors r)) (filter res_has_error (store_results c))) errors) p else p)"

subsection \<open>The program\<close>

definition list_usage :: string where
  "list_usage = usage_lines ''ep1_cf02a_get_store_data_list'' '' [-f <dev name>] [-r] [-c] [-h] [-v]''
     [''  -f DEV_NAME,      Set device name'', ''  -r                Read store data'',
      ''  -c                Incremental check mode (no data display)'', ''  -h,               This help text'',
      ''  -v,               Show version number'']"

definition list_option :: "char \<Rightarrow> string \<Rightarrow> string option \<times> bool \<times> bool \<Rightarrow> string option \<times> bool \<times> bool" where
  "list_option n arg = (\<lambda>(dev, is_read, is_check).
     if n = CHR ''f'' then (Some arg, is_read, is_check)
     else if n = CHR ''r'' then (dev, True, is_check)
     else if n = CHR ''c'' then (dev, True, True)
     else (dev, is_read, is_check))"

definition get_store_data_meta ::
  "'s sys \<Rightarrow> u8 list \<Rightarrow> 's proc \<Rightarrow>
     (RESULT \<times> (cf02a_rtc_time \<times> timespec \<times> timespec \<times> timespec \<times> u64) option \<times> 's proc) option" where
  "get_store_data_meta S ident p = do {
     (r, x, p) \<leftarrow> do_ioctl S (Cf02a_ioctl (CF02A_GET_STORE_DATA_META ident)) p;
     if r \<noteq> 0 then Some (RESULT_Failure, None, p)
     else case x of
       Some (Out_cf02a (Out_meta rtc ts device_ts host n)) \<Rightarrow> Some (RESULT_Success, Some (rtc, ts, device_ts, host, n), p)
     | _ \<Rightarrow> None
   }"

definition print_meta ::
  "nat \<Rightarrow> u8 list \<Rightarrow> cf02a_rtc_time \<Rightarrow> timespec \<Rightarrow> timespec \<Rightarrow> timespec \<Rightarrow> u64 \<Rightarrow> 's proc \<Rightarrow> 's proc" where
  "print_meta i ident rtc ts device_ts host n p =
     (let p = println '' -----------------------------------------------------------------------'' p;
          p = println (''                        index: '' @ dec (int i)) p;
          p = println (''                store data id: '' @ c_string ident) p;
          p = println (''             start time (RTC): '' @ rtc_to_string rtc) p;
          p = println (''       start time (TimeStamp): '' @ dec (tv_sec ts) @ ''.'' @ dec0 6 (tv_nsec ts div 1000)) p;
          p = println (''       reset time (TimeStamp): '' @ dec (tv_sec device_ts) @ ''.'' @ dec0 6 (tv_nsec device_ts div 1000)) p;
          p = println (''  reset time (Host Monotonic): '' @ dec (tv_sec host) @ ''.'' @ dec0 9 (tv_nsec host)) p in
      println (''              can_frame_count: '' @ dec (uint n)) p)"

text \<open>The loop over the recordings, \<open>n\<close> are left from \<open>i\<close> on. \<open>Inl\<close> is the return from \<open>main\<close>. The device
  is not storing when it is reached.\<close>

fun list_loop ::
  "'s sys \<Rightarrow> string \<Rightarrow> bool \<Rightarrow> bool \<Rightarrow> u8 list option \<Rightarrow> nat \<Rightarrow> nat \<Rightarrow> tool_state \<Rightarrow> 's proc \<Rightarrow>
     ((int + tool_state) \<times> 's proc) option" where
  "list_loop S dev is_read check ids 0 i c p = Some (Inr c, p)"
| "list_loop S dev is_read check ids (Suc n) i c p = do {
     ident \<leftarrow> id_at ids i;
     (result, meta, p) \<leftarrow> get_store_data_meta S ident p;
     case (result, meta) of
       (RESULT_Success, Some (rtc, ts, device_ts, host, frames)) \<Rightarrow> do {
         let p = print_meta i ident rtc ts device_ts host frames p;
         if is_read \<and> frames > 0 then do {
           (result, c, p) \<leftarrow> read_store_data S ident frames check c p;
           let p = (if result \<noteq> RESULT_Success then println (''read_store_data().. Error, <errno:'' @ dec (errno p)
             @ ''> devname='' @ dev @ '', store_data_id='' @ c_string ident) p else p);
           if stop_requested S p then Some (Inr c, p) else list_loop S dev is_read check ids n (Suc i) c p
         }
         else list_loop S dev is_read check ids n (Suc i) c p
       }
     | _ \<Rightarrow> do {
         p \<leftarrow> do_close S (println (''get_store_data_meta().. Error, <errno:'' @ dec (errno p) @ ''> devname='' @ dev
           @ '', store_data_id='' @ c_string ident) p);
         Some (Inl EXIT_FAILURE, p)
       }
   }"

text \<open>The name of the state, and the identifier, which must end within its array.\<close>

definition show_state :: "cf02a_store_data_state \<Rightarrow> 's proc \<Rightarrow> 's proc option" where
  "show_state st p =
     (if 0 \<notin> set (sd_id st) then None
      else let p = println (''     current store data state: '' @ (if sd_state st = 1 then ''storing''
                 else if sd_state st = 0 then ''not storing'' else if sd_state st = 2 then ''not supported''
                 else ''unknown'')) p in
        Some (println (''        current store data id: '' @ (if c_string (sd_id st) \<noteq> [] then c_string (sd_id st)
                 else ''none'')) p))"

text \<open>What \<open>main\<close> does with the list. The count is kept in an \<open>int\<close>.\<close>

definition list_all ::
  "'s sys \<Rightarrow> string \<Rightarrow> bool \<Rightarrow> bool \<Rightarrow> u32 \<Rightarrow> u8 list option \<Rightarrow> 's proc \<Rightarrow> (int \<times> 's proc) option" where
  "list_all S dev is_read check count ids p =
     (let (ok, p) = (if check then do_malloc S p else (True, p)) in
      if \<not> ok then do { p \<leftarrow> do_close S (println ''Memory allocation failed'' p); Some (EXIT_FAILURE, p) }
      else do {
        (x, p) \<leftarrow> list_loop S dev is_read check ids (nat (sint count)) 0
          \<lparr>trackers = [], total_lost_frames = 0, total_error_frames = 0, store_results = [],
           store_data_count = (if check then nat (sint count) else 0)\<rparr> p;
        case x of
          Inl e \<Rightarrow> Some (e, p)
        | Inr c \<Rightarrow> do {
            let p = print_summary check c p;
            let has_any_errors = (check \<and> store_results c \<noteq> [] \<and> fst (has_errors_or_losses c));
            p \<leftarrow> do_close S p;
            Some (if has_any_errors then EXIT_FAILURE else EXIT_SUCCESS, p)
          }
      })"

definition list_on_device :: "'s sys \<Rightarrow> string \<Rightarrow> bool \<Rightarrow> bool \<Rightarrow> 's proc \<Rightarrow> (int \<times> 's proc) option" where
  "list_on_device S dev is_read check p = do {
     (r, x, p) \<leftarrow> do_ioctl S (Cf02a_ioctl CF02A_GET_CURRENT_STORE_DATA_STATE) p;
     if r \<noteq> 0 then do {
       p \<leftarrow> do_close S (println (''get_current_store_data_state().. Error, <errno:'' @ dec (errno p)
         @ ''> devname='' @ dev) p);
       Some (EXIT_FAILURE, p)
     }
     else case x of
       Some (Out_cf02a (Out_state st)) \<Rightarrow> do {
         p \<leftarrow> show_state st p;
         if sd_state st = 2 then do {
           p \<leftarrow> do_close S (println ''store data is not supported'' p); Some (EXIT_SUCCESS, p) }
         else if sd_state st = 1 then do {
           p \<leftarrow> do_close S (println ''store data is storing now. stop storing before read store data'' p);
           Some (EXIT_SUCCESS, p) }
         else do {
           (result, count, ids, p) \<leftarrow> get_store_data_id_list S True p;
           if result \<noteq> RESULT_Success then do {
             p \<leftarrow> do_close S (println (''get_store_data_list().. Error, <errno:'' @ dec (errno p) @ ''> devname='' @ dev) p);
             Some (EXIT_FAILURE, p)
           }
           else if count = 0 then do {
             p \<leftarrow> do_close S (println ''store data id list is empty'' p); Some (EXIT_SUCCESS, p) }
           else list_all S dev is_read check count ids p
         }
       }
     | _ \<Rightarrow> None
   }"

definition get_store_data_list :: "'s sys \<Rightarrow> (char \<times> string) list \<Rightarrow> 's proc \<Rightarrow> (int \<times> 's proc) option" where
  "get_store_data_list S args p = (case options list_option args (None, False, False) of
     Usage \<Rightarrow> Some (EXIT_SUCCESS, print list_usage p)
   | Version \<Rightarrow> Some (EXIT_SUCCESS, print (version ''ep1_cf02a_get_store_data_list'') p)
   | Run (dev, is_read, check) \<Rightarrow> (case dev of
       None \<Rightarrow> Some (EXIT_SUCCESS, print list_usage p)
     | Some dev \<Rightarrow> with_device S dev (list_on_device S dev is_read check) p))"

end
