(* ===== verification/Store_Check.thy ===== *)
theory Store_Check
  imports Tool_Store
begin

text \<open>
  What the check of \<open>ep1_cf02a_get_store_data_list -c\<close> and the reading of a recording compute.

  \<^item> The specification of a loss: of the numbers that an identifier counts through, from its first to its
    highest, those that did not come in order. \<open>check_frame\<close> keeps one running number per identifier; its
    sum is the sum of these over all identifiers (modulo 64 bits).
  \<^item> How the driver cuts a recording into transfers does not matter to \<open>read_loop\<close>.
  \<^item> A packet means the same frame and time to the program as to the driver's network device.
  \<^item> A recording that cannot be read does not change the exit code of a check.
\<close>

unbundle bit_operations_syntax

subsection \<open>The numbers that are missing\<close>

text \<open>The numbers that exceed all earlier ones.\<close>

definition highs :: "nat list \<Rightarrow> nat list" where
  "highs vs = foldl (\<lambda>hs v. if \<forall>h\<in>set hs. h < v then hs @ [v] else hs) [] vs"

definition missing :: "nat list \<Rightarrow> nat" where
  "missing vs = card ({hd vs..Max (set vs)} - set (highs vs))"

lemma highs_Nil [simp]: "highs [] = []"
  by (simp add: highs_def)

lemma highs_snoc: "highs (vs @ [v]) = (if \<forall>h\<in>set (highs vs). h < v then highs vs @ [v] else highs vs)"
  by (simp add: highs_def)

lemma highs_bound: "set (highs vs) \<subseteq> set vs" "v \<in> set vs \<Longrightarrow> \<exists>h\<in>set (highs vs). v \<le> h"
proof (induction vs rule: rev_induct)
  case (snoc u vs)
  { case 1 with snoc(1) show ?case by (auto simp: highs_snoc) }
  { case 2 with snoc(2) show ?case by (fastforce simp: highs_snoc not_less) }
qed simp_all

lemma highs_less: "(\<forall>h\<in>set (highs vs). h < v) \<longleftrightarrow> (\<forall>u\<in>set vs. u < v)"
  using highs_bound(1) [of vs] highs_bound(2) [of _ vs] by (meson le_less_trans subsetD)

lemma missing_single: "missing [v] = 0"
  using highs_snoc [of "[]" v] by (simp add: missing_def)

lemma Max_snoc: "vs \<noteq> [] \<Longrightarrow> Max (set (vs @ [v])) = max v (Max (set vs))"
  by simp

lemma missing_snoc:
  assumes "vs \<noteq> []"
  shows "missing (vs @ [v]) = missing vs + (if v > Max (set vs) then v - Max (set vs) - 1 else 0)"
proof (cases "v > Max (set vs)")
  case True
  let ?m = "Max (set vs)" and ?H = "set (highs vs)"
  have above: "\<forall>u\<in>set vs. u < v" using True by (meson List.finite_set Max_less_iff assms set_empty)
  have hd: "hd vs \<le> ?m" using assms by simp
  have H: "?H \<subseteq> {..?m}" using highs_bound(1) [of vs] by (auto intro: Max_ge)
  have highs: "highs (vs @ [v]) = highs vs @ [v]" using above by (simp add: highs_snoc highs_less)
  have "{hd vs..v} - insert v ?H = ({hd vs..?m} - ?H) \<union> {?m<..<v}"
    using True hd H by auto
  moreover have "({hd vs..?m} - ?H) \<inter> {?m<..<v} = {}" by auto
  ultimately have "card ({hd vs..v} - insert v ?H) = card ({hd vs..?m} - ?H) + card {?m<..<v}"
    by (simp add: card_Un_disjoint)
  moreover have "Max (set (vs @ [v])) = v" unfolding Max_snoc [OF assms] using True by linarith
  ultimately show ?thesis
    using True assms by (simp add: missing_def highs del: Max_less_iff)
next
  case False
  moreover have "highs (vs @ [v]) = highs vs"
    using False assms highs_less [where vs = vs and v = v] Max_in [of "set vs"] by (auto simp: highs_snoc)
  moreover have "Max (set (vs @ [v])) = Max (set vs)" unfolding Max_snoc [OF assms] using False by linarith
  ultimately show ?thesis
    using False assms by (simp add: missing_def del: Max_less_iff set_append)
qed

lemma missing_sorted: "sorted vs \<Longrightarrow> missing vs = card ({hd vs..Max (set vs)} - set vs)"
proof -
  have "sorted vs \<Longrightarrow> set (highs vs) = set vs"
  proof (induction vs rule: rev_induct)
    case (snoc v vs)
    then have "v \<in> set vs" if "\<not> (\<forall>u\<in>set vs. u < v)"
      using that by (auto simp: sorted_append)
    then show ?case using snoc by (auto simp: highs_snoc highs_less sorted_append)
  qed simp
  then show "sorted vs \<Longrightarrow> ?thesis" by (simp add: missing_def)
qed

subsection \<open>The check\<close>

text \<open>A frame the check can number, and its number.\<close>

definition counter :: "canfd_frame \<Rightarrow> nat" where
  "counter f = unat (parse_u64_be (frame_data f) 8)"

definition countable_frame :: "canfd_frame \<Rightarrow> bool" where
  "countable_frame f \<longleftrightarrow> frame_len f = 8 \<and> counter f < 2 ^ 64 - 1"

definition counters :: "u32 \<Rightarrow> canfd_frame list \<Rightarrow> nat list" where
  "counters i fs = map counter (filter (\<lambda>f. can_id f = i) fs)"

definition all_missing :: "canfd_frame list \<Rightarrow> nat" where
  "all_missing fs = (\<Sum>i\<in>can_id ` set fs. missing (counters i fs))"

lemma counters_snoc: "counters i (fs @ [f]) = counters i fs @ (if can_id f = i then [counter f] else [])"
  by (simp add: counters_def)

lemma counters_Nil: "i \<notin> can_id ` set fs \<longleftrightarrow> counters i fs = []"
  by (auto simp: counters_def filter_empty_conv)

lemma all_missing_snoc:
  "all_missing (fs @ [f]) = all_missing fs
     + (if can_id f \<in> can_id ` set fs \<and> counter f > Max (set (counters (can_id f) fs))
        then counter f - Max (set (counters (can_id f) fs)) - 1 else 0)"
proof -
  let ?i = "can_id f" and ?I = "can_id ` set fs"
  have others: "(\<Sum>j\<in>?I - {?i}. missing (counters j (fs @ [f]))) = (\<Sum>j\<in>?I - {?i}. missing (counters j fs))"
    by (intro sum.cong) (auto simp: counters_snoc)
  show ?thesis
  proof (cases "?i \<in> ?I")
    case True
    then have "insert ?i ?I = ?I" by auto
    then have "all_missing (fs @ [f]) = missing (counters ?i (fs @ [f])) + (\<Sum>j\<in>?I - {?i}. missing (counters j fs))"
      using True others by (simp add: all_missing_def sum.remove)
    moreover have "all_missing fs = missing (counters ?i fs) + (\<Sum>j\<in>?I - {?i}. missing (counters j fs))"
      using True by (simp add: all_missing_def sum.remove)
    ultimately show ?thesis
      using True counters_Nil [of ?i fs] by (simp add: counters_snoc missing_snoc)
  next
    case False
    then have "all_missing (fs @ [f]) = missing (counters ?i (fs @ [f])) + all_missing fs"
      using others by (simp add: all_missing_def)
    then show ?thesis using False counters_Nil [of ?i fs] by (auto simp: counters_snoc missing_single)
  qed
qed

definition checked :: "canfd_frame list \<Rightarrow> tool_state \<Rightarrow> bool" where
  "checked fs c \<longleftrightarrow>
     distinct (map tr_can_id (trackers c)) \<and> tr_can_id ` set (trackers c) = can_id ` set fs
     \<and> (\<forall>tr\<in>set (trackers c). tr_has_data tr \<and> unat (tr_last_data tr) = Max (set (counters (tr_can_id tr) fs)))
     \<and> total_lost_frames c = of_nat (all_missing fs) \<and> total_error_frames c = 0"

lemma checked_reset: "checked [] (reset_trackers c)"
  by (simp add: checked_def reset_trackers_def all_missing_def)

lemma find_known:
  assumes "i \<in> tr_can_id ` set (trackers c)"
  obtains n where "find_or_create_tracker i c = (Some n, c)" and "n < length (trackers c)"
    and "tr_can_id (trackers c ! n) = i"
proof -
  let ?r = "List.find (\<lambda>n. tr_can_id (trackers c ! n) = i) [0..<length (trackers c)]"
  have "?r \<noteq> None" using assms by (auto simp: find_None_iff in_set_conv_nth)
  then obtain n where n: "?r = Some n" by auto
  then have "n < length (trackers c) \<and> tr_can_id (trackers c ! n) = i" by (auto simp: find_Some_iff)
  with n show ?thesis using that by (simp add: find_or_create_tracker_def)
qed

lemma find_new:
  assumes "i \<notin> tr_can_id ` set (trackers c)" and "length (trackers c) < MAX_CAN_IDS"
  shows "find_or_create_tracker i c = (Some (length (trackers c)),
           c\<lparr>trackers := trackers c @ [\<lparr>tr_can_id = i, tr_last_data = 0, tr_has_data = False\<rparr>]\<rparr>)"
proof -
  have "List.find (\<lambda>n. tr_can_id (trackers c ! n) = i) [0..<length (trackers c)] = None"
    using assms(1) by (auto simp: find_None_iff)
  then show ?thesis using assms(2) by (simp add: find_or_create_tracker_def)
qed

text \<open>The running number in 64 bits, as long as it does not reach the last one.\<close>

lemma running_number:
  fixes a b :: u64
  assumes "unat a < 2 ^ 64 - 1"
  shows "b > a + 1 \<longleftrightarrow> unat b > unat a + 1" "b \<ge> a + 1 \<longleftrightarrow> unat b > unat a"
    "unat b > unat a \<Longrightarrow> b - a - 1 = of_nat (unat b - unat a - 1)"
proof -
  have "unat (a + 1) = unat a + 1" using assms by (subst unat_plus_simple [THEN iffD1]) (auto simp: word_le_nat_alt unat_word_ariths)
  then show "b > a + 1 \<longleftrightarrow> unat b > unat a + 1" "b \<ge> a + 1 \<longleftrightarrow> unat b > unat a"
    by (auto simp: word_less_nat_alt word_le_nat_alt)
  show "b - a - 1 = of_nat (unat b - unat a - 1)" if "unat b > unat a"
    using that by (simp add: of_nat_diff)
qed

lemma track_new:
  assumes "\<not> tr_has_data (trackers c ! n)" and "frame_len f = 8"
  shows "fst (track t f n c p) = c\<lparr>trackers := (trackers c)[n := (trackers c ! n)
           \<lparr>tr_last_data := of_nat (counter f), tr_has_data := True\<rparr>]\<rparr>"
  using assms by (simp add: track_def counter_def Let_def)

lemma track_known:
  assumes "tr_has_data (trackers c ! n)" and "countable_frame f" and "unat (tr_last_data (trackers c ! n)) = m"
    and "m < 2 ^ 64 - 1"
  shows "fst (track t f n c p) = c\<lparr>
           total_lost_frames := total_lost_frames c + of_nat (if counter f > m then counter f - m - 1 else 0),
           trackers := (trackers c)[n := (trackers c ! n)\<lparr>tr_last_data := of_nat (max m (counter f))\<rparr>]\<rparr>"
proof -
  let ?a = "tr_last_data (trackers c ! n)"
  let ?b = "parse_u64_be (frame_data f) 8"
  have a: "?a = of_nat m" using assms(3) by (simp flip: assms(3))
  have b: "?b = of_nat (counter f)" "unat ?b = counter f" by (simp_all add: counter_def)
  have len: "uint (frame_len f) = 8" using assms(2) by (simp add: countable_frame_def)
  note word = running_number [of ?a ?b, unfolded assms(3) b(2), OF assms(4)]
  have tr: "(trackers c ! n)\<lparr>tr_last_data := x, tr_has_data := True\<rparr> = (trackers c ! n)\<lparr>tr_last_data := x\<rparr>" for x
    using assms(1) by (cases "trackers c ! n") simp
  consider "counter f > m + 1" | "counter f = m + 1" | "counter f \<le> m" by linarith
  then show ?thesis
  proof cases
    case 1
    then have "max m (counter f) = counter f" by simp
    then show ?thesis using 1 word assms(1)
      by (simp add: track_def Let_def len tr b(1) del: of_nat_diff)
  next
    case 2
    then have "max m (counter f) = counter f" by simp
    then show ?thesis using 2 word assms(1)
      by (simp add: track_def Let_def len tr b(1))
  next
    case 3
    then have "max m (counter f) = m" by simp
    then show ?thesis using 3 word assms(1)
      by (simp add: track_def Let_def len tr a)
  qed
qed

lemma check_frame_countable:
  assumes "countable_frame f" and "find_or_create_tracker (can_id f) c = (Some n, c')"
  shows "fst (check_frame t f c p) = fst (track t f n c' p)"
  using assms by (simp add: check_frame_def countable_frame_def)

lemma map_update_same: "n < length xs \<Longrightarrow> g y = g (xs ! n) \<Longrightarrow> map g (xs[n := y]) = map g xs"
  by (simp add: map_update list_update_same_conv)

lemma check_known:
  assumes "checked fs c" and "can_id f \<in> can_id ` set fs" and "countable_frame f" and "\<forall>g\<in>set fs. countable_frame g"
  shows "checked (fs @ [f]) (fst (check_frame t f c p))"
proof -
  let ?i = "can_id f"
  let ?vs = "counters ?i fs"
  define m where "m = Max (set ?vs)"
  have ids: "tr_can_id ` set (trackers c) = can_id ` set fs" and dist: "distinct (map tr_can_id (trackers c))"
    using assms(1) by (auto simp: checked_def)
  obtain n where n: "find_or_create_tracker ?i c = (Some n, c)" "n < length (trackers c)" "tr_can_id (trackers c ! n) = ?i"
    using find_known assms(2) ids by metis
  let ?tr = "trackers c ! n"
  have tr: "tr_has_data ?tr" "unat (tr_last_data ?tr) = m"
    using assms(1) n by (auto simp: checked_def m_def)
  have "?vs \<noteq> []" using assms(2) counters_Nil by metis
  then have "m \<in> set ?vs" by (simp add: m_def)
  then have m: "m < 2 ^ 64 - 1" using assms(4) by (auto simp: counters_def countable_frame_def)
  let ?new = "?tr\<lparr>tr_last_data := of_nat (max m (counter f))\<rparr>"
  have state: "fst (check_frame t f c p) = c\<lparr>
      total_lost_frames := total_lost_frames c + of_nat (if counter f > m then counter f - m - 1 else 0),
      trackers := (trackers c)[n := ?new]\<rparr>"
    unfolding check_frame_countable [OF assms(3) n(1)] by (rule track_known [OF tr(1) assms(3) tr(2) m])
  have names: "map tr_can_id ((trackers c)[n := ?new]) = map tr_can_id (trackers c)"
    using n by (simp add: map_update_same)
  have same_ids: "can_id ` set (fs @ [f]) = can_id ` set fs" using assms(2) by auto
  have max: "Max (set (counters ?i (fs @ [f]))) = max m (counter f)"
    using \<open>?vs \<noteq> []\<close> by (simp add: counters_snoc m_def max.commute)
  have "tr_has_data x \<and> unat (tr_last_data x) = Max (set (counters (tr_can_id x) (fs @ [f])))"
    if x: "x \<in> set ((trackers c)[n := ?new])" for x
  proof -
    from x obtain k where k: "k < length (trackers c)" "x = (trackers c)[n := ?new] ! k"
      by (auto simp: in_set_conv_nth)
    show ?thesis
    proof (cases "k = n")
      case True
      have "counter f < 2 ^ 64" "m < 2 ^ 64" using assms(3) m by (auto simp: countable_frame_def)
      then have "unat (of_nat (max m (counter f)) :: u64) = max m (counter f)" by (simp add: unat_of_nat)
      then show ?thesis using True k n tr max by simp
    next
      case False
      then have "tr_can_id x \<noteq> ?i"
        using k n nth_eq_iff_index_eq [OF dist, of k n] by auto
      moreover have "x \<in> set (trackers c)" using False k by simp
      ultimately show ?thesis using assms(1) by (auto simp: checked_def counters_snoc)
    qed
  qed
  moreover have "tr_can_id ` set ((trackers c)[n := ?new]) = can_id ` set (fs @ [f])"
    unfolding same_ids using ids names by (metis list.set_map)
  moreover have "total_lost_frames c + of_nat (if counter f > m then counter f - m - 1 else 0)
      = of_nat (all_missing (fs @ [f]))"
    using assms(1,2) by (simp add: checked_def all_missing_snoc m_def)
  ultimately show ?thesis
    using assms(1) dist names by (simp add: checked_def state)
qed

lemma check_new:
  assumes "checked fs c" and "can_id f \<notin> can_id ` set fs" and "countable_frame f"
    and "card (can_id ` set (fs @ [f])) \<le> MAX_CAN_IDS"
  shows "checked (fs @ [f]) (fst (check_frame t f c p))"
proof -
  let ?i = "can_id f"
  let ?tr = "\<lparr>tr_can_id = ?i, tr_last_data = of_nat (counter f), tr_has_data = True\<rparr>"
  have ids: "tr_can_id ` set (trackers c) = can_id ` set fs" and dist: "distinct (map tr_can_id (trackers c))"
    using assms(1) by (auto simp: checked_def)
  have "length (trackers c) = card (can_id ` set fs)"
    using distinct_card [OF dist] by (simp add: ids)
  then have room: "length (trackers c) < MAX_CAN_IDS" using assms(2,4) by simp
  have state: "fst (check_frame t f c p) = c\<lparr>trackers := trackers c @ [?tr]\<rparr>"
    unfolding check_frame_countable [OF assms(3) find_new [OF assms(2) [folded ids] room]]
    using assms(3) by (subst track_new) (simp_all add: countable_frame_def)
  have "counters ?i fs = []" using assms(2) counters_Nil by metis
  then have one: "counters ?i (fs @ [f]) = [counter f]" by (simp add: counters_snoc)
  have "tr_has_data x \<and> unat (tr_last_data x) = Max (set (counters (tr_can_id x) (fs @ [f])))"
    if x: "x \<in> set (trackers c)" for x
  proof -
    have "tr_can_id x \<noteq> ?i" using x assms(2) ids by (metis imageI)
    then show ?thesis using x assms(1) by (simp add: checked_def counters_snoc)
  qed
  moreover have "unat (of_nat (counter f) :: u64) = counter f"
    using assms(3) by (simp add: countable_frame_def unat_of_nat)
  moreover have "all_missing (fs @ [f]) = all_missing fs" using assms(2) by (simp add: all_missing_snoc)
  ultimately show ?thesis
    using assms(1,2) ids by (auto simp: checked_def state one)
qed

lemma check_frame_checked:
  assumes "checked fs c" and "countable_frame f" and "\<forall>g\<in>set fs. countable_frame g"
    and "card (can_id ` set (fs @ [f])) \<le> MAX_CAN_IDS"
  shows "checked (fs @ [f]) (fst (check_frame t f c p))"
  using check_known check_new assms by metis

lemma check_frame_keeps:
  "store_results (fst (check_frame t f c p)) = store_results c
   \<and> store_data_count (fst (check_frame t f c p)) = store_data_count c"
  by (simp add: check_frame_def find_or_create_tracker_def track_def Let_def split: option.split prod.split)

text \<open>The frames of a buffer.\<close>

fun packets_at :: "u8 list \<Rightarrow> nat \<Rightarrow> nat \<Rightarrow> (timespec \<times> canfd_frame) list option" where
  "packets_at buf 0 pos = Some []"
| "packets_at buf (Suc n) pos = do {
     q \<leftarrow> decode_packet buf pos; qs \<leftarrow> packets_at buf n (pos + CAN_PACKET_SIZE); Some (q # qs) }"

lemma check_packets:
  assumes "packets_at buf n pos = Some qs" and "checked fs c"
    and "\<forall>g\<in>set (fs @ map snd qs). countable_frame g" and "card (can_id ` set (fs @ map snd qs)) \<le> MAX_CAN_IDS"
  shows "\<exists>c' p'. read_packets True buf n pos k c p = Some (k + n, c', p') \<and> checked (fs @ map snd qs) c'
           \<and> store_results c' = store_results c \<and> store_data_count c' = store_data_count c"
  using assms
proof (induction n arbitrary: pos qs fs k c p)
  case (Suc n)
  from Suc.prems(1) obtain q qs' where q: "decode_packet buf pos = Some q" "packets_at buf n (pos + CAN_PACKET_SIZE) = Some qs'"
    "qs = q # qs'" by (auto split: bind_splits)
  obtain t f where tf: "q = (t, f)" by fastforce
  obtain c1 p1 where c1: "check_frame t f c p = (c1, p1)" by fastforce
  have "can_id ` set (fs @ [f]) \<subseteq> can_id ` set (fs @ map snd qs)" by (auto simp: q tf)
  then have "card (can_id ` set (fs @ [f])) \<le> MAX_CAN_IDS"
    using Suc.prems(4) card_mono finite_imageI List.finite_set le_trans by metis
  then have step: "checked (fs @ [f]) c1"
    using check_frame_checked [OF Suc.prems(2), of f t p] Suc.prems(3) by (simp add: q tf c1)
  have kept: "store_results c1 = store_results c \<and> store_data_count c1 = store_data_count c"
    using check_frame_keeps [of t f c p] by (simp add: c1)
  show ?case
    using Suc.IH [OF q(2) step, of "k + 1" p1] Suc.prems(3,4) kept by (simp add: q tf c1)
qed simp

subsection \<open>Transfers\<close>

text \<open>\<open>feeds S cs s s'\<close>: from \<open>s\<close> on, with no signal to stop, the next reads of the file deliver the
  transfers \<open>cs\<close> and leave the system in \<open>s'\<close>.\<close>

fun feeds :: "'s sys \<Rightarrow> u8 list list \<Rightarrow> 's \<Rightarrow> 's \<Rightarrow> bool" where
  "feeds S [] s s' \<longleftrightarrow> s = s'"
| "feeds S (bs # cs) s s' \<longleftrightarrow> \<not> sys_stop S s \<and>
     (case sys_ioctl S (Cf02a_ioctl (CF02A_READ_STORE_DATA BUFFER_SIZE)) s of
        Some (r, x, s1) \<Rightarrow> r = int (length bs) \<and> x = Some (Out_cf02a (Out_data bs)) \<and> feeds S cs s1 s'
      | None \<Rightarrow> False)"

definition whole_packets :: "u8 list \<Rightarrow> bool" where
  "whole_packets bs \<longleftrightarrow> bs \<noteq> [] \<and> length bs mod CAN_PACKET_SIZE = 0"

lemma load_append:
  "p + n \<le> length xs \<Longrightarrow> load (xs @ ys) p n = load xs p n" "load (xs @ ys) (length xs + p) n = load ys p n"
  "p < length xs \<Longrightarrow> load1 (xs @ ys) p = load1 xs p" "load1 (xs @ ys) (length xs + p) = load1 ys p"
  by (auto simp: load_def load1_def nth_append)

lemma decode_packet_append:
  "pos + CAN_PACKET_SIZE \<le> length xs \<Longrightarrow> decode_packet (xs @ ys) pos = decode_packet xs pos"
  "decode_packet (xs @ ys) (length xs + pos) = decode_packet ys pos"
   apply (simp add: decode_packet_def array_to_uint_def load_append)
  apply (simp only: decode_packet_def array_to_uint_def load_append add.assoc)
  done

lemma read_packets_append:
  "pos + n * CAN_PACKET_SIZE \<le> length xs \<Longrightarrow> read_packets check (xs @ ys) n pos k c p = read_packets check xs n pos k c p"
  "read_packets check (xs @ ys) n (length xs + pos) k c p = read_packets check ys n pos k c p"
proof (induction n arbitrary: pos k c p)
  case (Suc n)
  { case 1
    then show ?case using Suc(1)
      by (cases "decode_packet xs pos") (auto simp: decode_packet_append Let_def split: prod.split) }
  { case 2
    show ?case using Suc(2)
      by (cases "decode_packet ys pos") (auto simp: decode_packet_append add.assoc Let_def split: prod.split) }
qed simp_all

lemma read_packets_plus:
  "read_packets check buf (m + n) pos k c p = do {
     (k, c, p) \<leftarrow> read_packets check buf m pos k c p;
     read_packets check buf n (pos + m * CAN_PACKET_SIZE) k c p }"
proof (induction m arbitrary: pos k c p)
  case (Suc m)
  then show ?case
    by (cases "decode_packet buf pos") (auto simp: Let_def algebra_simps split: prod.split)
qed simp

lemma read_packets_chunks:
  assumes "whole_packets bs"
  shows "read_packets check (bs @ rest) ((length bs + length rest) div CAN_PACKET_SIZE) 0 k c p = do {
     (k, c, p) \<leftarrow> read_packets check bs (length bs div CAN_PACKET_SIZE) 0 k c p;
     read_packets check rest (length rest div CAN_PACKET_SIZE) 0 k c p }"
proof -
  have len: "length bs div CAN_PACKET_SIZE * CAN_PACKET_SIZE = length bs"
    using assms by (auto simp: whole_packets_def)
  have split: "(length bs + length rest) div CAN_PACKET_SIZE = length bs div CAN_PACKET_SIZE + length rest div CAN_PACKET_SIZE"
    using assms by (auto simp: whole_packets_def div_add1_eq)
  show ?thesis
    unfolding split read_packets_plus
    using len read_packets_append(1) [of 0 "length bs div CAN_PACKET_SIZE" bs check rest k c p]
      read_packets_append(2) [of check bs rest _ 0]
    by (cases "read_packets check bs (length bs div CAN_PACKET_SIZE) 0 k c p") auto
qed

text \<open>The packets are processed without the system.\<close>

lemma print_os [simp]: "print s (p\<lparr>os := v\<rparr>) = (print s p)\<lparr>os := v\<rparr>" "println s (p\<lparr>os := v\<rparr>) = (println s p)\<lparr>os := v\<rparr>"
  by (simp_all add: print_def println_def)

lemma check_frame_os:
  "check_frame t f c (p\<lparr>os := v\<rparr>) = map_prod id (\<lambda>p. p\<lparr>os := v\<rparr>) (check_frame t f c p)"
  "os (snd (check_frame t f c p)) = os p \<and> fd_open (snd (check_frame t f c p)) = fd_open p"
  by (simp_all add: check_frame_def track_def Let_def split: option.split prod.split)

lemma check_frame_keeps_os:
  "check_frame t f c p = (c', p') \<Longrightarrow> os p' = os p \<and> fd_open p' = fd_open p"
  using check_frame_os(2) [of t f c p] by simp

lemma read_packets_os:
  "read_packets check buf n pos k c (p\<lparr>os := v\<rparr>)
     = map_option (\<lambda>(k, c, p). (k, c, p\<lparr>os := v\<rparr>)) (read_packets check buf n pos k c p)"
  "read_packets check buf n pos k c p = Some (k', c', p') \<Longrightarrow> os p' = os p \<and> fd_open p' = fd_open p"
proof (induction n arbitrary: pos k c p)
  case (Suc n)
  { case 1
    show ?case using Suc(1)
      by (cases "decode_packet buf pos")
        (auto simp: Let_def print_canfd_frame_def check_frame_os split: prod.split) }
  { case 2
    then obtain t f c1 p1 where "read_packets check buf n (pos + CAN_PACKET_SIZE) (k + 1) c1 p1 = Some (k', c', p')"
      "os p1 = os p \<and> fd_open p1 = fd_open p"
      by (auto simp: Let_def print_canfd_frame_def split: bind_splits prod.splits if_splits dest!: check_frame_keeps_os)
    then show ?case using Suc(2) by metis }
qed simp_all

lemma decode_packet_total: "pos + CAN_PACKET_SIZE \<le> length buf \<Longrightarrow> \<exists>t f. decode_packet buf pos = Some (t, f)"
  by (simp add: decode_packet_def array_to_uint_def load1_def load_def)

lemma read_packets_total:
  "pos + n * CAN_PACKET_SIZE \<le> length buf \<Longrightarrow> \<exists>c' p'. read_packets check buf n pos k c p = Some (k + n, c', p')"
proof (induction n arbitrary: pos k c p)
  case (Suc n)
  then obtain t f where tf: "decode_packet buf pos = Some (t, f)" using decode_packet_total [of pos buf] by auto
  obtain c1 p1 where cp: "(if check then check_frame t f c p
      else (c, print_canfd_frame t f (print (dec (int k) @ '': '') p))) = (c1, p1)" by fastforce
  show ?case using Suc.IH [of "pos + CAN_PACKET_SIZE" "k + 1" c1 p1] Suc.prems by (simp add: tf cp)
qed simp

lemma read_loop_feeds:
  assumes "feeds S cs (os p) s'" and "\<forall>bs\<in>set cs. whole_packets bs" and "fd_open p"
    and "read_packets check (concat cs) (length (concat cs) div CAN_PACKET_SIZE) 0 k c p = Some (k', c', p')"
  shows "read_loop S check (n + int (length (concat cs))) n k c p = Some (False, c', p'\<lparr>os := s'\<rparr>)"
  using assms
proof (induction cs arbitrary: n k c p p')
  case Nil
  then show ?case by (subst read_loop.simps) simp
next
  case (Cons bs cs)
  have whole: "whole_packets bs" and cs: "\<forall>bs\<in>set cs. whole_packets bs" using Cons.prems(2) by auto
  obtain s1 where read: "sys_ioctl S (Cf02a_ioctl (CF02A_READ_STORE_DATA BUFFER_SIZE)) (os p)
        = Some (int (length bs), Some (Out_cf02a (Out_data bs)), s1)"
    and run: "\<not> sys_stop S (os p)" and rest: "feeds S cs s1 s'"
    using Cons.prems(1) by (auto split: option.splits)
  obtain k1 c1 p1 where one: "read_packets check bs (length bs div CAN_PACKET_SIZE) 0 k c p = Some (k1, c1, p1)"
    and more: "read_packets check (concat cs) (length (concat cs) div CAN_PACKET_SIZE) 0 k1 c1 p1 = Some (k', c', p')"
    using Cons.prems(4) read_packets_chunks [OF whole, of check "concat cs" k c p]
    by (auto split: bind_splits)
  have "fd_open p1" using read_packets_os(2) [OF one] Cons.prems(3) by simp
  then have "read_loop S check ((n + int (length bs)) + int (length (concat cs))) (n + int (length bs)) k1 c1
      (p1\<lparr>os := s1\<rparr>) = Some (False, c', (p'\<lparr>os := s1\<rparr>)\<lparr>os := s'\<rparr>)"
    by (intro Cons.IH) (use rest cs more in \<open>simp_all add: read_packets_os(1)\<close>)
  moreover have "0 < int (length bs) + int (length (concat cs))" "bs \<noteq> []"
    using whole by (auto simp: whole_packets_def intro: add_pos_nonneg)
  ultimately show ?case
    using read run one Cons.prems(3)
    by (subst read_loop.simps)
      (simp add: stop_requested_def do_ioctl_def bytes_read_def read_packets_os(1) add.assoc)
qed

subsection \<open>A frame in a recording and on the network device\<close>

lemma le_value_word:
  "(word_of_int (le_value [b0, b1, b2, b3]) :: u32)
     = ucast b0 OR push_bit 8 (ucast b1) OR push_bit 16 (ucast b2) OR push_bit 24 (ucast b3)"
proof -
  have sum: "(word_of_int (le_value [b0, b1, b2, b3]) :: u32)
      = ucast b0 + (push_bit 8 (ucast b1) + (push_bit 16 (ucast b2) + push_bit 24 (ucast b3)))"
    by (simp add: push_bit_eq_mult algebra_simps)
  have "push_bit 16 (ucast b2) + push_bit 24 (ucast b3) = (push_bit 16 (ucast b2) OR push_bit 24 (ucast b3) :: u32)"
    by (rule disjunctive_add) (auto simp: bit_simps dest: bit_imp_le_length)
  moreover have "push_bit 8 (ucast b1) + (push_bit 16 (ucast b2) OR push_bit 24 (ucast b3))
      = (push_bit 8 (ucast b1) OR push_bit 16 (ucast b2) OR push_bit 24 (ucast b3) :: u32)"
    by (rule disjunctive_add) (auto simp: bit_simps dest: bit_imp_le_length)
  moreover have "ucast b0 + (push_bit 8 (ucast b1) OR push_bit 16 (ucast b2) OR push_bit 24 (ucast b3))
      = (ucast b0 OR push_bit 8 (ucast b1) OR push_bit 16 (ucast b2) OR push_bit 24 (ucast b3) :: u32)"
    by (rule disjunctive_add) (auto simp: bit_simps dest: bit_imp_le_length)
  ultimately show ?thesis unfolding sum by simp
qed

lemma array_to_uint_load:
  assumes "load m p 4 = Some bs"
  shows "array_to_uint m p = Some (word_of_int (le_value bs))"
proof -
  have "bs = [m ! p, m ! (p + 1), m ! (p + 2), m ! (p + 3)]" and "p + 4 \<le> length m"
    using assms by (auto simp: load_def take_Suc_conv_app_nth numeral_eq_Suc split: if_splits)
  then show ?thesis
    by (simp only: le_value_word array_to_uint_def) (simp add: load1_def)
qed

lemma timespec_add_ns:
  "timespec_to_ns (timespec_add t s n) = timespec_to_ns t + uint s * 1000000000 + uint n"
  by (simp add: timespec_add_def timespec_to_ns_def Let_def algebra_simps)

lemma low_codes_int: "0 \<le> i \<Longrightarrow> i \<le> 8 \<Longrightarrow> can_dlc2len i = i"
proof -
  assume "0 \<le> i" "i \<le> 8"
  then have "i \<in> {0, 1, 2, 3, 4, 5, 6, 7, 8}" by auto
  then show ?thesis by (auto simp: can_dlc2len_def)
qed

lemma low_codes:
  fixes d :: u8
  assumes "unat d \<le> 8"
  shows "can_dlc2len (uint d) = uint d"
  using assms low_codes_int [OF uint_ge_0] unfolding unat_eq_nat_uint nat_le_iff by simp

text \<open>The kernel's table from length codes to lengths, as the world has it, is the program's own.\<close>

definition kernel_lengths :: "world \<Rightarrow> bool" where
  "kernel_lengths w \<longleftrightarrow> (\<forall>d. uint d < 16 \<longrightarrow> int (can_fd_dlc2len w d) = can_dlc2len (uint d))"

lemma code_bound: "uint (d AND 0x0F :: u8) < 16"
  using word_and_le1 [of d "0x0F"] by (simp add: word_le_def)

lemma frame_agrees:
  assumes "length p = 78" and "netdev_present w" and "may_fail w = (True, w1)" and "kernel_lengths w1"
    and "cf02a_rx_can_msg w p = Some w'"
  shows "\<exists>t f i n fl bs ts w2. decode_packet p 0 = Some (t, f) \<and> w' = emit (Net_rx i n fl bs ts) w2
    \<and> can_id f = i AND 0x1FFFFFFF \<and> frame_len f = n \<and> take (unat n) bs = take (unat n) (frame_data f)
    \<and> ts = timespec_to_ns t - timespec_to_ns (reset_ts w)"
proof -
  have loads: "load p 0 4 = Some (take 4 p)" "load p 4 4 = Some (take 4 (drop 4 p))" "load p 8 4 = Some (take 4 (drop 8 p))"
    "load1 p 12 = Some (p ! 12)" "load1 p 13 = Some (p ! 13)" "load p 14 64 = Some (drop 14 p)"
    using assms(1) by (simp_all add: load_def load1_def)
  let ?sec = "word_of_int (le_value (take 4 p)) :: u32"
  let ?usec = "word_of_int (le_value (take 4 (drop 4 p))) :: u32"
  let ?i = "word_of_int (le_value (take 4 (drop 8 p))) :: u32"
  let ?d = "p ! 12 AND 0x0F"
  let ?t = "timespec_add \<lparr>tv_sec = 0, tv_nsec = 0\<rparr> ?sec (?usec * 1000)"
  let ?f = "\<lparr>can_id = ?i AND 0x1FFFFFFF, frame_len = word_of_int (can_dlc2len (uint ?d)), frame_flags = p ! 13,
    frame_data = drop 14 p\<rparr>"
  have decode: "decode_packet p 0 = Some (?t, ?f)"
    using loads by (simp add: decode_packet_def array_to_uint_load)
  let ?ts = "timespec_to_ns ?t - timespec_to_ns (reset_ts w)"
  have ts: "timespec_to_ns (convert_timestamp_to_timespec64 \<lparr>ts_sec = ?sec, ts_usec = ?usec\<rparr>) = timespec_to_ns ?t"
    by (simp only: timespec_add_ns) (simp add: convert_timestamp_to_timespec64_def timespec_to_ns_def)
  have stamp: "payload_timestamp p = Some \<lparr>ts_sec = ?sec, ts_usec = ?usec\<rparr>"
    by (simp add: payload_timestamp_def loads)
  show ?thesis
  proof (cases "p ! 13 AND 4 = 0")
    case False
    let ?n = "can_fd_dlc2len w1 ?d"
    have n: "int ?n = can_dlc2len (uint ?d)" using assms(4) code_bound by (simp add: kernel_lengths_def)
    obtain bs cfd fl where "load p 14 ?n = Some bs" "store (replicate 64 0) 0 bs = Some cfd"
      and w': "w' = emit (Net_rx ?i (of_nat ?n) fl cfd ?ts)
        (w1\<lparr>rx_packets := rx_packets w1 + 1, rx_bytes := rx_bytes w1 + of_nat ?n\<rparr>)"
      using assms(2,3,5) False unfolding cf02a_rx_can_msg_def stamp
      by (auto simp: loads ts Let_def split: bind_splits)
    then have bs: "bs = take ?n (drop 14 p)" "length bs = ?n" "cfd = bs @ replicate (64 - ?n) 0" "?n \<le> 64"
      by (auto simp: load_def store_def split: if_splits)
    then have un: "unat (of_nat ?n :: u8) = ?n" by (simp add: unat_of_nat)
    have "frame_len ?f = of_nat ?n" by (simp flip: n)
    moreover have "take (unat (of_nat ?n :: u8)) cfd = take (unat (of_nat ?n :: u8)) (frame_data ?f)"
      using bs un by simp
    ultimately show ?thesis using decode w' by (metis canfd_frame.select_convs(1))
  next
    case True
    obtain bs cf where "load p 14 (unat ?d) = Some bs" "store (replicate 8 0) 0 bs = Some cf"
      and w': "w' = emit (Net_rx ?i ?d 0 cf ?ts)
        (w1\<lparr>rx_packets := rx_packets w1 + 1, rx_bytes := rx_bytes w1 + ucast ?d\<rparr>)"
      using assms(2,3,5) True unfolding cf02a_rx_can_msg_def stamp
      by (auto simp: loads ts Let_def split: bind_splits)
    then have bs: "bs = take (unat ?d) (drop 14 p)" "length bs = unat ?d" "cf = bs @ replicate (8 - unat ?d) 0" "unat ?d \<le> 8"
      by (auto simp: load_def store_def split: if_splits)
    have "frame_len ?f = ?d" using low_codes [OF bs(4)] by simp
    moreover have "take (unat ?d) cf = take (unat ?d) (frame_data ?f)" using bs by simp
    ultimately show ?thesis using decode w' by (metis canfd_frame.select_convs(1))
  qed
qed


subsection \<open>Properties\<close>

text \<open>C30: reading a recording does not depend on how the driver cuts it into transfers. When the file
  delivers the packets of a recording in transfers of whole packets, however many at a time, and no
  signal arrives, the loop ends without an error and has printed, or checked, exactly the packets of
  the whole recording, in their order and numbered from 1 on.\<close>

theorem transfers_do_not_matter:
  assumes "feeds S cs (os p) s'" and "\<forall>bs\<in>set cs. whole_packets bs" and "fd_open p"
    and "length (concat cs) = n * CAN_PACKET_SIZE"
  shows "\<exists>c' p'. read_packets check (concat cs) n 0 1 c p = Some (1 + n, c', p')
    \<and> read_loop S check (int (n * CAN_PACKET_SIZE)) 0 1 c p = Some (False, c', p'\<lparr>os := s'\<rparr>)"
proof -
  obtain c' p' where r: "read_packets check (concat cs) n 0 1 c p = Some (1 + n, c', p')"
    using read_packets_total [of 0 n "concat cs" check 1 c p] assms(4) by auto
  then show ?thesis using read_loop_feeds [OF assms(1-3), of check 1 c _ _ _ 0] assms(4) by simp
qed

text \<open>C29: the check counts the frames that are missing. When every frame of a recording has eight data
  bytes with a number below the largest, on at most 256 identifiers, the check reports no error
  frame, and as lost frames the sum over the identifiers of the numbers between the first and the highest
  one that did not come in order (for an identifier whose numbers never go back, the numbers that did
  not come at all, \<open>missing_sorted\<close>).\<close>

theorem check_counts_missing:
  assumes "feeds S cs (os p) s'" and "\<forall>bs\<in>set cs. whole_packets bs" and "fd_open p"
    and "length (concat cs) = n * CAN_PACKET_SIZE" and "packets_at (concat cs) n 0 = Some qs"
    and "\<forall>f\<in>snd ` set qs. countable_frame f" and "card (can_id ` snd ` set qs) \<le> MAX_CAN_IDS"
  shows "\<exists>c' p'. read_loop S True (int (n * CAN_PACKET_SIZE)) 0 1 (reset_trackers c) p = Some (False, c', p')
    \<and> total_lost_frames c' = of_nat (all_missing (map snd qs)) \<and> total_error_frames c' = 0"
proof -
  obtain c' p' where r: "read_packets True (concat cs) n 0 1 (reset_trackers c) p = Some (1 + n, c', p')"
    and "checked (map snd qs) c'"
    using check_packets [OF assms(5) checked_reset [of c], of 1 p] assms(6,7) by auto
  moreover have "read_loop S True (int (n * CAN_PACKET_SIZE)) 0 1 (reset_trackers c) p = Some (False, c', p'\<lparr>os := s'\<rparr>)"
    using read_loop_feeds [OF assms(1-3), of True 1 "reset_trackers c" _ _ _ 0] r assms(4) by simp
  ultimately show ?thesis by (auto simp: checked_def)
qed

text \<open>A file with three packets in two transfers: the identifiers 1, 1 and 2 with the numbers 5, 8 and 9.\<close>

definition script :: "u8 list list sys" where
  "script = \<lparr>sys_open = \<lambda>_ s. (0, s), sys_close = Some,
     sys_ioctl = \<lambda>_ s. Some (case s of [] \<Rightarrow> (0, None, []) | bs # s \<Rightarrow> (int (length bs), Some (Out_cf02a (Out_data bs)), s)),
     sys_read = \<lambda>_ s. Some (0, [], s), sys_write = \<lambda>_ s. Some (0, s), sys_malloc = \<lambda>s. (True, s),
     sys_sleep = id, sys_stop = \<lambda>_. False\<rparr>"

definition packet :: "u8 \<Rightarrow> u8 \<Rightarrow> u8 list" where
  "packet i v = [0, 0, 0, 0, 0, 0, 0, 0, i, 0, 0, 0, 8, 0, 0, 0, 0, 0, 0, 0, 0, v] @ replicate 56 0"

definition recording :: "u8 list list" where
  "recording = [packet 1 5, packet 1 8 @ packet 2 9]"

definition recording_proc :: "u8 list list proc" where
  "recording_proc = (start recording)\<lparr>fd_open := True\<rparr>"

lemma recording_ok:
  "feeds script recording (os recording_proc) []" "\<forall>bs\<in>set recording. whole_packets bs" "fd_open recording_proc"
  "length (concat recording) = 3 * CAN_PACKET_SIZE"
  by (simp_all add: script_def recording_proc_def recording_def start_def whole_packets_def packet_def)

theorem transfers_do_not_matter_witness:
  "\<forall>c. \<exists>c' p'. read_packets True (concat recording) 3 0 1 (reset_trackers c) recording_proc = Some (1 + 3, c', p')
    \<and> read_loop script True (int (3 * CAN_PACKET_SIZE)) 0 1 (reset_trackers c) recording_proc = Some (False, c', p'\<lparr>os := []\<rparr>)"
  by (rule allI, rule transfers_do_not_matter [OF recording_ok])

definition decoded :: "u8 \<Rightarrow> u8 \<Rightarrow> timespec \<times> canfd_frame" where
  "decoded i v = (\<lparr>tv_sec = 0, tv_nsec = 0\<rparr>,
     \<lparr>can_id = ucast i, frame_len = 8, frame_flags = 0, frame_data = [0, 0, 0, 0, 0, 0, 0, v] @ replicate 56 0\<rparr>)"

lemma recording_packets: "packets_at (concat recording) 3 0 = Some [decoded 1 5, decoded 1 8, decoded 2 9]"
  by code_simp

lemma counter_decoded: "map (counter \<circ> snd) [decoded 1 5, decoded 1 8, decoded 2 9] = [5, 8, 9]"
  by code_simp

lemma recording_counts:
  "\<forall>f\<in>snd ` set [decoded 1 5, decoded 1 8, decoded 2 9]. countable_frame f"
  "can_id ` snd ` set [decoded 1 5, decoded 1 8, decoded 2 9] = {1, 2}"
  using counter_decoded by (simp_all add: countable_frame_def) (simp_all add: decoded_def)

lemma recording_missing: "all_missing (map snd [decoded 1 5, decoded 1 8, decoded 2 9]) = 2"
proof -
  have "counters 1 (map snd [decoded 1 5, decoded 1 8, decoded 2 9]) = [5, 8]"
    "counters 2 (map snd [decoded 1 5, decoded 1 8, decoded 2 9]) = [9]"
    using counter_decoded by (simp_all add: counters_def) (simp_all add: decoded_def)
  moreover have "{5..8} - {5, 8::nat} = {6, 7}" by auto
  then have "missing [5, 8] = 2" by (simp add: missing_def highs_def)
  ultimately show ?thesis
    using recording_counts(2) by (simp add: all_missing_def missing_single)
qed

theorem check_counts_missing_witness:
  "\<forall>c. \<exists>c' p'. read_loop script True (int (3 * CAN_PACKET_SIZE)) 0 1 (reset_trackers c) recording_proc = Some (False, c', p')
    \<and> total_lost_frames c' = 2 \<and> total_error_frames c' = 0"
  using check_counts_missing [OF recording_ok recording_packets recording_counts(1), unfolded recording_counts(2) recording_missing]
  by simp

text \<open>A device on which no recording can be read: the request to start sending fails.\<close>

definition unreadable :: "'s sys \<Rightarrow> bool" where
  "unreadable S \<longleftrightarrow>
     (\<forall>ident on s. \<exists>e x s'. sys_ioctl S (Cf02a_ioctl (CF02A_SET_STORE_DATA_RX_CONTROL ident on)) s = Some (e, x, s') \<and> e < 0)
     \<and> (\<forall>ident s. \<exists>rtc ts device_ts host n s'. sys_ioctl S (Cf02a_ioctl (CF02A_GET_STORE_DATA_META ident)) s
          = Some (0, Some (Out_cf02a (Out_meta rtc ts device_ts host n)), s') \<and> 0 < n)
     \<and> (\<forall>s. \<exists>s'. sys_close S s = Some s') \<and> (\<forall>s. fst (sys_malloc S s)) \<and> (\<forall>s. \<not> sys_stop S s)"

lemma unreadable_start:
  assumes "unreadable S" and "fd_open p"
  shows "\<exists>p'. read_store_data S ident n check c p = Some (RESULT_Failure, reset_trackers c, p') \<and> fd_open p'"
proof -
  let ?cmd = "Cf02a_ioctl (CF02A_SET_STORE_DATA_RX_CONTROL ident True)"
  obtain e x s where e: "sys_ioctl S ?cmd (os p) = Some (e, x, s)" "e < 0"
    using assms(1) unfolding unreadable_def by blast
  then show ?thesis
    using assms(2) by (simp add: read_store_data_def set_store_data_rx_control_def do_ioctl_def ioctl_error_def Let_def)
qed

lemma unreadable_loop:
  assumes "unreadable S" and "fd_open p" and "32 * (i + n) \<le> length m"
  shows "\<exists>c' p'. list_loop S dev True check (Some m) n i c p = Some (Inr c', p')
    \<and> store_results c' = store_results c \<and> fd_open p'"
  using assms(2,3)
proof (induction n arbitrary: i c p)
  case (Suc n)
  obtain ident where ident: "id_at (Some m) i = Some ident"
    using Suc.prems(2) by (simp add: id_at_def load_def)
  obtain rtc ts device_ts host k s where meta:
    "sys_ioctl S (Cf02a_ioctl (CF02A_GET_STORE_DATA_META ident)) (os p)
      = Some (0, Some (Out_cf02a (Out_meta rtc ts device_ts host k)), s)" "0 < k"
    using assms(1) unfolding unreadable_def by meson
  let ?p = "print_meta i ident rtc ts device_ts host k (p\<lparr>os := s\<rparr>)"
  have "fd_open ?p" using Suc.prems(1) by (simp add: print_meta_def Let_def)
  then obtain p1 where p1: "read_store_data S ident k check c ?p = Some (RESULT_Failure, reset_trackers c, p1)" "fd_open p1"
    using unreadable_start [OF assms(1)] by blast
  have run: "\<not> stop_requested S q" for q using assms(1) by (simp add: unreadable_def stop_requested_def)
  let ?q = "println (''read_store_data().. Error, <errno:'' @ dec (errno p1)
             @ ''> devname='' @ dev @ '', store_data_id='' @ c_string ident) p1"
  obtain c' p' where "list_loop S dev True check (Some m) n (Suc i) (reset_trackers c) ?q = Some (Inr c', p')"
    "store_results c' = store_results c" "fd_open p'"
    using Suc.IH [of ?q "Suc i" "reset_trackers c"] Suc.prems(2) p1(2) by (auto simp: reset_trackers_def)
  then show ?case
    using Suc.prems(1) meta p1 run
    by (simp add: ident get_store_data_meta_def do_ioctl_def Let_def)
qed simp


definition unreadable_sys :: "unit sys" where
  "unreadable_sys = \<lparr>sys_open = \<lambda>_ s. (0, s), sys_close = Some,
     sys_ioctl = (\<lambda>cmd s. Some (case cmd of
         Cf02a_ioctl (CF02A_GET_STORE_DATA_META _) \<Rightarrow>
           (0, Some (Out_cf02a (Out_meta \<lparr>weekday = 1, month = 1, date = 1, year = 0, hour = 0, minute = 0, second = 0,
              microsecond = 0\<rparr> \<lparr>tv_sec = 0, tv_nsec = 0\<rparr> \<lparr>tv_sec = 0, tv_nsec = 0\<rparr> \<lparr>tv_sec = 0, tv_nsec = 0\<rparr> 1)), s)
       | _ \<Rightarrow> (-5, None, s))),
     sys_read = \<lambda>_ s. Some (-22, [], s), sys_write = \<lambda>_ s. Some (-22, s), sys_malloc = \<lambda>s. (True, s),
     sys_sleep = id, sys_stop = \<lambda>_. False\<rparr>"


text \<open>C34: the driver and the program understand a packet alike. Whenever the receive handler of the EP1-CF02A
  passes the frame of a packet on to the network device, the program decodes the same packet to the same
  frame: the identifier without its flag bits, the same number of data bytes and the same bytes; and its time stamp is
  the network device's, which counts from the reset of the device's clock. This relies on the kernel's
  table of lengths being the program's.\<close>

theorem recording_agrees_with_network:
  assumes "length p = 78" and "netdev_present w" and "may_fail w = (True, w1)" and "kernel_lengths w1"
    and "cf02a_rx_can_msg w p = Some w'"
  shows "\<exists>t f i n fl bs ts w2. decode_packet p 0 = Some (t, f) \<and> w' = emit (Net_rx i n fl bs ts) w2
    \<and> can_id f = i AND 0x1FFFFFFF \<and> frame_len f = n \<and> take (unat n) bs = take (unat n) (frame_data f)
    \<and> ts = timespec_to_ns t - timespec_to_ns (reset_ts w)"
  by (rule frame_agrees [OF assms])

definition fd_packet :: "u8 list" where
  "fd_packet = replicate 12 0 @ [9, 7] @ replicate 64 1"

definition net_world :: world where
  "net_world = (world0 CF02A)\<lparr>netdev_present := True, can_fd_dlc2len := \<lambda>d. nat (can_dlc2len (uint d))\<rparr>"

lemma code_length_nonneg: "0 \<le> i \<Longrightarrow> i < 16 \<Longrightarrow> 0 \<le> can_dlc2len i"
proof -
  assume "0 \<le> i" "i < 16"
  then have "i \<in> {0, 1, 2, 3, 4, 5, 6, 7, 8, 9, 10, 11, 12, 13, 14, 15}" unfolding insert_iff empty_iff by presburger
  then show ?thesis by (auto simp: can_dlc2len_def)
qed

lemma net_world_lengths: "kernel_lengths net_world"
  using code_length_nonneg [OF uint_ge_0] by (auto simp: kernel_lengths_def net_world_def)

theorem recording_agrees_with_network_witness:
  "\<exists>w'. cf02a_rx_can_msg net_world fd_packet = Some w' \<and>
    (\<exists>t f i n fl bs ts w2. decode_packet fd_packet 0 = Some (t, f) \<and> w' = emit (Net_rx i n fl bs ts) w2
      \<and> can_id f = i AND 0x1FFFFFFF \<and> frame_len f = n \<and> take (unat n) bs = take (unat n) (frame_data f)
      \<and> ts = timespec_to_ns t - timespec_to_ns (reset_ts net_world))"
proof -
  have fail: "may_fail net_world = (True, net_world)" by (simp add: may_fail_def net_world_def world0_def)
  have p: "length fd_packet = 78" "fd_packet ! 12 = 9" "fd_packet ! 13 = 7"
    by (simp_all add: fd_packet_def nth_append)
  have n: "can_fd_dlc2len net_world 9 = 12" by (simp add: net_world_def can_dlc2len_def)
  have "cf02a_rx_can_msg net_world fd_packet \<noteq> None"
    by (simp add: cf02a_rx_can_msg_def fail payload_timestamp_def load_def load1_def store_def Let_def p n)
  then obtain w' where run: "cf02a_rx_can_msg net_world fd_packet = Some w'" by auto
  have "length fd_packet = 78" "netdev_present net_world" by (simp_all add: fd_packet_def net_world_def)
  from recording_agrees_with_network [OF this fail net_world_lengths run] run show ?thesis by blast
qed

end
