(* ===== verification/Tool_Config.thy ===== *)
theory Tool_Config
  imports Tools
begin

text \<open>
  The configuration of an EP1-CF02A: \<open>tools/ep1_cf02a/ep1_cf02a_config/ep1_cf02a_config.c\<close>.

  The variables of \<open>main\<close> that the options set are the record \<open>config\<close>. The requests that set a
  configuration stand in a list, in the order in which the program makes them; \<open>set_each\<close> is the code
  that repeats for each of them. A number on the command line that is no \<open>int\<close> is undefined.
\<close>

subsection \<open>The options\<close>

record config =
  devpath :: string
  get_config :: bool
  silent_mode :: bool
  cfg_bitrate :: int
  cfg_sample_point :: int
  fd_mode :: bool
  cfg_dbitrate :: int
  cfg_dsample_point :: int
  store_enable :: bool
  store_max_duration :: u32

definition config0 :: config where
  "config0 = \<lparr>devpath = [], get_config = False, silent_mode = False, cfg_bitrate = 500000, cfg_sample_point = 0,
     fd_mode = True, cfg_dbitrate = 2000000, cfg_dsample_point = 0, store_enable = False, store_max_duration = 300\<rparr>"

definition config_help :: string where
  "config_help = concat (map (\<lambda>l. l @ newline)
     [''usage: ep1_cf02a_config [options]'', ''options: '',
      ''  --device <path>,                      Set device path.'',
      ''  --get-config,                         Get current configuration.'',
      ''  --silent <on|off>,                      Set silent mode.'',
      ''  --bitrate <bps>,                      Set CAN bitrate.'',
      ''  --sample-point <sample-point>,        Set CAN sample point.'',
      ''  --fd <on|off>,                        Set CAN FD mode.'',
      ''  --dbitrate <bps>,                     Set CAN data bitrate'',
      ''  --dsample-point <sample-point>,       Set CAN data sample point.'',
      ''  --store <on|off>,                     Enable/disable store data.'',
      ''  --store-max-duration <sec>,           Set store max duration (0=unlimited).'',
      ''  --help,                               Show this help text.''])"

text \<open>\<open>Inl\<close> is the return from \<open>main\<close> after the help.\<close>

fun config_options :: "(char \<times> string) list \<Rightarrow> config \<Rightarrow> (int + config) option" where
  "config_options [] o1 = Some (Inr o1)"
| "config_options ((n, arg) # as) o1 =
     (if n = CHR ''d'' then config_options as (o1\<lparr>devpath := arg\<rparr>)
      else if n = CHR ''g'' then config_options as (o1\<lparr>get_config := True\<rparr>)
      else if n = CHR ''i'' then config_options as (o1\<lparr>silent_mode := (arg = ''on'')\<rparr>)
      else if n = CHR ''b'' then do { v \<leftarrow> atoi arg; config_options as (o1\<lparr>cfg_bitrate := v\<rparr>) }
      else if n = CHR ''s'' then do { v \<leftarrow> atoi arg; config_options as (o1\<lparr>cfg_sample_point := v\<rparr>) }
      else if n = CHR ''f'' then config_options as (o1\<lparr>fd_mode := (arg = ''on'')\<rparr>)
      else if n = CHR ''B'' then do { v \<leftarrow> atoi arg; config_options as (o1\<lparr>cfg_dbitrate := v\<rparr>) }
      else if n = CHR ''S'' then do { v \<leftarrow> atoi arg; config_options as (o1\<lparr>cfg_dsample_point := v\<rparr>) }
      else if n = CHR ''o'' then config_options as (o1\<lparr>store_enable := (arg = ''on'')\<rparr>)
      else if n = CHR ''m'' then do { v \<leftarrow> atoi arg; config_options as (o1\<lparr>store_max_duration := word_of_int v\<rparr>) }
      else if n = CHR ''h'' then Some (Inl EXIT_SUCCESS)
      else Some (Inl EXIT_FAILURE))"

definition on_off :: "bool \<Rightarrow> string" where
  "on_off b = (if b then ''on'' else ''off'')"

definition print_config :: "string \<Rightarrow> config \<Rightarrow> 's proc \<Rightarrow> 's proc" where
  "print_config title c p =
     (let p = println title p;
          p = println (''Device path: '' @ devpath c) p;
          p = println (''Silent mode: '' @ on_off (silent_mode c)) p;
          p = println (''CAN bitrate: '' @ dec (cfg_bitrate c)) p;
          p = println (''CAN sample point: '' @ dec (cfg_sample_point c)) p;
          p = println (''CAN FD mode: '' @ on_off (fd_mode c)) p;
          p = (if fd_mode c then println (''CAN data sample point: '' @ dec (cfg_dsample_point c))
                 (println (''CAN data bitrate: '' @ dec (cfg_dbitrate c)) p) else p);
          p = println (''Store data: '' @ on_off (store_enable c)) p in
      println (''Store max duration: '' @ dec (uint (store_max_duration c)) @ '' sec''
        @ (if store_max_duration c = 0 then '' (unlimited)'' else [])) p)"

subsection \<open>Reading the configuration\<close>

text \<open>One query: when it fails, the program closes the file and ends.\<close>

definition query ::
  "'s sys \<Rightarrow> cf02a_ioctl_cmd \<Rightarrow> string \<Rightarrow> (cf02a_out \<Rightarrow> 's proc \<Rightarrow> (int \<times> 's proc) option) \<Rightarrow> 's proc \<Rightarrow>
     (int \<times> 's proc) option" where
  "query S cmd name f p = do {
     (r, x, p) \<leftarrow> do_ioctl S (Cf02a_ioctl cmd) p;
     if r \<noteq> 0 then do { p \<leftarrow> do_close S (ioctl_error name p); Some (EXIT_FAILURE, p) }
     else case x of Some (Out_cf02a v) \<Rightarrow> f v p | _ \<Rightarrow> None
   }"

definition show_config :: "'s sys \<Rightarrow> config \<Rightarrow> 's proc \<Rightarrow> (int \<times> 's proc) option" where
  "show_config S c =
     query S CF02A_GET_SILENT_MODE ''EP1_CF02A_IOCTL_GET_SILENT_MODE'' (\<lambda>v. case v of Out_flag si \<Rightarrow>
     query S CF02A_GET_BITRATE ''EP1_CF02A_IOCTL_GET_BITRATE'' (\<lambda>v. case v of Out_bitrate b sp \<Rightarrow>
     query S CF02A_GET_FD_MODE ''EP1_CF02A_IOCTL_GET_FD_MODE'' (\<lambda>v. case v of Out_flag fd \<Rightarrow> (\<lambda>p.
       let c = c\<lparr>silent_mode := si, cfg_bitrate := b, cfg_sample_point := sp, fd_mode := fd\<rparr>;
           last = (\<lambda>c.
             query S CF02A_GET_STORE_ENABLE ''EP1_CF02A_IOCTL_GET_STORE_ENABLE'' (\<lambda>v. case v of Out_flag st \<Rightarrow>
             query S CF02A_GET_STORE_MAX_DURATION ''EP1_CF02A_IOCTL_GET_STORE_MAX_DURATION'' (\<lambda>v. case v of Out_count d \<Rightarrow> (\<lambda>p. do {
               p \<leftarrow> do_close S (print_config ''Current configuration:''
                      (c\<lparr>store_enable := st, store_max_duration := d\<rparr>) p);
               Some (EXIT_SUCCESS, p)
             }) | _ \<Rightarrow> (\<lambda>_. None)) | _ \<Rightarrow> (\<lambda>_. None))) in
       if fd then query S CF02A_GET_DATA_BITRATE ''EP1_CF02A_IOCTL_GET_DATA_BITRATE'' (\<lambda>v. case v of Out_bitrate b sp \<Rightarrow>
         last (c\<lparr>cfg_dbitrate := b, cfg_dsample_point := sp\<rparr>) | _ \<Rightarrow> (\<lambda>_. None)) p
       else last c p)
     | _ \<Rightarrow> (\<lambda>_. None)) | _ \<Rightarrow> (\<lambda>_. None)) | _ \<Rightarrow> (\<lambda>_. None))"

subsection \<open>Setting the configuration\<close>

definition config_requests :: "config \<Rightarrow> (cf02a_ioctl_cmd \<times> string) list" where
  "config_requests c =
     [(CF02A_SET_SILENT_MODE (silent_mode c), ''EP1_CF02A_IOCTL_SET_SILENT_MODE''),
      (CF02A_SET_BITRATE (cfg_bitrate c) (cfg_sample_point c), ''EP1_CF02A_IOCTL_SET_BITRATE''),
      (CF02A_SET_FD_MODE (fd_mode c), ''EP1_CF02A_IOCTL_SET_FD_MODE'')]
     @ (if fd_mode c
        then [(CF02A_SET_ISO_MODE False, ''EP1_CF02A_IOCTL_SET_ISO_MODE''),
              (CF02A_SET_DATA_BITRATE (cfg_dbitrate c) (cfg_dsample_point c), ''EP1_CF02A_IOCTL_SET_DATA_BITRATE'')]
        else [])
     @ [(CF02A_SET_STORE_ENABLE (store_enable c), ''EP1_CF02A_IOCTL_SET_STORE_ENABLE''),
        (CF02A_SET_STORE_MAX_DURATION (store_max_duration c), ''EP1_CF02A_IOCTL_SET_STORE_MAX_DURATION'')]"

fun set_each :: "'s sys \<Rightarrow> (cf02a_ioctl_cmd \<times> string) list \<Rightarrow> 's proc \<Rightarrow> (int \<times> 's proc) option" where
  "set_each S [] p = do { p \<leftarrow> do_close S p; Some (EXIT_SUCCESS, p) }"
| "set_each S ((cmd, name) # rs) p = do {
     (r, _, p) \<leftarrow> do_ioctl S (Cf02a_ioctl cmd) p;
     if r \<noteq> 0 then do { p \<leftarrow> do_close S (ioctl_error name p); Some (EXIT_FAILURE, p) }
     else set_each S rs p
   }"

definition set_config :: "'s sys \<Rightarrow> config \<Rightarrow> 's proc \<Rightarrow> (int \<times> 's proc) option" where
  "set_config S c p = set_each S (config_requests c) (print_config ''Setting configuration:'' c p)"

definition configure :: "'s sys \<Rightarrow> (char \<times> string) list \<Rightarrow> 's proc \<Rightarrow> (int \<times> 's proc) option" where
  "configure S args p = do {
     x \<leftarrow> config_options args config0;
     case x of
       Inl e \<Rightarrow> Some (e, print config_help p)
     | Inr c \<Rightarrow>
         if devpath c = [] then Some (EXIT_FAILURE, print config_help (println ''ERROR: Device path is required.'' p))
         else let (ok, p) = do_open S (devpath c) p in
           if \<not> ok then Some (EXIT_FAILURE, println (''open().. Error, <errno:'' @ dec (errno p) @ ''> devpath='' @ devpath c) p)
           else if get_config c then show_config S c p
           else set_config S c p
   }"

subsection \<open>What is requested\<close>

context usb_file
begin

lemma set_each_logged:
  assumes "set_each (traced S) rs p = Some (e, p')" and "fd_open p"
    and "\<forall>cmd\<in>fst ` set rs. \<forall>r x. answer_fits (Cf02a_ioctl cmd) r x \<longrightarrow> r = 0 \<and> x = None"
  shows "(e = 0 \<and> log p' = log p @ map (\<lambda>(cmd, _). (Cf02a_ioctl cmd, 0, None)) rs)
    \<or> (e = 1 \<and> (\<exists>k<length rs. \<exists>r x. r < 0
          \<and> log p' = log p @ map (\<lambda>(cmd, _). (Cf02a_ioctl cmd, 0, None)) (take k rs) @ [(Cf02a_ioctl (fst (rs ! k)), r, x)]))"
  using assms
proof (induction rs arbitrary: p)
  case Nil
  then show ?case by (auto split: bind_splits dest: close_logged)
next
  case (Cons q rs)
  obtain cmd name where q: "q = (cmd, name)" by fastforce
  obtain r x p1 where 1: "do_ioctl (traced S) (Cf02a_ioctl cmd) p = Some (r, x, p1)"
    using Cons.prems(1) q by (auto split: bind_splits)
  obtain e1 where logged: "fd_open p1" "log p1 = log p @ [(Cf02a_ioctl cmd, e1, x)]" "r = (if e1 < 0 then -1 else e1)"
    using ioctl_logged [OF 1 Cons.prems(2)] by blast
  show ?case
  proof (cases "r = 0")
    case True
    then have "x = None" "e1 = 0"
      using usb_file.ioctl_fits [OF usb_file_traced [OF usb_file_axioms] 1] Cons.prems(3) logged(3) q
      by (auto split: if_splits)
    with logged have l: "log p1 = log p @ [(Cf02a_ioctl cmd, 0, None)]" by simp
    from True Cons.prems(1) have "set_each (traced S) rs p1 = Some (e, p')" by (simp add: q 1)
    from Cons.IH [OF this logged(1)] Cons.prems(3) show ?thesis
      by (auto simp: q l intro: exI [of _ "Suc _"])
  next
    case False
    then have "r = -1" using usb_file.ioctl_fits [OF usb_file_traced [OF usb_file_axioms] 1] Cons.prems(3) q by auto
    then have "e1 < 0" using logged(3) by (auto split: if_splits)
    moreover have "e = 1 \<and> log p' = log p1"
      using False Cons.prems(1) by (auto simp: q 1 ioctl_error_def split: bind_splits dest!: close_logged)
    ultimately show ?thesis using logged(2) by (auto simp: q intro!: exI [of _ 0])
  qed
qed

end

lemma config_requests_fit:
  "cmd \<in> fst ` set (config_requests c) \<Longrightarrow> answer_fits (Cf02a_ioctl cmd) r x \<Longrightarrow> r = 0 \<and> x = None"
  by (auto simp: config_requests_def answer_fits_def cf02a_answer_fits_def split: if_splits)

lemma print_config_keeps [simp]:
  "os (print_config title c p) = os p" "fd_open (print_config title c p) = fd_open p"
  by (simp_all add: print_config_def Let_def)

text \<open>A file that accepts the first requests of a configuration, and no other.\<close>

definition first_requests :: "unit sys" where
  "first_requests = \<lparr>sys_open = \<lambda>_ s. (0, s), sys_close = Some,
     sys_ioctl = (\<lambda>cmd s. Some (case cmd of
         Cf02a_ioctl (CF02A_SET_SILENT_MODE _) \<Rightarrow> (0, None, s)
       | Cf02a_ioctl (CF02A_SET_BITRATE _ _) \<Rightarrow> (0, None, s)
       | _ \<Rightarrow> (-22, None, s))),
     sys_read = \<lambda>_ s. Some (-22, [], s), sys_write = \<lambda>_ s. Some (-22, s), sys_malloc = \<lambda>s. (True, s),
     sys_sleep = id, sys_stop = \<lambda>_. False\<rparr>"

interpretation first_requests: usb_file first_requests
  by unfold_locales
    (auto simp: first_requests_def answer_fits_def cf02a_answer_fits_def split: ioctl.splits cf02a_ioctl_cmd.splits)

subsection \<open>Properties\<close>



end
