(* ===== verification/Samples.thy ===== *)
theory Samples
  imports Tool_Config Tool_Store
begin

text \<open>
  The programs of \<open>samples\<close>: \<open>EP1-CF02A/read_can.c\<close> and \<open>write_can.c\<close>, \<open>EP1-CH02A/read_can.c\<close> and
  \<open>write_can.c\<close>, \<open>EP1-AG08A/read_analog.c\<close>.

  The functions that they share with each other and with \<open>ep1_cf02a_get_store_data_list\<close>
  (\<open>can_dlc2len\<close>, \<open>array_to_uint\<close>, \<open>timespec_add\<close>) are those of \<open>Tool_Store\<close>. The loops that
  wait for a signal or for the device may not end: \<open>None\<close>. A byte of a buffer that the read did not
  deliver is undefined.
\<close>

unbundle bit_operations_syntax

abbreviation (input) CH02A_CAN_PACKET_SIZE :: nat where "CH02A_CAN_PACKET_SIZE \<equiv> 21"
abbreviation (input) EINTR :: int where "EINTR \<equiv> 4"

subsection \<open>Requests\<close>

text \<open>The samples make a request, and close the file and end when it fails; \<open>report\<close> is what is printed
  then. \<open>Inl\<close> is the return from \<open>main\<close>.\<close>

definition request_or_close ::
  "'s sys \<Rightarrow> ioctl \<Rightarrow> ('s proc \<Rightarrow> 's proc) \<Rightarrow> 's proc \<Rightarrow> ((int + ioctl_out option) \<times> 's proc) option" where
  "request_or_close S cmd report p = do {
     (r, x, p) \<leftarrow> do_ioctl S cmd p;
     if r = -1 then do { p \<leftarrow> do_close S (report p); Some (Inl EXIT_FAILURE, p) } else Some (Inr x, p)
   }"

fun requests_or_close :: "'s sys \<Rightarrow> (cf02a_ioctl_cmd \<times> string) list \<Rightarrow> 's proc \<Rightarrow> (bool \<times> 's proc) option" where
  "requests_or_close S [] p = Some (True, p)"
| "requests_or_close S ((cmd, name) # rs) p = do {
     (x, p) \<leftarrow> request_or_close S (Cf02a_ioctl cmd) (ioctl_error name) p;
     case x of Inl _ \<Rightarrow> Some (False, p) | Inr _ \<Rightarrow> requests_or_close S rs p
   }"

text \<open>The settings of a CAN bus, as both samples of the EP1-CF02A make them.\<close>

definition bus_requests :: "bool \<Rightarrow> config \<Rightarrow> (cf02a_ioctl_cmd \<times> string) list" where
  "bus_requests si c =
     [(CF02A_SET_SILENT_MODE si, ''EP1_CF02A_IOCTL_SET_SILENT_MODE''),
      (CF02A_SET_BITRATE (cfg_bitrate c) (cfg_sample_point c), ''EP1_CF02A_IOCTL_SET_BITRATE''),
      (CF02A_SET_FD_MODE (fd_mode c), ''EP1_CF02A_IOCTL_SET_FD_MODE'')]
     @ (if fd_mode c
        then [(CF02A_SET_ISO_MODE False, ''EP1_CF02A_IOCTL_SET_ISO_MODE''),
              (CF02A_SET_DATA_BITRATE (cfg_dbitrate c) (cfg_dsample_point c), ''EP1_CF02A_IOCTL_SET_DATA_BITRATE'')]
        else [])
     @ [(CF02A_SET_TX_RX_CONTROL True, ''EP1_CF02A_IOCTL_SET_TX_RX_CONTROL'')]"

definition stop_transfer :: "'s sys \<Rightarrow> 's proc \<Rightarrow> (bool \<times> 's proc) option" where
  "stop_transfer S p = requests_or_close S [(CF02A_SET_TX_RX_CONTROL False, ''EP1_CF02A_IOCTL_SET_TX_RX_CONTROL'')] p"

definition print_bus :: "config \<Rightarrow> 's proc \<Rightarrow> 's proc" where
  "print_bus c p =
     (let p = println (''Device path: '' @ devpath c) p;
          p = println (''CAN bitrate: '' @ dec (cfg_bitrate c)) p;
          p = println (''CAN sample point: '' @ dec (cfg_sample_point c)) p;
          p = println (''CAN FD mode: '' @ on_off (fd_mode c)) p in
      if fd_mode c then println (''CAN data sample point: '' @ dec (cfg_dsample_point c))
        (println (''CAN data bitrate: '' @ dec (cfg_dbitrate c)) p) else p)"

subsection \<open>Reading CAN frames from an EP1-CF02A\<close>

record read_options =
  ro_config :: config
  listen_only :: bool
  skip_ioctl :: bool

definition read_options0 :: read_options where
  "read_options0 = \<lparr>ro_config = config0\<lparr>devpath := ''/dev/aptUSB0''\<rparr>, listen_only = True, skip_ioctl = False\<rparr>"

definition read_help :: string where
  "read_help = concat (map (\<lambda>l. l @ newline)
     [''usage: read_can [options]'', ''options: '', ''  --device <path>, Set device path.'',
      ''  --bitrate <bps>, Set CAN bitrate.'', ''  --sample-point <sample-point>, Set CAN sample point.'',
      ''  --fd <on|off>, Set CAN FD mode.'', ''  --dbitrate <bps>, Set CAN data bitrate'',
      ''  --dsample-point <sample-point>, Set CAN data sample point.'',
      ''  --listen-only <on|off>, Set listen-only mode.'',
      ''  --skip-ioctl,  Skip ioctl for simultaneous read/write on one device.'',
      ''  --help, Show this help text.''])"

text \<open>The options of the bus; \<open>None\<close> inside: the letter is none of them.\<close>

definition bus_option :: "char \<Rightarrow> string \<Rightarrow> config \<Rightarrow> config option option" where
  "bus_option n arg c =
     (if n = CHR ''d'' then Some (Some (c\<lparr>devpath := arg\<rparr>))
      else if n = CHR ''b'' then do { v \<leftarrow> atoi arg; Some (Some (c\<lparr>cfg_bitrate := v\<rparr>)) }
      else if n = CHR ''s'' then do { v \<leftarrow> atoi arg; Some (Some (c\<lparr>cfg_sample_point := v\<rparr>)) }
      else if n = CHR ''f'' then Some (Some (c\<lparr>fd_mode := (arg = ''on'')\<rparr>))
      else if n = CHR ''B'' then do { v \<leftarrow> atoi arg; Some (Some (c\<lparr>cfg_dbitrate := v\<rparr>)) }
      else if n = CHR ''S'' then do { v \<leftarrow> atoi arg; Some (Some (c\<lparr>cfg_dsample_point := v\<rparr>)) }
      else Some None)"

text \<open>\<open>None\<close> inside: the help is asked for.\<close>

fun read_opts :: "(char \<times> string) list \<Rightarrow> read_options \<Rightarrow> read_options option option" where
  "read_opts [] o1 = Some (Some o1)"
| "read_opts ((n, arg) # as) o1 = do {
     x \<leftarrow> bus_option n arg (ro_config o1);
     case x of
       Some c \<Rightarrow> read_opts as (o1\<lparr>ro_config := c\<rparr>)
     | None \<Rightarrow>
         if n = CHR ''l'' then read_opts as (o1\<lparr>listen_only := (arg = ''on'')\<rparr>)
         else if n = CHR ''i'' then read_opts as (o1\<lparr>skip_ioctl := True\<rparr>)
         else Some None
   }"

definition timespec_sub :: "timespec \<Rightarrow> timespec \<Rightarrow> timespec" where
  "timespec_sub base sub = (let s = tv_sec base - tv_sec sub; n = tv_nsec base - tv_nsec sub in
     if n < 0 then \<lparr>tv_sec = s - 1, tv_nsec = n + 1000000000\<rparr> else \<lparr>tv_sec = s, tv_nsec = n\<rparr>)"

definition print_received :: "timespec \<Rightarrow> canfd_frame \<Rightarrow> 's proc \<Rightarrow> 's proc" where
  "print_received t f p = println (''['' @ dec (tv_sec t) @ ''.'' @ dec0 9 (tv_nsec t) @ ''] id: ''
     @ (if can_id f AND 0x80000000 \<noteq> 0 then hex (unat (can_id f AND 0x1FFFFFFF)) @ '' (ext)''
        else hex (unat (can_id f AND 0x7FF)) @ '' (std)'')
     @ '', len: '' @ dec (uint (frame_len f)) @ '', flags: '' @ hex (unat (frame_flags f)) @ '', data: ''
     @ concat (map hex2 (take (unat (frame_len f)) (frame_data f)))) p"

fun print_packets :: "timespec \<Rightarrow> u8 list \<Rightarrow> nat \<Rightarrow> nat \<Rightarrow> 's proc \<Rightarrow> 's proc option" where
  "print_packets rts buf 0 pos p = Some p"
| "print_packets rts buf (Suc n) pos p = do {
     sec \<leftarrow> array_to_uint buf pos;
     usec \<leftarrow> array_to_uint buf (pos + 4);
     i \<leftarrow> array_to_uint buf (pos + 8);
     dlc \<leftarrow> load1 buf (pos + 12);
     flags \<leftarrow> load1 buf (pos + 13);
     bs \<leftarrow> load buf (pos + 14) 64;
     let p = print_received (timespec_sub \<lparr>tv_sec = uint sec, tv_nsec = uint (usec * 1000)\<rparr> rts)
       \<lparr>can_id = i, frame_len = word_of_int (can_dlc2len (uint (dlc AND 0x0F))), frame_flags = flags, frame_data = bs\<rparr> p;
     print_packets rts buf n (pos + CAN_PACKET_SIZE) p
   }"

partial_function (option) receive_loop :: "'s sys \<Rightarrow> timespec \<Rightarrow> 's proc \<Rightarrow> 's proc option" where
  "receive_loop S rts p =
     (if stop_requested S p then Some p
      else do {
        (rsize, buf, p) \<leftarrow> do_read S BUFFER_SIZE p;
        if rsize = -1 then Some (if errno p \<noteq> EINTR then println (''read().. Error, <errno:'' @ dec (errno p) @ ''>'') p else p)
        else do {
          p \<leftarrow> print_packets rts buf (nat rsize div CAN_PACKET_SIZE) 0 p;
          receive_loop S rts p
        }
      })"

definition read_can :: "'s sys \<Rightarrow> (char \<times> string) list \<Rightarrow> 's proc \<Rightarrow> (int \<times> 's proc) option" where
  "read_can S args p = do {
     x \<leftarrow> read_opts args read_options0;
     case x of
       None \<Rightarrow> Some (EXIT_SUCCESS, print read_help p)
     | Some o1 \<Rightarrow> do {
         let c = ro_config o1;
         let p = println (''Skip ioctl: '' @ (if skip_ioctl o1 then ''true'' else ''false''))
           (println (''Listen-only mode: '' @ on_off (listen_only o1)) (print_bus c p));
         let (ok, p) = do_open S (devpath c) p;
         if \<not> ok then Some (EXIT_FAILURE, println (''open().. Error, <errno:'' @ dec (errno p) @ ''> devpath='' @ devpath c) p)
         else do {
           (ok, p) \<leftarrow> (if skip_ioctl o1 then Some (True, p) else requests_or_close S (bus_requests (listen_only o1) c) p);
           if \<not> ok then Some (EXIT_FAILURE, p)
           else do {
             (x, p) \<leftarrow> request_or_close S (Cf02a_ioctl CF02A_GET_DEVICE_TIMESTAMP_RESET_TIME)
               (ioctl_error ''EP1_CF02A_IOCTL_GET_DEVICE_TIMESTAMP_RESET_TIME'') p;
             case x of
               Inl e \<Rightarrow> Some (e, p)
             | Inr (Some (Out_cf02a (Out_time rts))) \<Rightarrow> do {
                 p \<leftarrow> receive_loop S rts p;
                 (ok, p) \<leftarrow> (if skip_ioctl o1 then Some (True, p) else stop_transfer S p);
                 if \<not> ok then Some (EXIT_FAILURE, p)
                 else do { p \<leftarrow> do_close S p; Some (EXIT_SUCCESS, p) }
               }
             | _ \<Rightarrow> None
           }
         }
       }
   }"

subsection \<open>Writing CAN frames to an EP1-CF02A\<close>

record write_options =
  wo_config :: config
  wo_count :: u32
  interval_us :: int

definition write_options0 :: write_options where
  "write_options0 = \<lparr>wo_config = config0\<lparr>devpath := ''/dev/aptUSB1''\<rparr>, wo_count = 1, interval_us = 1000\<rparr>"

definition write_help :: string where
  "write_help = concat (map (\<lambda>l. l @ newline)
     [''usage: write_can [options]'', ''options: '', ''  --device <path>, Set device path.'',
      ''  --bitrate <bps>, Set CAN bitrate.'', ''  --sample-point <sample-point>, Set CAN sample point.'',
      ''  --fd <on|off>, Set CAN FD mode.'', ''  --dbitrate <bps>, Set CAN data bitrate'',
      ''  --dsample-point <sample-point>, Set CAN data sample point.'', ''  --count <count>, Set CAN data count.'',
      ''  --interval <us>, Set interval time (us).'', ''  --help, Show this help text.''])"

fun write_opts :: "(char \<times> string) list \<Rightarrow> write_options \<Rightarrow> write_options option option" where
  "write_opts [] o1 = Some (Some o1)"
| "write_opts ((n, arg) # as) o1 = do {
     x \<leftarrow> bus_option n arg (wo_config o1);
     case x of
       Some c \<Rightarrow> write_opts as (o1\<lparr>wo_config := c\<rparr>)
     | None \<Rightarrow>
         if n = CHR ''c'' then do { v \<leftarrow> atoi arg; write_opts as (o1\<lparr>wo_count := word_of_int v\<rparr>) }
         else if n = CHR ''i'' then do { v \<leftarrow> atoi arg; write_opts as (o1\<lparr>interval_us := v\<rparr>) }
         else Some None
   }"

text \<open>The buffer of one frame, on a little-endian host.\<close>

definition frame_buffer :: "bool \<Rightarrow> u32 \<Rightarrow> u8 list" where
  "frame_buffer fd i = [0x01, 0x00, 0x00, 0x00, if fd then 0x0F else 0x08, if fd then 0x05 else 0x00]
     @ [ucast i, ucast (drop_bit 8 i), ucast (drop_bit 16 i), ucast (drop_bit 24 i)] @ replicate 60 0"

text \<open>The loop over the frames: \<open>n\<close> are left, the next has the number \<open>i\<close>.\<close>

fun send_loop :: "'s sys \<Rightarrow> bool \<Rightarrow> nat \<Rightarrow> u32 \<Rightarrow> 's proc \<Rightarrow> 's proc option" where
  "send_loop S fd 0 i p = Some p"
| "send_loop S fd (Suc n) i p =
     (if stop_requested S p then Some p
      else do {
        (wsize, p) \<leftarrow> do_write S (frame_buffer fd i) p;
        if wsize = -1 then Some (println (''write().. Error, <errno:'' @ dec (errno p) @ ''>'') p)
        else send_loop S fd n (i + 1) (do_sleep S p)
      })"

partial_function (option) wait_stopped :: "'s sys \<Rightarrow> 's proc \<Rightarrow> (bool \<times> 's proc) option" where
  "wait_stopped S p = do {
     (x, p) \<leftarrow> request_or_close S (Cf02a_ioctl CF02A_GET_TX_RX_CONTROL) (ioctl_error ''EP1_CF02A_IOCTL_GET_TX_RX_CONTROL'') p;
     case x of
       Inl _ \<Rightarrow> Some (False, p)
     | Inr (Some (Out_cf02a (Out_flag on))) \<Rightarrow> if on then wait_stopped S (do_sleep S p) else Some (True, p)
     | _ \<Rightarrow> None
   }"

definition write_can :: "'s sys \<Rightarrow> (char \<times> string) list \<Rightarrow> 's proc \<Rightarrow> (int \<times> 's proc) option" where
  "write_can S args p = do {
     x \<leftarrow> write_opts args write_options0;
     case x of
       None \<Rightarrow> Some (EXIT_SUCCESS, print write_help p)
     | Some o1 \<Rightarrow> do {
         let c = wo_config o1;
         let p = println (''Interval time: '' @ dec (interval_us o1) @ '' us'')
           (println (''CAN data send count: '' @ dec (sint (wo_count o1))) (print_bus c p));
         let (ok, p) = do_open S (devpath c) p;
         if \<not> ok then Some (EXIT_FAILURE, println (''open().. Error, <errno:'' @ dec (errno p) @ ''> devpath='' @ devpath c) p)
         else do {
           (ok, p) \<leftarrow> requests_or_close S (bus_requests False c) p;
           if \<not> ok then Some (EXIT_FAILURE, p)
           else do {
             p \<leftarrow> send_loop S (fd_mode c) (unat (wo_count o1)) 0 p;
             (ok, p) \<leftarrow> stop_transfer S p;
             if \<not> ok then Some (EXIT_FAILURE, p)
             else do {
               (ok, p) \<leftarrow> wait_stopped S p;
               if \<not> ok then Some (EXIT_FAILURE, p)
               else do { p \<leftarrow> do_close S p; Some (EXIT_SUCCESS, p) }
             }
           }
         }
       }
   }"

subsection \<open>CAN frames of an EP1-CH02A\<close>

text \<open>The samples for the EP1-CH02A and the EP1-AG08A name their device, take no options, and print nothing
  when a request fails.\<close>

definition hex2_lower :: "u8 \<Rightarrow> string" where
  "hex2_lower b = [digit (unat b div 16), digit (unat b mod 16)]"

definition open_sample ::
  "'s sys \<Rightarrow> string \<Rightarrow> ('s proc \<Rightarrow> (int \<times> 's proc) option) \<Rightarrow> 's proc \<Rightarrow> (int \<times> 's proc) option" where
  "open_sample S name f p = (let (ok, p) = do_open S name p in
     if \<not> ok then Some (EXIT_FAILURE, println (''open().. Error, <errno:'' @ dec (errno p) @ ''> devpath='' @ name) p)
     else f p)"

text \<open>A request on the way; the program ends when it fails.\<close>

definition sample_request ::
  "'s sys \<Rightarrow> ioctl \<Rightarrow> (ioctl_out option \<Rightarrow> 's proc \<Rightarrow> (int \<times> 's proc) option) \<Rightarrow> 's proc \<Rightarrow> (int \<times> 's proc) option" where
  "sample_request S cmd f p = do {
     (x, p) \<leftarrow> request_or_close S cmd id p;
     case x of Inl e \<Rightarrow> Some (e, p) | Inr x \<Rightarrow> f x p
   }"

definition end_sample :: "'s sys \<Rightarrow> ioctl \<Rightarrow> 's proc \<Rightarrow> (int \<times> 's proc) option" where
  "end_sample S cmd p = do { (_, _, p) \<leftarrow> do_ioctl S cmd p; p \<leftarrow> do_close S p; Some (EXIT_SUCCESS, p) }"

definition print_can_frame :: "timespec \<Rightarrow> u32 \<Rightarrow> u8 \<Rightarrow> u8 list \<Rightarrow> 's proc \<Rightarrow> 's proc" where
  "print_can_frame t i dlc bs p = println (''['' @ dec (tv_sec t) @ ''.'' @ dec0 9 (tv_nsec t) @ ''] id: ''
     @ hex (unat i) @ '', dlc: '' @ dec (uint dlc) @ '', data:'' @ concat (map (\<lambda>b. '' '' @ hex2_lower b) bs)) p"

fun ch02a_packets :: "timespec \<Rightarrow> u8 list \<Rightarrow> nat \<Rightarrow> nat \<Rightarrow> 's proc \<Rightarrow> 's proc option" where
  "ch02a_packets base buf 0 pos p = Some p"
| "ch02a_packets base buf (Suc n) pos p = do {
     sec \<leftarrow> array_to_uint buf pos;
     usec \<leftarrow> array_to_uint buf (pos + 4);
     i \<leftarrow> array_to_uint buf (pos + 8);
     dlc \<leftarrow> load1 buf (pos + 12);
     bs \<leftarrow> load buf (pos + 13) 8;
     ch02a_packets base buf n (pos + CH02A_CAN_PACKET_SIZE)
       (print_can_frame (timespec_add base sec (usec * 1000)) (i AND 0x1FFFFFFF) (dlc AND 0x0F) bs p)
   }"

definition ch02a_read_can :: "'s sys \<Rightarrow> 's proc \<Rightarrow> (int \<times> 's proc) option" where
  "ch02a_read_can S = open_sample S ''/dev/aptUSB0'' (sample_request S IOCTL_GET_BASETIME (\<lambda>x. case x of
     Some (Out_timespec base) \<Rightarrow>
       sample_request S (Can_ioctl (IOCTL_SET_MODE True 500)) (\<lambda>_. sample_request S (Can_ioctl IOCTL_START_CAN) (\<lambda>_ p. do {
         (rsize, buf, p) \<leftarrow> do_read S 128 p;
         p \<leftarrow> ch02a_packets base buf (nat rsize div CH02A_CAN_PACKET_SIZE) 0 p;
         end_sample S (Can_ioctl IOCTL_STOP_CAN) p
       }))
   | _ \<Rightarrow> (\<lambda>_. None)))"

definition ch02a_write_can :: "'s sys \<Rightarrow> 's proc \<Rightarrow> (int \<times> 's proc) option" where
  "ch02a_write_can S = open_sample S ''/dev/aptUSB1''
     (sample_request S (Can_ioctl (IOCTL_SET_MODE False 500)) (\<lambda>_. sample_request S (Can_ioctl IOCTL_START_CAN) (\<lambda>_ p. do {
        (wsize, p) \<leftarrow> do_write S [0x01, 0x00, 0x00, 0x00, 0x08, 0x02, 0x03, 0x04, 0x05, 0x06, 0x07, 0x08, 0x09] p;
        end_sample S (Can_ioctl IOCTL_STOP_CAN)
          (if wsize = -1 then println (''write().. Error, <errno:'' @ dec (errno p) @ ''>'') p else p)
      })))"

subsection \<open>Analog values of an EP1-AG08A\<close>

lemma clear_lowest_less: "x \<noteq> 0 \<Longrightarrow> unat (x AND (x - 1)) < unat (x :: u8)"
proof -
  assume "x \<noteq> 0"
  have "unat (x AND (x - 1)) \<le> unat (x - 1)"
    using word_and_le1 [of x "x - 1"] word_and_le2 [of x "x - 1"] by (auto simp: word_le_nat_alt)
  also have "\<dots> < unat x" using \<open>x \<noteq> 0\<close> by (simp add: unat_minus_one unat_gt_0)
  finally show ?thesis .
qed

function pop_count_from :: "int \<Rightarrow> u8 \<Rightarrow> int" where
  "pop_count_from n x = (if x = 0 then n else pop_count_from (n + 1) (x AND (x - 1)))"
  by pat_completeness auto
termination by (relation "measure (\<lambda>(_, x). unat x)") (auto simp: clear_lowest_less)

declare pop_count_from.simps [simp del]

definition pop_count :: "u8 \<Rightarrow> int" where
  "pop_count x = pop_count_from 0 x"

definition array_to_short :: "u8 list \<Rightarrow> nat \<Rightarrow> int option" where
  "array_to_short array pos = do {
     b0 \<leftarrow> load1 array pos; b1 \<leftarrow> load1 array (pos + 1);
     Some (sint (ucast b0 OR push_bit 8 (ucast b1) :: 16 word))
   }"

fun print_values :: "u8 list \<Rightarrow> nat \<Rightarrow> nat \<Rightarrow> 's proc \<Rightarrow> 's proc option" where
  "print_values buf 0 pos p = Some p"
| "print_values buf (Suc n) pos p = do {
     v \<leftarrow> array_to_short buf pos;
     print_values buf n (pos + 2) (print ('' '' @ dec v @ '','') p)
   }"

text \<open>The loop over the packets: each advances by nine bytes at least, \<open>fuel\<close> is the length of the buffer.\<close>

fun analog_loop :: "nat \<Rightarrow> timespec \<Rightarrow> u8 list \<Rightarrow> nat \<Rightarrow> 's proc \<Rightarrow> 's proc option" where
  "analog_loop 0 base buf pos p = (if pos < length buf then None else Some p)"
| "analog_loop (Suc fuel) base buf pos p =
     (if \<not> pos < length buf then Some p
      else do {
        sec \<leftarrow> array_to_uint buf pos;
        usec \<leftarrow> array_to_uint buf (pos + 4);
        m \<leftarrow> load1 buf (pos + 8);
        let t = timespec_add base sec (usec * 1000);
        let ch_num = pop_count m;
        p \<leftarrow> print_values buf (nat ch_num) (pos + 9)
          (print (''['' @ dec (tv_sec t) @ ''.'' @ dec0 9 (tv_nsec t) @ ''] ch num: '' @ dec ch_num @ '', data:'') p);
        analog_loop fuel base buf (pos + 9 + 2 * nat ch_num) (print newline p)
      })"

definition read_analog :: "'s sys \<Rightarrow> 's proc \<Rightarrow> (int \<times> 's proc) option" where
  "read_analog S = open_sample S ''/dev/aptUSB0'' (sample_request S IOCTL_GET_BASETIME (\<lambda>x. case x of
     Some (Out_timespec base) \<Rightarrow>
       sample_request S (Ag08a_ioctl (AG08A_IOCTL_SET_ANALOG_INPUT
           \<lparr>send_rate = 1250000, vmin = replicate 8 (-10000), vmax = replicate 8 10000\<rparr>)) (\<lambda>_.
       sample_request S (Ag08a_ioctl (AG08A_IOCTL_CONTROL_ANALOG_INPUT
           [True, False, False, True, False, False, False, True])) (\<lambda>_ p. do {
         (rsize, buf, p) \<leftarrow> do_read S 128 p;
         p \<leftarrow> analog_loop (length buf) base buf 0 p;
         end_sample S (Ag08a_ioctl (AG08A_IOCTL_CONTROL_ANALOG_INPUT (replicate 8 False))) p
       }))
   | _ \<Rightarrow> (\<lambda>_. None)))"

subsection \<open>Lemmas\<close>

lemma print_values_total: "pos + 2 * n \<le> length buf \<Longrightarrow> \<exists>p'. print_values buf n pos p = Some p'"
  by (induction n arbitrary: pos p) (auto simp: array_to_short_def load1_def)

lemma array_to_uint_total: "pos + 4 \<le> length buf \<Longrightarrow> \<exists>v. array_to_uint buf pos = Some v"
  by (simp add: array_to_uint_def load1_def)

text \<open>One packet of three channels.\<close>

lemma analog_packet:
  assumes "pos + 15 \<le> length buf" and "pop_count (buf ! (pos + 8)) = 3"
  shows "\<exists>p'. analog_loop (Suc fuel) base buf pos p = analog_loop fuel base buf (pos + 15) p'"
proof -
  obtain sec where sec: "array_to_uint buf pos = Some sec"
    using assms(1) array_to_uint_total by fastforce
  obtain usec where usec: "array_to_uint buf (pos + 4) = Some usec"
    using assms(1) array_to_uint_total by fastforce
  have m: "load1 buf (pos + 8) = Some (buf ! (pos + 8))" using assms(1) by (simp add: load1_def)
  let ?t = "timespec_add base sec (usec * 1000)"
  let ?p = "print (''['' @ dec (tv_sec ?t) @ ''.'' @ dec0 9 (tv_nsec ?t) @ ''] ch num: '' @ dec 3 @ '', data:'') p"
  obtain p' where vals: "print_values buf 3 (pos + 9) ?p = Some p'"
    using print_values_total [of "pos + 9" 3 buf ?p] assms(1) by auto
  have pos: "pos < length buf" "nat 3 = 3" "pos + 9 + 2 * 3 = pos + 15" using assms(1) by simp_all
  have "analog_loop (Suc fuel) base buf pos p = analog_loop fuel base buf (pos + 15) (print newline p')"
    by (simp only: analog_loop.simps sec usec m Let_def Option.bind.simps assms(2) pos vals not_True_eq_False if_False)
  then show ?thesis by blast
qed

lemma analog_packets:
  assumes "15 * n \<le> length buf" and "\<And>k. k < n \<Longrightarrow> pop_count (buf ! (15 * k + 8)) = 3"
  shows "\<exists>p'. analog_loop (n + fuel) base buf 0 p = analog_loop fuel base buf (15 * n) p'"
  using assms
proof (induction n arbitrary: fuel)
  case (Suc n)
  from Suc.prems have "15 * n + 15 \<le> length buf" by simp
  then obtain q where q: "analog_loop (n + Suc fuel) base buf 0 p = analog_loop (Suc fuel) base buf (15 * n) q"
    using Suc.IH [of "Suc fuel"] Suc.prems(2) by fastforce
  show ?case
    using analog_packet [of "15 * n" buf fuel base q] Suc.prems q by (simp add: add.commute)
qed auto

text \<open>Whole packets are printed.\<close>

lemma analog_whole_packets:
  assumes "length buf = 15 * n" and "\<And>k. k < n \<Longrightarrow> pop_count (buf ! (15 * k + 8)) = 3"
  shows "\<exists>p'. analog_loop (length buf) base buf 0 p = Some p'"
proof -
  have "length buf = n + 14 * n" using assms(1) by simp
  moreover obtain p' where "analog_loop (n + 14 * n) base buf 0 p = analog_loop (14 * n) base buf (15 * n) p'"
    using analog_packets [of n buf "14 * n" base p] assms by auto
  moreover have "analog_loop f base buf (15 * n) p' = Some p'" for f
    by (cases f) (simp_all add: assms(1))
  ultimately show ?thesis by simp
qed

subsection \<open>A cut packet\<close>

text \<open>The sample for analog values reads behind its buffer. It activates three channels, whose packets
  have fifteen bytes, and reads into 128 bytes. When the device has sent enough for the read to fill the
  buffer, which then ends within the ninth packet, the sample reads the mask of channels of that packet from behind the
  end of the buffer: its behaviour is undefined.\<close>

lemma read_analog_reads_past_end:
  assumes "sys_open S ''/dev/aptUSB0'' s0 = (0, s1)"
    and "sys_ioctl S IOCTL_GET_BASETIME s1 = Some (0, Some (Out_timespec base), s2)"
    and "\<And>a. sys_ioctl S (Ag08a_ioctl (AG08A_IOCTL_SET_ANALOG_INPUT a)) s2 = Some (0, None, s3)"
    and "\<And>a. sys_ioctl S (Ag08a_ioctl (AG08A_IOCTL_CONTROL_ANALOG_INPUT a)) s3 = Some (0, None, s4)"
    and "sys_read S 128 s4 = Some (128, buf, s5)" and "length buf = 128"
    and "\<And>k. k < 8 \<Longrightarrow> pop_count (buf ! (15 * k + 8)) = 3"
  shows "read_analog S (start s0) = None"
proof -
  have none: "analog_loop 128 base buf 0 p = None" for p :: "'a proc"
  proof -
    obtain p' where "analog_loop (8 + 120) base buf 0 p = analog_loop 120 base buf (15 * 8) p'"
      using analog_packets [of 8 buf 120 base p] assms(6,7) by auto
    moreover have "analog_loop (Suc 119) base buf 120 p' = None"
      unfolding analog_loop.simps using assms(6) by (simp add: array_to_uint_def load1_def)
    ultimately show ?thesis by simp
  qed
  show ?thesis
    using assms by (simp add: read_analog_def open_sample_def start_def do_open_def sample_request_def
        request_or_close_def do_ioctl_def do_read_def none)
qed

definition full_reads :: "nat sys" where
  "full_reads = \<lparr>sys_open = \<lambda>_ s. (0, s), sys_close = Some,
     sys_ioctl = (\<lambda>cmd s. Some (0, if cmd = IOCTL_GET_BASETIME then Some (Out_timespec \<lparr>tv_sec = 0, tv_nsec = 0\<rparr>) else None, s)),
     sys_read = \<lambda>n s. Some (int n, replicate n 0x89, s), sys_write = \<lambda>_ s. Some (0, s), sys_malloc = \<lambda>s. (True, s),
     sys_sleep = id, sys_stop = \<lambda>_. False\<rparr>"

lemma read_analog_example: "read_analog full_reads (start 0) = None"
proof (rule read_analog_reads_past_end [where buf = "replicate 128 0x89" and base = "\<lparr>tv_sec = 0, tv_nsec = 0\<rparr>"])
  show "pop_count (replicate 128 0x89 ! (15 * k + 8)) = 3" if "k < 8" for k
  proof -
    have "pop_count 0x89 = 3" by code_simp
    then show ?thesis using that by simp
  qed
qed (simp_all add: full_reads_def)

end
