(* ===== verification/Ioctl_Codes.thy ===== *)
theory Ioctl_Codes
  imports Fops
begin

text \<open>
  The numbers of the requests: \<open>module/apt_usbtrx_ioctl.h\<close>.

  A number is made of a direction, a sequence number and the size of the structure that is passed. The
  structures are laid out as the C language prescribes, in the data model of the program or of the kernel:
  \<open>abi\<close> is what differs between them. Each structure of the header is a \<open>ctype\<close>, its members in their
  order. How the kernel's macro packs the parts into a number is a parameter, of which the locale
  \<open>ioc_encoding\<close> says that it loses nothing; the layout of \<open>asm-generic/ioctl.h\<close> is an interpretation.

  The driver compares numbers in one \<open>switch\<close> for the common requests and in another for those of the
  product, and uses the same function for 64-bit and 32-bit programs. That no two requests share a
  number is therefore nothing a compiler checks.
\<close>

subsection \<open>Sizes of structures\<close>

record abi =
  long_size :: nat
  long_long_align :: nat

definition lp64 :: abi where "lp64 = \<lparr>long_size = 8, long_long_align = 8\<rparr>"
definition ilp32 :: abi where "ilp32 = \<lparr>long_size = 4, long_long_align = 8\<rparr>"
definition i386 :: abi where "i386 = \<lparr>long_size = 4, long_long_align = 4\<rparr>"

datatype ctype =
  C_bool | C_char | C_int | C_long | C_long_long | C_pointer | C_array ctype nat | C_struct "ctype list"

definition round_up :: "nat \<Rightarrow> nat \<Rightarrow> nat" where
  "round_up n a = (n + a - 1) div a * a"

fun alignof :: "abi \<Rightarrow> ctype \<Rightarrow> nat" where
  "alignof m C_bool = 1" | "alignof m C_char = 1" | "alignof m C_int = 4"
| "alignof m C_long = long_size m" | "alignof m C_long_long = long_long_align m"
| "alignof m C_pointer = long_size m" | "alignof m (C_array t n) = alignof m t"
| "alignof m (C_struct ts) = foldr max (map (alignof m) ts) 1"

fun sizeof :: "abi \<Rightarrow> ctype \<Rightarrow> nat" where
  "sizeof m C_bool = 1" | "sizeof m C_char = 1" | "sizeof m C_int = 4"
| "sizeof m C_long = long_size m" | "sizeof m C_long_long = 8"
| "sizeof m C_pointer = long_size m" | "sizeof m (C_array t n) = n * sizeof m t"
| "sizeof m (C_struct ts) =
     round_up (fold (\<lambda>t off. round_up off (alignof m t) + sizeof m t) ts 0) (alignof m (C_struct ts))"

subsection \<open>The structures of every device\<close>

definition timespec_c :: ctype where
  "timespec_c = C_struct [C_long, C_long]"

definition get_device_id_c :: ctype where
  "get_device_id_c = C_struct [C_int, C_array C_char 4]"

definition get_serial_no_c :: ctype where
  "get_serial_no_c = C_struct [C_int, C_int, C_array C_char 14]"

definition get_fw_version_c :: ctype where
  "get_fw_version_c = C_struct [C_int, C_int]"

definition get_fw_version_revision_c :: ctype where
  "get_fw_version_revision_c = C_struct [C_int, C_int, C_int]"

definition reset_ts_c :: ctype where
  "reset_ts_c = C_struct [timespec_c]"

definition get_basetime_c :: ctype where
  "get_basetime_c = C_struct [timespec_c]"

definition set_basetime_c :: ctype where
  "set_basetime_c = C_struct [timespec_c]"

definition set_timestamp_mode_c :: ctype where
  "set_timestamp_mode_c = C_struct [C_int]"

definition get_timestamp_mode_c :: ctype where
  "get_timestamp_mode_c = C_struct [C_int]"

definition get_firmware_size_c :: ctype where
  "get_firmware_size_c = C_struct [C_int]"

subsection \<open>The structures of the AP-CT2A and the EP1-CH02A\<close>

definition set_mode_c :: ctype where
  "set_mode_c = C_struct [C_bool, C_int]"

definition trigger_c :: ctype where
  "trigger_c = C_struct [C_bool, C_int, C_int]"

definition set_trigger_c :: ctype where
  "set_trigger_c = C_struct [trigger_c, trigger_c, C_int, C_int]"

definition get_status_c :: ctype where
  "get_status_c = C_struct [C_bool, C_bool, C_int, C_bool, set_trigger_c]"

definition ch02a_get_status_c :: ctype where
  "ch02a_get_status_c = C_struct [C_bool, C_bool, C_int, C_bool]"

definition ch02a_set_bit_timing_c :: ctype where
  "ch02a_set_bit_timing_c = C_struct [C_int, C_int, C_int, C_int, C_int]"

definition ch02a_get_bit_timing_c :: ctype where
  "ch02a_get_bit_timing_c = C_struct [C_int, ch02a_set_bit_timing_c]"

subsection \<open>The structures of the EP1-CF02A\<close>

definition cf02a_silent_mode_c :: ctype where
  "cf02a_silent_mode_c = C_struct [C_bool]"

definition cf02a_fd_mode_c :: ctype where
  "cf02a_fd_mode_c = C_struct [C_bool]"

definition cf02a_iso_mode_c :: ctype where
  "cf02a_iso_mode_c = C_struct [C_bool]"

definition cf02a_bitrate_c :: ctype where
  "cf02a_bitrate_c = C_struct [C_int, C_int]"

definition cf02a_bit_timing_c :: ctype where
  "cf02a_bit_timing_c = C_struct [C_int, C_int, C_int, C_int, C_int]"

definition cf02a_tx_rx_control_c :: ctype where
  "cf02a_tx_rx_control_c = C_struct [C_bool]"

definition cf02a_get_device_timestamp_reset_time_c :: ctype where
  "cf02a_get_device_timestamp_reset_time_c = C_struct [timespec_c]"

definition cf02a_rtc_time_c :: ctype where
  "cf02a_rtc_time_c = C_struct [C_int, C_int, C_int, C_int, C_int, C_int, C_int, C_int]"

definition cf02a_current_store_data_state_c :: ctype where
  "cf02a_current_store_data_state_c = C_struct [C_int, C_array C_char 32]"

definition cf02a_store_data_id_list_count_c :: ctype where
  "cf02a_store_data_id_list_count_c = C_struct [C_int]"

definition cf02a_store_data_id_list_c :: ctype where
  "cf02a_store_data_id_list_c = C_struct [C_int, C_pointer]"

definition cf02a_start_time_c :: ctype where
  "cf02a_start_time_c = C_struct [cf02a_rtc_time_c, timespec_c]"

definition cf02a_timestamp_reset_time_c :: ctype where
  "cf02a_timestamp_reset_time_c = C_struct [timespec_c, timespec_c]"

definition cf02a_store_data_meta_c :: ctype where
  "cf02a_store_data_meta_c =
     C_struct [C_array C_char 32, cf02a_start_time_c, cf02a_timestamp_reset_time_c, C_long_long]"

definition cf02a_store_data_rx_control_c :: ctype where
  "cf02a_store_data_rx_control_c = C_struct [C_array C_char 32, C_bool]"

definition cf02a_read_store_data_c :: ctype where
  "cf02a_read_store_data_c = C_struct [C_pointer, C_long]"

definition cf02a_delete_store_data_c :: ctype where
  "cf02a_delete_store_data_c = C_struct [C_array C_char 32]"

definition cf02a_store_enable_c :: ctype where
  "cf02a_store_enable_c = C_struct [C_bool]"

definition cf02a_store_max_duration_c :: ctype where
  "cf02a_store_max_duration_c = C_struct [C_int]"

subsection \<open>The structures of the EP1-AG08A\<close>

definition ag08a_set_analog_input_c :: ctype where
  "ag08a_set_analog_input_c = C_struct [C_int, C_array C_int 8, C_array C_int 8]"

definition ag08a_control_analog_input_c :: ctype where
  "ag08a_control_analog_input_c = C_struct [C_array C_bool 8]"

definition ag08a_set_analog_output_c :: ctype where
  "ag08a_set_analog_output_c = C_struct [C_int, C_int, C_int]"

definition ag08a_control_analog_output_c :: ctype where
  "ag08a_control_analog_output_c = C_struct [C_bool]"

definition ag08a_analog_input_c :: ctype where
  "ag08a_analog_input_c = C_struct [ag08a_set_analog_input_c, ag08a_control_analog_input_c]"

definition ag08a_analog_output_c :: ctype where
  "ag08a_analog_output_c = C_struct [ag08a_set_analog_output_c, ag08a_control_analog_output_c]"

definition ag08a_get_status_c :: ctype where
  "ag08a_get_status_c = C_struct [ag08a_analog_input_c, ag08a_analog_output_c]"

lemmas ctype_defs =
  timespec_c_def get_device_id_c_def get_serial_no_c_def get_fw_version_c_def get_fw_version_revision_c_def
  reset_ts_c_def get_basetime_c_def set_basetime_c_def set_timestamp_mode_c_def get_timestamp_mode_c_def
  get_firmware_size_c_def set_mode_c_def trigger_c_def set_trigger_c_def get_status_c_def
  ch02a_get_status_c_def ch02a_set_bit_timing_c_def ch02a_get_bit_timing_c_def cf02a_silent_mode_c_def
  cf02a_fd_mode_c_def cf02a_iso_mode_c_def cf02a_bitrate_c_def cf02a_bit_timing_c_def cf02a_tx_rx_control_c_def
  cf02a_get_device_timestamp_reset_time_c_def cf02a_rtc_time_c_def cf02a_current_store_data_state_c_def
  cf02a_store_data_id_list_count_c_def cf02a_store_data_id_list_c_def cf02a_start_time_c_def
  cf02a_timestamp_reset_time_c_def cf02a_store_data_meta_c_def cf02a_store_data_rx_control_c_def
  cf02a_read_store_data_c_def cf02a_delete_store_data_c_def cf02a_store_enable_c_def
  cf02a_store_max_duration_c_def ag08a_set_analog_input_c_def ag08a_control_analog_input_c_def
  ag08a_set_analog_output_c_def ag08a_control_analog_output_c_def ag08a_analog_input_c_def
  ag08a_analog_output_c_def ag08a_get_status_c_def

subsection \<open>The requests\<close>

text \<open>The name, the direction, the sequence number, and the structure; \<open>None\<close> is a request that is none of the header.\<close>

datatype direction = IOC_NONE | IOC_WRITE | IOC_READ | IOC_READ_WRITE

definition can_request :: "can_ioctl \<Rightarrow> (string \<times> direction \<times> nat \<times> ctype option) option" where
  "can_request c = (case c of
     IOCTL_SET_MODE _ _ \<Rightarrow> Some (''APT_USBTRX_IOCTL_SET_MODE'', IOC_WRITE, 0x11, Some set_mode_c)
   | IOCTL_GET_STATUS \<Rightarrow> Some (''APT_USBTRX_IOCTL_GET_STATUS'', IOC_READ, 0x12, Some get_status_c)
   | IOCTL_RESET_CAN_SUMMARY \<Rightarrow> Some (''APT_USBTRX_IOCTL_RESET_CAN_SUMMARY'', IOC_NONE, 0x17, None)
   | IOCTL_START_CAN \<Rightarrow> Some (''APT_USBTRX_IOCTL_START_CAN'', IOC_NONE, 0x18, None)
   | IOCTL_STOP_CAN \<Rightarrow> Some (''APT_USBTRX_IOCTL_STOP_CAN'', IOC_NONE, 0x19, None)
   | IOCTL_SET_TRIGGER _ \<Rightarrow> Some (''APT_USBTRX_IOCTL_SET_TRIGGER'', IOC_WRITE, 0x1b, Some set_trigger_c)
   | CH02A_IOCTL_GET_STATUS \<Rightarrow> Some (''EP1_CH02A_IOCTL_GET_STATUS'', IOC_READ, 0x12, Some ch02a_get_status_c)
   | CH02A_IOCTL_SET_BIT_TIMING _ \<Rightarrow> Some (''EP1_CH02A_IOCTL_SET_BIT_TIMING'', IOC_WRITE, 0x29, Some ch02a_set_bit_timing_c)
   | CH02A_IOCTL_GET_BIT_TIMING \<Rightarrow> Some (''EP1_CH02A_IOCTL_GET_BIT_TIMING'', IOC_READ, 0x30, Some ch02a_get_bit_timing_c)
   | Can_other \<Rightarrow> None)"

definition cf02a_request :: "cf02a_ioctl_cmd \<Rightarrow> (string \<times> direction \<times> nat \<times> ctype option) option" where
  "cf02a_request c = (case c of
     CF02A_GET_SILENT_MODE \<Rightarrow> Some (''EP1_CF02A_IOCTL_GET_SILENT_MODE'', IOC_READ, 0x31, Some cf02a_silent_mode_c)
   | CF02A_SET_SILENT_MODE _ \<Rightarrow> Some (''EP1_CF02A_IOCTL_SET_SILENT_MODE'', IOC_WRITE, 0x32, Some cf02a_silent_mode_c)
   | CF02A_GET_ISO_MODE \<Rightarrow> Some (''EP1_CF02A_IOCTL_GET_ISO_MODE'', IOC_READ, 0x33, Some cf02a_iso_mode_c)
   | CF02A_SET_ISO_MODE _ \<Rightarrow> Some (''EP1_CF02A_IOCTL_SET_ISO_MODE'', IOC_WRITE, 0x34, Some cf02a_iso_mode_c)
   | CF02A_GET_BITRATE \<Rightarrow> Some (''EP1_CF02A_IOCTL_GET_BITRATE'', IOC_READ, 0x35, Some cf02a_bitrate_c)
   | CF02A_SET_BITRATE _ _ \<Rightarrow> Some (''EP1_CF02A_IOCTL_SET_BITRATE'', IOC_WRITE, 0x36, Some cf02a_bitrate_c)
   | CF02A_GET_DATA_BITRATE \<Rightarrow> Some (''EP1_CF02A_IOCTL_GET_DATA_BITRATE'', IOC_READ, 0x37, Some cf02a_bitrate_c)
   | CF02A_SET_DATA_BITRATE _ _ \<Rightarrow> Some (''EP1_CF02A_IOCTL_SET_DATA_BITRATE'', IOC_WRITE, 0x38, Some cf02a_bitrate_c)
   | CF02A_GET_BIT_TIMING \<Rightarrow> Some (''EP1_CF02A_IOCTL_GET_BIT_TIMING'', IOC_READ, 0x39, Some cf02a_bit_timing_c)
   | CF02A_SET_BIT_TIMING _ \<Rightarrow> Some (''EP1_CF02A_IOCTL_SET_BIT_TIMING'', IOC_WRITE, 0x3a, Some cf02a_bit_timing_c)
   | CF02A_GET_DATA_BIT_TIMING \<Rightarrow> Some (''EP1_CF02A_IOCTL_GET_DATA_BIT_TIMING'', IOC_READ, 0x3b, Some cf02a_bit_timing_c)
   | CF02A_SET_DATA_BIT_TIMING _ \<Rightarrow> Some (''EP1_CF02A_IOCTL_SET_DATA_BIT_TIMING'', IOC_WRITE, 0x3c, Some cf02a_bit_timing_c)
   | CF02A_GET_TX_RX_CONTROL \<Rightarrow> Some (''EP1_CF02A_IOCTL_GET_TX_RX_CONTROL'', IOC_READ, 0x3d, Some cf02a_tx_rx_control_c)
   | CF02A_SET_TX_RX_CONTROL _ \<Rightarrow> Some (''EP1_CF02A_IOCTL_SET_TX_RX_CONTROL'', IOC_WRITE, 0x3e, Some cf02a_tx_rx_control_c)
   | CF02A_GET_DEVICE_TIMESTAMP_RESET_TIME \<Rightarrow>
       Some (''EP1_CF02A_IOCTL_GET_DEVICE_TIMESTAMP_RESET_TIME'', IOC_READ, 0x3f, Some cf02a_get_device_timestamp_reset_time_c)
   | CF02A_SET_HOST_TIMESTAMP_RESET_TIME \<Rightarrow> Some (''EP1_CF02A_IOCTL_SET_HOST_TIMESTAMP_RESET_TIME'', IOC_NONE, 0x40, None)
   | CF02A_GET_RTC_TIME \<Rightarrow> Some (''EP1_CF02A_IOCTL_GET_RTC_TIME'', IOC_READ, 0x41, Some cf02a_rtc_time_c)
   | CF02A_SET_RTC_TIME \<Rightarrow> Some (''EP1_CF02A_IOCTL_SET_RTC_TIME'', IOC_NONE, 0x42, None)
   | CF02A_GET_CURRENT_STORE_DATA_STATE \<Rightarrow> Some (''EP1_CF02A_IOCTL_GET_CURRENT_STORE_DATA_STATE'', IOC_READ, 0x43, Some cf02a_current_store_data_state_c)
   | CF02A_GET_STORE_DATA_ID_LIST_COUNT \<Rightarrow> Some (''EP1_CF02A_IOCTL_GET_STORE_DATA_ID_LIST_COUNT'', IOC_READ, 0x44, Some cf02a_store_data_id_list_count_c)
   | CF02A_GET_STORE_DATA_ID_LIST _ \<Rightarrow> Some (''EP1_CF02A_IOCTL_GET_STORE_DATA_ID_LIST'', IOC_READ_WRITE, 0x45, Some cf02a_store_data_id_list_c)
   | CF02A_GET_STORE_DATA_META _ \<Rightarrow> Some (''EP1_CF02A_IOCTL_GET_STORE_DATA_META'', IOC_READ_WRITE, 0x46, Some cf02a_store_data_meta_c)
   | CF02A_GET_STORE_DATA_RX_CONTROL \<Rightarrow> Some (''EP1_CF02A_IOCTL_GET_STORE_DATA_RX_CONTROL'', IOC_READ, 0x47, Some cf02a_store_data_rx_control_c)
   | CF02A_SET_STORE_DATA_RX_CONTROL _ _ \<Rightarrow> Some (''EP1_CF02A_IOCTL_SET_STORE_DATA_RX_CONTROL'', IOC_WRITE, 0x48, Some cf02a_store_data_rx_control_c)
   | CF02A_READ_STORE_DATA _ \<Rightarrow> Some (''EP1_CF02A_IOCTL_READ_STORE_DATA'', IOC_READ_WRITE, 0x49, Some cf02a_read_store_data_c)
   | CF02A_DELETE_STORE_DATA _ \<Rightarrow> Some (''EP1_CF02A_IOCTL_DELETE_STORE_DATA'', IOC_WRITE, 0x4a, Some cf02a_delete_store_data_c)
   | CF02A_INIT_STORE_DATA_MEDIA \<Rightarrow> Some (''EP1_CF02A_IOCTL_INIT_STORE_DATA_MEDIA'', IOC_NONE, 0x4b, None)
   | CF02A_GET_FD_MODE \<Rightarrow> Some (''EP1_CF02A_IOCTL_GET_FD_MODE'', IOC_READ, 0x4c, Some cf02a_fd_mode_c)
   | CF02A_SET_FD_MODE _ \<Rightarrow> Some (''EP1_CF02A_IOCTL_SET_FD_MODE'', IOC_WRITE, 0x4d, Some cf02a_fd_mode_c)
   | CF02A_GET_STORE_ENABLE \<Rightarrow> Some (''EP1_CF02A_IOCTL_GET_STORE_ENABLE'', IOC_READ, 0x4e, Some cf02a_store_enable_c)
   | CF02A_SET_STORE_ENABLE _ \<Rightarrow> Some (''EP1_CF02A_IOCTL_SET_STORE_ENABLE'', IOC_WRITE, 0x4f, Some cf02a_store_enable_c)
   | CF02A_GET_STORE_MAX_DURATION \<Rightarrow> Some (''EP1_CF02A_IOCTL_GET_STORE_MAX_DURATION'', IOC_READ, 0x50, Some cf02a_store_max_duration_c)
   | CF02A_SET_STORE_MAX_DURATION _ \<Rightarrow> Some (''EP1_CF02A_IOCTL_SET_STORE_MAX_DURATION'', IOC_WRITE, 0x51, Some cf02a_store_max_duration_c)
   | CF02A_other \<Rightarrow> None)"

definition ag08a_request :: "ag08a_ioctl \<Rightarrow> (string \<times> direction \<times> nat \<times> ctype option) option" where
  "ag08a_request c = (case c of
     AG08A_IOCTL_GET_STATUS \<Rightarrow> Some (''EP1_AG08A_IOCTL_GET_STATUS'', IOC_READ, 0x22, Some ag08a_get_status_c)
   | AG08A_IOCTL_SET_ANALOG_INPUT _ \<Rightarrow> Some (''EP1_AG08A_IOCTL_SET_ANALOG_INPUT'', IOC_WRITE, 0x23, Some ag08a_set_analog_input_c)
   | AG08A_IOCTL_CONTROL_ANALOG_INPUT _ \<Rightarrow> Some (''EP1_AG08A_IOCTL_CONTROL_ANALOG_INPUT'', IOC_WRITE, 0x24, Some ag08a_control_analog_input_c)
   | AG08A_IOCTL_SET_ANALOG_OUTPUT _ \<Rightarrow> Some (''EP1_AG08A_IOCTL_SET_ANALOG_OUTPUT'', IOC_WRITE, 0x25, Some ag08a_set_analog_output_c)
   | AG08A_IOCTL_CONTROL_ANALOG_OUTPUT _ \<Rightarrow> Some (''EP1_AG08A_IOCTL_CONTROL_ANALOG_OUTPUT'', IOC_WRITE, 0x26, Some ag08a_control_analog_output_c)
   | AG08A_other \<Rightarrow> None)"

definition ioctl_request :: "ioctl \<Rightarrow> (string \<times> direction \<times> nat \<times> ctype option) option" where
  "ioctl_request c = (case c of
     IOCTL_GET_DEVICE_ID \<Rightarrow> Some (''APT_USBTRX_IOCTL_GET_DEVICE_ID'', IOC_READ, 0x13, Some get_device_id_c)
   | IOCTL_GET_FW_VERSION \<Rightarrow> Some (''APT_USBTRX_IOCTL_GET_FW_VERSION'', IOC_READ, 0x14, Some get_fw_version_c)
   | IOCTL_ENABLE_RESET_TS \<Rightarrow> Some (''APT_USBTRX_IOCTL_ENABLE_RESET_TS'', IOC_NONE, 0x15, None)
   | IOCTL_RESET_TS \<Rightarrow> Some (''APT_USBTRX_IOCTL_RESET_TS'', IOC_READ, 0x16, Some reset_ts_c)
   | IOCTL_RESET_DEVICE \<Rightarrow> Some (''APT_USBTRX_IOCTL_RESET_DEVICE'', IOC_NONE, 0x1a, None)
   | IOCTL_GET_BASETIME \<Rightarrow> Some (''APT_USBTRX_IOCTL_GET_BASETIME'', IOC_READ, 0x1c, Some get_basetime_c)
   | IOCTL_SET_BASETIME _ \<Rightarrow> Some (''APT_USBTRX_IOCTL_SET_BASETIME'', IOC_WRITE, 0x1d, Some set_basetime_c)
   | IOCTL_GET_SERIAL_NO \<Rightarrow> Some (''APT_USBTRX_IOCTL_GET_SERIAL_NO'', IOC_READ, 0x1e, Some get_serial_no_c)
   | IOCTL_MOVE_DFU \<Rightarrow> Some (''APT_USBTRX_IOCTL_MOVE_DFU'', IOC_NONE, 0x1f, None)
   | IOCTL_SET_TIMESTAMP_MODE _ \<Rightarrow> Some (''APT_USBTRX_IOCTL_SET_TIMESTAMP_MODE'', IOC_WRITE, 0x20, Some set_timestamp_mode_c)
   | IOCTL_GET_TIMESTAMP_MODE \<Rightarrow> Some (''APT_USBTRX_IOCTL_GET_TIMESTAMP_MODE'', IOC_READ, 0x21, Some get_timestamp_mode_c)
   | IOCTL_GET_FIRMWARE_SIZE \<Rightarrow> Some (''APT_USBTRX_IOCTL_GET_FIRMWARE_SIZE'', IOC_READ, 0x27, Some get_firmware_size_c)
   | IOCTL_GET_FW_VERSION_REVISION \<Rightarrow> Some (''APT_USBTRX_IOCTL_GET_FW_VERSION_REVISION'', IOC_READ, 0x28, Some get_fw_version_revision_c)
   | Can_ioctl c \<Rightarrow> can_request c
   | Cf02a_ioctl c \<Rightarrow> cf02a_request c
   | Ag08a_ioctl c \<Rightarrow> ag08a_request c)"

lemmas request_defs = ioctl_request_def can_request_def cf02a_request_def ag08a_request_def

text \<open>The type of the driver's requests is the character \<open>P\<close>.\<close>

abbreviation IOC_TYPE :: nat where "IOC_TYPE \<equiv> 80"

definition size_of_arg :: "abi \<Rightarrow> ctype option \<Rightarrow> nat" where
  "size_of_arg m t = (case t of None \<Rightarrow> 0 | Some t \<Rightarrow> sizeof m t)"

definition ioctl_number :: "(direction \<Rightarrow> nat \<Rightarrow> nat \<Rightarrow> nat \<Rightarrow> nat) \<Rightarrow> abi \<Rightarrow> ioctl \<Rightarrow> nat option" where
  "ioctl_number ioc m c = (case ioctl_request c of
     None \<Rightarrow> None
   | Some (_, d, n, t) \<Rightarrow> Some (ioc d IOC_TYPE n (size_of_arg m t)))"

definition request_name :: "ioctl \<Rightarrow> string option" where
  "request_name c = map_option fst (ioctl_request c)"

text \<open>Whether the layout depends on the size of a \<open>long\<close> or of a pointer.\<close>

fun native :: "ctype \<Rightarrow> bool" where
  "native C_long = True" | "native C_pointer = True"
| "native (C_array t n) = native t" | "native (C_struct ts) = list_ex native ts"
| "native _ = False"

definition native_arg :: "ioctl \<Rightarrow> bool" where
  "native_arg c = (case ioctl_request c of Some (_, _, _, Some t) \<Rightarrow> native t | _ \<Rightarrow> False)"

subsection \<open>Numbers lose nothing\<close>

locale ioc_encoding =
  fixes ioc :: "direction \<Rightarrow> nat \<Rightarrow> nat \<Rightarrow> nat \<Rightarrow> nat"
  assumes lossless: "t < 256 \<Longrightarrow> n < 256 \<Longrightarrow> n' < 256 \<Longrightarrow> s < 2 ^ 13 \<Longrightarrow> s' < 2 ^ 13
    \<Longrightarrow> ioc d t n s = ioc d' t n' s' \<Longrightarrow> d = d' \<and> n = n' \<and> s = s'"
begin

lemma parts:
  assumes "n < 256" and "n' < 256" and "s < 2 ^ 13" and "s' < 2 ^ 13"
  shows "ioc d IOC_TYPE n s = ioc d' IOC_TYPE n' s' \<longleftrightarrow> d = d' \<and> n = n' \<and> s = s'"
  using lossless [of IOC_TYPE n n' s s' d d'] assms by auto

end

text \<open>\<open>asm-generic/ioctl.h\<close>.\<close>

definition direction_code :: "direction \<Rightarrow> nat" where
  "direction_code d = (case d of IOC_NONE \<Rightarrow> 0 | IOC_WRITE \<Rightarrow> 1 | IOC_READ \<Rightarrow> 2 | IOC_READ_WRITE \<Rightarrow> 3)"

definition asm_generic_ioc :: "direction \<Rightarrow> nat \<Rightarrow> nat \<Rightarrow> nat \<Rightarrow> nat" where
  "asm_generic_ioc d t n s = n + 2 ^ 8 * (t + 2 ^ 8 * (s + 2 ^ 14 * direction_code d))"

lemma digits_eq:
  assumes "a < b" and "a' < b" and "a + b * r = a' + b * (r' :: nat)"
  shows "a = a' \<and> r = r'"
proof -
  have "(a + b * r) mod b = (a' + b * r') mod b" and "(a + b * r) div b = (a' + b * r') div b"
    using assms(3) by simp_all
  then show ?thesis using assms(1,2) by simp
qed

lemma asm_generic_parts:
  assumes "t < 256" and "n < 256" and "n' < 256" and "s < 2 ^ 13" and "s' < 2 ^ 13"
    and "asm_generic_ioc d t n s = asm_generic_ioc d' t n' s'"
  shows "n = n' \<and> s = s' \<and> direction_code d = direction_code d'"
proof -
  have 1: "n = n' \<and> t + 2 ^ 8 * (s + 2 ^ 14 * direction_code d) = t + 2 ^ 8 * (s' + 2 ^ 14 * direction_code d')"
    using assms by (intro digits_eq) (simp_all only: asm_generic_ioc_def, simp_all)
  have 2: "s + 2 ^ 14 * direction_code d = s' + 2 ^ 14 * direction_code d'"
    using 1 by simp
  have "s = s' \<and> direction_code d = direction_code d'"
    using assms 2 by (intro digits_eq) simp_all
  with 1 show ?thesis by simp
qed

lemma direction_code_inject: "direction_code d = direction_code d' \<longleftrightarrow> d = d'"
  by (cases d; cases d') (simp_all add: direction_code_def)

interpretation asm_generic: ioc_encoding asm_generic_ioc
  using asm_generic_parts by unfold_locales (simp add: direction_code_inject)

subsection \<open>The header's numbers\<close>

definition abis :: "abi set" where
  "abis = {lp64, ilp32, i386}"

text \<open>The sequence numbers, with the name and the structure that each has; 0x12 is shared by two requests and is left out.\<close>

definition sequence_numbers :: "(nat \<times> string \<times> ctype option) list" where
  "sequence_numbers = [(0x11, ''APT_USBTRX_IOCTL_SET_MODE'', Some set_mode_c),
     (0x13, ''APT_USBTRX_IOCTL_GET_DEVICE_ID'', Some get_device_id_c),
     (0x14, ''APT_USBTRX_IOCTL_GET_FW_VERSION'', Some get_fw_version_c),
     (0x15, ''APT_USBTRX_IOCTL_ENABLE_RESET_TS'', None),
     (0x16, ''APT_USBTRX_IOCTL_RESET_TS'', Some reset_ts_c),
     (0x17, ''APT_USBTRX_IOCTL_RESET_CAN_SUMMARY'', None),
     (0x18, ''APT_USBTRX_IOCTL_START_CAN'', None),
     (0x19, ''APT_USBTRX_IOCTL_STOP_CAN'', None),
     (0x1a, ''APT_USBTRX_IOCTL_RESET_DEVICE'', None),
     (0x1b, ''APT_USBTRX_IOCTL_SET_TRIGGER'', Some set_trigger_c),
     (0x1c, ''APT_USBTRX_IOCTL_GET_BASETIME'', Some get_basetime_c),
     (0x1d, ''APT_USBTRX_IOCTL_SET_BASETIME'', Some set_basetime_c),
     (0x1e, ''APT_USBTRX_IOCTL_GET_SERIAL_NO'', Some get_serial_no_c),
     (0x1f, ''APT_USBTRX_IOCTL_MOVE_DFU'', None),
     (0x20, ''APT_USBTRX_IOCTL_SET_TIMESTAMP_MODE'', Some set_timestamp_mode_c),
     (0x21, ''APT_USBTRX_IOCTL_GET_TIMESTAMP_MODE'', Some get_timestamp_mode_c),
     (0x22, ''EP1_AG08A_IOCTL_GET_STATUS'', Some ag08a_get_status_c),
     (0x23, ''EP1_AG08A_IOCTL_SET_ANALOG_INPUT'', Some ag08a_set_analog_input_c),
     (0x24, ''EP1_AG08A_IOCTL_CONTROL_ANALOG_INPUT'', Some ag08a_control_analog_input_c),
     (0x25, ''EP1_AG08A_IOCTL_SET_ANALOG_OUTPUT'', Some ag08a_set_analog_output_c),
     (0x26, ''EP1_AG08A_IOCTL_CONTROL_ANALOG_OUTPUT'', Some ag08a_control_analog_output_c),
     (0x27, ''APT_USBTRX_IOCTL_GET_FIRMWARE_SIZE'', Some get_firmware_size_c),
     (0x28, ''APT_USBTRX_IOCTL_GET_FW_VERSION_REVISION'', Some get_fw_version_revision_c),
     (0x29, ''EP1_CH02A_IOCTL_SET_BIT_TIMING'', Some ch02a_set_bit_timing_c),
     (0x30, ''EP1_CH02A_IOCTL_GET_BIT_TIMING'', Some ch02a_get_bit_timing_c),
     (0x31, ''EP1_CF02A_IOCTL_GET_SILENT_MODE'', Some cf02a_silent_mode_c),
     (0x32, ''EP1_CF02A_IOCTL_SET_SILENT_MODE'', Some cf02a_silent_mode_c),
     (0x33, ''EP1_CF02A_IOCTL_GET_ISO_MODE'', Some cf02a_iso_mode_c),
     (0x34, ''EP1_CF02A_IOCTL_SET_ISO_MODE'', Some cf02a_iso_mode_c),
     (0x35, ''EP1_CF02A_IOCTL_GET_BITRATE'', Some cf02a_bitrate_c),
     (0x36, ''EP1_CF02A_IOCTL_SET_BITRATE'', Some cf02a_bitrate_c),
     (0x37, ''EP1_CF02A_IOCTL_GET_DATA_BITRATE'', Some cf02a_bitrate_c),
     (0x38, ''EP1_CF02A_IOCTL_SET_DATA_BITRATE'', Some cf02a_bitrate_c),
     (0x39, ''EP1_CF02A_IOCTL_GET_BIT_TIMING'', Some cf02a_bit_timing_c),
     (0x3a, ''EP1_CF02A_IOCTL_SET_BIT_TIMING'', Some cf02a_bit_timing_c),
     (0x3b, ''EP1_CF02A_IOCTL_GET_DATA_BIT_TIMING'', Some cf02a_bit_timing_c),
     (0x3c, ''EP1_CF02A_IOCTL_SET_DATA_BIT_TIMING'', Some cf02a_bit_timing_c),
     (0x3d, ''EP1_CF02A_IOCTL_GET_TX_RX_CONTROL'', Some cf02a_tx_rx_control_c),
     (0x3e, ''EP1_CF02A_IOCTL_SET_TX_RX_CONTROL'', Some cf02a_tx_rx_control_c),
     (0x3f, ''EP1_CF02A_IOCTL_GET_DEVICE_TIMESTAMP_RESET_TIME'', Some cf02a_get_device_timestamp_reset_time_c),
     (0x40, ''EP1_CF02A_IOCTL_SET_HOST_TIMESTAMP_RESET_TIME'', None),
     (0x41, ''EP1_CF02A_IOCTL_GET_RTC_TIME'', Some cf02a_rtc_time_c),
     (0x42, ''EP1_CF02A_IOCTL_SET_RTC_TIME'', None),
     (0x43, ''EP1_CF02A_IOCTL_GET_CURRENT_STORE_DATA_STATE'', Some cf02a_current_store_data_state_c),
     (0x44, ''EP1_CF02A_IOCTL_GET_STORE_DATA_ID_LIST_COUNT'', Some cf02a_store_data_id_list_count_c),
     (0x45, ''EP1_CF02A_IOCTL_GET_STORE_DATA_ID_LIST'', Some cf02a_store_data_id_list_c),
     (0x46, ''EP1_CF02A_IOCTL_GET_STORE_DATA_META'', Some cf02a_store_data_meta_c),
     (0x47, ''EP1_CF02A_IOCTL_GET_STORE_DATA_RX_CONTROL'', Some cf02a_store_data_rx_control_c),
     (0x48, ''EP1_CF02A_IOCTL_SET_STORE_DATA_RX_CONTROL'', Some cf02a_store_data_rx_control_c),
     (0x49, ''EP1_CF02A_IOCTL_READ_STORE_DATA'', Some cf02a_read_store_data_c),
     (0x4a, ''EP1_CF02A_IOCTL_DELETE_STORE_DATA'', Some cf02a_delete_store_data_c),
     (0x4b, ''EP1_CF02A_IOCTL_INIT_STORE_DATA_MEDIA'', None),
     (0x4c, ''EP1_CF02A_IOCTL_GET_FD_MODE'', Some cf02a_fd_mode_c),
     (0x4d, ''EP1_CF02A_IOCTL_SET_FD_MODE'', Some cf02a_fd_mode_c),
     (0x4e, ''EP1_CF02A_IOCTL_GET_STORE_ENABLE'', Some cf02a_store_enable_c),
     (0x4f, ''EP1_CF02A_IOCTL_SET_STORE_ENABLE'', Some cf02a_store_enable_c),
     (0x50, ''EP1_CF02A_IOCTL_GET_STORE_MAX_DURATION'', Some cf02a_store_max_duration_c),
     (0x51, ''EP1_CF02A_IOCTL_SET_STORE_MAX_DURATION'', Some cf02a_store_max_duration_c)]"

definition compat_abis :: "abi set" where
  "compat_abis = {ilp32, i386}"

lemmas abi_defs = lp64_def ilp32_def i386_def

text \<open>
  One case per request; each fact is a computation on one line of the header.
\<close>

lemma request_number:
  "ioctl_request c = Some (nm, d, n, t) \<Longrightarrow> n < 256"
  unfolding request_defs
  by (cases c; simp; (split can_ioctl.splits cf02a_ioctl_cmd.splits ag08a_ioctl.splits; auto)?)

lemma request_sequence:
  "ioctl_request c = Some (nm, d, n, t) \<Longrightarrow> n \<noteq> 0x12 \<Longrightarrow> (n, nm, t) \<in> set sequence_numbers"
  unfolding request_defs
  by (cases c; simp; (split can_ioctl.splits cf02a_ioctl_cmd.splits ag08a_ioctl.splits; auto)?;
      (elim conjE, hypsubst)?; unfold sequence_numbers_def list.set; (rule insertI1 | rule insertI2)+)

lemma sequence_numbers_distinct: "distinct (map fst sequence_numbers)"
  by (simp add: sequence_numbers_def)

lemma request_status:
  "ioctl_request c = Some (nm, d, 0x12, t) \<Longrightarrow>
   nm = ''APT_USBTRX_IOCTL_GET_STATUS'' \<and> t = Some get_status_c \<or> nm = ''EP1_CH02A_IOCTL_GET_STATUS'' \<and> t = Some ch02a_get_status_c"
  unfolding request_defs
  by (cases c; simp; (split can_ioctl.splits cf02a_ioctl_cmd.splits ag08a_ioctl.splits; auto)?)

lemma status_sizes:
  "m \<in> abis \<Longrightarrow> sizeof m get_status_c = 44" "m \<in> abis \<Longrightarrow> sizeof m ch02a_get_status_c = 12"
  by (auto simp: abis_def abi_defs ctype_defs round_up_def)

definition passed_types :: "ctype set" where
  "passed_types = {set_mode_c, get_status_c, set_trigger_c, ch02a_get_status_c, ch02a_set_bit_timing_c,
     ch02a_get_bit_timing_c, get_device_id_c, get_fw_version_c, get_fw_version_revision_c, reset_ts_c,
     get_basetime_c, set_basetime_c, get_serial_no_c, set_timestamp_mode_c, get_timestamp_mode_c,
     get_firmware_size_c, cf02a_silent_mode_c, cf02a_fd_mode_c, cf02a_iso_mode_c, cf02a_bitrate_c,
     cf02a_bit_timing_c, cf02a_tx_rx_control_c, cf02a_get_device_timestamp_reset_time_c, cf02a_rtc_time_c,
     cf02a_current_store_data_state_c, cf02a_store_data_id_list_count_c, cf02a_store_data_id_list_c,
     cf02a_store_data_meta_c, cf02a_store_data_rx_control_c, cf02a_read_store_data_c,
     cf02a_delete_store_data_c, cf02a_store_enable_c, cf02a_store_max_duration_c, ag08a_get_status_c,
     ag08a_set_analog_input_c, ag08a_control_analog_input_c, ag08a_set_analog_output_c,
     ag08a_control_analog_output_c}"

lemma request_passed:
  "ioctl_request c = Some (nm, d, n, Some t) \<Longrightarrow> t \<in> passed_types"
  unfolding request_defs passed_types_def
  by (cases c; simp; (split can_ioctl.splits cf02a_ioctl_cmd.splits ag08a_ioctl.splits; auto)?)

lemma passed_sizes:
  assumes "t \<in> passed_types" and "m \<in> abis"
  shows "sizeof m t < 2 ^ 13"
  using assms by (auto simp: passed_types_def abis_def abi_defs ctype_defs round_up_def)

lemma passed_compat_sizes:
  assumes "t \<in> passed_types" and "m \<in> compat_abis"
  shows "sizeof m t = sizeof lp64 t \<longleftrightarrow> \<not> native t"
  using assms by (auto simp: passed_types_def compat_abis_def abi_defs ctype_defs round_up_def)


lemma request_size:
  assumes "ioctl_request c = Some (nm, d, n, t)" and "m \<in> abis"
  shows "size_of_arg m t < 2 ^ 13"
  using assms by (cases t) (auto simp: size_of_arg_def dest!: request_passed passed_sizes [OF _ assms(2)])

lemma number_parts:
  assumes "ioc_encoding ioc" and "m \<in> abis" and "m' \<in> abis"
    and "ioctl_request c = Some (nm, d, n, t)" and "ioctl_request c' = Some (nm', d', n', t')"
  shows "ioctl_number ioc m c = ioctl_number ioc m' c' \<longleftrightarrow> d = d' \<and> n = n' \<and> size_of_arg m t = size_of_arg m' t'"
  using assms ioc_encoding.parts [OF assms(1) request_number [OF assms(4)] request_number [OF assms(5)]
      request_size [OF assms(4,2)] request_size [OF assms(5,3)]]
  by (simp add: ioctl_number_def)

lemma asm_generic_encoding: "ioc_encoding asm_generic_ioc"
  by (rule asm_generic.ioc_encoding_axioms)

lemma lp64_abi [simp]: "lp64 \<in> abis" and compat_abis_abi: "m \<in> compat_abis \<Longrightarrow> m \<in> abis"
  by (auto simp: abis_def compat_abis_def)

lemma number_request:
  assumes "ioctl_number ioc m c = Some k"
  obtains nm d n t where "ioctl_request c = Some (nm, d, n, t)"
  using assms by (cases "ioctl_request c") (auto simp: ioctl_number_def)

lemma same_sequence_same_request:
  assumes "ioctl_request c = Some (nm, d, n, t)" and "ioctl_request c' = Some (nm', d', n, t')" and "n \<noteq> 0x12"
  shows "nm = nm' \<and> t = t'"
  using request_sequence [OF assms(1,3)] request_sequence [OF assms(2,3)] sequence_numbers_distinct
  by (auto dest: eq_key_imp_eq_value)

lemma same_status_same_name:
  assumes "ioctl_request c = Some (nm, d, 0x12, t)" and "ioctl_request c' = Some (nm', d', 0x12, t')"
    and "size_of_arg m t = size_of_arg m' t'" and "m \<in> abis" and "m' \<in> abis"
  shows "nm = nm'"
  using request_status [OF assms(1)] request_status [OF assms(2)] assms(3-)
  by (auto simp: size_of_arg_def status_sizes)

lemma native_compat_size:
  assumes "ioctl_request c = Some (nm, d, n, t)" and "m \<in> compat_abis"
  shows "size_of_arg m t = size_of_arg lp64 t \<longleftrightarrow> \<not> native_arg c"
  using assms request_passed [of c nm d n] passed_compat_sizes [OF _ assms(2)]
  by (cases t) (auto simp: size_of_arg_def native_arg_def)

subsection \<open>What the numbers are good for\<close>

text \<open>C31: No number means two requests.
  Whatever the data models of the two programs, two requests of the header that have the same number have the
  same name: the direction, the sequence number and the size of the structure tell all of them apart, also
  the two that share the sequence number 0x12.\<close>

theorem ioctl_numbers_unambiguous:
  assumes "ioc_encoding ioc" and "m \<in> abis" and "m' \<in> abis"
    and "ioctl_number ioc m c = Some k" and "ioctl_number ioc m' c' = Some k"
  shows "request_name c = request_name c'"
proof -
  obtain nm d n t where c: "ioctl_request c = Some (nm, d, n, t)" using assms(4) by (rule number_request)
  obtain nm' d' n' t' where c': "ioctl_request c' = Some (nm', d', n', t')" using assms(5) by (rule number_request)
  have "n = n'" "size_of_arg m t = size_of_arg m' t'"
    using number_parts [OF assms(1-3) c c'] assms(4,5) by simp_all
  then have "nm = nm'"
    using same_sequence_same_request [OF c] same_status_same_name [of c nm d t c' nm' d' t' m m'] c c' assms(2,3)
    by (cases "n = 0x12") simp_all
  then show ?thesis using c c' by (simp add: request_name_def)
qed

lemma set_mode_number:
  "m \<in> abis \<Longrightarrow>
   ioctl_number asm_generic_ioc m (Can_ioctl (IOCTL_SET_MODE s r)) = Some (asm_generic_ioc IOC_WRITE 80 0x11 8)"
  by (auto simp: ioctl_number_def ioctl_request_def can_request_def size_of_arg_def abis_def abi_defs ctype_defs round_up_def)

theorem ioctl_numbers_unambiguous_witness:
  "request_name (Can_ioctl (IOCTL_SET_MODE True 5)) = request_name (Can_ioctl (IOCTL_SET_MODE False 7))"
proof (rule ioctl_numbers_unambiguous)
  show "ioc_encoding asm_generic_ioc" by (rule asm_generic_encoding)
  show "lp64 \<in> abis" and "i386 \<in> abis" by (simp_all add: abis_def)
  show "ioctl_number asm_generic_ioc lp64 (Can_ioctl (IOCTL_SET_MODE True 5)) = Some (asm_generic_ioc IOC_WRITE 80 0x11 8)"
    and "ioctl_number asm_generic_ioc i386 (Can_ioctl (IOCTL_SET_MODE False 7)) = Some (asm_generic_ioc IOC_WRITE 80 0x11 8)"
    by (simp_all add: set_mode_number abis_def)
qed

text \<open>C32: What a 32-bit program is refused on a 64-bit kernel.
  The same function serves the requests of 32-bit programs (\<open>compat_ioctl\<close>). A request whose structure
  holds a \<open>timespec\<close>, a pointer or a \<open>size_t\<close> has for such a program a number that no request of the
  header has for the driver, so that it is refused as unknown: among them resetting the timestamp, reading
  and setting the base time, and reading what the device has stored. Every other request has the same number.\<close>

theorem compat_number_known_iff:
  assumes "ioc_encoding ioc" and "m \<in> compat_abis" and "ioctl_number ioc m c = Some k"
  shows "(\<exists>c'. ioctl_number ioc lp64 c' = Some k) \<longleftrightarrow> \<not> native_arg c"
proof -
  obtain nm d n t where c: "ioctl_request c = Some (nm, d, n, t)" using assms(3) by (rule number_request)
  have m: "m \<in> abis" using assms(2) by (rule compat_abis_abi)
  have False if other: "ioctl_number ioc lp64 c' = Some k" and nat: "native_arg c" for c'
  proof -
    obtain nm' d' n' t' where c': "ioctl_request c' = Some (nm', d', n', t')" using other by (rule number_request)
    have eq: "n = n'" "size_of_arg m t = size_of_arg lp64 t'"
      using number_parts [OF assms(1) m lp64_abi c c'] other assms(3) by simp_all
    have "n \<noteq> 0x12" using nat c request_status [of c nm d t]
      by (auto simp: native_arg_def ctype_defs)
    then have "t = t'" using same_sequence_same_request [OF c, of c' nm' d' t'] c' eq(1) by simp
    then show False using native_compat_size [OF c assms(2)] eq(2) nat by simp
  qed
  moreover have "ioctl_number ioc lp64 c = Some k" if "\<not> native_arg c"
    using number_parts [OF assms(1) m lp64_abi c c] native_compat_size [OF c assms(2)] that assms(3) by simp
  ultimately show ?thesis by blast
qed

theorem compat_number_known_iff_witness:
  "\<nexists>c'. ioctl_number asm_generic_ioc lp64 c' = ioctl_number asm_generic_ioc ilp32 IOCTL_RESET_TS"
proof -
  have number: "ioctl_number asm_generic_ioc ilp32 IOCTL_RESET_TS = Some (asm_generic_ioc IOC_READ 80 0x16 8)"
    by (simp add: ioctl_number_def ioctl_request_def size_of_arg_def abi_defs ctype_defs round_up_def)
  have "ilp32 \<in> compat_abis" and "native_arg IOCTL_RESET_TS"
    by (simp_all add: compat_abis_def native_arg_def ioctl_request_def ctype_defs)
  then show ?thesis
    using compat_number_known_iff [OF asm_generic_encoding _ number] number by simp
qed

end
