(* ===== verification/Spec2Isabelle.thy ===== *)
theory Spec2Isabelle
  imports Sysfs Store_Check Samples Ioctl_Codes
begin

text \<open>
  A verification of the Linux driver for aptpod's EDGEPLANT USB peripherals (\<open>src/module\<close>): the CAN
  interfaces AP-CT2A, EP1-CH02A and EP1-CF02A and the analog converter EP1-AG08A; and of the programs that
  use it (\<open>src/tools\<close>, \<open>src/samples\<close>).

  \<^bold>\<open>The program.\<close> A device talks to the host in messages \<open>F7 length id payload FA\<close> over a pair of bulk
  endpoints. The completion handler of the receive URBs puts the transfers together, cuts them into
  messages and dispatches each: a response wakes the command that waits for it, a notification goes to the
  ring buffer that the file reads, to the network device or to the IIO device. Commands send one message
  and wait, one at a time, guarded by a semaphore. Data for a CAN bus is written to a ring buffer, from
  which a kernel thread sends it at the rate the device can take. The rest is the character device, the
  network and IIO devices, and attaching and detaching. \<open>unique_func\<close>, a table of function pointers, holds
  what differs between the products.

  \<^bold>\<open>The model.\<close> Every function of the source is a function of the same name, without its prefix
  \<open>apt_usbtrx_\<close> or \<open>ep1_\<close> where that is not ambiguous. \<open>world\<close> (in \<open>Device\<close>) is \<open>apt_usbtrx_dev_t\<close> with the
  unique data of the product and the environment: what arrives on the endpoints (\<open>incoming\<close>, and the
  function \<open>device_fw\<close> that a device is), what has been sent, the clocks, and \<open>choices\<close>, the outcomes of
  the kernel functions that may fail. Integers that are stored, sent or wrap are words of their width;
  those the source only compares are \<open>int\<close>. An error code is a value. \<open>None\<close> stands for behaviour the
  C language or the kernel leaves undefined (an access outside an array, a division by zero, a use of
  freed memory) and, where a text says so, for not returning.

  \<^bold>\<open>The theories.\<close>
  \<^item> \<open>Prelude\<close>: integer types, checked loads and stores, byte order, the splitting rules for the option
    monad. \<open>Byte_Queue\<close>: the contract of a queue of bytes, a locale.
  \<^item> \<open>Ringbuffer\<close> (\<open>apt_usbtrx_ringbuffer.c\<close>): every operation; refinement of the queue, which is an
    interpretation of \<open>byte_queue\<close>; first in first out over whole runs; a failed write changes nothing.
  \<^item> \<open>Msg\<close> (\<open>apt_usbtrx_msg.c\<close>), \<open>Ct2a_Msg\<close>, \<open>Ch02a_Msg\<close>, \<open>Ag08a_Msg\<close>, \<open>Cf02a_Msg\<close> (\<open>*_msg.c\<close>): packing and
    parsing; round trips, and the verdict of the parser on every input. \<open>scan\<close> is the specification of the
    messages in a stream of bytes.
  \<^item> \<open>Device\<close> (\<open>apt_usbtrx_def.h\<close>): the state.
  \<^item> \<open>Rx\<close> (\<open>apt_usbtrx_core.c\<close>): the completion handler and the dispatch; the locale \<open>rx_device\<close> states what
    they need of a product's handler, and that then they stay within their buffers and dispatch what
    \<open>scan\<close> finds. \<open>Ct2a_Core\<close>, \<open>Ag08a_Core\<close>, \<open>Cf02a_Core\<close> (\<open>*_core.c\<close>): the handlers, each an
    interpretation. \<open>Products\<close>: the choice by product id; reception does not depend on how the stream is cut.
  \<^item> \<open>Rx_Completion\<close>, \<open>Transaction\<close> (\<open>apt_usbtrx_core.c\<close>), \<open>Cmd\<close> (\<open>apt_usbtrx_cmd.c\<close>), \<open>Ct2a_Cmd\<close>, \<open>Ag08a_Cmd\<close>,
    \<open>Cf02a_Cmd\<close> (\<open>*_cmd.c\<close>): requests and responses. A command gets the answer of a device that answers,
    whatever else arrives; no command keeps the semaphore.
  \<^item> \<open>Tx\<close> (\<open>apt_usbtrx_core.c\<close>, and the writer in \<open>apt_usbtrx_fops.c\<close>): the transmit path over all
    interleavings of writers, thread, completions and clearing; it refines a queue of messages, loses none,
    stays below the rate the tokens allow, and makes progress.
  \<^item> \<open>Can_Fops\<close> (\<open>ap_ct2a_fops.c\<close>, \<open>ep1_ch02a_fops.c\<close>), \<open>Ag08a_Fops\<close> (\<open>ep1_ag08a_fops.c\<close>), \<open>Ag08a_Iio\<close>
    (\<open>ep1_ag08a_iio.c\<close>), \<open>Cf02a_Bittiming\<close>, \<open>Cf02a_Time\<close>, \<open>Cf02a_Fops\<close>, \<open>Cf02a_Net\<close> (\<open>ep1_cf02a_fops.c\<close>): the
    products behind a file, a network device and an IIO device. Exclusive use as an invariant of reachable
    states; what a frame becomes; the bit timing calculation stays in its limits; the calendar is right.
  \<^item> \<open>Fops\<close> (\<open>apt_usbtrx_fops.c\<close>): the character device. What a read with host time stamps delivers; the
    messages of a firmware update.
  \<^item> \<open>Ioctl_Codes\<close> (\<open>apt_usbtrx_ioctl.h\<close>): the structures of the requests, as \<open>ctype\<close>, with their sizes in the
    data models of 64-bit and 32-bit programs, and the numbers. No two requests share a number; which
    requests of a 32-bit program the driver does not know.
  \<^item> \<open>Probe\<close> (\<open>apt_usbtrx_main.c\<close>, \<open>*_main.c\<close>), \<open>Probe_Resources\<close>: attaching and detaching, with a ledger of
    what is held; nothing is left behind, and the failures that are not handled.
  \<^item> \<open>Format\<close>: text as the C library writes and reads it. \<open>Sysfs\<close> (\<open>*_sysfs.c\<close>): the attributes. What is shown
    has the form of a line; the clock can be set and read back; the files outlive the data.
  \<^item> \<open>User_Space\<close>: the system under a program, on any state (\<open>sys\<close>), and the process (\<open>proc\<close>). The locale
    \<open>usb_file\<close> says what a request must deliver; the driver's dispatcher is an interpretation, and so is every
    system that also records its requests. \<open>Tools\<close> (the small tools, \<open>ep1_cf02a_delete_store_data\<close>),
    \<open>Tool_Config\<close> (\<open>ep1_cf02a_config\<close>), \<open>Tool_Store\<close> (\<open>ep1_cf02a_get_store_data_list\<close>), \<open>Samples\<close>
    (\<open>src/samples\<close>): whole programs, from the options to the output and the exit code. What a run has asked of the
    device when it succeeds.
  \<^item> \<open>Store_Check\<close>: a recording is read the same however it is cut; the check counts what is missing; a
    packet is the same frame in a recording and on the network device.

  \<^bold>\<open>Loops.\<close> Loops over data are recursions with a proof of termination. The wait for a response polls
  while \<open>deadline\<close> allows and something arrives, and then times out, so it ends by itself. A wait for an
  event consumes \<open>incoming\<close>, and ends by a signal or time-out when that is used up. Only
  \<open>stop_can_interface\<close> of the EP1-CF02A can poll for ever: its argument, the schedule, says what the thread
  does meanwhile, and \<open>None\<close> is that it never answers. The retries are those of the source: 3 for the first
  command of a probe, those of \<open>stop_can\<close> in \<open>Can_Fops\<close>. The loops of the programs that wait for a signal or
  for the device are partial functions; \<open>read_loop\<close> is shown to end when the recording arrives. The loop over
  analog packets has the length of its buffer as fuel, of which every packet uses at least nine bytes.

  \<^bold>\<open>Not modelled.\<close> Reference counts of open files (beyond a probe and a disconnect), log output, the debug
  dumps, USB descriptors and DMA addresses, the wrap-around of jiffies, memory ordering, and the kernel's own
  side of registering a device. Of the kernel, the macros that make the number of a request, \<open>can_fd_len2dlc\<close>, \<open>can_fd_dlc2len\<close>, \<open>open_candev\<close> and
  \<open>sysfs_streq\<close> are parameters. Of the C library, \<open>getopt\<close> is its result, a sequence of options, and a signal is
  an oracle of the system. The scripts of \<open>src/tools\<close> are in other languages, and \<open>src/kunit\<close> tests the driver
  against mocks.
\<close>

end
